(* ===== verification/Prelude.thy ===== *)
theory Prelude
  imports Main "HOL-Library.AList"
begin

text \<open>
  Shared vocabulary of the development. The backend under \<open>src/backend/src\<close> is
  JavaScript on Node.js; this theory fixes how its primitive values are read in HOL
  and models the few JavaScript builtins the sources call on strings:
  \<^item> a MongoDB ObjectId is a \<open>nat\<close> (\<open>oid\<close>), printed by \<open>toString()\<close> as
    lower-case hexadecimal (\<open>oid_str\<close>);
  \<^item> \<open>Date.now()\<close> is a \<open>nat\<close> of milliseconds (\<open>millis\<close>), a JWT NumericDate a
    \<open>nat\<close> of seconds;
  \<^item> \<open>String.prototype.startsWith\<close>, \<open>split(sep)\<close> and array indexing (which
    yields \<open>undefined\<close>, here \<open>None\<close>, out of range), \<open>trim()\<close>.
  The collection \<open>js_simps\<close> gathers the evaluation rules of these builtins,
  \<open>store_simps\<close> the facts on association-list collections that the component
  proofs share.
\<close>

named_theorems js_simps "evaluation rules of the modelled JavaScript builtins"
named_theorems store_simps "facts on the association-list document collections"

type_synonym oid = nat
type_synonym millis = nat
type_synonym secs = nat

subsection \<open>Hexadecimal rendering of ObjectIds and numbers\<close>

definition hex_chars :: string where
  "hex_chars = ''0123456789abcdef''"

definition hex_digit :: "nat \<Rightarrow> char" where
  "hex_digit d = hex_chars ! d"

fun hex_str :: "nat \<Rightarrow> string" where
  "hex_str n = (if n < 16 then [hex_digit n] else hex_str (n div 16) @ [hex_digit (n mod 16)])"

declare hex_str.simps [simp del]

definition oid_str :: "oid \<Rightarrow> string" where
  "oid_str i = hex_str i"

fun pos_of :: "'a list \<Rightarrow> 'a \<Rightarrow> nat option" where
  "pos_of [] x = None"
| "pos_of (y # ys) x = (if x = y then Some 0 else map_option Suc (pos_of ys x))"

definition hex_val :: "char \<Rightarrow> nat option" where
  "hex_val c = pos_of hex_chars c"

fun parse_hex_acc :: "nat \<Rightarrow> string \<Rightarrow> nat option" where
  "parse_hex_acc a [] = Some a"
| "parse_hex_acc a (c # cs) =
     (case hex_val c of None \<Rightarrow> None | Some d \<Rightarrow> parse_hex_acc (16 * a + d) cs)"

definition parse_hex :: "string \<Rightarrow> nat option" where
  "parse_hex s = (if s = [] then None else parse_hex_acc 0 s)"

subsection \<open>JavaScript string builtins\<close>

text \<open>\<open>s.split(c)\<close> for a one-character separator: never empty, empty fields kept.\<close>

fun split_on :: "char \<Rightarrow> string \<Rightarrow> string list" where
  "split_on c [] = [[]]"
| "split_on c (x # xs) =
     (if x = c then [] # split_on c xs
      else (case split_on c xs of w # ws \<Rightarrow> (x # w) # ws | [] \<Rightarrow> [[x]]))"

text \<open>\<open>arr[i]\<close>: \<open>undefined\<close> (here \<open>None\<close>) out of range.\<close>

fun js_nth :: "'a list \<Rightarrow> nat \<Rightarrow> 'a option" where
  "js_nth [] i = None"
| "js_nth (x # xs) 0 = Some x"
| "js_nth (x # xs) (Suc i) = js_nth xs i"

definition starts_with :: "string \<Rightarrow> string \<Rightarrow> bool" where
  "starts_with p s \<longleftrightarrow> take (length p) s = p"

definition code_between :: "nat \<Rightarrow> nat \<Rightarrow> char \<Rightarrow> bool" where
  "code_between lo hi c \<longleftrightarrow> lo \<le> of_char c \<and> of_char c \<le> hi"

definition js_space :: "char \<Rightarrow> bool" where
  "js_space c \<longleftrightarrow> c \<in> set [CHR '' '', CHR 0x09, CHR 0x0A, CHR 0x0B, CHR 0x0C, CHR 0x0D]"

definition js_trim :: "string \<Rightarrow> string" where
  "js_trim s = rev (dropWhile js_space (rev (dropWhile js_space s)))"

subsection \<open>Lemmas on the builtins\<close>

lemma pos_of_nth [simp]:
  "distinct xs \<Longrightarrow> i < length xs \<Longrightarrow> pos_of xs (xs ! i) = Some i"
proof (induction xs arbitrary: i)
  case Nil
  then show ?case by simp
next
  case (Cons y ys)
  then show ?case by (cases i) auto
qed

lemma pos_of_Some: "pos_of xs x = Some i \<Longrightarrow> i < length xs \<and> xs ! i = x"
  by (induction xs arbitrary: i) (auto split: if_splits)

lemma hex_chars_distinct: "distinct hex_chars" and length_hex_chars: "length hex_chars = 16"
  by (simp_all add: hex_chars_def)

lemma hex_val_digit [simp]: "d < 16 \<Longrightarrow> hex_val (hex_digit d) = Some d"
  by (simp add: hex_val_def hex_digit_def hex_chars_distinct length_hex_chars)

lemma hex_digit_in: "d < 16 \<Longrightarrow> hex_digit d \<in> set hex_chars"
  by (simp add: hex_digit_def length_hex_chars)

lemma parse_hex_acc_append:
  "parse_hex_acc a (xs @ ys) = Option.bind (parse_hex_acc a xs) (\<lambda>b. parse_hex_acc b ys)"
  by (induction a xs rule: parse_hex_acc.induct) (auto split: option.splits)

lemma parse_hex_acc_hex_str: "parse_hex_acc 0 (hex_str n) = Some n"
proof (induction n rule: hex_str.induct)
  case (1 n)
  show ?case
  proof (cases "n < 16")
    case True
    then show ?thesis by (simp add: hex_str.simps [of n])
  next
    case False
    with "1.IH" have "parse_hex_acc 0 (hex_str (n div 16)) = Some (n div 16)" by simp
    with False show ?thesis
      by (simp add: hex_str.simps [of n] parse_hex_acc_append)
  qed
qed

lemma hex_str_nonempty [simp]: "hex_str n \<noteq> []"
  by (subst hex_str.simps) simp

lemma set_hex_str: "set (hex_str n) \<subseteq> set hex_chars"
proof (induction n rule: hex_str.induct)
  case (1 n)
  then show ?case by (subst hex_str.simps) (auto simp: hex_digit_in)
qed

text \<open>Printing a number in hexadecimal and parsing it back is the identity.\<close>

lemma parse_hex_str [simp]: "parse_hex (hex_str n) = Some n"
  by (simp add: parse_hex_def parse_hex_acc_hex_str)

lemma hex_str_inj: "hex_str a = hex_str b \<longleftrightarrow> a = b"
  by (metis option.inject parse_hex_str)

lemma not_hex_char_in_hex_str:
  "c \<notin> set hex_chars \<Longrightarrow> c \<notin> set (hex_str n)"
  using set_hex_str by blast

lemma split_on_nonempty [simp]: "split_on c s \<noteq> []"
  by (induction s) (auto split: list.splits)

lemma split_on_no_sep [simp, js_simps]: "c \<notin> set s \<Longrightarrow> split_on c s = [s]"
  by (induction s) auto

lemma split_on_append_sep [js_simps]:
  "c \<notin> set a \<Longrightarrow> split_on c (a @ c # b) = a # split_on c b"
  by (induction a) auto

lemma starts_with_append [js_simps]: "starts_with p (p @ s)"
  by (simp add: starts_with_def)

lemma oid_str_inj: "oid_str a = oid_str b \<longleftrightarrow> a = b"
  by (simp add: oid_str_def hex_str_inj)

text \<open>Association lists model MongoDB collections in their natural (insertion) order.\<close>

lemma in_set_update [store_simps]:
  "distinct (map fst al) \<Longrightarrow> p \<in> set (AList.update k v al) \<Longrightarrow>
     p = (k, v) \<or> (p \<in> set al \<and> fst p \<noteq> k)"
  by (induction al) (auto split: if_splits)

lemma set_delete_filter [store_simps]: "AList.delete k al = filter (\<lambda>p. fst p \<noteq> k) al"
  by (induction al) auto

lemma set_update_subset [store_simps]: "set (AList.update k v al) \<subseteq> insert (k, v) (set al)"
  by (induction al) auto

lemma map_sum_Inl_iff: "map_sum f g x = Inl y \<longleftrightarrow> (\<exists>z. x = Inl z \<and> y = f z)"
  by (cases x) auto

lemma find_Some_mem: "find P xs = Some x \<Longrightarrow> x \<in> set xs \<and> P x"
  by (induction xs) (auto split: if_splits)

lemma find_update_new:
  "\<not> list_ex P al \<Longrightarrow> P (k, v) \<Longrightarrow> find P (AList.update k v al) = Some (k, v)"
  by (induction al) auto

lemma keys_update [store_simps]: "fst ` set (AList.update k v al) = insert k (fst ` set al)"
  by (simp add: dom_update)

text \<open>\<open>trim()\<close> is idempotent: trimming a trimmed string changes nothing.\<close>

lemma dropWhile_rev_prefix:
  assumes "dropWhile P xs = xs"
  shows "dropWhile P (rev (dropWhile P (rev xs))) = rev (dropWhile P (rev xs))" (is "dropWhile P ?u = ?u")
proof (cases "?u = []")
  case True
  then show ?thesis by (simp only:) simp
next
  case False
  have "xs = ?u @ rev (takeWhile P (rev xs))" by (metis rev_append rev_rev_ident takeWhile_dropWhile_id)
  then have "hd ?u = hd xs" "xs \<noteq> []" using False by (metis hd_append2, metis append_is_Nil_conv)
  then show ?thesis using assms False by (simp only: dropWhile_eq_self_iff)
qed

lemma js_trim_idem [simp, js_simps]: "js_trim (js_trim s) = js_trim s"
  unfolding js_trim_def by (simp add: dropWhile_rev_prefix)

text \<open>A string without white space at either end is its own trim.\<close>

lemma js_trim_id:
  assumes "\<forall>c \<in> set s. \<not> js_space c"
  shows "js_trim s = s"
proof -
  have "dropWhile js_space xs = xs" if "\<forall>c \<in> set xs. \<not> js_space c" for xs
    using that by (cases xs) simp_all
  from this [of s] this [of "rev s"] assms show ?thesis by (simp add: js_trim_def)
qed

lemmas js_builtin_simps [js_simps] = js_nth.simps starts_with_def

end
