(* ===== verification/Jwt.thy ===== *)
theory Jwt
  imports Prelude
begin

text \<open>
  The credential and token service: \<open>src/backend/src/utils/jwtUtils.js\<close> and the
  part of the \<open>jsonwebtoken\<close> library it calls. A token is a string. The library is
  modelled symbolically (perfect cryptography): a signed token is the canonical encoding
  \<open>jwt_encode\<close> of its payload \<open>{id, iat, exp}\<close> and a signature segment that is an
  injective function of the signing secret, so a token verifies under a secret exactly
  when it was signed with that secret. \<open>jwt_sign\<close> and \<open>jwt_verify\<close> follow
  \<open>jsonwebtoken\<close>'s \<open>sign\<close> (\<open>iat = floor(Date.now()/1000)\<close>,
  \<open>exp = iat + expiresIn\<close>) and \<open>verify\<close> (bad encoding or signature:
  \<open>JsonWebTokenError\<close>; \<open>floor(Date.now()/1000) >= exp\<close>: \<open>TokenExpiredError\<close>).
\<close>

record config =
  JWT_SECRET :: string
  JWT_REFRESH_SECRET :: string
  JWT_EXPIRE :: "secs option"
  JWT_REFRESH_EXPIRE :: "secs option"

datatype jwt = Jwt (jwt_key: string) (jwt_id: oid) (jwt_iat: secs) (jwt_exp: secs)

datatype jwt_error = JsonWebTokenError | TokenExpiredError

subsection \<open>Token strings\<close>

definition byte_hex :: "char \<Rightarrow> string" where
  "byte_hex c = [hex_digit (of_char c div 16), hex_digit (of_char c mod 16)]"

definition sig_str :: "string \<Rightarrow> string" where
  "sig_str k = concat (map byte_hex k)"

fun unhex_pairs :: "string \<Rightarrow> string option" where
  "unhex_pairs [] = Some []"
| "unhex_pairs [c] = None"
| "unhex_pairs (a # b # cs) =
     (case (hex_val a, hex_val b) of
        (Some x, Some y) \<Rightarrow> map_option (\<lambda>r. char_of (16 * x + y) # r) (unhex_pairs cs)
      | _ \<Rightarrow> None)"

definition jwt_encode :: "jwt \<Rightarrow> string" where
  "jwt_encode t = hex_str (jwt_id t) @ ''.'' @ hex_str (jwt_iat t) @ ''.'' @
     hex_str (jwt_exp t) @ ''.'' @ sig_str (jwt_key t)"

definition jwt_parse :: "string \<Rightarrow> jwt option" where
  "jwt_parse s =
     (case split_on CHR ''.'' s of
        [a, b, c, d] \<Rightarrow>
          (case (parse_hex a, parse_hex b, parse_hex c, unhex_pairs d) of
             (Some i, Some ia, Some e, Some k) \<Rightarrow> Some (Jwt k i ia e)
           | _ \<Rightarrow> None)
      | _ \<Rightarrow> None)"

text \<open>A string is a token only in its canonical form: decoding rejects any other spelling.\<close>

definition jwt_decode :: "string \<Rightarrow> jwt option" where
  "jwt_decode s =
     (case jwt_parse s of Some t \<Rightarrow> if jwt_encode t = s then Some t else None | None \<Rightarrow> None)"

subsection \<open>The library: \<open>jwt.sign\<close> and \<open>jwt.verify\<close>\<close>

definition jwt_sign :: "oid \<Rightarrow> string \<Rightarrow> secs \<Rightarrow> millis \<Rightarrow> string" where
  "jwt_sign uid secret expiresIn now =
     jwt_encode (Jwt secret uid (now div 1000) (now div 1000 + expiresIn))"

definition jwt_verify :: "string \<Rightarrow> string \<Rightarrow> millis \<Rightarrow> jwt_error + oid" where
  "jwt_verify token secret now =
     (case jwt_decode token of
        None \<Rightarrow> Inl JsonWebTokenError
      | Some t \<Rightarrow>
          if jwt_key t \<noteq> secret then Inl JsonWebTokenError
          else if jwt_exp t \<le> now div 1000 then Inl TokenExpiredError
          else Inr (jwt_id t))"

subsection \<open>\<open>jwtUtils.js\<close>\<close>

text \<open>\<open>expiresIn: process.env.JWT_EXPIRE || "7d"\<close>; \<open>"7d"\<close> is 604800 seconds and
  \<open>"30d"\<close> 2592000.\<close>

definition access_life :: "config \<Rightarrow> secs" where
  "access_life cfg = (case JWT_EXPIRE cfg of None \<Rightarrow> 604800 | Some e \<Rightarrow> e)"

definition refresh_life :: "config \<Rightarrow> secs" where
  "refresh_life cfg = (case JWT_REFRESH_EXPIRE cfg of None \<Rightarrow> 2592000 | Some e \<Rightarrow> e)"

definition generateAccessToken :: "config \<Rightarrow> millis \<Rightarrow> oid \<Rightarrow> string" where
  "generateAccessToken cfg now userId = jwt_sign userId (JWT_SECRET cfg) (access_life cfg) now"

definition generateRefreshToken :: "config \<Rightarrow> millis \<Rightarrow> oid \<Rightarrow> string" where
  "generateRefreshToken cfg now userId =
     jwt_sign userId (JWT_REFRESH_SECRET cfg) (refresh_life cfg) now"

definition verifyToken :: "config \<Rightarrow> millis \<Rightarrow> string \<Rightarrow> bool \<Rightarrow> jwt_error + oid" where
  "verifyToken cfg now token isRefresh =
     jwt_verify token (if isRefresh then JWT_REFRESH_SECRET cfg else JWT_SECRET cfg) now"

record token_pair =
  pairAccess :: string
  pairRefresh :: string

definition generateTokens :: "config \<Rightarrow> millis \<Rightarrow> oid \<Rightarrow> token_pair" where
  "generateTokens cfg now userId =
     \<lparr>pairAccess = generateAccessToken cfg now userId,
      pairRefresh = generateRefreshToken cfg now userId\<rparr>"

text \<open>A configuration with distinct secrets and the default lifetimes, for the witnesses.\<close>

definition ex_cfg :: config where
  "ex_cfg = \<lparr>JWT_SECRET = ''access-secret'', JWT_REFRESH_SECRET = ''refresh-secret'',
     JWT_EXPIRE = None, JWT_REFRESH_EXPIRE = None\<rparr>"

subsection \<open>Encoding lemmas\<close>

lemma of_char_div16: "of_char c div 16 < (16::nat)"
  using nat_of_char_less_256 [of c] by presburger

lemma byte_hex_unhex: "unhex_pairs (byte_hex c @ r) = map_option ((#) c) (unhex_pairs r)"
proof -
  have lt: "of_char c div 16 < (16::nat)" "of_char c mod 16 < (16::nat)"
    by (simp_all add: of_char_div16)
  have "16 * (of_char c div 16) + of_char c mod 16 = (of_char c :: nat)"
    by simp
  then show ?thesis using lt by (simp add: byte_hex_def)
qed

lemma unhex_sig_str [simp]: "unhex_pairs (sig_str k) = Some k"
  by (induction k) (simp_all add: sig_str_def byte_hex_unhex [where r = "concat _", simplified])

lemma dot_not_hex: "CHR ''.'' \<notin> set hex_chars"
  by (simp add: hex_chars_def)

lemma dot_notin_hex_str [simp]: "CHR ''.'' \<notin> set (hex_str n)"
  by (rule not_hex_char_in_hex_str [OF dot_not_hex])

lemma dot_notin_sig_str [simp]: "CHR ''.'' \<notin> set (sig_str k)"
proof -
  have "set (sig_str k) \<subseteq> set hex_chars"
    by (auto simp: sig_str_def byte_hex_def hex_digit_in of_char_div16)
  then show ?thesis using dot_not_hex by blast
qed

lemma jwt_parse_encode: "jwt_parse (jwt_encode t) = Some t"
  by (cases t) (simp add: jwt_parse_def jwt_encode_def js_simps)

text \<open>Encoding then decoding a token is the identity, and decoding succeeds exactly on
  canonical encodings.\<close>

lemma jwt_decode_encode [simp]: "jwt_decode (jwt_encode t) = Some t"
  by (simp add: jwt_decode_def jwt_parse_encode)

lemma jwt_decode_Some: "jwt_decode s = Some t \<longleftrightarrow> s = jwt_encode t"
  by (auto simp: jwt_decode_def jwt_parse_encode split: option.splits if_splits)

lemma jwt_encode_inj: "jwt_encode a = jwt_encode b \<longleftrightarrow> a = b"
  by (metis jwt_decode_encode option.inject)

lemma jwt_verify_encode:
  "jwt_verify (jwt_encode t) secret now =
     (if jwt_key t \<noteq> secret then Inl JsonWebTokenError
      else if jwt_exp t \<le> now div 1000 then Inl TokenExpiredError
      else Inr (jwt_id t))"
  by (simp add: jwt_verify_def)

lemma jwt_sign_verify:
  "jwt_verify (jwt_sign uid k life now) secret now' =
     (if k \<noteq> secret then Inl JsonWebTokenError
      else if now div 1000 + life \<le> now' div 1000 then Inl TokenExpiredError
      else Inr uid)"
  by (simp add: jwt_sign_def jwt_verify_encode)

lemma jwt_sign_inj:
  "jwt_sign u k l now = jwt_sign u' k' l' now' \<longleftrightarrow>
     u = u' \<and> k = k' \<and> now div 1000 = now' div 1000 \<and> l = l'"
  by (auto simp: jwt_sign_def jwt_encode_inj)

lemma jwt_sign_nonempty [simp]: "jwt_sign u k l n \<noteq> []"
  by (simp add: jwt_sign_def jwt_encode_def)

lemma verifyToken_nonempty: "verifyToken cfg now tok r = Inr uid \<Longrightarrow> tok \<noteq> []"
  by (auto simp: verifyToken_def jwt_verify_def jwt_decode_Some jwt_encode_def
      split: option.splits if_splits)

lemma generated_nonempty [simp]:
  "pairAccess (generateTokens cfg now uid) \<noteq> []" "pairRefresh (generateTokens cfg now uid) \<noteq> []"
  by (simp_all add: generateTokens_def generateAccessToken_def generateRefreshToken_def)

lemmas token_simps = generateTokens_def generateAccessToken_def generateRefreshToken_def
  verifyToken_def

lemma verifyToken_Inr:
  "verifyToken cfg now tok isRefresh = Inr uid \<Longrightarrow>
     \<exists>t. tok = jwt_encode t \<and> jwt_id t = uid \<and> now div 1000 < jwt_exp t \<and>
         jwt_key t = (if isRefresh then JWT_REFRESH_SECRET cfg else JWT_SECRET cfg)"
  by (auto simp: verifyToken_def jwt_verify_def jwt_decode_Some split: option.splits if_splits)

subsection \<open>Properties of the token service\<close>

text \<open>C7: an access token issued at time \<open>now\<close> for user \<open>uid\<close> verifies as an
  access token, to \<open>uid\<close>, at every later or earlier instant \<open>now'\<close> whose second lies
  before \<open>iat + JWT_EXPIRE\<close>, and fails with \<open>TokenExpiredError\<close> from then on.\<close>

theorem verifyToken_access_roundtrip:
  "verifyToken cfg now' (pairAccess (generateTokens cfg now uid)) False =
     (if now div 1000 + access_life cfg \<le> now' div 1000 then Inl TokenExpiredError else Inr uid)"
  by (simp add: token_simps jwt_sign_verify)

text \<open>A refresh token issued at \<open>now\<close> verifies as a refresh token, to its user,
  until \<open>iat + JWT_REFRESH_EXPIRE\<close>, and is expired from then on.\<close>

theorem verifyToken_refresh_roundtrip:
  "verifyToken cfg now' (pairRefresh (generateTokens cfg now uid)) True =
     (if now div 1000 + refresh_life cfg \<le> now' div 1000 then Inl TokenExpiredError else Inr uid)"
  by (simp add: token_simps jwt_sign_verify)

text \<open>C6: when the two secrets differ, a refresh token is never accepted as an access
  token and an access token never as a refresh token (both fail with
  \<open>JsonWebTokenError\<close>), whatever the time of verification.\<close>

theorem token_kinds_separated:
  assumes "JWT_SECRET cfg \<noteq> JWT_REFRESH_SECRET cfg"
  shows "verifyToken cfg now' (pairRefresh (generateTokens cfg now uid)) False = Inl JsonWebTokenError \<and>
         verifyToken cfg now' (pairAccess (generateTokens cfg now uid)) True = Inl JsonWebTokenError"
  using assms by (simp add: token_simps jwt_sign_verify)

theorem token_kinds_separated_witness:
  "JWT_SECRET ex_cfg \<noteq> JWT_REFRESH_SECRET ex_cfg \<and>
   verifyToken ex_cfg 5000 (pairRefresh (generateTokens ex_cfg 1000 7)) False = Inl JsonWebTokenError"
proof -
  have d: "JWT_SECRET ex_cfg \<noteq> JWT_REFRESH_SECRET ex_cfg" by (simp add: ex_cfg_def)
  show ?thesis using d token_kinds_separated [OF d, of 5000 1000 7] by simp
qed

text \<open>C5: a token is accepted only if it is the canonical encoding of a token signed
  with the secret of its kind, carrying the returned user id and an expiry still in the
  future: in the symbolic model, tokens cannot be forged without the secret.\<close>

theorem verifyToken_unforgeable:
  "verifyToken cfg now tok isRefresh = Inr uid \<Longrightarrow>
     \<exists>iat exp. tok = jwt_encode (Jwt (if isRefresh then JWT_REFRESH_SECRET cfg else JWT_SECRET cfg)
       uid iat exp) \<and> now div 1000 < exp"
proof -
  assume "verifyToken cfg now tok isRefresh = Inr uid"
  then obtain t where "tok = jwt_encode t" "jwt_id t = uid" "now div 1000 < jwt_exp t"
    "jwt_key t = (if isRefresh then JWT_REFRESH_SECRET cfg else JWT_SECRET cfg)"
    by (blast dest: verifyToken_Inr)
  then show ?thesis by (cases t) auto
qed

theorem verifyToken_unforgeable_witness:
  "\<exists>iat exp. pairAccess (generateTokens ex_cfg 1000 7) =
    jwt_encode (Jwt (JWT_SECRET ex_cfg) 7 iat exp) \<and> 5000 div 1000 < exp"
proof -
  have "verifyToken ex_cfg 5000 (pairAccess (generateTokens ex_cfg 1000 7)) False = Inr 7"
    by (simp add: token_simps jwt_sign_verify access_life_def ex_cfg_def)
  from verifyToken_unforgeable [OF this] show ?thesis by simp
qed

end
