(* ===== verification/Http.thy ===== *)
theory Http
  imports Jwt
begin

text \<open>
  The response layer: \<open>src/backend/src/utils/responseFormatter.js\<close> (the JSON
  envelope \<open>{success, message, data?, errors?, pagination?}\<close> with its status code)
  and \<open>src/backend/src/middlewares/errorMiddleware.js\<close> (the central translator of
  thrown errors into responses). A response is polymorphic in its payload type
  \<open>'d\<close>, so each controller chooses its own payload and the cache stores any of them.
  \<open>Math.ceil(total / limit)\<close> is \<open>None\<close> where JavaScript computes \<open>Infinity\<close> or
  \<open>NaN\<close>, both serialised by \<open>JSON.stringify\<close> as \<open>null\<close>.
\<close>

type_synonym field_error = "string \<times> string"

text \<open>An entry of a response's \<open>errors\<close> array: \<open>{field, message, value}\<close>, where
  \<open>value\<close> (the offending request value, echoed by the validation middleware) is
  \<open>None\<close> when absent or \<open>undefined\<close> (\<open>JSON.stringify\<close> drops it).\<close>

type_synonym error_item = "string \<times> string \<times> string option"

record pagination =
  total :: nat
  page :: int
  limit :: int
  totalPages :: "int option"

record 'd response =
  statusCode :: nat
  success :: bool
  message :: string
  data :: "'d option"
  errors :: "error_item list option"
  pagination :: "pagination option"

text \<open>The errors the backend throws and \<open>errorHandler\<close> tells apart by
  \<open>err.name\<close> and \<open>err.code\<close>.\<close>

datatype app_error =
    ValidationError "field_error list"
  | DuplicateKey string
  | CastError
  | JwtError jwt_error
  | ServerError "nat option" string

subsection \<open>\<open>responseFormatter.js\<close>\<close>

definition successResponse :: "nat \<Rightarrow> string \<Rightarrow> 'd option \<Rightarrow> 'd response" where
  "successResponse code msg d =
     \<lparr>statusCode = code, success = True, message = msg, data = d, errors = None,
      pagination = None\<rparr>"

definition errorResponse :: "nat \<Rightarrow> string \<Rightarrow> error_item list option \<Rightarrow> 'd response" where
  "errorResponse code msg errs =
     \<lparr>statusCode = code, success = False, message = msg, data = None, errors = errs,
      pagination = None\<rparr>"

definition js_ceil_div :: "nat \<Rightarrow> int \<Rightarrow> int option" where
  "js_ceil_div t l = (if l = 0 then None else Some (- ((- int t) div l)))"

definition paginationResponse ::
  "nat \<Rightarrow> string \<Rightarrow> 'd \<Rightarrow> nat \<Rightarrow> int \<Rightarrow> int \<Rightarrow> 'd response" where
  "paginationResponse code msg d tot pg lim =
     \<lparr>statusCode = code, success = True, message = msg, data = Some d, errors = None,
      pagination = Some \<lparr>total = tot, page = pg, limit = lim,
                          totalPages = js_ceil_div tot lim\<rparr>\<rparr>"

subsection \<open>\<open>errorMiddleware.js\<close>\<close>

definition ascii_upper :: "char \<Rightarrow> char" where
  "ascii_upper c =
     (if code_between 97 122 c then char_of (of_char c - 32 :: nat) else c)"

definition capitalize :: "string \<Rightarrow> string" where
  "capitalize s = (case s of [] \<Rightarrow> [] | c # cs \<Rightarrow> ascii_upper c # cs)"

fun errorHandler :: "app_error \<Rightarrow> 'd response" where
  "errorHandler (ValidationError fes) = errorResponse 400 ''Validation Error'' (Some (map (\<lambda>(f, m). (f, m, None)) fes))"
| "errorHandler (DuplicateKey field) =
     errorResponse 400 (capitalize field @ '' already exists'') None"
| "errorHandler CastError = errorResponse 400 ''Invalid ID format'' None"
| "errorHandler (JwtError JsonWebTokenError) = errorResponse 401 ''Invalid token'' None"
| "errorHandler (JwtError TokenExpiredError) = errorResponse 401 ''Token expired'' None"
| "errorHandler (ServerError code msg) =
     errorResponse (case code of None \<Rightarrow> 500 | Some c \<Rightarrow> c)
       (if msg = [] then ''Internal Server Error'' else msg) None"

definition notFound :: "string \<Rightarrow> 'd response" where
  "notFound originalUrl = errorResponse 404 (''Route '' @ originalUrl @ '' not found'') None"

lemma errorResponse_sel [simp]:
  "statusCode (errorResponse c m e) = c" "success (errorResponse c m e) = False"
  "message (errorResponse c m e) = m" "data (errorResponse c m e) = None"
  by (simp_all add: errorResponse_def)

lemma successResponse_sel [simp]:
  "statusCode (successResponse c m d) = c" "success (successResponse c m d) = True"
  "message (successResponse c m d) = m" "data (successResponse c m d) = d"
  by (simp_all add: successResponse_def)

lemma paginationResponse_sel [simp]:
  "statusCode (paginationResponse c m d t p l) = c"
  "success (paginationResponse c m d t p l) = True"
  "data (paginationResponse c m d t p l) = Some d"
  by (simp_all add: paginationResponse_def)

lemma errorHandler_not_success [simp]: "success (errorHandler e) = False"
  by (cases e rule: errorHandler.cases) simp_all

end
