(* ===== verification/Validators.thy ===== *)
theory Validators
  imports Http
begin

text \<open>
  Request validation: \<open>src/backend/src/validators/authValidator.js\<close>,
  \<open>src/backend/src/validators/taskValidator.js\<close> and
  \<open>src/backend/src/middlewares/validationMiddleware.js\<close>. The rule arrays are
  \<open>express-validator\<close> chains: each names a body field, may be \<open>optional()\<close> (skipped
  when the field is absent), and runs its sanitizers and validators in order. A
  sanitizer rewrites the field in \<open>req.body\<close>, so the controller sees the sanitized
  value; every failing validator adds one error \<open>{field, message, value}\<close> (the chains
  do not \<open>bail()\<close>), with the value as it is at that point. Validators read a missing
  field as the empty string. \<open>validate\<close> answers 400 \<open>Validation failed\<close> with the
  collected errors, or passes the request on.

  The request body is the association list of its string fields (JSON values other
  than strings are not modelled). The predicates and the sanitizer that
  \<open>express-validator\<close> borrows from \<open>validator.js\<close> (\<open>isEmail\<close>, \<open>isISO8601\<close>,
  \<open>normalizeEmail\<close>) and the \<open>Date\<close> parser are parameters of the model, collected
  in the record \<open>vlib\<close>: the lemmas hold for every choice of them. Local midnight
  (\<open>setHours(0, 0, 0, 0)\<close>) is taken in UTC.
\<close>

type_synonym req_body = "(string \<times> string) list"

record vlib =
  isEmail :: "string \<Rightarrow> bool"
  isISO8601 :: "string \<Rightarrow> bool"
  normalizeEmail :: "string \<Rightarrow> string"
  date_value :: "string \<Rightarrow> int option"

datatype check =
    NotEmpty
  | IsLength nat "nat option"
  | IsIn "string list"
  | IsEmail
  | IsISO8601
  | DueNotPast

datatype sanitizer = Trim | NormalizeEmail

datatype vstep = Sanitize sanitizer | Check check string

record chain =
  ch_field :: string
  ch_optional :: bool
  ch_steps :: "vstep list"

subsection \<open>Running a chain\<close>

text \<open>\<open>new Date(new Date().setHours(0, 0, 0, 0))\<close>.\<close>

definition start_of_day :: "millis \<Rightarrow> millis" where
  "start_of_day now = now - now mod 86400000"

text \<open>The validators, on the field's string (\<open>''''\<close> when it is missing). The custom
  due-date check of \<open>createTaskValidation\<close> throws only for a non-empty value that is
  a valid date before midnight (an \<open>Invalid Date\<close> compares false).\<close>

fun check_ok :: "vlib \<Rightarrow> millis \<Rightarrow> check \<Rightarrow> string \<Rightarrow> bool" where
  "check_ok lib now NotEmpty v = (v \<noteq> [])"
| "check_ok lib now (IsLength mn mx) v =
     (mn \<le> length v \<and> (case mx of None \<Rightarrow> True | Some m \<Rightarrow> length v \<le> m))"
| "check_ok lib now (IsIn xs) v = (v \<in> set xs)"
| "check_ok lib now IsEmail v = isEmail lib v"
| "check_ok lib now IsISO8601 v = isISO8601 lib v"
| "check_ok lib now DueNotPast v =
     (\<not> (v \<noteq> [] \<and> (case date_value lib v of None \<Rightarrow> False | Some t \<Rightarrow> t < int (start_of_day now))))"

fun sanitize :: "vlib \<Rightarrow> sanitizer \<Rightarrow> string \<Rightarrow> string" where
  "sanitize lib Trim v = js_trim v"
| "sanitize lib NormalizeEmail v = normalizeEmail lib v"

definition js_str :: "string option \<Rightarrow> string" where
  "js_str v = (case v of None \<Rightarrow> [] | Some s \<Rightarrow> s)"

fun run_steps ::
  "vlib \<Rightarrow> millis \<Rightarrow> string \<Rightarrow> vstep list \<Rightarrow> string option \<Rightarrow> error_item list \<Rightarrow>
     string option \<times> error_item list" where
  "run_steps lib now f [] v errs = (v, errs)"
| "run_steps lib now f (Sanitize z # st) v errs = run_steps lib now f st (map_option (sanitize lib z) v) errs"
| "run_steps lib now f (Check c msg # st) v errs =
     run_steps lib now f st v (if check_ok lib now c (js_str v) then errs else errs @ [(f, msg, v)])"

definition run_chain :: "vlib \<Rightarrow> millis \<Rightarrow> chain \<Rightarrow> req_body \<Rightarrow> req_body \<times> error_item list" where
  "run_chain lib now ch body =
     (let v = map_of body (ch_field ch) in
      if ch_optional ch \<and> v = None then (body, [])
      else (case run_steps lib now (ch_field ch) (ch_steps ch) v [] of
              (None, errs) \<Rightarrow> (body, errs)
            | (Some v', errs) \<Rightarrow> (AList.update (ch_field ch) v' body, errs)))"

fun run_chains :: "vlib \<Rightarrow> millis \<Rightarrow> chain list \<Rightarrow> req_body \<Rightarrow> req_body \<times> error_item list" where
  "run_chains lib now [] body = (body, [])"
| "run_chains lib now (ch # chs) body =
     (let (body1, e1) = run_chain lib now ch body; (body2, e2) = run_chains lib now chs body1
      in (body2, e1 @ e2))"

text \<open>\<open>validate\<close>: the refusal, or \<open>None\<close> for \<open>next()\<close>.\<close>

definition validate :: "error_item list \<Rightarrow> 'd response option" where
  "validate errs = (if errs = [] then None else Some (errorResponse 400 ''Validation failed'' (Some errs)))"

text \<open>What a chain makes of a field's value: the sanitized value and the errors.\<close>

definition chain_out :: "vlib \<Rightarrow> millis \<Rightarrow> chain \<Rightarrow> string option \<Rightarrow> string option \<times> error_item list" where
  "chain_out lib now ch v =
     (if ch_optional ch \<and> v = None then (None, []) else run_steps lib now (ch_field ch) (ch_steps ch) v [])"

subsection \<open>\<open>taskValidator.js\<close>\<close>

definition createTaskValidation :: "chain list" where
  "createTaskValidation =
     [\<lparr>ch_field = ''title'', ch_optional = False,
       ch_steps = [Sanitize Trim, Check NotEmpty ''Title is required'',
                   Check (IsLength 3 (Some 100)) ''Title must be between 3 and 100 characters'']\<rparr>,
      \<lparr>ch_field = ''description'', ch_optional = False,
       ch_steps = [Sanitize Trim, Check NotEmpty ''Description is required'',
                   Check (IsLength 0 (Some 500)) ''Description cannot exceed 500 characters'']\<rparr>,
      \<lparr>ch_field = ''status'', ch_optional = True,
       ch_steps = [Check (IsIn [''pending'', ''in-progress'', ''completed''])
                     ''Status must be pending, in-progress, or completed'']\<rparr>,
      \<lparr>ch_field = ''priority'', ch_optional = True,
       ch_steps = [Check (IsIn [''low'', ''medium'', ''high'']) ''Priority must be low, medium, or high'']\<rparr>,
      \<lparr>ch_field = ''dueDate'', ch_optional = True,
       ch_steps = [Check IsISO8601 ''Due date must be a valid date'',
                   Check DueNotPast ''Due date cannot be in the past'']\<rparr>]"

definition updateTaskValidation :: "chain list" where
  "updateTaskValidation =
     [\<lparr>ch_field = ''title'', ch_optional = True,
       ch_steps = [Sanitize Trim,
                   Check (IsLength 3 (Some 100)) ''Title must be between 3 and 100 characters'']\<rparr>,
      \<lparr>ch_field = ''description'', ch_optional = True,
       ch_steps = [Sanitize Trim,
                   Check (IsLength 0 (Some 500)) ''Description cannot exceed 500 characters'']\<rparr>,
      \<lparr>ch_field = ''status'', ch_optional = True,
       ch_steps = [Check (IsIn [''pending'', ''in-progress'', ''completed''])
                     ''Status must be pending, in-progress, or completed'']\<rparr>,
      \<lparr>ch_field = ''priority'', ch_optional = True,
       ch_steps = [Check (IsIn [''low'', ''medium'', ''high'']) ''Priority must be low, medium, or high'']\<rparr>,
      \<lparr>ch_field = ''dueDate'', ch_optional = True,
       ch_steps = [Check IsISO8601 ''Due date must be a valid date'']\<rparr>]"

subsection \<open>\<open>authValidator.js\<close>\<close>

definition registerValidation :: "chain list" where
  "registerValidation =
     [\<lparr>ch_field = ''name'', ch_optional = False,
       ch_steps = [Sanitize Trim, Check NotEmpty ''Name is required'',
                   Check (IsLength 2 (Some 50)) ''Name must be between 2 and 50 characters'']\<rparr>,
      \<lparr>ch_field = ''email'', ch_optional = False,
       ch_steps = [Sanitize Trim, Check NotEmpty ''Email is required'',
                   Check IsEmail ''Please provide a valid email'', Sanitize NormalizeEmail]\<rparr>,
      \<lparr>ch_field = ''password'', ch_optional = False,
       ch_steps = [Sanitize Trim, Check NotEmpty ''Password is required'',
                   Check (IsLength 6 None) ''Password must be at least 6 characters long'']\<rparr>,
      \<lparr>ch_field = ''role'', ch_optional = True,
       ch_steps = [Check (IsIn [''user'', ''admin'']) ''Role must be either user or admin'']\<rparr>]"

definition loginValidation :: "chain list" where
  "loginValidation =
     [\<lparr>ch_field = ''email'', ch_optional = False,
       ch_steps = [Sanitize Trim, Check NotEmpty ''Email is required'',
                   Check IsEmail ''Please provide a valid email'', Sanitize NormalizeEmail]\<rparr>,
      \<lparr>ch_field = ''password'', ch_optional = False,
       ch_steps = [Sanitize Trim, Check NotEmpty ''Password is required'']\<rparr>]"

definition updateProfileValidation :: "chain list" where
  "updateProfileValidation =
     [\<lparr>ch_field = ''name'', ch_optional = True,
       ch_steps = [Sanitize Trim,
                   Check (IsLength 2 (Some 50)) ''Name must be between 2 and 50 characters'']\<rparr>,
      \<lparr>ch_field = ''email'', ch_optional = True,
       ch_steps = [Sanitize Trim, Check IsEmail ''Please provide a valid email'', Sanitize NormalizeEmail]\<rparr>]"

definition changePasswordValidation :: "chain list" where
  "changePasswordValidation =
     [\<lparr>ch_field = ''currentPassword'', ch_optional = False,
       ch_steps = [Sanitize Trim, Check NotEmpty ''Current password is required'']\<rparr>,
      \<lparr>ch_field = ''newPassword'', ch_optional = False,
       ch_steps = [Sanitize Trim, Check NotEmpty ''New password is required'',
                   Check (IsLength 6 None) ''New password must be at least 6 characters long'']\<rparr>]"

definition refreshTokenValidation :: "chain list" where
  "refreshTokenValidation =
     [\<lparr>ch_field = ''refreshToken'', ch_optional = False,
       ch_steps = [Sanitize Trim, Check NotEmpty ''Refresh token is required'']\<rparr>]"

subsection \<open>Lemmas on the chains\<close>

text \<open>Chains over distinct fields do not interfere: the value a field ends with, and
  the errors it contributes, are those of its own chain on the value in the request.\<close>

lemma run_steps_append:
  "run_steps lib now f st v (errs @ es) =
     (fst (run_steps lib now f st v es), errs @ snd (run_steps lib now f st v es))"
proof (induction st arbitrary: v es)
  case Nil
  then show ?case by simp
next
  case (Cons x st)
  then show ?case by (cases x) simp_all
qed

lemma run_steps_errs:
  "run_steps lib now f st v errs = (fst (run_steps lib now f st v []), errs @ snd (run_steps lib now f st v []))"
  using run_steps_append [of lib now f st v errs "[]"] by simp

lemma run_steps_None: "fst (run_steps lib now f st v errs) = None \<longleftrightarrow> v = None"
  by (induction lib now f st v errs rule: run_steps.induct) simp_all

lemma run_steps_None' [simp]: "fst (run_steps lib now f st None errs) = None"
  by (simp add: run_steps_None)

lemma run_chain_out:
  "run_chain lib now ch b =
     (case fst (chain_out lib now ch (map_of b (ch_field ch))) of
        None \<Rightarrow> b | Some v' \<Rightarrow> AList.update (ch_field ch) v' b,
      snd (chain_out lib now ch (map_of b (ch_field ch))))"
  by (auto simp: run_chain_def chain_out_def Let_def run_steps_None split: prod.split option.split)

lemma run_chain_other: "f \<noteq> ch_field ch \<Longrightarrow> map_of (fst (run_chain lib now ch b)) f = map_of b f"
  by (simp add: run_chain_out update_conv' split: option.split)

lemma run_chain_own: "map_of (fst (run_chain lib now ch b)) (ch_field ch) = fst (chain_out lib now ch (map_of b (ch_field ch)))"
  by (auto simp: run_chain_out update_conv' chain_out_def run_steps_None split: option.split)

lemma run_chains_other:
  "f \<notin> ch_field ` set chs \<Longrightarrow> map_of (fst (run_chains lib now chs b)) f = map_of b f"
  by (induction chs arbitrary: b) (simp_all add: run_chain_other split_def Let_def)

lemma run_chains_field:
  assumes "distinct (map ch_field chs)" "ch \<in> set chs" "run_chains lib now chs b = (b', errs)"
  shows "map_of b' (ch_field ch) = fst (chain_out lib now ch (map_of b (ch_field ch))) \<and>
         set (snd (chain_out lib now ch (map_of b (ch_field ch)))) \<subseteq> set errs"
  using assms
proof (induction chs arbitrary: b b' errs)
  case Nil
  then show ?case by simp
next
  case (Cons c chs)
  obtain b1 e1 where c: "run_chain lib now c b = (b1, e1)" by fastforce
  obtain b2 e2 where r: "run_chains lib now chs b1 = (b2, e2)" by fastforce
  from Cons.prems c r have b': "b' = b2" "errs = e1 @ e2" by simp_all
  show ?case
  proof (cases "ch = c")
    case True
    with Cons.prems(1) have "ch_field c \<notin> ch_field ` set chs" by simp
    from run_chains_other [OF this, of lib now b1] r have "map_of b2 (ch_field c) = map_of b1 (ch_field c)" by simp
    then show ?thesis using True b' c run_chain_own [of lib now c b] run_chain_out [of lib now c b] by auto
  next
    case False
    with Cons.prems have ch1: "ch \<in> set chs" by simp
    moreover have "ch_field c \<notin> set (map ch_field chs)" using Cons.prems(1) by simp
    ultimately have ch: "ch \<in> set chs" "ch_field ch \<noteq> ch_field c" by (auto, metis imageI)
    from Cons.IH [OF _ ch(1) r] Cons.prems(1)
    have "map_of b2 (ch_field ch) = fst (chain_out lib now ch (map_of b1 (ch_field ch))) \<and>
        set (snd (chain_out lib now ch (map_of b1 (ch_field ch)))) \<subseteq> set e2" by simp
    moreover have "map_of b1 (ch_field ch) = map_of b (ch_field ch)"
      using run_chain_other [OF ch(2), of lib now b] c by simp
    ultimately show ?thesis using b' by auto
  qed
qed
end
