(* ===== verification/Models.thy ===== *)
theory Models
  imports Http
begin

text \<open>
  The persistent data: the Mongoose schemas \<open>src/backend/src/models/User.js\<close> and
  \<open>src/backend/src/models/Task.js\<close>, their setters (\<open>trim\<close>, \<open>lowercase\<close>),
  validators, defaults and \<open>pre("save")\<close> hooks, and the document store they live in.
  A collection is an association list from ObjectIds to documents in natural
  (insertion) order; \<open>next_oid\<close> hands out fresh ObjectIds.
  \<open>save\<close> is Mongoose's: validation of every initialised path first (a
  \<open>ValidationError\<close> listing the failing paths), then the \<open>pre("save")\<close> hooks,
  then the write, which the unique index on \<open>email\<close> can refuse (error 11000).
  bcrypt is modelled symbolically: \<open>Bcrypt salt p\<close> is the hash of \<open>p\<close> under
  \<open>salt\<close>, and \<open>bcrypt.compare\<close> succeeds exactly on the plaintext that was hashed.
  The invariant \<open>db_inv\<close> collects what every write keeps: unique keys and emails,
  hashed passwords, tasks owned by existing users, the completion fields of every
  task agreeing with its status, and fresh ObjectIds.
\<close>

datatype role = UserRole | AdminRole

datatype status = Pending | InProgress | Completed

datatype priority = Low | Medium | High

datatype password = Plain string | Bcrypt nat password

record user =
  name :: string
  email :: string
  password :: password
  role :: role
  isActive :: bool
  lastLogin :: "millis option"
  refreshToken :: "string option"
  createdAt :: millis

record task =
  title :: string
  description :: string
  status :: status
  priority :: priority
  dueDate :: "millis option"
  user :: oid
  isCompleted :: bool
  completedAt :: "millis option"
  taskCreatedAt :: millis

record db =
  users :: "(oid \<times> user) list"
  tasks :: "(oid \<times> task) list"
  next_oid :: oid

subsection \<open>bcrypt\<close>

definition bcrypt_hash :: "nat \<Rightarrow> password \<Rightarrow> password" where
  "bcrypt_hash salt p = Bcrypt salt p"

fun bcrypt_compare :: "string \<Rightarrow> password \<Rightarrow> bool" where
  "bcrypt_compare p (Bcrypt s h) = (h = Plain p)"
| "bcrypt_compare p (Plain q) = False"

fun is_hashed :: "password \<Rightarrow> bool" where
  "is_hashed (Bcrypt s h) = True"
| "is_hashed (Plain p) = False"

definition matchPassword :: "user \<Rightarrow> string \<Rightarrow> bool" where
  "matchPassword u enteredPassword = bcrypt_compare enteredPassword (password u)"

subsection \<open>Setters and validators\<close>

definition js_lower :: "string \<Rightarrow> string" where
  "js_lower s =
     map (\<lambda>c. if code_between 65 90 c then char_of (of_char c + 32 :: nat) else c) s"

definition word_char :: "char \<Rightarrow> bool" where
  "word_char c \<longleftrightarrow> code_between 97 122 c \<or> code_between 65 90 c \<or> code_between 48 57 c \<or>
     c = CHR ''_''"

definition sep_char :: "char \<Rightarrow> bool" where
  "sep_char c \<longleftrightarrow> c = CHR ''.'' \<or> c = CHR ''-''"

fun no_adj_sep :: "string \<Rightarrow> bool" where
  "no_adj_sep (a # b # r) = (\<not> (sep_char a \<and> sep_char b) \<and> no_adj_sep (b # r))"
| "no_adj_sep _ = True"

text \<open>The language of \<open>\w+([\.-]?\w+)*\<close>: word characters, single separators between them.\<close>

definition word_runs :: "string \<Rightarrow> bool" where
  "word_runs s \<longleftrightarrow> s \<noteq> [] \<and> word_char (hd s) \<and> word_char (last s) \<and>
     list_all (\<lambda>c. word_char c \<or> sep_char c) s \<and> no_adj_sep s"

text \<open>The language of \<open>(\.\w{2,3})+\<close>.\<close>

fun tld_seq :: "string \<Rightarrow> bool" where
  "tld_seq [] = False"
| "tld_seq (c # cs) =
     (c = CHR ''.'' \<and>
      ((2 \<le> length cs \<and> list_all word_char (take 2 cs) \<and>
          (drop 2 cs = [] \<or> tld_seq (drop 2 cs))) \<or>
       (3 \<le> length cs \<and> list_all word_char (take 3 cs) \<and>
          (drop 3 cs = [] \<or> tld_seq (drop 3 cs)))))"

text \<open>\<open>/^\w+([\.-]?\w+)*@\w+([\.-]?\w+)*(\.\w{2,3})+$/\<close> of the \<open>email\<close> path.\<close>

definition email_matches :: "string \<Rightarrow> bool" where
  "email_matches s =
     (let l = takeWhile (\<lambda>c. c \<noteq> CHR ''@'') s; r = dropWhile (\<lambda>c. c \<noteq> CHR ''@'') s in
      case r of
        [] \<Rightarrow> False
      | a # d \<Rightarrow> word_runs l \<and>
          list_ex (\<lambda>i. word_runs (take i d) \<and> tld_seq (drop i d)) [0..<Suc (length d)])"

definition validateUser :: "user \<Rightarrow> field_error list" where
  "validateUser u =
     (if name u = [] then [(''name'', ''Please provide a name'')]
      else if length (name u) < 2 then [(''name'', ''Name must be at least 2 characters long'')]
      else if 50 < length (name u) then [(''name'', ''Name cannot exceed 50 characters'')]
      else []) @
     (if email u = [] then [(''email'', ''Please provide an email'')]
      else if \<not> email_matches (email u) then [(''email'', ''Please provide a valid email'')]
      else []) @
     (case password u of
        Plain p \<Rightarrow>
          if p = [] then [(''password'', ''Please provide a password'')]
          else if length p < 6 then [(''password'', ''Password must be at least 6 characters long'')]
          else []
      | Bcrypt s h \<Rightarrow> [])"

definition validateTask :: "millis \<Rightarrow> task \<Rightarrow> field_error list" where
  "validateTask now t =
     (if title t = [] then [(''title'', ''Please provide a task title'')]
      else if length (title t) < 3 then [(''title'', ''Title must be at least 3 characters long'')]
      else if 100 < length (title t) then [(''title'', ''Title cannot exceed 100 characters'')]
      else []) @
     (if description t = [] then [(''description'', ''Please provide a task description'')]
      else if 500 < length (description t)
      then [(''description'', ''Description cannot exceed 500 characters'')]
      else []) @
     (case dueDate t of
        None \<Rightarrow> []
      | Some d \<Rightarrow> if now \<le> d then [] else [(''dueDate'', ''Due date must be in the future'')])"

subsection \<open>\<open>pre("save")\<close> hooks\<close>

definition user_pre_save :: "nat \<Rightarrow> bool \<Rightarrow> user \<Rightarrow> user" where
  "user_pre_save salt passwordModified u =
     (if \<not> passwordModified then u else u\<lparr>password := bcrypt_hash salt (password u)\<rparr>)"

definition task_pre_save :: "millis \<Rightarrow> task \<Rightarrow> task" where
  "task_pre_save now t =
     (if status t = Completed \<and> completedAt t = None
      then t\<lparr>completedAt := Some now, isCompleted := True\<rparr>
      else if status t \<noteq> Completed then t\<lparr>completedAt := None, isCompleted := False\<rparr>
      else t)"

subsection \<open>Document store operations\<close>

text \<open>The schema setters, which Mongoose applies on assignment and to query filters.\<close>

definition email_setter :: "string \<Rightarrow> string" where
  "email_setter s = js_trim (js_lower s)"

definition findOne_email :: "db \<Rightarrow> string \<Rightarrow> (oid \<times> user) option" where
  "findOne_email d e = find (\<lambda>(i, u). email u = email_setter e) (users d)"

definition save_user :: "nat \<Rightarrow> bool \<Rightarrow> oid \<Rightarrow> user \<Rightarrow> db \<Rightarrow> app_error + db" where
  "save_user salt passwordModified i u d =
     (let errs = validateUser u in
      if errs \<noteq> [] then Inl (ValidationError errs)
      else let u' = user_pre_save salt passwordModified u in
        if list_ex (\<lambda>(j, v). j \<noteq> i \<and> email v = email u') (users d)
        then Inl (DuplicateKey ''email'')
        else Inr (d\<lparr>users := AList.update i u' (users d)\<rparr>))"

definition save_task :: "millis \<Rightarrow> oid \<Rightarrow> task \<Rightarrow> db \<Rightarrow> app_error + db" where
  "save_task now i t d =
     (let errs = validateTask now t in
      if errs \<noteq> [] then Inl (ValidationError errs)
      else Inr (d\<lparr>tasks := AList.update i (task_pre_save now t) (tasks d)\<rparr>))"

definition fresh_oid :: "db \<Rightarrow> oid \<times> db" where
  "fresh_oid d = (next_oid d, d\<lparr>next_oid := Suc (next_oid d)\<rparr>)"

text \<open>\<open>User.create(doc)\<close> / \<open>Task.create(doc)\<close>: a fresh ObjectId, the
  \<open>createdAt\<close> timestamp, then \<open>save\<close> (every path of a new document is modified).\<close>

definition create_user ::
  "millis \<Rightarrow> nat \<Rightarrow> user \<Rightarrow> db \<Rightarrow> app_error + (oid \<times> user \<times> db)" where
  "create_user now salt u d =
     (let (i, d1) = fresh_oid d; u1 = u\<lparr>createdAt := now\<rparr> in
      map_sum id (\<lambda>d2. (i, user_pre_save salt True u1, d2)) (save_user salt True i u1 d1))"

definition create_task :: "millis \<Rightarrow> task \<Rightarrow> db \<Rightarrow> app_error + (oid \<times> db)" where
  "create_task now t d =
     (let (i, d1) = fresh_oid d in
      map_sum id (\<lambda>d2. (i, d2)) (save_task now i (t\<lparr>taskCreatedAt := now\<rparr>) d1))"

definition delete_task :: "oid \<Rightarrow> db \<Rightarrow> db" where
  "delete_task i d = d\<lparr>tasks := AList.delete i (tasks d)\<rparr>"

definition deleteMany_tasks_of :: "oid \<Rightarrow> db \<Rightarrow> db" where
  "deleteMany_tasks_of u d = d\<lparr>tasks := filter (\<lambda>(i, t). user t \<noteq> u) (tasks d)\<rparr>"

definition delete_user :: "oid \<Rightarrow> db \<Rightarrow> db" where
  "delete_user i d = d\<lparr>users := AList.delete i (users d)\<rparr>"

definition countDocuments :: "('a \<Rightarrow> bool) \<Rightarrow> (oid \<times> 'a) list \<Rightarrow> nat" where
  "countDocuments P xs = length (filter (\<lambda>(i, x). P x) xs)"

subsection \<open>The store invariant\<close>

definition task_completion_ok :: "task \<Rightarrow> bool" where
  "task_completion_ok t \<longleftrightarrow>
     (isCompleted t \<longleftrightarrow> status t = Completed) \<and> (completedAt t \<noteq> None \<longleftrightarrow> status t = Completed)"

definition emails_unique :: "(oid \<times> user) list \<Rightarrow> bool" where
  "emails_unique us \<longleftrightarrow>
     (\<forall>(i, u) \<in> set us. \<forall>(j, v) \<in> set us. email u = email v \<longrightarrow> i = j)"

definition users_hashed :: "(oid \<times> user) list \<Rightarrow> bool" where
  "users_hashed us \<longleftrightarrow> (\<forall>(i, u) \<in> set us. is_hashed (password u) \<and> validateUser u = [])"

definition tasks_sound :: "(oid \<times> user) list \<Rightarrow> (oid \<times> task) list \<Rightarrow> bool" where
  "tasks_sound us ts \<longleftrightarrow>
     (\<forall>(i, t) \<in> set ts. user t \<in> fst ` set us \<and> task_completion_ok t)"

definition ids_below :: "oid \<Rightarrow> (oid \<times> user) list \<Rightarrow> (oid \<times> task) list \<Rightarrow> bool" where
  "ids_below n us ts \<longleftrightarrow> (\<forall>i \<in> fst ` set us \<union> fst ` set ts. i < n)"

definition db_inv :: "db \<Rightarrow> bool" where
  "db_inv d \<longleftrightarrow>
     distinct (map fst (users d)) \<and> distinct (map fst (tasks d)) \<and>
     emails_unique (users d) \<and> users_hashed (users d) \<and>
     tasks_sound (users d) (tasks d) \<and> ids_below (next_oid d) (users d) (tasks d)"

definition empty_db :: db where
  "empty_db = \<lparr>users = [], tasks = [], next_oid = 0\<rparr>"

definition role_str :: "role \<Rightarrow> string" where
  "role_str r = (case r of UserRole \<Rightarrow> ''user'' | AdminRole \<Rightarrow> ''admin'')"

text \<open>A small store for the witnesses: two users, an administrator and one task of
  the first user.\<close>

definition ex_user :: "string \<Rightarrow> string \<Rightarrow> role \<Rightarrow> user" where
  "ex_user n e r = \<lparr>name = n, email = e, password = Bcrypt 1 (Plain ''secret1''), role = r,
     isActive = True, lastLogin = None, refreshToken = None, createdAt = 0\<rparr>"

definition ex_task :: task where
  "ex_task = \<lparr>title = ''T1 task'', description = ''D1'', status = Pending, priority = Medium,
     dueDate = None, user = 1, isCompleted = False, completedAt = None, taskCreatedAt = 0\<rparr>"

definition ex_db :: db where
  "ex_db = \<lparr>users = [(1, ex_user ''Alice'' ''a@x.com'' UserRole),
                     (2, ex_user ''Bob'' ''b@x.com'' UserRole),
                     (3, ex_user ''Root'' ''root@x.com'' AdminRole)],
            tasks = [(4, ex_task)], next_oid = 5\<rparr>"

subsection \<open>The hooks\<close>

lemma task_pre_save_fields [simp]:
  "status (task_pre_save now t) = status t" "title (task_pre_save now t) = title t"
  "description (task_pre_save now t) = description t"
  "priority (task_pre_save now t) = priority t" "dueDate (task_pre_save now t) = dueDate t"
  "user (task_pre_save now t) = user t" "taskCreatedAt (task_pre_save now t) = taskCreatedAt t"
  by (simp_all add: task_pre_save_def)

text \<open>The completion hook establishes the status invariant from any document in which a
  set \<open>completedAt\<close> of a completed task comes with \<open>isCompleted\<close>.\<close>

lemma task_pre_save_ok:
  "(status t = Completed \<and> completedAt t \<noteq> None \<longrightarrow> isCompleted t) \<Longrightarrow>
     task_completion_ok (task_pre_save now t)"
  by (auto simp: task_pre_save_def task_completion_ok_def)

lemma task_completion_ok_pre: "task_completion_ok t \<Longrightarrow>
     status t = Completed \<and> completedAt t \<noteq> None \<longrightarrow> isCompleted t"
  by (simp add: task_completion_ok_def)

lemma user_pre_save_fields [simp]:
  "name (user_pre_save s m u) = name u" "email (user_pre_save s m u) = email u"
  "role (user_pre_save s m u) = role u" "isActive (user_pre_save s m u) = isActive u"
  "refreshToken (user_pre_save s m u) = refreshToken u"
  "lastLogin (user_pre_save s m u) = lastLogin u"
  by (simp_all add: user_pre_save_def)

lemma user_pre_save_hashed:
  "m \<or> is_hashed (password u) \<Longrightarrow> is_hashed (password (user_pre_save s m u))"
  by (auto simp: user_pre_save_def bcrypt_hash_def)

subsection \<open>Writes keep the invariant\<close>

lemma emails_unique_update:
  assumes "emails_unique us" "distinct (map fst us)"
    and "\<not> list_ex (\<lambda>(j, v). j \<noteq> i \<and> email v = email u) us"
  shows "emails_unique (AList.update i u us)"
  unfolding emails_unique_def
proof (intro ballI, clarify)
  fix a x b y
  assume a: "(a, x) \<in> set (AList.update i u us)" and b: "(b, y) \<in> set (AList.update i u us)"
    and e: "email x = email y"
  from in_set_update [OF assms(2) a] in_set_update [OF assms(2) b] e assms(1,3)
  show "a = b"
    by (fastforce simp: emails_unique_def list_ex_iff)
qed

lemma emails_unique_filter: "emails_unique us \<Longrightarrow> emails_unique (filter P us)"
  by (auto simp: emails_unique_def)

lemma users_hashed_update:
  "distinct (map fst us) \<Longrightarrow> users_hashed us \<Longrightarrow> is_hashed (password u) \<Longrightarrow>
     validateUser u = [] \<Longrightarrow> users_hashed (AList.update i u us)"
  unfolding users_hashed_def by (fastforce dest: in_set_update)

text \<open>Validation depends on the name, the e-mail and the password only, and a hashed
  password always passes it.\<close>

lemma validateUser_same:
  "validateUser u = [] \<Longrightarrow> name v = name u \<Longrightarrow> email v = email u \<Longrightarrow>
     password v = password u \<or> is_hashed (password v) \<Longrightarrow> validateUser v = []"
  by (cases "password v") (auto simp: validateUser_def split: if_splits password.splits)

lemma validateUser_pre_save: "validateUser u = [] \<Longrightarrow> validateUser (user_pre_save s m u) = []"
  using validateUser_same [of u "user_pre_save s m u"]
  by (cases m) (simp_all add: user_pre_save_def bcrypt_hash_def)

lemma tasks_sound_update_task:
  "distinct (map fst ts) \<Longrightarrow> tasks_sound us ts \<Longrightarrow> user t \<in> fst ` set us \<Longrightarrow>
     task_completion_ok t \<Longrightarrow> tasks_sound us (AList.update i t ts)"
  unfolding tasks_sound_def by (fastforce dest: in_set_update)

lemma tasks_sound_update_user:
  "tasks_sound us ts \<Longrightarrow> tasks_sound (AList.update i u us) ts"
  unfolding tasks_sound_def by (auto simp: keys_update)

lemma tasks_sound_filter: "tasks_sound us ts \<Longrightarrow> tasks_sound us (filter P ts)"
  unfolding tasks_sound_def by auto

lemma tasks_sound_delete_user:
  "tasks_sound us ts \<Longrightarrow> \<forall>(j, t) \<in> set ts. user t \<noteq> i \<Longrightarrow>
     tasks_sound (AList.delete i us) ts"
  unfolding tasks_sound_def set_delete_filter by fastforce

lemma ids_below_update:
  "ids_below n us ts \<Longrightarrow> i < n \<Longrightarrow> ids_below n (AList.update i u us) ts"
  "ids_below n us ts \<Longrightarrow> i < n \<Longrightarrow> ids_below n us (AList.update i t ts)"
  unfolding ids_below_def by (auto simp: keys_update)

lemma ids_below_filter:
  "ids_below n us ts \<Longrightarrow> ids_below n (filter P us) ts"
  "ids_below n us ts \<Longrightarrow> ids_below n us (filter Q ts)"
  unfolding ids_below_def by auto

lemma ids_below_Suc: "ids_below n us ts \<Longrightarrow> ids_below (Suc n) us ts"
  unfolding ids_below_def by (fastforce intro: less_SucI)

lemma ids_below_fresh: "ids_below n us ts \<Longrightarrow> n \<notin> fst ` set us \<and> n \<notin> fst ` set ts"
  unfolding ids_below_def by auto

lemma save_user_Inr:
  "save_user salt m i u d = Inr d' \<Longrightarrow>
     validateUser u = [] \<and> \<not> list_ex (\<lambda>(j, v). j \<noteq> i \<and> email v = email u) (users d) \<and>
     d' = d\<lparr>users := AList.update i (user_pre_save salt m u) (users d)\<rparr>"
  by (auto simp: save_user_def Let_def split: if_splits)

lemma save_task_Inr:
  "save_task now i t d = Inr d' \<Longrightarrow>
     validateTask now t = [] \<and> d' = d\<lparr>tasks := AList.update i (task_pre_save now t) (tasks d)\<rparr>"
  by (auto simp: save_task_def Let_def split: if_splits)

lemma ids_below_key: "ids_below n us ts \<Longrightarrow> i \<in> fst ` set us \<or> i \<in> fst ` set ts \<Longrightarrow> i < n"
  unfolding ids_below_def by auto

lemma save_user_inv:
  assumes "db_inv d" "save_user salt m i u d = Inr d'"
    and "m \<or> is_hashed (password u)" "i \<in> fst ` set (users d) \<or> i < next_oid d"
  shows "db_inv d'"
proof -
  from save_user_Inr [OF assms(2)]
  have nodup: "\<not> list_ex (\<lambda>(j, v). j \<noteq> i \<and> email v = email u) (users d)"
    and d': "d' = d\<lparr>users := AList.update i (user_pre_save salt m u) (users d)\<rparr>"
    and valid: "validateUser (user_pre_save salt m u) = []"
    by (auto simp: validateUser_pre_save)
  from assms(1) have du: "distinct (map fst (users d))" and eu: "emails_unique (users d)"
    and uh: "users_hashed (users d)" and ts: "tasks_sound (users d) (tasks d)"
    and ib: "ids_below (next_oid d) (users d) (tasks d)" and dt: "distinct (map fst (tasks d))"
    by (simp_all add: db_inv_def)
  have fresh: "i < next_oid d" using assms(4) ib ids_below_key by blast
  have "emails_unique (users d')"
    using emails_unique_update [OF eu du] nodup d' by simp
  moreover have "users_hashed (users d')"
    using users_hashed_update [OF du uh user_pre_save_hashed [OF assms(3)] valid] d' by simp
  ultimately show ?thesis
    using du dt d' tasks_sound_update_user [OF ts] ids_below_update(1) [OF ib fresh]
    by (simp add: db_inv_def distinct_update)
qed

lemma save_task_inv:
  assumes "db_inv d" "save_task now i t d = Inr d'"
    and "user t \<in> fst ` set (users d)" "i \<in> fst ` set (tasks d) \<or> i < next_oid d"
    and "status t = Completed \<and> completedAt t \<noteq> None \<longrightarrow> isCompleted t"
  shows "db_inv d'"
proof -
  from save_task_Inr [OF assms(2)]
  have d': "d' = d\<lparr>tasks := AList.update i (task_pre_save now t) (tasks d)\<rparr>" by simp
  from assms(1) have dt: "distinct (map fst (tasks d))" and ts: "tasks_sound (users d) (tasks d)"
    and ib: "ids_below (next_oid d) (users d) (tasks d)"
    by (simp_all add: db_inv_def)
  have fresh: "i < next_oid d" using assms(4) ib ids_below_key by blast
  have "tasks_sound (users d') (tasks d')"
    using tasks_sound_update_task [OF dt ts _ task_pre_save_ok [OF assms(5)]] assms(3) d'
    by simp
  then show ?thesis
    using assms(1) d' ids_below_update(2) [OF ib fresh]
    by (simp add: db_inv_def distinct_update)
qed

lemma next_oid_inv: "db_inv d \<Longrightarrow> db_inv (d\<lparr>next_oid := Suc (next_oid d)\<rparr>)"
  unfolding db_inv_def using ids_below_Suc by simp

lemma next_oid_fresh:
  "db_inv d \<Longrightarrow> next_oid d \<notin> fst ` set (users d) \<and> next_oid d \<notin> fst ` set (tasks d)"
  unfolding db_inv_def using ids_below_fresh by blast

lemma map_sum_Inr_pair:
  "map_sum id (Pair i) r = Inr (j, d') \<longleftrightarrow> i = j \<and> r = Inr d'"
  by (cases r) auto

lemma create_user_Inr:
  "create_user now salt u d = Inr (i, u', d') \<longleftrightarrow>
     i = next_oid d \<and> u' = user_pre_save salt True (u\<lparr>createdAt := now\<rparr>) \<and>
     save_user salt True i (u\<lparr>createdAt := now\<rparr>) (d\<lparr>next_oid := Suc (next_oid d)\<rparr>) = Inr d'"
  by (cases "save_user salt True (next_oid d) (u\<lparr>createdAt := now\<rparr>) (d\<lparr>next_oid := Suc (next_oid d)\<rparr>)")
    (auto simp: create_user_def fresh_oid_def)

lemma create_task_Inr:
  "create_task now t d = Inr (i, d') \<longleftrightarrow>
     i = next_oid d \<and>
     save_task now i (t\<lparr>taskCreatedAt := now\<rparr>) (d\<lparr>next_oid := Suc (next_oid d)\<rparr>) = Inr d'"
  by (auto simp: create_task_def fresh_oid_def map_sum_Inr_pair)

lemma create_user_inv:
  assumes "db_inv d" "create_user now salt u d = Inr (i, u', d')"
  shows "db_inv d'"
proof -
  from assms(2) [unfolded create_user_Inr] have i: "i = next_oid d"
    and s: "save_user salt True i (u\<lparr>createdAt := now\<rparr>) (d\<lparr>next_oid := Suc (next_oid d)\<rparr>) = Inr d'"
    by blast+
  from next_oid_inv [OF assms(1)] show ?thesis using save_user_inv [OF _ s] i by simp
qed

lemma create_task_inv:
  assumes "db_inv d" "create_task now t d = Inr (i, d')" "user t \<in> fst ` set (users d)"
    and "completedAt t = None"
  shows "db_inv d'"
proof -
  from assms(2) [unfolded create_task_Inr] have i: "i = next_oid d"
    and s: "save_task now i (t\<lparr>taskCreatedAt := now\<rparr>) (d\<lparr>next_oid := Suc (next_oid d)\<rparr>) = Inr d'"
    by blast+
  from next_oid_inv [OF assms(1)] show ?thesis using save_task_inv [OF _ s] i assms(3,4) by simp
qed

lemma delete_task_inv: "db_inv d \<Longrightarrow> db_inv (delete_task i d)"
  unfolding db_inv_def delete_task_def set_delete_filter
  by (simp add: distinct_map_filter tasks_sound_filter ids_below_filter)

lemma deleteMany_inv: "db_inv d \<Longrightarrow> db_inv (deleteMany_tasks_of u d)"
  unfolding db_inv_def deleteMany_tasks_of_def
  by (simp add: distinct_map_filter tasks_sound_filter ids_below_filter)

lemma delete_user_inv:
  "db_inv d \<Longrightarrow> \<forall>(j, t) \<in> set (tasks d). user t \<noteq> i \<Longrightarrow> db_inv (delete_user i d)"
  unfolding db_inv_def delete_user_def
  using tasks_sound_delete_user [of "users d" "tasks d" i]
  by (simp add: set_delete_filter distinct_map_filter emails_unique_filter ids_below_filter
      users_hashed_def)

text \<open>Re-saving a stored user whose name, e-mail and password are unchanged always
  succeeds: the document still validates and the unique index cannot refuse it.\<close>

lemma save_user_stored:
  assumes "db_inv d" "map_of (users d) i = Some u"
    and "name u' = name u" "email u' = email u" "password u' = password u"
  shows "save_user s False i u' d = Inr (d\<lparr>users := AList.update i u' (users d)\<rparr>)"
proof -
  have mem: "(i, u) \<in> set (users d)" using assms(2) by (rule map_of_SomeD)
  with assms(1) have "validateUser u = []"
    by (auto simp: db_inv_def users_hashed_def)
  then have valid: "validateUser u' = []"
    using assms(3-5) by (blast intro: validateUser_same)
  have "\<not> list_ex (\<lambda>(j, v). j \<noteq> i \<and> email v = email u') (users d)"
    using assms(1,4) mem by (auto simp: db_inv_def emails_unique_def list_ex_iff)
  with valid show ?thesis by (simp add: save_user_def user_pre_save_def)
qed

text \<open>A write the store refuses is a validation or duplicate-key error, which
  \<open>errorHandler\<close> answers with a 400.\<close>

lemma save_user_Inl:
  "save_user s m i u d = Inl e \<Longrightarrow> (\<exists>fes. e = ValidationError fes) \<or> e = DuplicateKey ''email''"
  by (auto simp: save_user_def Let_def split: if_splits)

lemma save_task_Inl: "save_task now i t d = Inl e \<Longrightarrow> \<exists>fes. e = ValidationError fes"
  by (auto simp: save_task_def Let_def split: if_splits)

lemma create_user_Inl:
  "create_user now s u d = Inl e \<Longrightarrow> (\<exists>fes. e = ValidationError fes) \<or> e = DuplicateKey ''email''"
  by (auto simp: create_user_def fresh_oid_def map_sum_Inl_iff Let_def dest: save_user_Inl)

lemma create_task_Inl: "create_task now t d = Inl e \<Longrightarrow> \<exists>fes. e = ValidationError fes"
  by (auto simp: create_task_def fresh_oid_def map_sum_Inl_iff dest: save_task_Inl)

lemmas store_error_400 = save_user_Inl save_task_Inl create_user_Inl create_task_Inl

lemma map_of_save_user:
  "save_user s m i u d = Inr d' \<Longrightarrow> map_of (users d') = (map_of (users d))(i \<mapsto> user_pre_save s m u)"
  by (auto dest!: save_user_Inr simp: update_conv')

text \<open>Re-saving a stored user without touching its (hashed) password keeps the
  invariant: the path every handler but registration and password change takes.\<close>

lemma resave_inv:
  assumes "db_inv d" "map_of (users d) i = Some u" "save_user s False i u' d = Inr d'"
    and "password u' = password u"
  shows "db_inv d'"
proof -
  have mem: "(i, u) \<in> set (users d)" using assms(2) by (rule map_of_SomeD)
  with assms(1) have "is_hashed (password u)" by (auto simp: db_inv_def users_hashed_def)
  then show ?thesis using save_user_inv [OF assms(1,3)] mem assms(4) by force
qed

lemma empty_db_inv: "db_inv empty_db"
  by (simp add: db_inv_def empty_db_def emails_unique_def users_hashed_def tasks_sound_def
      ids_below_def)

lemmas store_write_inv = save_user_inv save_task_inv create_user_inv create_task_inv
  delete_task_inv deleteMany_inv delete_user_inv

end
