(* ===== verification/AuthMiddleware.thy ===== *)
theory AuthMiddleware
  imports Models
begin

text \<open>
  The request gate: \<open>src/backend/src/middlewares/authMiddleware.js\<close>. Each middleware
  is a pipeline stage that either short-circuits with a response (\<open>Inl\<close>) or
  continues with what it attaches to the request (\<open>Inr\<close>):
  \<^item> \<open>protect\<close> reads the bearer token of the \<open>Authorization\<close> header as the code
    does (\<open>startsWith("Bearer")\<close>, then \<open>split(" ")[1]\<close>), verifies it with
    \<open>JWT_SECRET\<close>, loads the user and refuses deactivated accounts; every refusal
    is a 401;
  \<^item> \<open>authorize roles\<close> refuses a missing principal (401) and a role outside
    \<open>roles\<close> (403);
  \<^item> \<open>checkOwnership\<close> is generic in the resource model: a lookup and an owner
    accessor; it answers 404 for a missing resource before it looks at the principal,
    lets admins through and compares the owner's id string with the principal's (403).
\<close>

type_synonym principal = "oid \<times> user"

text \<open>\<open>if (authorization && authorization.startsWith("Bearer"))
  token = authorization.split(" ")[1]\<close>, then \<open>if (!token)\<close>.\<close>

definition bearer_token :: "string option \<Rightarrow> string option" where
  "bearer_token authorization =
     (case authorization of
        None \<Rightarrow> None
      | Some a \<Rightarrow>
          if a \<noteq> [] \<and> starts_with ''Bearer'' a
          then (case js_nth (split_on CHR '' '' a) 1 of
                  None \<Rightarrow> None
                | Some t \<Rightarrow> if t = [] then None else Some t)
          else None)"

definition protect ::
  "config \<Rightarrow> millis \<Rightarrow> db \<Rightarrow> string option \<Rightarrow> 'd response + principal" where
  "protect cfg now d authorization =
     (case bearer_token authorization of
        None \<Rightarrow> Inl (errorResponse 401 ''Not authorized to access this route. Please login.'' None)
      | Some token \<Rightarrow>
          (case jwt_verify token (JWT_SECRET cfg) now of
             Inl err \<Rightarrow> Inl (errorResponse 401 ''Invalid or expired token'' None)
           | Inr uid \<Rightarrow>
               (case map_of (users d) uid of
                  None \<Rightarrow> Inl (errorResponse 401 ''User not found'' None)
                | Some u \<Rightarrow>
                    if \<not> isActive u then Inl (errorResponse 401 ''User account is deactivated'' None)
                    else Inr (uid, u))))"

definition authorize :: "role list \<Rightarrow> principal option \<Rightarrow> 'd response + principal" where
  "authorize roles reqUser =
     (case reqUser of
        None \<Rightarrow> Inl (errorResponse 401 ''User not authenticated'' None)
      | Some (uid, u) \<Rightarrow>
          if role u \<notin> set roles
          then Inl (errorResponse 403
                 (''User role '' @ [CHR 0x27] @ role_str (role u) @ [CHR 0x27] @
                  '' is not authorized to access this route'') None)
          else Inr (uid, u))"

definition checkOwnership ::
  "(oid \<Rightarrow> 'r option) \<Rightarrow> ('r \<Rightarrow> oid) \<Rightarrow> oid \<Rightarrow> principal \<Rightarrow> 'd response + 'r" where
  "checkOwnership findById owner resourceId p =
     (case findById resourceId of
        None \<Rightarrow> Inl (errorResponse 404 ''Resource not found'' None)
      | Some r \<Rightarrow>
          if role (snd p) = AdminRole then Inr r
          else if oid_str (owner r) \<noteq> oid_str (fst p)
          then Inl (errorResponse 403 ''Not authorized to access this resource'' None)
          else Inr r)"

text \<open>The header the frontend's request interceptor sends
  (\<open>src/frontend/src/lib/api.ts\<close>: \<open>Authorization: Bearer ${token}\<close>).\<close>

definition bearer_header :: "string \<Rightarrow> string" where
  "bearer_header token = ''Bearer '' @ token"

subsection \<open>Lemmas\<close>

lemma space_not_hex: "CHR '' '' \<notin> set hex_chars"
  by (simp add: hex_chars_def)

lemma space_notin_jwt_encode: "CHR '' '' \<notin> set (jwt_encode t)"
proof -
  have "set (sig_str k) \<subseteq> set hex_chars" for k
    by (auto simp: sig_str_def byte_hex_def hex_digit_in of_char_div16)
  then show ?thesis
    using not_hex_char_in_hex_str [OF space_not_hex] space_not_hex
    by (auto simp: jwt_encode_def)
qed

lemma js_trim_jwt_encode [simp]: "js_trim (jwt_encode t) = jwt_encode t"
proof (rule js_trim_id)
  have "set (sig_str k) \<subseteq> set hex_chars" for k
    by (auto simp: sig_str_def byte_hex_def hex_digit_in of_char_div16)
  then have "set (jwt_encode t) \<subseteq> set hex_chars \<union> {CHR ''.''}"
    using set_hex_str by (auto simp: jwt_encode_def)
  moreover have "\<forall>c \<in> set hex_chars \<union> {CHR ''.''}. \<not> js_space c"
    by (simp add: hex_chars_def js_space_def)
  ultimately show "\<forall>c \<in> set (jwt_encode t). \<not> js_space c" by blast
qed

lemma jwt_encode_nonempty: "jwt_encode t \<noteq> []"
  by (simp add: jwt_encode_def)

text \<open>Parsing the header built by the frontend gives back the token, for any token
  without spaces.\<close>

lemma bearer_token_header:
  "t \<noteq> [] \<Longrightarrow> CHR '' '' \<notin> set t \<Longrightarrow> bearer_token (Some (bearer_header t)) = Some t"
  by (simp add: bearer_token_def bearer_header_def js_simps)

lemma bearer_token_jwt [simp]:
  "bearer_token (Some (bearer_header (jwt_encode t))) = Some (jwt_encode t)"
  by (simp add: bearer_token_header space_notin_jwt_encode jwt_encode_nonempty)

lemma bearer_token_sign [simp]:
  "bearer_token (Some (bearer_header (jwt_sign uid k l now))) = Some (jwt_sign uid k l now)"
  by (simp add: jwt_sign_def)

lemma protect_Inr:
  "protect cfg now d h = Inr p \<Longrightarrow>
     \<exists>tok. bearer_token h = Some tok \<and> jwt_verify tok (JWT_SECRET cfg) now = Inr (fst p) \<and>
       map_of (users d) (fst p) = Some (snd p) \<and> isActive (snd p)"
  by (auto simp: protect_def split: option.splits sum.splits if_splits)

lemma protect_Inl_401: "protect cfg now d h = Inl r \<Longrightarrow> statusCode r = 401"
  by (auto simp: protect_def split: option.splits sum.splits if_splits)

lemma protect_bearer:
  "bearer_token h = Some tok \<Longrightarrow>
     protect cfg now d h =
       (case jwt_verify tok (JWT_SECRET cfg) now of
          Inl err \<Rightarrow> Inl (errorResponse 401 ''Invalid or expired token'' None)
        | Inr uid \<Rightarrow>
            (case map_of (users d) uid of
               None \<Rightarrow> Inl (errorResponse 401 ''User not found'' None)
             | Some u \<Rightarrow>
                 if \<not> isActive u then Inl (errorResponse 401 ''User account is deactivated'' None)
                 else Inr (uid, u)))"
  by (simp add: protect_def)

lemma checkOwnership_Inr:
  "checkOwnership f owner rid p = Inr r \<longleftrightarrow>
     f rid = Some r \<and> (role (snd p) = AdminRole \<or> owner r = fst p)"
  by (auto simp: checkOwnership_def oid_str_inj split: option.splits)

lemma authorize_Some:
  "authorize roles (Some p) = (if role (snd p) \<in> set roles then Inr p
     else Inl (errorResponse 403 (''User role '' @ [CHR 0x27] @ role_str (role (snd p)) @ [CHR 0x27] @
                  '' is not authorized to access this route'') None))"
  by (cases p) (simp add: authorize_def)

subsection \<open>Properties of the gate\<close>

text \<open>What \<open>protect\<close> makes of the header built from an issued access token.\<close>

lemma protect_generated:
  "protect cfg now' d (Some (bearer_header (pairAccess (generateTokens cfg now uid)))) =
     (if now div 1000 + access_life cfg \<le> now' div 1000
      then Inl (errorResponse 401 ''Invalid or expired token'' None)
      else (case map_of (users d) uid of
              None \<Rightarrow> Inl (errorResponse 401 ''User not found'' None)
            | Some u \<Rightarrow> if isActive u then Inr (uid, u)
                        else Inl (errorResponse 401 ''User account is deactivated'' None)))"
  by (simp add: protect_bearer token_simps jwt_sign_verify split: option.split)

text \<open>Every refusal of \<open>protect\<close> is an unsuccessful 401 response: missing,
  malformed, forged and expired tokens, unknown and deactivated users alike.\<close>

lemma protect_refusal:
  "protect cfg now d h = Inl r \<Longrightarrow> statusCode r = 401 \<and> success r = False"
  by (auto simp: protect_def split: option.splits sum.splits if_splits)

text \<open>Presented with the header \<open>Bearer <accessToken>\<close> that the frontend builds
  from a token issued at \<open>now\<close>, \<open>protect\<close> answers 401 \<open>Invalid or expired token\<close>
  once the token has expired; otherwise it answers 401 when the user no longer exists
  or is deactivated, and attaches the user otherwise.\<close>

theorem protect_issued_access_token:
  "protect cfg now' d (Some (bearer_header (pairAccess (generateTokens cfg now uid)))) =
     (if now div 1000 + access_life cfg \<le> now' div 1000
      then Inl (errorResponse 401 ''Invalid or expired token'' None)
      else (case map_of (users d) uid of
              None \<Rightarrow> Inl (errorResponse 401 ''User not found'' None)
            | Some u \<Rightarrow> if isActive u then Inr (uid, u)
                        else Inl (errorResponse 401 ''User account is deactivated'' None)))"
  by (rule protect_generated)

text \<open>C4: whatever the header, when \<open>protect\<close> lets a request through, the attached
  principal is a stored, active user and the header carried an access token that
  \<open>verifyToken\<close> accepts for that user's id.\<close>

theorem protect_sound:
  "protect cfg now d h = Inr (uid, u) \<Longrightarrow>
     map_of (users d) uid = Some u \<and> isActive u \<and>
     (\<exists>tok. bearer_token h = Some tok \<and> verifyToken cfg now tok False = Inr uid)"
  by (auto dest!: protect_Inr simp: verifyToken_def)

theorem protect_sound_witness:
  "map_of (users ex_db) 1 = Some (ex_user ''Alice'' ''a@x.com'' UserRole) \<and>
   isActive (ex_user ''Alice'' ''a@x.com'' UserRole) \<and>
   (\<exists>tok. bearer_token (Some (bearer_header (pairAccess (generateTokens ex_cfg 1000 1)))) = Some tok \<and>
      verifyToken ex_cfg 2000 tok False = Inr 1)"
proof -
  have "protect ex_cfg 2000 ex_db (Some (bearer_header (pairAccess (generateTokens ex_cfg 1000 1))))
      = Inr (1, ex_user ''Alice'' ''a@x.com'' UserRole)"
    by (simp add: protect_bearer token_simps jwt_sign_verify access_life_def ex_db_def
        ex_user_def ex_cfg_def)
  from protect_sound [OF this] show ?thesis by simp
qed

text \<open>With distinct secrets, a refresh token presented as a bearer token is refused
  with 401 \<open>Invalid or expired token\<close>, whatever the store and the time.\<close>

theorem protect_rejects_refresh_token:
  assumes "JWT_SECRET cfg \<noteq> JWT_REFRESH_SECRET cfg"
  shows "protect cfg now' d (Some (bearer_header (pairRefresh (generateTokens cfg now uid)))) =
           Inl (errorResponse 401 ''Invalid or expired token'' None)"
  using assms by (simp add: protect_bearer token_simps jwt_sign_verify)

theorem protect_rejects_refresh_token_witness:
  "JWT_SECRET ex_cfg \<noteq> JWT_REFRESH_SECRET ex_cfg \<and>
   protect ex_cfg 2000 ex_db (Some (bearer_header (pairRefresh (generateTokens ex_cfg 1000 1)))) =
     (Inl (errorResponse 401 ''Invalid or expired token'' None) :: unit response + principal)"
proof -
  have d: "JWT_SECRET ex_cfg \<noteq> JWT_REFRESH_SECRET ex_cfg" by (simp add: ex_cfg_def)
  show ?thesis using d protect_rejects_refresh_token [OF d, of 2000 ex_db 1000 1] by simp
qed

text \<open>The ownership guard (exported but not used by any route of the sources), which compares ObjectId strings, lets a principal reach
  a resource exactly when the resource exists and the principal is an admin or its
  owner; a missing resource is a 404 for every principal, an existing one owned by
  someone else a 403.\<close>

theorem checkOwnership_spec:
  "checkOwnership f owner rid p =
     (case f rid of
        None \<Rightarrow> Inl (errorResponse 404 ''Resource not found'' None)
      | Some r \<Rightarrow> if role (snd p) = AdminRole \<or> owner r = fst p then Inr r
                  else Inl (errorResponse 403 ''Not authorized to access this resource'' None))"
  by (auto simp: checkOwnership_def oid_str_inj split: option.split)

end
