(* ===== verification/Cache.thy ===== *)
theory Cache
  imports AuthMiddleware
begin

text \<open>
  \<open>src/backend/src/middlewares/cacheMiddleware.js\<close> over a model of the Redis store
  (\<open>src/backend/src/config/redis.js\<close>). The store is an association list from keys to
  a value and its expiry instant; a client that is not connected (\<open>REDIS_ENABLED\<close>
  unset, a failed connection, \<open>!redisClient.isOpen\<close>) is \<open>None\<close>, and every cache
  operation is then the identity. \<open>KEYS pattern\<close> is Redis' glob matcher
  (\<open>*\<close>, \<open>?\<close> and \<open>\\\<close> escapes; the patterns the code builds have no bracket
  classes). The middleware \<open>cache(expiry)\<close> is split into its two phases, the lookup
  before the handler and the fire-and-forget \<open>setEx\<close> after it, so that the system
  model can interleave other requests between them.
\<close>

type_synonym 'v kv = "(string \<times> ('v \<times> millis)) list"

subsection \<open>The Redis store\<close>

text \<open>\<open>GET\<close>: a key is live strictly before its expiry instant.\<close>

definition redis_get :: "millis \<Rightarrow> string \<Rightarrow> 'v kv \<Rightarrow> 'v option" where
  "redis_get now k kv =
     (case map_of kv k of None \<Rightarrow> None | Some (v, e) \<Rightarrow> if now < e then Some v else None)"

text \<open>\<open>SETEX key seconds value\<close>.\<close>

definition redis_setEx :: "millis \<Rightarrow> string \<Rightarrow> nat \<Rightarrow> 'v \<Rightarrow> 'v kv \<Rightarrow> 'v kv" where
  "redis_setEx now k secs v kv = AList.update k (v, now + secs * 1000) kv"

text \<open>Redis' \<open>stringmatchlen\<close> without bracket classes.\<close>

fun glob_match :: "string \<Rightarrow> string \<Rightarrow> bool" where
  "glob_match [] s = (s = [])"
| "glob_match (c # p) [] = (c = CHR ''*'' \<and> glob_match p [])"
| "glob_match (c # p) (x # s) =
     (if c = CHR ''*'' then glob_match p (x # s) \<or> glob_match (c # p) s
      else if c = CHR ''?'' then glob_match p s
      else if c = CHR 0x5C \<and> p \<noteq> [] then hd p = x \<and> glob_match (tl p) s
      else c = x \<and> glob_match p s)"

text \<open>\<open>KEYS pattern\<close>: the live keys that match.\<close>

definition redis_keys :: "millis \<Rightarrow> string \<Rightarrow> 'v kv \<Rightarrow> string list" where
  "redis_keys now pat kv = [k. (k, v, e) \<leftarrow> kv, now < e \<and> glob_match pat k]"

definition redis_del :: "string list \<Rightarrow> 'v kv \<Rightarrow> 'v kv" where
  "redis_del ks kv = filter (\<lambda>(k, _). k \<notin> set ks) kv"

text \<open>A pattern without metacharacters matches only itself.\<close>

definition glob_literal :: "string \<Rightarrow> bool" where
  "glob_literal q \<longleftrightarrow> (\<forall>c \<in> set q. c \<noteq> CHR ''*'' \<and> c \<noteq> CHR ''?'' \<and> c \<noteq> CHR 0x5C)"

subsection \<open>\<open>cacheMiddleware.js\<close>\<close>

definition clearCache :: "millis \<Rightarrow> string \<Rightarrow> 'v kv option \<Rightarrow> 'v kv option" where
  "clearCache now pattern r =
     (case r of
        None \<Rightarrow> None
      | Some kv \<Rightarrow> (let keys = redis_keys now pattern kv in
                     Some (if keys \<noteq> [] then redis_del keys kv else kv)))"

definition clearUserCache :: "millis \<Rightarrow> oid \<Rightarrow> 'v kv option \<Rightarrow> 'v kv option" where
  "clearUserCache now userId r = clearCache now (''cache:*:'' @ oid_str userId) r"

text \<open>\<open>cache:${req.originalUrl}:${req.user ? req.user.id : "guest"}\<close>.\<close>

definition cache_key :: "string \<Rightarrow> principal option \<Rightarrow> string" where
  "cache_key originalUrl reqUser =
     ''cache:'' @ originalUrl @ '':'' @ (case reqUser of None \<Rightarrow> ''guest'' | Some (uid, u) \<Rightarrow> oid_str uid)"

text \<open>The outcome of the lookup phase: a live entry answers the request
  (\<open>res.status(200).json(JSON.parse(cachedData))\<close>), a miss records the key under
  which the response will be stored, and non-GET requests or a closed client bypass
  the cache.\<close>

datatype 'd cache_probe = Hit "'d response" | Miss string | Bypass

definition cache_lookup ::
  "string \<Rightarrow> string \<Rightarrow> principal option \<Rightarrow> millis \<Rightarrow> 'd response kv option \<Rightarrow> 'd cache_probe" where
  "cache_lookup method originalUrl reqUser now r =
     (if method \<noteq> ''GET'' then Bypass
      else case r of
             None \<Rightarrow> Bypass
           | Some kv \<Rightarrow>
               (let cacheKey = cache_key originalUrl reqUser in
                case redis_get now cacheKey kv of
                  Some cached \<Rightarrow> Hit (cached\<lparr>statusCode := 200\<rparr>)
                | None \<Rightarrow> Miss cacheKey))"

text \<open>The overridden \<open>res.json\<close>: a successful 200 body is stored for \<open>expiry\<close>
  seconds, fire-and-forget, into the store as it is when the response is sent.\<close>

definition cache_fill ::
  "nat \<Rightarrow> millis \<Rightarrow> 'd cache_probe \<Rightarrow> 'd response \<Rightarrow> 'd response kv option \<Rightarrow> 'd response kv option" where
  "cache_fill expiry now probe body r =
     (case probe of
        Miss cacheKey \<Rightarrow>
          if statusCode body = 200 \<and> success body then map_option (redis_setEx now cacheKey expiry body) r
          else r
      | _ \<Rightarrow> r)"

text \<open>\<open>cache(expiry)\<close> wrapped around a handler \<open>h\<close> on state \<open>'s\<close>, both phases in
  one step.\<close>

definition cache ::
  "nat \<Rightarrow> string \<Rightarrow> string \<Rightarrow> principal option \<Rightarrow> millis \<Rightarrow> ('s \<Rightarrow> 'd response \<times> 's) \<Rightarrow>
     's \<Rightarrow> 'd response kv option \<Rightarrow> 'd response \<times> 's \<times> 'd response kv option" where
  "cache expiry method originalUrl reqUser now h s r =
     (case cache_lookup method originalUrl reqUser now r of
        Hit cached \<Rightarrow> (cached, s, r)
      | probe \<Rightarrow> (let (body, s') = h s in (body, s', cache_fill expiry now probe body r)))"

subsection \<open>Lemmas on the store and the glob matcher\<close>

lemma glob_match_literal: "glob_literal q \<Longrightarrow> glob_match q s \<longleftrightarrow> s = q"
proof (induction q arbitrary: s)
  case Nil
  then show ?case by simp
next
  case (Cons c q)
  then show ?case by (cases s) (auto simp: glob_literal_def)
qed

lemma glob_match_literal_prefix:
  "glob_literal a \<Longrightarrow> glob_match (a @ p) s \<longleftrightarrow> (\<exists>t. s = a @ t \<and> glob_match p t)"
proof (induction a arbitrary: s)
  case Nil
  then show ?case by simp
next
  case (Cons c a)
  then show ?case by (cases s) (auto simp: glob_literal_def)
qed

lemma glob_match_star: "glob_match (CHR ''*'' # p) s \<longleftrightarrow> (\<exists>k t. s = k @ t \<and> glob_match p t)"
proof (induction s)
  case Nil
  then show ?case by simp
next
  case (Cons x s)
  then show ?case by (auto simp: Cons_eq_append_conv)
qed

lemma suffix_after_last_sep:
  assumes "a @ c # b = x @ c # y" "c \<notin> set b" "c \<notin> set y"
  shows "b = y"
proof -
  have tw: "takeWhile (\<lambda>z. z \<noteq> c) (rev (u @ c # w)) = rev w" if "c \<notin> set w" for u w
  proof -
    have "takeWhile (\<lambda>z. z \<noteq> c) (rev w @ c # rev u) = rev w @ takeWhile (\<lambda>z. z \<noteq> c) (c # rev u)"
      by (rule takeWhile_append2) (use that in auto)
    then show ?thesis by simp
  qed
  show ?thesis using tw [OF assms(2), of a] tw [OF assms(3), of x] assms(1) by simp
qed

lemma colon_notin_oid_str: "CHR '':'' \<notin> set (oid_str i)"
  by (simp add: oid_str_def not_hex_char_in_hex_str hex_chars_def)

lemma guest_not_oid_str: "oid_str i \<noteq> ''guest''"
proof
  assume "oid_str i = ''guest''"
  then have "CHR ''g'' \<in> set (oid_str i)" by simp
  then show False by (simp add: oid_str_def not_hex_char_in_hex_str hex_chars_def)
qed

lemma cache_key_split:
  "cache_key url p = ''cache:'' @ url @ CHR '':'' #
     (case p of None \<Rightarrow> ''guest'' | Some (uid, u) \<Rightarrow> oid_str uid)"
  by (simp add: cache_key_def)

lemma colon_notin_viewer:
  "CHR '':'' \<notin> set (case p of None \<Rightarrow> ''guest'' | Some (uid, u) \<Rightarrow> oid_str uid)"
  by (auto simp: colon_notin_oid_str split: option.split)

lemma viewer_eq_oid:
  "(case p of None \<Rightarrow> ''guest'' | Some (uid, u) \<Rightarrow> oid_str uid) = oid_str i \<longleftrightarrow> map_option fst p = Some i"
  by (auto simp: oid_str_inj guest_not_oid_str [symmetric] split: option.split)

lemma viewer_eq:
  "(case p of None \<Rightarrow> ''guest'' | Some (uid, u) \<Rightarrow> oid_str uid) =
   (case p' of None \<Rightarrow> ''guest'' | Some (uid, u) \<Rightarrow> oid_str uid) \<longleftrightarrow> map_option fst p = map_option fst p'"
  by (auto simp: oid_str_inj guest_not_oid_str guest_not_oid_str [symmetric] split: option.split)

lemma user_pattern_matches:
  "glob_match (''cache:*:'' @ oid_str uid) (cache_key url p) \<longleftrightarrow> map_option fst p = Some uid"
proof -
  have lit: "glob_literal ''cache:''" "glob_literal (CHR '':'' # oid_str uid)"
    using colon_notin_oid_str [of uid]
    by (auto simp: glob_literal_def oid_str_def dest!: set_hex_str [THEN subsetD] simp: hex_chars_def)
  have "glob_match (''cache:*:'' @ oid_str uid) (cache_key url p) \<longleftrightarrow>
      (\<exists>k. url @ CHR '':'' # (case p of None \<Rightarrow> ''guest'' | Some (uid, u) \<Rightarrow> oid_str uid) =
           k @ CHR '':'' # oid_str uid)"
    using glob_match_literal_prefix [OF lit(1), of "CHR ''*'' # CHR '':'' # oid_str uid"]
    by (simp add: cache_key_split glob_match_star glob_match_literal [OF lit(2)])
  also have "\<dots> \<longleftrightarrow> map_option fst p = Some uid"
    using suffix_after_last_sep colon_notin_viewer [of p] colon_notin_oid_str [of uid] viewer_eq_oid
    by metis
  finally show ?thesis .
qed

lemma clearCache_Some: "\<exists>kv'. clearCache now pat (Some kv) = Some kv'"
  by (simp add: clearCache_def Let_def)

lemma map_of_redis_del:
  "map_of (redis_del ks kv) k = (if k \<in> set ks then None else map_of kv k)"
  by (induction kv) (auto simp: redis_del_def)

lemma redis_keys_set:
  "k \<in> set (redis_keys now pat kv) \<longleftrightarrow> (\<exists>v e. (k, v, e) \<in> set kv \<and> now < e \<and> glob_match pat k)"
  by (auto simp: redis_keys_def)

lemma redis_get_del:
  "redis_get t k (redis_del ks kv) = (if k \<in> set ks then None else redis_get t k kv)"
  by (simp add: redis_get_def map_of_redis_del)

text \<open>Deleting the live keys that match a pattern empties, from then on, exactly the
  keys that match it.\<close>

lemma clearCache_get:
  assumes "now \<le> t"
  shows "clearCache now pat (Some kv) =
     Some kv' \<Longrightarrow> redis_get t k kv' = (if glob_match pat k then None else redis_get t k kv)"
proof -
  assume c: "clearCache now pat (Some kv) = Some kv'"
  have dead: "redis_get t k kv = None" if "glob_match pat k" "k \<notin> set (redis_keys now pat kv)"
  proof (cases "map_of kv k")
    case (Some ve)
    then obtain v e where ve: "map_of kv k = Some (v, e)" by (cases ve) auto
    then have "(k, v, e) \<in> set kv" by (rule map_of_SomeD)
    with that have "\<not> now < e" by (auto simp: redis_keys_set)
    with ve assms show ?thesis by (simp add: redis_get_def)
  qed (simp add: redis_get_def)
  show ?thesis
  proof (cases "redis_keys now pat kv = []")
    case True
    then show ?thesis using c dead by (auto simp: clearCache_def)
  next
    case False
    then have "kv' = redis_del (redis_keys now pat kv) kv" using c by (simp add: clearCache_def)
    then show ?thesis using dead by (auto simp: redis_get_del redis_keys_set)
  qed
qed

subsection \<open>Properties of the cache\<close>

text \<open>C13: cache keys separate principals. Two requests share a cache entry exactly
  when they have the same \<open>originalUrl\<close> and the same principal (or are both
  unauthenticated), whatever the URL contains: one principal's cached response is never
  served to another.\<close>

theorem cache_key_isolation:
  "cache_key url p = cache_key url' p' \<longleftrightarrow> url = url' \<and> map_option fst p = map_option fst p'"
proof
  assume eq: "cache_key url p = cache_key url' p'"
  then have e: "url @ CHR '':'' # (case p of None \<Rightarrow> ''guest'' | Some (uid, u) \<Rightarrow> oid_str uid) =
      url' @ CHR '':'' # (case p' of None \<Rightarrow> ''guest'' | Some (uid, u) \<Rightarrow> oid_str uid)"
    by (simp add: cache_key_split)
  have v: "(case p of None \<Rightarrow> ''guest'' | Some (uid, u) \<Rightarrow> oid_str uid) =
      (case p' of None \<Rightarrow> ''guest'' | Some (uid, u) \<Rightarrow> oid_str uid)"
    by (rule suffix_after_last_sep [OF e colon_notin_viewer colon_notin_viewer])
  with e show "url = url' \<and> map_option fst p = map_option fst p'"
    by (simp add: viewer_eq)
next
  assume "url = url' \<and> map_option fst p = map_option fst p'"
  then show "cache_key url p = cache_key url' p'"
    by (auto simp: cache_key_def split: option.splits)
qed

text \<open>\<open>clearUserCache(id)\<close>, the pattern \<open>cache:*:<id>\<close>, removes exactly the
  entries cached for that principal: from then on every cached URL of that principal
  misses, and every entry of another principal or of a guest is as it was.\<close>

theorem clearUserCache_exact:
  assumes "now \<le> t" "clearUserCache now uid (Some kv) = Some kv'"
  shows "redis_get t (cache_key url p) kv' =
           (if map_option fst p = Some uid then None else redis_get t (cache_key url p) kv)"
  using clearCache_get [OF assms(1) assms(2) [unfolded clearUserCache_def], of "cache_key url p"]
  unfolding user_pattern_matches .

theorem clearUserCache_exact_witness:
  "\<exists>kv'. clearUserCache 1000 1
      (Some [(cache_key ''/api/tasks'' (Some (1, ex_user ''Alice'' ''a@x.com'' UserRole)),
              (successResponse 200 ''ok'' (None :: unit option), 9000))]) = Some kv' \<and>
    redis_get 2000 (cache_key ''/api/tasks'' (Some (1, ex_user ''Alice'' ''a@x.com'' UserRole))) kv' = None"
proof -
  obtain kv' where c: "clearUserCache 1000 1
      (Some [(cache_key ''/api/tasks'' (Some (1, ex_user ''Alice'' ''a@x.com'' UserRole)),
              (successResponse 200 ''ok'' (None :: unit option), 9000))]) = Some kv'"
    using clearCache_Some unfolding clearUserCache_def by blast
  have r: "redis_get 2000 (cache_key ''/api/tasks'' (Some (1, ex_user ''Alice'' ''a@x.com'' UserRole))) kv' = None"
    using clearUserCache_exact [OF _ c, of 2000 "''/api/tasks''" "Some (1, ex_user ''Alice'' ''a@x.com'' UserRole)"]
    by simp
  show ?thesis by (rule exI [of _ kv'], rule conjI [OF c r])
qed

text \<open>\<open>SETEX\<close> then \<open>GET\<close>: an entry stored for \<open>expiry\<close> seconds is served
  exactly until \<open>expiry\<close> seconds have passed, and storing under one key leaves every
  other key as it was.\<close>

theorem setEx_get_roundtrip:
  "redis_get t k' (redis_setEx now k secs v kv) =
     (if k' = k then (if t < now + secs * 1000 then Some v else None) else redis_get t k' kv)"
  by (simp add: redis_get_def redis_setEx_def update_conv')

text \<open>With Redis disabled or disconnected, the cache middleware is transparent:
  the handler runs and its response and state are returned unchanged.\<close>

theorem cache_disabled_transparent:
  "cache expiry method url p now h s None = (fst (h s), snd (h s), None)"
  by (simp add: cache_def cache_lookup_def cache_fill_def split: prod.split cache_probe.split)

end
