(* ===== verification/AuthController.thy ===== *)
theory AuthController
  imports AuthMiddleware
begin

text \<open>
  \<open>src/backend/src/controllers/authController.js\<close>: registration, login, the refresh
  rotation protocol, logout, the profile and password updates. Each handler takes the
  request's inputs (the acting principal's id where the route is protected, the body
  fields, \<open>Date.now()\<close> and the bcrypt salt) and the store, and returns the response
  and the new store. Every \<open>return errorResponse(...)\<close> of the source is a branch;
  an exception passed to \<open>next(error)\<close> becomes \<open>errorHandler\<close>'s response; a
  \<open>findById\<close> that returns \<open>null\<close> where the code dereferences it is the
  \<open>TypeError\<close> the code throws (a 500). Writes are Mongoose \<open>save\<close>s, which the
  unique e-mail index or a validator may refuse; a refused write leaves the store as
  it was, while earlier writes of the same handler stay (MongoDB has no transaction
  here).
\<close>

record user_json =
  j_id :: oid
  j_name :: string
  j_email :: string
  j_role :: role
  j_isActive :: bool
  j_lastLogin :: "millis option"
  j_createdAt :: millis

datatype auth_payload =
    AuthData oid string string role string string
  | TokenData string string
  | ProfileData "user_json option"

text \<open>\<open>userSchema.methods.toJSON\<close>: the stored document without \<open>password\<close> and
  \<open>refreshToken\<close>.\<close>

definition toJSON_user :: "oid \<Rightarrow> user \<Rightarrow> user_json" where
  "toJSON_user i u =
     \<lparr>j_id = i, j_name = name u, j_email = email u, j_role = role u, j_isActive = isActive u,
      j_lastLogin = lastLogin u, j_createdAt = createdAt u\<rparr>"

text \<open>\<open>User.create({name, email, password, role: role || "user"})\<close> with the schema's
  setters and defaults.\<close>

definition new_user :: "string \<Rightarrow> string \<Rightarrow> string \<Rightarrow> role \<Rightarrow> user" where
  "new_user nm em pw r =
     \<lparr>name = js_trim nm, email = email_setter em, password = Plain pw, role = r,
      isActive = True, lastLogin = None, refreshToken = None, createdAt = 0\<rparr>"

text \<open>The \<open>TypeError\<close> Node throws on a property access through \<open>null\<close> (a document
  \<open>findById\<close> did not find): reading, or assigning, the property named.\<close>

definition null_read :: "string \<Rightarrow> app_error" where
  "null_read prop = ServerError None (''Cannot read properties of null (reading '' @ [CHR 0x27] @ prop @ [CHR 0x27, CHR '')''])"

definition null_set :: "string \<Rightarrow> app_error" where
  "null_set prop = ServerError None (''Cannot set properties of null (setting '' @ [CHR 0x27] @ prop @ [CHR 0x27, CHR '')''])"

definition register ::
  "config \<Rightarrow> millis \<Rightarrow> nat \<Rightarrow> string \<Rightarrow> string \<Rightarrow> string \<Rightarrow> role option \<Rightarrow> db \<Rightarrow>
     auth_payload response \<times> db" where
  "register cfg now salt nm em pw r d =
     (case findOne_email d em of
        Some _ \<Rightarrow> (errorResponse 400 ''User already exists with this email'' None, d)
      | None \<Rightarrow>
          (case create_user now salt (new_user nm em pw (case r of None \<Rightarrow> UserRole | Some x \<Rightarrow> x)) d of
             Inl e \<Rightarrow> (errorHandler e, d)
           | Inr (uid, u, d1) \<Rightarrow>
               (let tp = generateTokens cfg now uid;
                    u2 = u\<lparr>refreshToken := Some (pairRefresh tp)\<rparr>
                in case save_user salt False uid u2 d1 of
                     Inl e \<Rightarrow> (errorHandler e, d1)
                   | Inr d2 \<Rightarrow>
                       (successResponse 201 ''User registered successfully''
                          (Some (AuthData uid (name u2) (email u2) (role u2)
                                   (pairAccess tp) (pairRefresh tp))), d2))))"

definition login ::
  "config \<Rightarrow> millis \<Rightarrow> string \<Rightarrow> string \<Rightarrow> db \<Rightarrow> auth_payload response \<times> db" where
  "login cfg now em pw d =
     (case findOne_email d em of
        None \<Rightarrow> (errorResponse 401 ''Invalid email or password'' None, d)
      | Some (uid, u) \<Rightarrow>
          if \<not> isActive u
          then (errorResponse 401 ''Account is deactivated. Please contact support.'' None, d)
          else if \<not> matchPassword u pw
          then (errorResponse 401 ''Invalid email or password'' None, d)
          else
            (let tp = generateTokens cfg now uid;
                 u2 = u\<lparr>lastLogin := Some now, refreshToken := Some (pairRefresh tp)\<rparr>
             in case save_user 0 False uid u2 d of
                  Inl e \<Rightarrow> (errorHandler e, d)
                | Inr d2 \<Rightarrow>
                    (successResponse 200 ''Login successful''
                       (Some (AuthData uid (name u) (email u) (role u) (pairAccess tp) (pairRefresh tp))),
                     d2)))"

definition getMe :: "oid \<Rightarrow> db \<Rightarrow> auth_payload response" where
  "getMe uid d =
     successResponse 200 ''User profile retrieved''
       (Some (ProfileData (map_option (toJSON_user uid) (map_of (users d) uid))))"

text \<open>The controller \<open>refreshToken\<close>; every exception in it, a failed verification
  included, is answered 401 by its own \<open>catch\<close>.\<close>

definition refreshTokenCtrl ::
  "config \<Rightarrow> millis \<Rightarrow> string option \<Rightarrow> db \<Rightarrow> auth_payload response \<times> db" where
  "refreshTokenCtrl cfg now rt d =
     (case rt of
        None \<Rightarrow> (errorResponse 400 ''Refresh token is required'' None, d)
      | Some tok \<Rightarrow>
          if tok = [] then (errorResponse 400 ''Refresh token is required'' None, d)
          else (case verifyToken cfg now tok True of
                  Inl err \<Rightarrow> (errorResponse 401 ''Invalid or expired refresh token'' None, d)
                | Inr uid \<Rightarrow>
                    (case map_of (users d) uid of
                       None \<Rightarrow> (errorResponse 401 ''Invalid refresh token'' None, d)
                     | Some u \<Rightarrow>
                         if refreshToken u \<noteq> Some tok
                         then (errorResponse 401 ''Invalid refresh token'' None, d)
                         else
                           (let tp = generateTokens cfg now uid;
                                u2 = u\<lparr>refreshToken := Some (pairRefresh tp)\<rparr>
                            in case save_user 0 False uid u2 d of
                                 Inl e \<Rightarrow> (errorResponse 401 ''Invalid or expired refresh token'' None, d)
                               | Inr d2 \<Rightarrow>
                                   (successResponse 200 ''Token refreshed successfully''
                                      (Some (TokenData (pairAccess tp) (pairRefresh tp))), d2)))))"

definition logout :: "oid \<Rightarrow> db \<Rightarrow> auth_payload response \<times> db" where
  "logout uid d =
     (case map_of (users d) uid of
        None \<Rightarrow> (errorHandler (null_set ''refreshToken''), d)
      | Some u \<Rightarrow>
          (case save_user 0 False uid (u\<lparr>refreshToken := None\<rparr>) d of
             Inl e \<Rightarrow> (errorHandler e, d)
           | Inr d2 \<Rightarrow> (successResponse 200 ''Logout successful'' None, d2)))"

text \<open>\<open>if (name) user.name = name; if (email && email !== user.email) ...\<close>: absent
  and empty fields (both falsy) leave the document as it is.\<close>

definition updateProfile ::
  "oid \<Rightarrow> string option \<Rightarrow> string option \<Rightarrow> db \<Rightarrow> auth_payload response \<times> db" where
  "updateProfile uid nm em d =
     (case map_of (users d) uid of
        None \<Rightarrow>
          (errorHandler (if (case nm of Some n \<Rightarrow> n \<noteq> [] | None \<Rightarrow> False) then null_set ''name''
                         else if (case em of Some e \<Rightarrow> e \<noteq> [] | None \<Rightarrow> False) then null_read ''email''
                         else null_read ''save''), d)
      | Some u \<Rightarrow>
          (let u1 = (case nm of Some n \<Rightarrow> if n = [] then u else u\<lparr>name := js_trim n\<rparr> | None \<Rightarrow> u)
           in case (case em of
                      Some e \<Rightarrow>
                        if e = [] \<or> e = email u1 then Inr u1
                        else (case findOne_email d e of
                                Some _ \<Rightarrow> Inl (errorResponse 400 ''Email already in use'' None)
                              | None \<Rightarrow> Inr (u1\<lparr>email := email_setter e\<rparr>))
                    | None \<Rightarrow> Inr u1) of
                Inl r \<Rightarrow> (r, d)
              | Inr u2 \<Rightarrow>
                  (case save_user 0 False uid u2 d of
                     Inl e \<Rightarrow> (errorHandler e, d)
                   | Inr d2 \<Rightarrow> (successResponse 200 ''Profile updated successfully''
                                 (Some (ProfileData (Some (toJSON_user uid u2)))), d2))))"

definition changePassword ::
  "nat \<Rightarrow> oid \<Rightarrow> string \<Rightarrow> string \<Rightarrow> db \<Rightarrow> auth_payload response \<times> db" where
  "changePassword salt uid currentPassword newPassword d =
     (case map_of (users d) uid of
        None \<Rightarrow> (errorHandler (null_read ''matchPassword''), d)
      | Some u \<Rightarrow>
          if \<not> matchPassword u currentPassword
          then (errorResponse 401 ''Current password is incorrect'' None, d)
          else (case save_user salt True uid (u\<lparr>password := Plain newPassword\<rparr>) d of
                  Inl e \<Rightarrow> (errorHandler e, d)
                | Inr d2 \<Rightarrow> (successResponse 200 ''Password changed successfully'' None, d2)))"

text \<open>The witness store in which Alice (user 1) holds the refresh token issued to her at
  time 1000.\<close>

definition ex_session_db :: db where
  "ex_session_db = ex_db\<lparr>users := AList.update 1
     ((ex_user ''Alice'' ''a@x.com'' UserRole)\<lparr>refreshToken := Some (pairRefresh (generateTokens ex_cfg 1000 1))\<rparr>)
     (users ex_db)\<rparr>"

text \<open>The witness store in which Bob (user 2) is deactivated but still holds a refresh
  token issued to him at time 1000.\<close>

definition ex_inactive_db :: db where
  "ex_inactive_db = ex_db\<lparr>users := AList.update 2
     ((ex_user ''Bob'' ''b@x.com'' UserRole)\<lparr>isActive := False,
        refreshToken := Some (pairRefresh (generateTokens ex_cfg 1000 2))\<rparr>)
     (users ex_db)\<rparr>"

subsection \<open>Lemmas on the handlers\<close>

lemmas ex_eval_simps = ex_db_def ex_user_def ex_cfg_def ex_task_def ex_session_db_def ex_inactive_db_def
  save_user_def validateUser_def email_matches_def word_runs_def word_char_def sep_char_def
  code_between_def user_pre_save_def bcrypt_hash_def task_completion_ok_def
  token_simps jwt_sign_verify refresh_life_def access_life_def Let_def

lemma verify_generated_refresh:
  "verifyToken cfg now (pairRefresh (generateTokens cfg t uid)) True = Inr uid' \<Longrightarrow> uid' = uid"
  by (simp add: token_simps jwt_sign_verify split: if_splits)

lemma refresh_ok:
  "refreshTokenCtrl cfg now (Some tok) d = (r, d') \<Longrightarrow> statusCode r = 200 \<Longrightarrow>
     \<exists>uid u. verifyToken cfg now tok True = Inr uid \<and> map_of (users d) uid = Some u \<and>
       refreshToken u = Some tok \<and>
       save_user 0 False uid (u\<lparr>refreshToken := Some (pairRefresh (generateTokens cfg now uid))\<rparr>) d
         = Inr d' \<and>
       r = successResponse 200 ''Token refreshed successfully''
             (Some (TokenData (pairAccess (generateTokens cfg now uid))
                              (pairRefresh (generateTokens cfg now uid))))"
  by (auto simp: refreshTokenCtrl_def Let_def split: if_splits sum.splits option.splits)

lemma refresh_stale_401:
  assumes "map_of (users d) uid = Some u" "refreshToken u \<noteq> Some tok" "tok \<noteq> []"
    and "\<forall>x. verifyToken cfg now tok True = Inr x \<longrightarrow> x = uid"
  shows "statusCode (fst (refreshTokenCtrl cfg now (Some tok) d)) = 401"
  using assms by (auto simp: refreshTokenCtrl_def split: sum.splits)

lemma save_user_again:
  assumes "save_user s False i u d = Inr d'"
  shows "save_user s False i u d' = Inr (d'\<lparr>users := AList.update i u (users d')\<rparr>)"
proof -
  from save_user_Inr [OF assms] have v: "validateUser u = []"
    and nd: "\<not> list_ex (\<lambda>(j, v). j \<noteq> i \<and> email v = email u) (users d)"
    and d': "d' = d\<lparr>users := AList.update i u (users d)\<rparr>"
    by (auto simp: user_pre_save_def)
  have "\<not> list_ex (\<lambda>(j, v). j \<noteq> i \<and> email v = email u) (users d')"
    using nd d' set_update_subset [of i u "users d"] by (fastforce simp: list_ex_iff)
  with v show ?thesis by (simp add: save_user_def user_pre_save_def)
qed

lemma logout_ok:
  "logout uid d = (r, d') \<Longrightarrow> statusCode r = 200 \<Longrightarrow>
     \<exists>u. map_of (users d) uid = Some u \<and> save_user 0 False uid (u\<lparr>refreshToken := None\<rparr>) d = Inr d'"
  by (auto simp: logout_def null_read_def null_set_def dest: store_error_400 split: option.splits sum.splits)

lemma register_ok:
  "register cfg now salt nm em pw r d = (res, d') \<Longrightarrow> statusCode res = 201 \<Longrightarrow>
     \<exists>uid u d1. findOne_email d em = None \<and>
       create_user now salt (new_user nm em pw (case r of None \<Rightarrow> UserRole | Some x \<Rightarrow> x)) d
         = Inr (uid, u, d1) \<and>
       save_user salt False uid (u\<lparr>refreshToken := Some (pairRefresh (generateTokens cfg now uid))\<rparr>) d1
         = Inr d' \<and>
       res = successResponse 201 ''User registered successfully''
               (Some (AuthData uid (name u) (email u) (role u)
                        (pairAccess (generateTokens cfg now uid)) (pairRefresh (generateTokens cfg now uid))))"
  by (auto simp: register_def Let_def split: option.splits sum.splits) (auto dest!: store_error_400)

lemma find_email_unique:
  assumes "distinct (map fst us)" "emails_unique us" "(i, u) \<in> set us"
  shows "find (\<lambda>(j, v). email v = email u) us = Some (i, u)"
proof -
  obtain p where p: "find (\<lambda>(j, v). email v = email u) us = Some p"
    using assms(3) by (metis (mono_tags, lifting) case_prod_conv find_None_iff not_Some_eq)
  then have "p \<in> set us" "email (snd p) = email u"
    by (auto dest: find_Some_mem)
  with assms have "fst p = i" by (cases p) (auto simp: emails_unique_def)
  with assms(1,3) \<open>p \<in> set us\<close> have "p = (i, u)"
    by (cases p) (auto dest: map_of_is_SomeI [OF assms(1)])
  with p show ?thesis by simp
qed

lemma login_stored:
  assumes "db_inv d" "map_of (users d) uid = Some u" "email u = email_setter em" "isActive u"
    and "matchPassword u pw"
  shows "login cfg now em pw d =
           (successResponse 200 ''Login successful''
              (Some (AuthData uid (name u) (email u) (role u) (pairAccess (generateTokens cfg now uid))
                        (pairRefresh (generateTokens cfg now uid)))),
            d\<lparr>users := AList.update uid
              (u\<lparr>lastLogin := Some now, refreshToken := Some (pairRefresh (generateTokens cfg now uid))\<rparr>)
              (users d)\<rparr>)"
proof -
  from assms(1) have "distinct (map fst (users d))" "emails_unique (users d)"
    by (simp_all add: db_inv_def)
  then have "findOne_email d em = Some (uid, u)"
    using find_email_unique [of "users d" uid u] map_of_SomeD [OF assms(2)] assms(3)
    by (simp add: findOne_email_def)
  moreover have "save_user 0 False uid
      (u\<lparr>lastLogin := Some now, refreshToken := Some (pairRefresh (generateTokens cfg now uid))\<rparr>) d =
      Inr (d\<lparr>users := AList.update uid
        (u\<lparr>lastLogin := Some now, refreshToken := Some (pairRefresh (generateTokens cfg now uid))\<rparr>)
        (users d)\<rparr>)"
    by (rule save_user_stored [OF assms(1,2)]) simp_all
  ultimately show ?thesis using assms(4,5) by (simp add: login_def Let_def)
qed

lemma login_ok:
  assumes "db_inv d" "map_of (users d) uid = Some u" "email u = email_setter em" "isActive u"
    and "matchPassword u pw"
  shows "\<exists>d''. login cfg now em pw d =
           (successResponse 200 ''Login successful''
              (Some (AuthData uid (name u) (email u) (role u) (pairAccess (generateTokens cfg now uid))
                        (pairRefresh (generateTokens cfg now uid)))), d'')"
  using login_stored [OF assms] by blast

lemma stored_after_save:
  "save_user s False i u' d = Inr d' \<Longrightarrow> map_of (users d') i = Some u'"
  by (simp add: map_of_save_user user_pre_save_def)

lemma refresh_session_ok:
  "refreshTokenCtrl ex_cfg now (Some (pairRefresh (generateTokens ex_cfg 1000 1))) ex_session_db =
     (r, d') \<Longrightarrow> now div 1000 < 2592001 \<Longrightarrow> statusCode r = 200"
  by (auto simp: refreshTokenCtrl_def ex_eval_simps)

lemma success_status: "\<exists>d'. x = (successResponse c m p, d') \<Longrightarrow> statusCode (fst x) = c"
  by auto

lemma findOne_email_stored:
  assumes "db_inv d" "findOne_email d e = Some (i, u)"
  shows "map_of (users d) i = Some u \<and> email u = email_setter e"
proof -
  from assms(2) have "(i, u) \<in> set (users d)" "email u = email_setter e"
    by (auto simp: findOne_email_def dest!: find_Some_mem)
  moreover have "distinct (map fst (users d))" using assms(1) by (simp add: db_inv_def)
  ultimately show ?thesis by simp
qed

lemma refresh_stored:
  assumes "db_inv d" "map_of (users d) uid = Some u" "refreshToken u = Some tok"
    and "verifyToken cfg now tok True = Inr uid"
  shows "refreshTokenCtrl cfg now (Some tok) d =
     (successResponse 200 ''Token refreshed successfully''
        (Some (TokenData (pairAccess (generateTokens cfg now uid)) (pairRefresh (generateTokens cfg now uid)))),
      d\<lparr>users := AList.update uid
        (u\<lparr>refreshToken := Some (pairRefresh (generateTokens cfg now uid))\<rparr>) (users d)\<rparr>)"
proof -
  have "save_user 0 False uid (u\<lparr>refreshToken := Some (pairRefresh (generateTokens cfg now uid))\<rparr>) d
      = Inr (d\<lparr>users := AList.update uid
               (u\<lparr>refreshToken := Some (pairRefresh (generateTokens cfg now uid))\<rparr>) (users d)\<rparr>)"
    by (rule save_user_stored [OF assms(1,2)]) simp_all
  then show ?thesis
    using assms(2-4) verifyToken_nonempty [OF assms(4)] by (simp add: refreshTokenCtrl_def Let_def)
qed

lemma changePassword_ok:
  "changePassword salt uid cur new d = (r, d') \<Longrightarrow> statusCode r = 200 \<Longrightarrow>
     \<exists>u. map_of (users d) uid = Some u \<and> matchPassword u cur \<and>
       save_user salt True uid (u\<lparr>password := Plain new\<rparr>) d = Inr d'"
  by (auto simp: changePassword_def null_read_def null_set_def dest: store_error_400
      split: option.splits sum.splits if_splits)

lemma ex_db_inv: "db_inv ex_db"
  and ex_session_db_inv: "db_inv ex_session_db"
  and ex_inactive_db_inv: "db_inv ex_inactive_db"
  by (simp_all add: db_inv_def emails_unique_def users_hashed_def tasks_sound_def ids_below_def
      ex_eval_simps)

lemmas ex_store_simps = findOne_email_def email_setter_def js_lower_def js_trim_def js_space_def
  create_user_def fresh_oid_def new_user_def matchPassword_def

subsubsection \<open>Every handler keeps the store invariant\<close>

lemma register_inv:
  assumes "db_inv d" "register cfg now salt nm em pw r d = (res, d')"
  shows "db_inv d'"
proof (cases "create_user now salt (new_user nm em pw (case r of None \<Rightarrow> UserRole | Some x \<Rightarrow> x)) d")
  case (Inl e)
  then show ?thesis using assms by (auto simp: register_def split: option.splits)
next
  case (Inr x)
  obtain uid u d1 where x: "x = (uid, u, d1)" by (cases x) auto
  note c = Inr [unfolded x]
  have i1: "db_inv d1" by (rule create_user_inv [OF assms(1) c])
  have "map_of (users d1) uid = Some u"
    using c [unfolded create_user_Inr] by (auto simp: map_of_save_user)
  then have "\<forall>t d2. save_user salt False uid (u\<lparr>refreshToken := t\<rparr>) d1 = Inr d2 \<longrightarrow> db_inv d2"
    using resave_inv [OF i1] by auto
  then show ?thesis
    using assms c i1 by (auto simp: register_def Let_def split: option.splits sum.splits)
qed

lemma login_inv:
  assumes "db_inv d" "login cfg now em pw d = (res, d')"
  shows "db_inv d'"
proof (cases "findOne_email d em")
  case None
  then show ?thesis using assms by (simp add: login_def)
next
  case (Some p)
  obtain uid u where p: "p = (uid, u)" by (cases p)
  have lk: "map_of (users d) uid = Some u"
    using findOne_email_stored [OF assms(1) Some [unfolded p]] by simp
  show ?thesis
    using assms Some p resave_inv [OF assms(1) lk]
    by (auto simp: login_def Let_def split: if_splits sum.splits)
qed

lemma refresh_inv:
  assumes "db_inv d" "refreshTokenCtrl cfg now rt d = (res, d')"
  shows "db_inv d'"
  using assms resave_inv [OF assms(1)]
  by (auto simp: refreshTokenCtrl_def Let_def split: option.splits if_splits sum.splits)

lemma logout_inv:
  assumes "db_inv d" "logout uid d = (res, d')"
  shows "db_inv d'"
  using assms resave_inv [OF assms(1)]
  by (auto simp: logout_def split: option.splits sum.splits)

lemma updateProfile_inv:
  assumes "db_inv d" "updateProfile uid nm em d = (res, d')"
  shows "db_inv d'"
  using assms resave_inv [OF assms(1)]
  by (auto simp: updateProfile_def Let_def split: option.splits if_splits sum.splits)

lemma changePassword_inv:
  assumes "db_inv d" "changePassword salt uid cur new d = (res, d')"
  shows "db_inv d'"
proof (cases "statusCode res = 200")
  case True
  then obtain u where lk: "map_of (users d) uid = Some u"
    and sv: "save_user salt True uid (u\<lparr>password := Plain new\<rparr>) d = Inr d'"
    using changePassword_ok [OF assms(2)] by blast
  have "uid \<in> fst ` set (users d)" using map_of_SomeD [OF lk] by force
  then show ?thesis using save_user_inv [OF assms(1) sv] by simp
next
  case False
  then show ?thesis
    using assms by (auto simp: changePassword_def split: option.splits if_splits sum.splits)
qed

subsection \<open>The refresh rotation protocol\<close>

text \<open>C8: refresh rotation. After a successful refresh at time \<open>now\<close> with a refresh
  token issued in an earlier second, re-submitting that (now superseded) token fails
  with 401, at any later time.\<close>

theorem refresh_rotation:
  assumes "refreshTokenCtrl cfg now (Some tok) d = (r, d')" "statusCode r = 200"
    and "tok = pairRefresh (generateTokens cfg t0 uid0)" "t0 div 1000 \<noteq> now div 1000"
  shows "statusCode (fst (refreshTokenCtrl cfg now' (Some tok) d')) = 401"
proof -
  obtain uid u where v: "verifyToken cfg now tok True = Inr uid"
    and sv: "save_user 0 False uid (u\<lparr>refreshToken := Some (pairRefresh (generateTokens cfg now uid))\<rparr>) d
               = Inr d'"
    using refresh_ok [OF assms(1,2)] by blast
  have uid: "uid = uid0" using v assms(3) verify_generated_refresh by blast
  have new: "pairRefresh (generateTokens cfg now uid) \<noteq> tok"
    using assms(3,4) uid by (simp add: token_simps jwt_sign_inj)
  show ?thesis
  proof (rule refresh_stale_401)
    show "map_of (users d') uid = Some (u\<lparr>refreshToken := Some (pairRefresh (generateTokens cfg now uid))\<rparr>)"
      by (rule stored_after_save [OF sv])
    show "refreshToken (u\<lparr>refreshToken := Some (pairRefresh (generateTokens cfg now uid))\<rparr>) \<noteq> Some tok"
      using new by simp
    show "tok \<noteq> []" using assms(3) by (simp add: token_simps)
    show "\<forall>x. verifyToken cfg now' tok True = Inr x \<longrightarrow> x = uid"
      using assms(3) uid verify_generated_refresh by blast
  qed
qed

theorem refresh_rotation_witness:
  "statusCode (fst (refreshTokenCtrl ex_cfg 9000 (Some (pairRefresh (generateTokens ex_cfg 1000 1)))
     (snd (refreshTokenCtrl ex_cfg 5000 (Some (pairRefresh (generateTokens ex_cfg 1000 1))) ex_session_db))))
   = 401"
proof -
  obtain r d' where eq: "refreshTokenCtrl ex_cfg 5000 (Some (pairRefresh (generateTokens ex_cfg 1000 1)))
      ex_session_db = (r, d')" by fastforce
  have "statusCode r = 200" using refresh_session_ok [OF eq] by simp
  from refresh_rotation [OF eq this refl, of 9000] show ?thesis by (simp only: eq snd_conv)
qed

text \<open>C28: the rotation fails within one second. JWTs are deterministic and \<open>iat\<close> has
  a resolution of one second, so a refresh performed in the same second as the issue of
  the presented token stores that very token again: re-submitting it succeeds once more,
  with the same response.\<close>

theorem refresh_replay_same_second:
  assumes "refreshTokenCtrl cfg now (Some tok) d = (r, d')" "statusCode r = 200"
    and "tok = pairRefresh (generateTokens cfg t0 uid0)" "t0 div 1000 = now div 1000"
  shows "fst (refreshTokenCtrl cfg now (Some tok) d') = r"
proof -
  obtain uid u where v: "verifyToken cfg now tok True = Inr uid"
    and lk: "map_of (users d) uid = Some u" and st: "refreshToken u = Some tok"
    and sv: "save_user 0 False uid (u\<lparr>refreshToken := Some (pairRefresh (generateTokens cfg now uid))\<rparr>) d
               = Inr d'"
    and r: "r = successResponse 200 ''Token refreshed successfully''
             (Some (TokenData (pairAccess (generateTokens cfg now uid))
                              (pairRefresh (generateTokens cfg now uid))))"
    using refresh_ok [OF assms(1,2)] by blast
  have uid: "uid = uid0" using v assms(3) verify_generated_refresh by blast
  have same: "pairRefresh (generateTokens cfg now uid) = tok"
    using assms(3,4) uid by (simp add: token_simps jwt_sign_inj)
  have u: "u\<lparr>refreshToken := Some tok\<rparr> = u" using st by simp
  have sv': "save_user 0 False uid u d = Inr d'" using sv same u by simp
  have "map_of (users d') uid = Some u" using stored_after_save [OF sv'] .
  moreover have "tok \<noteq> []" using assms(3) by (simp add: token_simps)
  moreover have "save_user 0 False uid (u\<lparr>refreshToken := Some tok\<rparr>) d' =
      Inr (d'\<lparr>users := AList.update uid u (users d')\<rparr>)"
    using save_user_again [OF sv'] u by (simp only:)
  ultimately show ?thesis
    using v st same r by (simp add: refreshTokenCtrl_def Let_def)
qed

theorem refresh_replay_same_second_witness:
  "fst (refreshTokenCtrl ex_cfg 1500 (Some (pairRefresh (generateTokens ex_cfg 1000 1)))
     (snd (refreshTokenCtrl ex_cfg 1500 (Some (pairRefresh (generateTokens ex_cfg 1000 1))) ex_session_db)))
   = fst (refreshTokenCtrl ex_cfg 1500 (Some (pairRefresh (generateTokens ex_cfg 1000 1))) ex_session_db)"
proof -
  obtain r d' where eq: "refreshTokenCtrl ex_cfg 1500 (Some (pairRefresh (generateTokens ex_cfg 1000 1)))
      ex_session_db = (r, d')" by fastforce
  have "statusCode r = 200" using refresh_session_ok [OF eq] by simp
  from refresh_replay_same_second [OF eq this refl] show ?thesis by (simp only: eq snd_conv fst_conv) simp
qed

text \<open>C9: logout revokes the session: after a successful logout of a user, no refresh
  token of that user, however valid its signature and expiry, mints new tokens (401).\<close>

theorem logout_revokes_refresh:
  assumes "logout uid d = (r, d')" "statusCode r = 200" "verifyToken cfg now tok True = Inr uid"
  shows "statusCode (fst (refreshTokenCtrl cfg now (Some tok) d')) = 401"
proof -
  obtain u where sv: "save_user 0 False uid (u\<lparr>refreshToken := None\<rparr>) d = Inr d'"
    using logout_ok [OF assms(1,2)] by blast
  show ?thesis
  proof (rule refresh_stale_401)
    show "map_of (users d') uid = Some (u\<lparr>refreshToken := None\<rparr>)" by (rule stored_after_save [OF sv])
    show "refreshToken (u\<lparr>refreshToken := None\<rparr>) \<noteq> Some tok" by simp
    show "tok \<noteq> []" using assms(3) by (rule verifyToken_nonempty)
    show "\<forall>x. verifyToken cfg now tok True = Inr x \<longrightarrow> x = uid" using assms(3) by simp
  qed
qed

theorem logout_revokes_refresh_witness:
  "statusCode (fst (refreshTokenCtrl ex_cfg 5000 (Some (pairRefresh (generateTokens ex_cfg 1000 1)))
      (snd (logout 1 ex_session_db)))) = 401"
proof -
  obtain r d' where eq: "logout 1 ex_session_db = (r, d')" by fastforce
  have "statusCode r = 200" using eq by (auto simp: logout_def ex_eval_simps)
  moreover have "verifyToken ex_cfg 5000 (pairRefresh (generateTokens ex_cfg 1000 1)) True = Inr 1"
    by (simp add: token_simps jwt_sign_verify refresh_life_def ex_cfg_def)
  ultimately have "statusCode (fst (refreshTokenCtrl ex_cfg 5000
      (Some (pairRefresh (generateTokens ex_cfg 1000 1))) d')) = 401"
    by (rule logout_revokes_refresh [OF eq])
  then show ?thesis by (simp only: eq snd_conv)
qed

subsection \<open>Authentication\<close>

text \<open>THe authentication handlers keep the store invariant: registration, login,
  refresh, logout, profile update and password change, from any store that satisfies it,
  whatever their inputs and whether they succeed or fail.\<close>

theorem auth_handlers_inv:
  assumes "db_inv d"
  shows "db_inv (snd (register cfg now salt nm em pw r d)) \<and> db_inv (snd (login cfg now em pw d)) \<and>
    db_inv (snd (refreshTokenCtrl cfg now rt d)) \<and> db_inv (snd (logout uid d)) \<and>
    db_inv (snd (updateProfile uid nm' em' d)) \<and> db_inv (snd (changePassword salt uid cur new d))"
  by (intro conjI register_inv [OF assms surjective_pairing] login_inv [OF assms surjective_pairing]
      refresh_inv [OF assms surjective_pairing] logout_inv [OF assms surjective_pairing]
      updateProfile_inv [OF assms surjective_pairing] changePassword_inv [OF assms surjective_pairing])

theorem auth_handlers_inv_witness:
  "db_inv (snd (register ex_cfg 1000 7 ''Carol'' ''c@x.com'' ''secret9'' None ex_db)) \<and>
   db_inv (snd (login ex_cfg 1000 ''c@x.com'' ''secret9'' ex_db)) \<and>
   db_inv (snd (refreshTokenCtrl ex_cfg 1000 (Some ''x'') ex_db)) \<and> db_inv (snd (logout 1 ex_db)) \<and>
   db_inv (snd (updateProfile 1 (Some ''Alicia'') None ex_db)) \<and>
   db_inv (snd (changePassword 7 1 ''secret1'' ''secret2'' ex_db))"
  by (rule auth_handlers_inv [OF ex_db_inv])

text \<open>A user who has just registered can log in: from a store satisfying the
  invariant, after a successful registration with an e-mail address and a password,
  logging in with the same address and password succeeds (200), at any time.\<close>

theorem register_then_login:
  assumes "db_inv d" "register cfg now salt nm em pw r d = (res, d')" "statusCode res = 201"
  shows "statusCode (fst (login cfg now' em pw d')) = 200"
proof -
  obtain uid u d1 where
    c: "create_user now salt (new_user nm em pw (case r of None \<Rightarrow> UserRole | Some x \<Rightarrow> x)) d
          = Inr (uid, u, d1)"
    and sv: "save_user salt False uid (u\<lparr>refreshToken := Some (pairRefresh (generateTokens cfg now uid))\<rparr>)
               d1 = Inr d'"
    using register_ok [OF assms(2,3)] by blast
  have u: "u = user_pre_save salt True
      ((new_user nm em pw (case r of None \<Rightarrow> UserRole | Some x \<Rightarrow> x))\<lparr>createdAt := now\<rparr>)"
    using c [unfolded create_user_Inr] by blast
  have inv: "db_inv d'" by (rule register_inv [OF assms(1,2)])
  note lk = stored_after_save [OF sv]
  have "email (u\<lparr>refreshToken := Some (pairRefresh (generateTokens cfg now uid))\<rparr>) = email_setter em"
    "isActive (u\<lparr>refreshToken := Some (pairRefresh (generateTokens cfg now uid))\<rparr>)"
    "matchPassword (u\<lparr>refreshToken := Some (pairRefresh (generateTokens cfg now uid))\<rparr>) pw"
    using u by (simp_all add: new_user_def user_pre_save_def bcrypt_hash_def matchPassword_def)
  then show ?thesis by (rule success_status [OF login_ok [OF inv lk]])
qed

theorem register_then_login_witness:
  "statusCode (fst (login ex_cfg 9000 ''c@x.com'' ''secret9''
     (snd (register ex_cfg 1000 7 ''Carol'' ''c@x.com'' ''secret9'' None ex_db)))) = 200"
proof -
  obtain res d' where eq: "register ex_cfg 1000 7 ''Carol'' ''c@x.com'' ''secret9'' None ex_db = (res, d')"
    by fastforce
  have "statusCode res = 201"
    using eq by (auto simp: register_def ex_store_simps ex_eval_simps)
  then have "statusCode (fst (login ex_cfg 9000 ''c@x.com'' ''secret9'' d')) = 200"
    by (rule register_then_login [OF ex_db_inv eq])
  then show ?thesis by (simp only: eq snd_conv)
qed

text \<open>C10: login authenticates: it answers 200 only when the e-mail address (after the
  schema's trim and lower-case setters) belongs to a stored, active user whose bcrypt
  hash matches the submitted password.\<close>

theorem login_sound:
  "statusCode (fst (login cfg now em pw d)) = 200 \<Longrightarrow>
     \<exists>uid u. findOne_email d em = Some (uid, u) \<and> isActive u \<and> matchPassword u pw"
  by (auto simp: login_def Let_def split: option.splits if_splits sum.splits)

theorem login_sound_witness:
  "\<exists>uid u. findOne_email ex_db '' a@x.com'' = Some (uid, u) \<and> isActive u \<and> matchPassword u ''secret1''"
proof -
  have "statusCode (fst (login ex_cfg 1000 '' a@x.com'' ''secret1'' ex_db)) = 200"
    by (simp add: login_def ex_store_simps ex_eval_simps)
  then show ?thesis by (rule login_sound)
qed

text \<open>C32: Login tells deactivated accounts apart (finding). For an e-mail address of a
  deactivated account, login answers ``Account is deactivated'' whatever the password,
  before checking it; for an unknown address it answers ``Invalid email or password''.
  So anyone, without a password, learns which addresses belong to deactivated accounts.\<close>

theorem login_reveals_deactivated:
  assumes "findOne_email d em = Some (uid, u)" "\<not> isActive u" "findOne_email d em' = None"
  shows "fst (login cfg now em pw d) =
           errorResponse 401 ''Account is deactivated. Please contact support.'' None \<and>
         fst (login cfg now em pw d) \<noteq> fst (login cfg' now' em' pw' d)"
  using assms by (simp add: login_def errorResponse_def)

theorem login_reveals_deactivated_witness:
  "fst (login ex_cfg 1000 ''b@x.com'' ''wrong-guess'' ex_inactive_db) =
     errorResponse 401 ''Account is deactivated. Please contact support.'' None \<and>
   fst (login ex_cfg 1000 ''b@x.com'' ''wrong-guess'' ex_inactive_db) \<noteq>
     fst (login ex_cfg 1000 ''nobody@x.com'' ''wrong-guess'' ex_inactive_db)"
proof (rule login_reveals_deactivated)
  show "findOne_email ex_inactive_db ''b@x.com'' =
      Some (2, (ex_user ''Bob'' ''b@x.com'' UserRole)\<lparr>isActive := False,
        refreshToken := Some (pairRefresh (generateTokens ex_cfg 1000 2))\<rparr>)"
    by (simp add: ex_store_simps ex_eval_simps)
  show "\<not> isActive ((ex_user ''Bob'' ''b@x.com'' UserRole)\<lparr>isActive := False,
        refreshToken := Some (pairRefresh (generateTokens ex_cfg 1000 2))\<rparr>)" by simp
  show "findOne_email ex_inactive_db ''nobody@x.com'' = None"
    by (simp add: ex_store_simps ex_eval_simps)
qed

text \<open>C29: anyone can register as an administrator (finding). \<open>register\<close> takes the
  role from the request body: a successful registration with role \<open>admin\<close> returns
  an access token with which \<open>protect\<close> attaches a stored administrator, who then
  passes \<open>authorize('admin')\<close>, for the token's whole lifetime.\<close>

theorem register_self_admin:
  assumes "register cfg now salt nm em pw (Some AdminRole) d = (res, d')" "statusCode res = 201"
    and "now' div 1000 < now div 1000 + access_life cfg"
  shows "\<exists>uid u. data res = Some (AuthData uid (name u) (email u) AdminRole
                  (pairAccess (generateTokens cfg now uid)) (pairRefresh (generateTokens cfg now uid))) \<and>
     protect cfg now' d' (Some (bearer_header (pairAccess (generateTokens cfg now uid)))) = Inr (uid, u) \<and>
     (authorize [AdminRole] (Some (uid, u)) :: unit response + principal) = Inr (uid, u)"
proof -
  obtain uid u d1 where
    c: "create_user now salt (new_user nm em pw AdminRole) d = Inr (uid, u, d1)"
    and sv: "save_user salt False uid (u\<lparr>refreshToken := Some (pairRefresh (generateTokens cfg now uid))\<rparr>)
               d1 = Inr d'"
    and r: "res = successResponse 201 ''User registered successfully''
               (Some (AuthData uid (name u) (email u) (role u)
                        (pairAccess (generateTokens cfg now uid)) (pairRefresh (generateTokens cfg now uid))))"
    using register_ok [OF assms(1,2)] by auto
  have u: "role u = AdminRole" "isActive u"
    using c [unfolded create_user_Inr] by (simp_all add: new_user_def user_pre_save_def)
  note lk = stored_after_save [OF sv]
  have "protect cfg now' d' (Some (bearer_header (pairAccess (generateTokens cfg now uid)))) =
      Inr (uid, u\<lparr>refreshToken := Some (pairRefresh (generateTokens cfg now uid))\<rparr>)"
    using assms(3) lk u by (simp add: protect_bearer token_simps jwt_sign_verify)
  with r u show ?thesis
    by (intro exI [of _ uid] exI [of _ "u\<lparr>refreshToken := Some (pairRefresh (generateTokens cfg now uid))\<rparr>"])
      (simp add: authorize_Some)
qed

theorem register_self_admin_witness:
  "\<exists>uid u. data (fst (register ex_cfg 1000 7 ''Mallory'' ''m@x.com'' ''secret9'' (Some AdminRole) ex_db))
      = Some (AuthData uid (name u) (email u) AdminRole
                  (pairAccess (generateTokens ex_cfg 1000 uid)) (pairRefresh (generateTokens ex_cfg 1000 uid))) \<and>
     protect ex_cfg 2000 (snd (register ex_cfg 1000 7 ''Mallory'' ''m@x.com'' ''secret9'' (Some AdminRole) ex_db))
       (Some (bearer_header (pairAccess (generateTokens ex_cfg 1000 uid)))) = Inr (uid, u) \<and>
     (authorize [AdminRole] (Some (uid, u)) :: unit response + principal) = Inr (uid, u)"
proof -
  obtain res d' where eq: "register ex_cfg 1000 7 ''Mallory'' ''m@x.com'' ''secret9'' (Some AdminRole) ex_db
      = (res, d')" by fastforce
  have s: "statusCode res = 201"
    using eq by (auto simp: register_def ex_store_simps ex_eval_simps)
  have t: "(2000::nat) div 1000 < 1000 div 1000 + access_life ex_cfg"
    by (simp add: access_life_def ex_cfg_def)
  from register_self_admin [OF eq s t] show ?thesis by (simp only: eq fst_conv snd_conv)
qed

text \<open>C31: changing the password keeps the sessions (finding). After a successful
  password change, a refresh token stored before it still mints new tokens: the handler
  does not clear \<open>refreshToken\<close>, so a stolen refresh token survives the change.\<close>

theorem changePassword_keeps_session:
  assumes "db_inv d" "changePassword salt uid cur new d = (r, d')" "statusCode r = 200"
    and "map_of (users d) uid = Some u" "refreshToken u = Some tok"
    and "verifyToken cfg now tok True = Inr uid"
  shows "statusCode (fst (refreshTokenCtrl cfg now (Some tok) d')) = 200"
proof -
  obtain u0 where lk: "map_of (users d) uid = Some u0"
    and sv: "save_user salt True uid (u0\<lparr>password := Plain new\<rparr>) d = Inr d'"
    using changePassword_ok [OF assms(2,3)] by blast
  have u0: "u0 = u" using lk assms(4) by simp
  have inv: "db_inv d'" by (rule changePassword_inv [OF assms(1,2)])
  have "map_of (users d') uid = Some (user_pre_save salt True (u\<lparr>password := Plain new\<rparr>))"
    using map_of_save_user [OF sv] u0 by simp
  moreover have "refreshToken (user_pre_save salt True (u\<lparr>password := Plain new\<rparr>)) = Some tok"
    using assms(5) by simp
  ultimately show ?thesis using refresh_stored [OF inv _ _ assms(6)] by simp
qed

theorem changePassword_keeps_session_witness:
  "statusCode (fst (refreshTokenCtrl ex_cfg 5000 (Some (pairRefresh (generateTokens ex_cfg 1000 1)))
     (snd (changePassword 5 1 ''secret1'' ''newpass1'' ex_session_db)))) = 200"
proof -
  obtain r d' where eq: "changePassword 5 1 ''secret1'' ''newpass1'' ex_session_db = (r, d')" by fastforce
  have "statusCode r = 200"
    using eq by (auto simp: changePassword_def ex_store_simps ex_eval_simps)
  moreover have "map_of (users ex_session_db) 1 =
      Some ((ex_user ''Alice'' ''a@x.com'' UserRole)\<lparr>refreshToken := Some (pairRefresh (generateTokens ex_cfg 1000 1))\<rparr>)"
    by (simp add: ex_eval_simps)
  moreover have "verifyToken ex_cfg 5000 (pairRefresh (generateTokens ex_cfg 1000 1)) True = Inr 1"
    by (simp add: ex_eval_simps)
  ultimately have "statusCode (fst (refreshTokenCtrl ex_cfg 5000 (Some (pairRefresh (generateTokens ex_cfg 1000 1))) d')) = 200"
    using changePassword_keeps_session [OF ex_session_db_inv eq] by simp
  then show ?thesis by (simp only: eq snd_conv)
qed

text \<open>C30: the refresh endpoint ignores deactivation (finding). A deactivated user's
  stored refresh token still refreshes (200) and rotates the session, though \<open>protect\<close>
  refuses the access token it returns with 401 ``User account is deactivated''.\<close>

theorem refresh_deactivated_user:
  assumes "db_inv d" "map_of (users d) uid = Some u" "\<not> isActive u" "refreshToken u = Some tok"
    and "verifyToken cfg now tok True = Inr uid" "0 < access_life cfg"
  shows "statusCode (fst (refreshTokenCtrl cfg now (Some tok) d)) = 200 \<and>
    protect cfg now (snd (refreshTokenCtrl cfg now (Some tok) d))
      (Some (bearer_header (pairAccess (generateTokens cfg now uid)))) =
    (Inl (errorResponse 401 ''User account is deactivated'' None) :: unit response + principal)"
  using refresh_stored [OF assms(1,2,4,5)] assms(3,6)
  by (simp add: protect_bearer token_simps jwt_sign_verify update_conv')

theorem refresh_deactivated_user_witness:
  "statusCode (fst (refreshTokenCtrl ex_cfg 5000 (Some (pairRefresh (generateTokens ex_cfg 1000 2)))
      ex_inactive_db)) = 200 \<and>
   protect ex_cfg 5000 (snd (refreshTokenCtrl ex_cfg 5000 (Some (pairRefresh (generateTokens ex_cfg 1000 2)))
      ex_inactive_db)) (Some (bearer_header (pairAccess (generateTokens ex_cfg 5000 2)))) =
   (Inl (errorResponse 401 ''User account is deactivated'' None) :: unit response + principal)"
proof (rule refresh_deactivated_user [OF ex_inactive_db_inv])
  show "map_of (users ex_inactive_db) 2 = Some ((ex_user ''Bob'' ''b@x.com'' UserRole)\<lparr>isActive := False,
        refreshToken := Some (pairRefresh (generateTokens ex_cfg 1000 2))\<rparr>)"
    by (simp add: ex_eval_simps)
qed (simp_all add: ex_eval_simps)

end
