(* ===== verification/Bson.thy ===== *)
theory Bson
  imports Prelude "HOL-Library.Char_ord" "HOL-Library.List_Lexorder" "HOL-Library.Product_Lexorder"
begin

text \<open>MongoDB compares the values of a sort key by BSON type first (null before
  strings before ObjectIds before booleans before dates), then within the type: strings
  by their bytes, ObjectIds by their bytes (here: numerically), booleans false first,
  dates by time. \<open>sort_val\<close> is that order, a \<open>linorder\<close> instance obtained by
  embedding into a lexicographic product, so that the library's sorting functions and
  their lemmas apply to the model's sorts.\<close>

text \<open>The values a sort key can take, in MongoDB's comparison order of BSON types
  (null, strings, ObjectIds, booleans, dates); a missing field sorts as null.\<close>

datatype sort_val = SNull | SStr string | SOid oid | SBool bool | SDate millis

fun sv_key :: "sort_val \<Rightarrow> nat \<times> string \<times> nat" where
  "sv_key SNull = (0, [], 0)"
| "sv_key (SStr s) = (1, s, 0)"
| "sv_key (SOid i) = (2, [], i)"
| "sv_key (SBool b) = (3, [], if b then 1 else 0)"
| "sv_key (SDate t) = (4, [], t)"

instantiation sort_val :: linorder
begin

definition less_eq_sort_val :: "sort_val \<Rightarrow> sort_val \<Rightarrow> bool" where
  "less_eq_sort_val a b \<longleftrightarrow> sv_key a \<le> sv_key b"

definition less_sort_val :: "sort_val \<Rightarrow> sort_val \<Rightarrow> bool" where
  "less_sort_val a b \<longleftrightarrow> sv_key a < sv_key b"

instance
proof
  have inj: "sv_key a = sv_key b \<Longrightarrow> a = b" for a b :: sort_val
    by (cases a; cases b) (auto split: if_splits)
  show "x \<le> y \<Longrightarrow> y \<le> x \<Longrightarrow> x = y" for x y :: sort_val
    by (auto simp: less_eq_sort_val_def intro: inj)
qed (auto simp: less_eq_sort_val_def less_sort_val_def)

end

end
