(* ===== verification/TaskController.thy ===== *)
theory TaskController
  imports Cache AuthController Bson
begin

text \<open>
  \<open>src/backend/src/controllers/taskController.js\<close>: the task CRUD handlers and the
  statistics aggregate, behind \<open>protect\<close> (the acting principal is an input). The
  query object of \<open>getTasks\<close> is a predicate on tasks; \<open>$regex\<close> search is the
  regular-expression engine \<open>rx pattern text\<close>, a parameter of the model; \<open>sort\<close>
  compares BSON values in MongoDB's type order (\<open>sort_val\<close>, a linear order), and
  the order MongoDB gives equal keys, which it leaves unspecified, is an input of the
  query (\<open>q_ties\<close>); the \<open>$match\<close> of the aggregate compares BSON values as given,
  since Mongoose does not cast aggregation pipelines;
  \<open>skip\<close>/\<open>limit\<close> follow MongoDB (a negative skip is a server error, limit 0 means
  no limit, a negative limit its absolute value); \<open>populate("user", "name email")\<close>
  attaches the owner's id, name and e-mail, or \<open>null\<close> for a deleted owner. Writes
  invalidate the cache with \<open>clearUserCache\<close> (theory \<open>Cache\<close>) of the task's owner.
  The frontend's \<open>calculateStatsFromTasks\<close> (\<open>src/frontend/src/app/dashboard/page.tsx\<close>)
  is modelled beside the server's aggregate.
\<close>

subsection \<open>Data\<close>

definition status_str :: "status \<Rightarrow> string" where
  "status_str s = (case s of Pending \<Rightarrow> ''pending'' | InProgress \<Rightarrow> ''in-progress''
                           | Completed \<Rightarrow> ''completed'')"

definition priority_str :: "priority \<Rightarrow> string" where
  "priority_str p = (case p of Low \<Rightarrow> ''low'' | Medium \<Rightarrow> ''medium'' | High \<Rightarrow> ''high'')"

type_synonym owner_view = "oid \<times> string \<times> string"
type_synonym task_view = "oid \<times> task \<times> owner_view option"

record stats =
  st_total :: nat
  st_pending :: nat
  st_inProgress :: nat
  st_completed :: nat
  st_high :: nat
  st_medium :: nat
  st_low :: nat

datatype task_payload = TaskPage "task_view list" | TaskItem task_view | TaskStats stats

text \<open>\<open>req.query\<close> of \<open>GET /api/tasks\<close>, with \<open>page\<close> and \<open>limit\<close> after
  \<open>parseInt\<close> (defaults 1 and 10; a non-numeric value, which \<open>parseInt\<close> turns into
  \<open>NaN\<close>, is not modelled), and the order MongoDB gives tasks with equal sort keys
  when it runs the query (\<open>q_ties\<close>, a ranking of ids): MongoDB does not specify that
  order, so it is an input of every query.\<close>

record task_query =
  q_status :: "string option"
  q_priority :: "string option"
  q_search :: "string option"
  q_sortBy :: "string option"
  q_order :: "string option"
  q_page :: int
  q_limit :: int
  q_ties :: "oid \<Rightarrow> nat"

text \<open>\<open>req.body\<close> of \<open>POST\<close> and \<open>PUT /api/tasks\<close> after the route's validators
  (\<open>status\<close> and \<open>priority\<close> are then enum values, \<open>dueDate\<close> an ISO date).\<close>

record task_body =
  b_title :: "string option"
  b_description :: "string option"
  b_status :: "status option"
  b_priority :: "priority option"
  b_dueDate :: "millis option"

type_synonym task_cache = "task_payload response kv option"

subsection \<open>Sorting\<close>

definition sort_field :: "string \<Rightarrow> oid \<times> task \<Rightarrow> sort_val" where
  "sort_field f p =
     (let t = snd p in
      if f = ''title'' then SStr (title t)
      else if f = ''description'' then SStr (description t)
      else if f = ''status'' then SStr (status_str (status t))
      else if f = ''priority'' then SStr (priority_str (priority t))
      else if f = ''dueDate'' then (case dueDate t of None \<Rightarrow> SNull | Some x \<Rightarrow> SDate x)
      else if f = ''completedAt'' then (case completedAt t of None \<Rightarrow> SNull | Some x \<Rightarrow> SDate x)
      else if f = ''createdAt'' then SDate (taskCreatedAt t)
      else if f = ''isCompleted'' then SBool (isCompleted t)
      else if f = ''user'' then SOid (user t)
      else if f = ''_id'' then SOid (fst p)
      else SNull)"

text \<open>\<open>sortOptions[sortBy] = order === "asc" ? 1 : -1\<close>, by default
  \<open>{createdAt: -1}\<close>: the field sorted on, and whether the order is ascending.\<close>

definition sort_by_field :: "string option \<Rightarrow> string" where
  "sort_by_field sortBy = (case sortBy of Some f \<Rightarrow> if f \<noteq> [] then f else ''createdAt'' | None \<Rightarrow> ''createdAt'')"

definition sort_asc :: "string option \<Rightarrow> string option \<Rightarrow> bool" where
  "sort_asc sortBy order = (case sortBy of Some f \<Rightarrow> f \<noteq> [] \<and> order = Some ''asc'' | None \<Rightarrow> False)"

text \<open>\<open>.sort(sortOptions)\<close>: ordered by the field, and among equal keys by the query's
  tie order \<open>tie\<close>, which stands for the order MongoDB happens to produce.\<close>

definition sort_tasks ::
  "(oid \<Rightarrow> nat) \<Rightarrow> string option \<Rightarrow> string option \<Rightarrow> (oid \<times> task) list \<Rightarrow> (oid \<times> task) list" where
  "sort_tasks tie sortBy order ts =
     (let key = (\<lambda>p. (sort_field (sort_by_field sortBy) p, tie (fst p)))
      in if sort_asc sortBy order then sort_key key ts else rev (sort_key key ts))"

text \<open>\<open>.skip(skip).limit(limitNum)\<close> on a cursor.\<close>

definition mongo_skip_limit :: "int \<Rightarrow> int \<Rightarrow> 'a list \<Rightarrow> app_error + 'a list" where
  "mongo_skip_limit skip lim xs =
     (if skip < 0 then Inl (ServerError None ''BSON field skip value must be >= 0'')
      else let ys = drop (nat skip) xs in Inr (if lim = 0 then ys else take (nat \<bar>lim\<bar>) ys))"

subsection \<open>Handlers\<close>

text \<open>\<open>populate("user", "name email")\<close>.\<close>

definition populate_user :: "db \<Rightarrow> oid \<Rightarrow> owner_view option" where
  "populate_user d i = map_option (\<lambda>u. (i, name u, email u)) (map_of (users d) i)"

definition view_task :: "db \<Rightarrow> oid \<times> task \<Rightarrow> task_view" where
  "view_task d p = (fst p, snd p, populate_user d (user (snd p)))"

text \<open>The query object of \<open>getTasks\<close>: the owner for non-admins, then the truthy
  \<open>status\<close>, \<open>priority\<close> and \<open>search\<close> parameters.\<close>

definition task_filter ::
  "(string \<Rightarrow> string \<Rightarrow> bool) \<Rightarrow> principal \<Rightarrow> task_query \<Rightarrow> task \<Rightarrow> bool" where
  "task_filter rx p q t \<longleftrightarrow>
     (role (snd p) = AdminRole \<or> user t = fst p) \<and>
     (case q_status q of None \<Rightarrow> True | Some s \<Rightarrow> s = [] \<or> status_str (status t) = s) \<and>
     (case q_priority q of None \<Rightarrow> True | Some s \<Rightarrow> s = [] \<or> priority_str (priority t) = s) \<and>
     (case q_search q of None \<Rightarrow> True | Some s \<Rightarrow> s = [] \<or> rx s (title t) \<or> rx s (description t))"

definition getTasks ::
  "(string \<Rightarrow> string \<Rightarrow> bool) \<Rightarrow> principal \<Rightarrow> task_query \<Rightarrow> db \<Rightarrow> task_payload response" where
  "getTasks rx p q d =
     (let matching = filter (\<lambda>(i, t). task_filter rx p q t) (tasks d);
          pageNum = q_page q; limitNum = q_limit q;
          skip = (pageNum - 1) * limitNum
      in case mongo_skip_limit skip limitNum (sort_tasks (q_ties q) (q_sortBy q) (q_order q) matching) of
           Inl e \<Rightarrow> errorHandler e
         | Inr found \<Rightarrow>
             paginationResponse 200 ''Tasks retrieved successfully'' (TaskPage (map (view_task d) found))
               (countDocuments (task_filter rx p q) (tasks d)) pageNum limitNum)"

text \<open>\<open>task.user._id\<close> on a populated task whose owner is gone throws.\<close>

definition getTask :: "principal \<Rightarrow> oid \<Rightarrow> db \<Rightarrow> task_payload response" where
  "getTask p tid d =
     (case map_of (tasks d) tid of
        None \<Rightarrow> errorResponse 404 ''Task not found'' None
      | Some t \<Rightarrow>
          (let v = view_task d (tid, t);
               ok = successResponse 200 ''Task retrieved successfully'' (Some (TaskItem v))
           in if role (snd p) = AdminRole then ok
              else case populate_user d (user t) of
                     None \<Rightarrow> errorHandler (null_read ''_id'')
                   | Some (oi, _) \<Rightarrow>
                       if oid_str oi \<noteq> oid_str (fst p)
                       then errorResponse 403 ''Not authorized to access this task'' None
                       else ok))"

text \<open>\<open>Task.create({title, description, status, priority, dueDate, user})\<close> with the
  schema's \<open>trim\<close> setters and defaults.\<close>

definition new_task :: "oid \<Rightarrow> task_body \<Rightarrow> task" where
  "new_task uid b =
     \<lparr>title = (case b_title b of None \<Rightarrow> [] | Some s \<Rightarrow> js_trim s),
      description = (case b_description b of None \<Rightarrow> [] | Some s \<Rightarrow> js_trim s),
      status = (case b_status b of None \<Rightarrow> Pending | Some s \<Rightarrow> s),
      priority = (case b_priority b of None \<Rightarrow> Medium | Some x \<Rightarrow> x),
      dueDate = b_dueDate b, user = uid, isCompleted = False, completedAt = None,
      taskCreatedAt = 0\<rparr>"

definition createTask ::
  "millis \<Rightarrow> principal \<Rightarrow> task_body \<Rightarrow> db \<Rightarrow> task_cache \<Rightarrow> task_payload response \<times> db \<times> task_cache" where
  "createTask now p b d r =
     (case create_task now (new_task (fst p) b) d of
        Inl e \<Rightarrow> (errorHandler e, d, r)
      | Inr (tid, d') \<Rightarrow>
          (successResponse 201 ''Task created successfully''
             (Some (TaskItem (view_task d' (tid, task_pre_save now ((new_task (fst p) b)\<lparr>taskCreatedAt := now\<rparr>))))),
           d', clearUserCache now (fst p) r))"

text \<open>\<open>if (title) task.title = title; ... if (dueDate !== undefined) ...\<close>: falsy
  fields leave the task as it is.\<close>

definition apply_task_update :: "task_body \<Rightarrow> task \<Rightarrow> task" where
  "apply_task_update b t =
     (let ta = (case b_title b of Some s \<Rightarrow> if s \<noteq> [] then t\<lparr>title := js_trim s\<rparr> else t | None \<Rightarrow> t);
          tb = (case b_description b of
                  Some s \<Rightarrow> if s \<noteq> [] then ta\<lparr>description := js_trim s\<rparr> else ta | None \<Rightarrow> ta);
          t3 = (case b_status b of Some s \<Rightarrow> tb\<lparr>status := s\<rparr> | None \<Rightarrow> tb);
          t4 = (case b_priority b of Some x \<Rightarrow> t3\<lparr>priority := x\<rparr> | None \<Rightarrow> t3)
      in case b_dueDate b of Some x \<Rightarrow> t4\<lparr>dueDate := Some x\<rparr> | None \<Rightarrow> t4)"

definition updateTask ::
  "millis \<Rightarrow> principal \<Rightarrow> oid \<Rightarrow> task_body \<Rightarrow> db \<Rightarrow> task_cache \<Rightarrow>
     task_payload response \<times> db \<times> task_cache" where
  "updateTask now p tid b d r =
     (case map_of (tasks d) tid of
        None \<Rightarrow> (errorResponse 404 ''Task not found'' None, d, r)
      | Some t \<Rightarrow>
          if role (snd p) \<noteq> AdminRole \<and> oid_str (user t) \<noteq> oid_str (fst p)
          then (errorResponse 403 ''Not authorized to update this task'' None, d, r)
          else (case save_task now tid (apply_task_update b t) d of
                  Inl e \<Rightarrow> (errorHandler e, d, r)
                | Inr d' \<Rightarrow>
                    (case populate_user d' (user t) of
                       None \<Rightarrow> (errorHandler (null_read ''_id''), d', r)
                     | Some (oi, _) \<Rightarrow>
                         (successResponse 200 ''Task updated successfully''
                            (Some (TaskItem (view_task d' (tid, task_pre_save now (apply_task_update b t))))),
                          d', clearUserCache now oi r))))"

definition deleteTask ::
  "millis \<Rightarrow> principal \<Rightarrow> oid \<Rightarrow> db \<Rightarrow> task_cache \<Rightarrow> task_payload response \<times> db \<times> task_cache" where
  "deleteTask now p tid d r =
     (case map_of (tasks d) tid of
        None \<Rightarrow> (errorResponse 404 ''Task not found'' None, d, r)
      | Some t \<Rightarrow>
          if role (snd p) \<noteq> AdminRole \<and> oid_str (user t) \<noteq> oid_str (fst p)
          then (errorResponse 403 ''Not authorized to delete this task'' None, d, r)
          else (successResponse 200 ''Task deleted successfully'' None, delete_task tid d,
                clearUserCache now (user t) r))"

text \<open>The \<open>$group\<close> stage: \<open>$sum\<close> of \<open>1\<close> and of \<open>$cond\<close> on the status and
  priority strings.\<close>

definition aggregate_stats :: "task list \<Rightarrow> stats" where
  "aggregate_stats ts =
     \<lparr>st_total = sum_list (map (\<lambda>t. 1) ts),
      st_pending = sum_list (map (\<lambda>t. if status_str (status t) = ''pending'' then 1 else 0) ts),
      st_inProgress = sum_list (map (\<lambda>t. if status_str (status t) = ''in-progress'' then 1 else 0) ts),
      st_completed = sum_list (map (\<lambda>t. if status_str (status t) = ''completed'' then 1 else 0) ts),
      st_high = sum_list (map (\<lambda>t. if priority_str (priority t) = ''high'' then 1 else 0) ts),
      st_medium = sum_list (map (\<lambda>t. if priority_str (priority t) = ''medium'' then 1 else 0) ts),
      st_low = sum_list (map (\<lambda>t. if priority_str (priority t) = ''low'' then 1 else 0) ts)\<rparr>"

definition zero_stats :: stats where
  "zero_stats = \<lparr>st_total = 0, st_pending = 0, st_inProgress = 0, st_completed = 0,
                  st_high = 0, st_medium = 0, st_low = 0\<rparr>"

text \<open>The \<open>$match\<close> stage of \<open>getTaskStats\<close>: \<open>{}\<close> for an admin, otherwise
  \<open>{user: req.user.id}\<close>, whose value is the id's string (the \<open>id\<close> virtual). Mongoose
  does not cast the values of an aggregation pipeline, so the string reaches MongoDB as
  a string.\<close>

definition stats_match :: "principal \<Rightarrow> sort_val option" where
  "stats_match p = (if role (snd p) = AdminRole then None else Some (SStr (oid_str (fst p))))"

text \<open>A task matches when the query is empty or its stored \<open>user\<close>, an ObjectId, equals
  the query's value as a BSON value (values of different BSON types are never equal).\<close>

definition match_doc :: "sort_val option \<Rightarrow> task \<Rightarrow> bool" where
  "match_doc q t = (case q of None \<Rightarrow> True | Some v \<Rightarrow> SOid (user t) = v)"

definition getTaskStats :: "principal \<Rightarrow> db \<Rightarrow> task_payload response" where
  "getTaskStats p d =
     (let matched = [t. (i, t) \<leftarrow> tasks d, match_doc (stats_match p) t];
          groups = (if matched = [] then [] else [aggregate_stats matched]);
          result = (case groups of s # _ \<Rightarrow> s | [] \<Rightarrow> zero_stats)
      in successResponse 200 ''Task statistics retrieved'' (Some (TaskStats result)))"

text \<open>The dashboard's \<open>calculateStatsFromTasks(tasksData)\<close>.\<close>

definition calculateStatsFromTasks :: "task_view list \<Rightarrow> stats" where
  "calculateStatsFromTasks tasksData =
     (let ts = map (\<lambda>v. fst (snd v)) tasksData in
      \<lparr>st_total = length tasksData,
       st_pending = length (filter (\<lambda>t. status_str (status t) = ''pending'') ts),
       st_inProgress = length (filter (\<lambda>t. status_str (status t) = ''in-progress'') ts),
       st_completed = length (filter (\<lambda>t. status_str (status t) = ''completed'') ts),
       st_high = length (filter (\<lambda>t. priority_str (priority t) = ''high'') ts),
       st_medium = length (filter (\<lambda>t. priority_str (priority t) = ''medium'') ts),
       st_low = length (filter (\<lambda>t. priority_str (priority t) = ''low'') ts)\<rparr>)"

text \<open>The dashboard's \<open>fetchTasks\<close> without filters: \<open>GET /tasks?limit=50\<close>.\<close>

definition dashboard_query :: task_query where
  "dashboard_query = \<lparr>q_status = None, q_priority = None, q_search = None, q_sortBy = None,
                      q_order = None, q_page = 1, q_limit = 50, q_ties = (\<lambda>i. i)\<rparr>"

text \<open>The task list a response carries (empty for an error).\<close>

definition page_items :: "task_payload response \<Rightarrow> task_view list" where
  "page_items r = (case data r of Some (TaskPage vs) \<Rightarrow> vs | _ \<Rightarrow> [])"

text \<open>The tasks a principal may see: all for an admin, the own ones otherwise.\<close>

definition visible_tasks :: "principal \<Rightarrow> db \<Rightarrow> (oid \<times> task) list" where
  "visible_tasks p d = filter (\<lambda>(i, t). role (snd p) = AdminRole \<or> user t = fst p) (tasks d)"

text \<open>The write routes of \<open>src/backend/src/routes/taskRoutes.js\<close>
  (\<open>POST /\<close>, \<open>PUT /:id\<close>, \<open>DELETE /:id\<close>) after \<open>protect\<close> and validation, and
  the principal whose cached views a successful write invalidates.\<close>

datatype task_op = OpCreate task_body | OpUpdate oid task_body | OpDelete oid

definition task_route ::
  "millis \<Rightarrow> principal \<Rightarrow> task_op \<Rightarrow> db \<Rightarrow> task_cache \<Rightarrow> task_payload response \<times> db \<times> task_cache" where
  "task_route now p op d r =
     (case op of
        OpCreate b \<Rightarrow> createTask now p b d r
      | OpUpdate tid b \<Rightarrow> updateTask now p tid b d r
      | OpDelete tid \<Rightarrow> deleteTask now p tid d r)"

definition write_owner :: "db \<Rightarrow> principal \<Rightarrow> task_op \<Rightarrow> oid option" where
  "write_owner d p op =
     (case op of
        OpCreate b \<Rightarrow> Some (fst p)
      | OpUpdate tid b \<Rightarrow> map_option user (map_of (tasks d) tid)
      | OpDelete tid \<Rightarrow> map_option user (map_of (tasks d) tid))"

text \<open>Witness data: a body, and the store of \<open>ex_db\<close> whose task is due at time 500.\<close>

definition ex_body :: task_body where
  "ex_body = \<lparr>b_title = Some ''New task'', b_description = Some ''Details'', b_status = None,
              b_priority = None, b_dueDate = None\<rparr>"

definition ex_overdue_db :: db where
  "ex_overdue_db = ex_db\<lparr>tasks := [(4, ex_task\<lparr>dueDate := Some 500\<rparr>)]\<rparr>"

definition ex_many_db :: db where
  "ex_many_db = ex_db\<lparr>tasks := map (\<lambda>i. (i, ex_task)) [5..<56], next_oid := 56\<rparr>"

text \<open>Two of Alice's tasks created at the same instant.\<close>

definition ex_tie_db :: db where
  "ex_tie_db = ex_db\<lparr>tasks := [(4, ex_task), (5, ex_task)], next_oid := 6\<rparr>"

subsection \<open>Lemmas on the handlers\<close>

lemma errorHandler_fields [simp]:
  "data (errorHandler e) = None" "pagination (errorHandler e) = None"
  by (cases e rule: errorHandler.cases; simp add: errorResponse_def)+

lemma errorResponse_pagination [simp]: "pagination (errorResponse c m es) = None"
  by (simp add: errorResponse_def)

lemma set_sort_tasks [simp]: "set (sort_tasks tie s o' xs) = set xs"
  and length_sort_tasks [simp]: "length (sort_tasks tie s o' xs) = length xs"
  by (simp_all add: sort_tasks_def Let_def)

lemma mongo_skip_limit_subset: "mongo_skip_limit s l xs = Inr ys \<Longrightarrow> set ys \<subseteq> set xs"
  by (auto simp: mongo_skip_limit_def Let_def split: if_splits dest: in_set_takeD in_set_dropD)

lemma task_filter_paging [simp]:
  "task_filter rx p (q\<lparr>q_page := k\<rparr>) = task_filter rx p q"
  "task_filter rx p (q\<lparr>q_page := k, q_limit := l\<rparr>) = task_filter rx p q"
  "task_filter rx p (q\<lparr>q_ties := tie\<rparr>) = task_filter rx p q"
  by (simp_all add: task_filter_def fun_eq_iff)

lemma insort_key_cong:
  "(\<And>y. y \<in> set ys \<Longrightarrow> (f x \<le> f y) = (g x \<le> g y)) \<Longrightarrow> insort_key f x ys = insort_key g x ys"
  by (induction ys) auto

lemma sort_key_cong:
  "(\<And>x y. x \<in> set xs \<Longrightarrow> y \<in> set xs \<Longrightarrow> (f x \<le> f y) = (g x \<le> g y)) \<Longrightarrow>
     sort_key f xs = sort_key g xs"
  by (induction xs) (auto intro!: insort_key_cong)

text \<open>When the sort keys of the listed tasks are pairwise distinct, MongoDB's order of
  equal keys plays no part.\<close>

lemma sort_tasks_ties:
  assumes "inj_on (sort_field (sort_by_field s)) (set xs)"
  shows "sort_tasks ta s o' xs = sort_tasks tb s o' xs"
proof -
  let ?k = "sort_field (sort_by_field s)"
  have e: "((?k x, t (fst x)) \<le> (?k y, t (fst y))) = (?k x \<le> ?k y)"
    if "x \<in> set xs" "y \<in> set xs" for x y and t :: "oid \<Rightarrow> nat"
    using assms that by (cases "x = y") (auto simp: less_eq_prod_def inj_on_def)
  have "sort_key (\<lambda>p. (?k p, ta (fst p))) xs = sort_key (\<lambda>p. (?k p, tb (fst p))) xs"
    by (rule sort_key_cong) (simp only: e)
  then show ?thesis by (simp add: sort_tasks_def Let_def)
qed

lemma countDocuments_filter: "countDocuments P xs = length (filter (\<lambda>(i, x). P x) xs)"
  by (simp add: countDocuments_def)

lemma getTasks_page_data:
  "data (getTasks rx p q d) = Some (TaskPage vs) \<Longrightarrow>
     \<exists>ys. mongo_skip_limit ((q_page q - 1) * q_limit q) (q_limit q)
            (sort_tasks (q_ties q) (q_sortBy q) (q_order q) (filter (\<lambda>(i, t). task_filter rx p q t) (tasks d))) = Inr ys \<and>
          vs = map (view_task d) ys"
  by (auto simp: getTasks_def Let_def split: sum.splits)

lemma getTasks_pagination:
  "pagination (getTasks rx p q d) = Some pg \<Longrightarrow>
     total pg = length (filter (\<lambda>(i, t). task_filter rx p q t) (tasks d)) \<and>
     totalPages pg = js_ceil_div (total pg) (q_limit q)"
  by (auto simp: getTasks_def Let_def paginationResponse_def countDocuments_filter split: sum.splits)

lemma concat_pages: "concat (map (\<lambda>k. take l (drop (k * l) xs)) [0..<m]) = take (m * l) xs"
proof (induction m)
  case 0
  then show ?case by simp
next
  case (Suc m)
  have "take (Suc m * l) xs = take (m * l + l) xs" by (simp add: add.commute)
  also have "\<dots> = take (m * l) xs @ take l (drop (m * l) xs)" by (rule take_add)
  finally show ?case using Suc by simp
qed

lemma ceil_div_covers:
  assumes "js_ceil_div t l = Some (int n)" "0 < l"
  shows "t \<le> n * nat l"
proof -
  have "(- int t) div l * l \<le> - int t"
    using assms(2) div_mult_mod_eq [of "- int t" l] pos_mod_sign [of l "- int t"] by linarith
  moreover have "int n = - ((- int t) div l)" using assms by (simp add: js_ceil_div_def)
  ultimately have "int t \<le> int n * l" by (simp add: algebra_simps)
  moreover have "int n * l = int (n * nat l)" using assms(2) by simp
  ultimately show ?thesis by linarith
qed

lemma getTasks_page:
  assumes "0 < k" "0 < q_limit q"
  shows "page_items (getTasks rx p (q\<lparr>q_page := int k\<rparr>) d) =
    map (view_task d) (take (nat (q_limit q)) (drop ((k - 1) * nat (q_limit q))
      (sort_tasks (q_ties q) (q_sortBy q) (q_order q) (filter (\<lambda>(i, t). task_filter rx p q t) (tasks d)))))"
proof -
  have "nat ((int k - 1) * q_limit q) = (k - 1) * nat (q_limit q)"
    using assms by (simp add: nat_mult_distrib of_nat_diff [symmetric] del: of_nat_diff)
  moreover have "0 \<le> (int k - 1) * q_limit q" using assms by simp
  ultimately show ?thesis
    using assms(2) by (simp add: getTasks_def Let_def mongo_skip_limit_def page_items_def)
qed

lemma errorHandler_status_ne_200:
  "(\<exists>fes. e = ValidationError fes) \<or> e = DuplicateKey ''email'' \<or> e = null_read ''_id'' \<Longrightarrow>
     statusCode (errorHandler e :: 'd response) \<noteq> 200 \<and> \<not> success (errorHandler e :: 'd response)"
  by (auto simp: null_read_def)

lemma createTask_cache:
  "createTask now p b d r = (resp, d', r') \<Longrightarrow> r' = (if success resp then clearUserCache now (fst p) r else r)"
  by (auto simp: createTask_def split: sum.splits)

lemma updateTask_cache:
  "updateTask now p tid b d r = (resp, d', r') \<Longrightarrow>
     r' = (if success resp then clearUserCache now (user (the (map_of (tasks d) tid))) r else r) \<and>
     (success resp \<longrightarrow> map_of (tasks d) tid \<noteq> None)"
  by (auto simp: updateTask_def populate_user_def split: option.splits if_splits sum.splits)

lemma deleteTask_cache:
  "deleteTask now p tid d r = (resp, d', r') \<Longrightarrow>
     r' = (if success resp then clearUserCache now (user (the (map_of (tasks d) tid))) r else r) \<and>
     (success resp \<longrightarrow> map_of (tasks d) tid \<noteq> None)"
  by (auto simp: deleteTask_def split: option.splits if_splits)

lemma task_route_cache:
  "task_route now p op d r = (resp, d', r') \<Longrightarrow>
     r' = (if success resp then clearUserCache now (the (write_owner d p op)) r else r) \<and>
     (success resp \<longrightarrow> write_owner d p op \<noteq> None)"
  by (cases op) (auto simp: task_route_def write_owner_def dest: createTask_cache updateTask_cache deleteTask_cache)

lemma clearUserCache_entry:
  assumes "now \<le> t'"
  shows "\<exists>kv'. clearUserCache now uid (Some kv) = Some kv' \<and>
    redis_get t' (cache_key url q) kv' =
      (if map_option fst q = Some uid then None else redis_get t' (cache_key url q) kv)"
proof -
  obtain kv' where c: "clearUserCache now uid (Some kv) = Some kv'"
    using clearCache_Some unfolding clearUserCache_def by blast
  show ?thesis
    using c clearCache_get [OF assms c [unfolded clearUserCache_def], of "cache_key url q"]
    unfolding user_pattern_matches by blast
qed

lemma sum_list_indicator: "sum_list (map (\<lambda>x. if P x then 1 else 0) xs) = length (filter P xs)"
  by (induction xs) simp_all

lemma sum_list_one: "sum_list (map (\<lambda>x. 1) xs) = length xs"
  and sum_list_Suc0: "sum_list (map (\<lambda>x. Suc 0) xs) = length xs"
  by (induction xs) simp_all

lemma owner_stored:
  assumes "db_inv d" "map_of (tasks d) tid = Some t"
  shows "\<exists>u. map_of (users d) (user t) = Some u"
proof -
  have "(tid, t) \<in> set (tasks d)" using assms(2) by (rule map_of_SomeD)
  with assms(1) have "user t \<in> fst ` set (users d)" by (auto simp: db_inv_def tasks_sound_def)
  then show ?thesis by (auto simp: image_iff dest: weak_map_of_SomeI)
qed

lemma apply_task_update_fields [simp]:
  "dueDate (apply_task_update b t) = (case b_dueDate b of None \<Rightarrow> dueDate t | Some x \<Rightarrow> Some x)"
  "user (apply_task_update b t) = user t"
  "completedAt (apply_task_update b t) = completedAt t"
  "isCompleted (apply_task_update b t) = isCompleted t"
  by (simp_all add: apply_task_update_def Let_def split: option.split)

lemma apply_task_update_status:
  "status (apply_task_update b t) = (case b_status b of None \<Rightarrow> status t | Some s \<Rightarrow> s)"
  by (simp add: apply_task_update_def Let_def split: option.split)

lemma matching_dashboard: "filter (\<lambda>(i, t). task_filter rx p dashboard_query t) (tasks d) = visible_tasks p d"
  by (simp add: task_filter_def dashboard_query_def visible_tasks_def)

subsection \<open>Reading tasks\<close>

text \<open>C11: task lists are scoped: every task in a page of \<open>GET /api/tasks\<close> is a stored
  task, owned by the requesting user unless the requester is an admin, shown with its
  owner as \<open>populate\<close> finds it; whatever the filters, search, sort and paging.\<close>

theorem getTasks_scoped:
  assumes "v \<in> set (page_items (getTasks rx p q d))"
  shows "(fst v, fst (snd v)) \<in> set (tasks d) \<and>
    (role (snd p) = AdminRole \<or> user (fst (snd v)) = fst p) \<and>
    snd (snd v) = populate_user d (user (fst (snd v)))"
proof -
  have "\<exists>vs. data (getTasks rx p q d) = Some (TaskPage vs) \<and> v \<in> set vs"
    using assms by (auto simp: page_items_def split: option.splits task_payload.splits) (metis)
  then obtain vs where dv: "data (getTasks rx p q d) = Some (TaskPage vs)" and v: "v \<in> set vs"
    by blast
  from getTasks_page_data [OF dv] obtain ys where
    ys: "mongo_skip_limit ((q_page q - 1) * q_limit q) (q_limit q)
          (sort_tasks (q_ties q) (q_sortBy q) (q_order q) (filter (\<lambda>(i, t). task_filter rx p q t) (tasks d))) = Inr ys"
    and vs: "vs = map (view_task d) ys" by blast
  from v vs obtain y where y: "y \<in> set ys" "v = view_task d y" by auto
  have "y \<in> set (tasks d) \<and> task_filter rx p q (snd y)"
    using mongo_skip_limit_subset [OF ys] y(1) by (cases y) auto
  then show ?thesis using y(2) by (cases y) (simp add: view_task_def task_filter_def)
qed

theorem getTasks_scoped_witness:
  "(4, ex_task) \<in> set (tasks ex_db) \<and> (role (ex_user ''Alice'' ''a@x.com'' UserRole) = AdminRole \<or> user ex_task = 1) \<and>
   Some (1, ''Alice'', ''a@x.com'') = populate_user ex_db (user ex_task)"
proof -
  have "(4, ex_task, Some (1, ''Alice'', ''a@x.com'')) \<in>
      set (page_items (getTasks (\<lambda>pat txt. False) (1, ex_user ''Alice'' ''a@x.com'' UserRole) dashboard_query ex_db))"
    by (simp add: getTasks_def dashboard_query_def mongo_skip_limit_def sort_tasks_def sort_asc_def page_items_def
        view_task_def populate_user_def task_filter_def ex_db_def ex_task_def ex_user_def)
  from getTasks_scoped [OF this] show ?thesis by simp
qed

text \<open>C24: paging covers the list: with a positive \<open>limit\<close>, and the matching tasks'
  sort keys pairwise distinct, the pages \<open>1 .. totalPages\<close> of \<open>GET /api/tasks\<close>
  list every matching task exactly once, in the requested sort order, whatever order
  MongoDB gives equal keys when it runs each page's query (\<open>ties k\<close> for page
  \<open>k\<close>).\<close>

theorem getTasks_pages_cover:
  assumes "pagination (getTasks rx p q d) = Some pg" "totalPages pg = Some (int n)" "0 < q_limit q"
    and "inj_on (sort_field (sort_by_field (q_sortBy q))) (set (filter (\<lambda>(i, t). task_filter rx p q t) (tasks d)))"
  shows "concat (map (\<lambda>k. page_items (getTasks rx p (q\<lparr>q_ties := ties k, q_page := int k\<rparr>) d)) [1..<Suc n]) =
    map (view_task d) (sort_tasks (q_ties q) (q_sortBy q) (q_order q) (filter (\<lambda>(i, t). task_filter rx p q t) (tasks d)))"
proof -
  let ?xs = "sort_tasks (q_ties q) (q_sortBy q) (q_order q) (filter (\<lambda>(i, t). task_filter rx p q t) (tasks d))"
  let ?l = "nat (q_limit q)"
  have "length ?xs \<le> n * ?l"
    using getTasks_pagination [OF assms(1)] assms(2,3) ceil_div_covers by simp
  then have c: "concat (map (\<lambda>k. take ?l (drop (k * ?l) ?xs)) [0..<n]) = ?xs"
    by (simp add: concat_pages)
  have pk: "page_items (getTasks rx p (q\<lparr>q_ties := ties (Suc k), q_page := 1 + int k\<rparr>) d) =
      map (view_task d) (take ?l (drop (k * ?l) ?xs))" for k
    using getTasks_page [of "Suc k" "q\<lparr>q_ties := ties (Suc k)\<rparr>"] assms(3)
      sort_tasks_ties [OF assms(4), where ta = "ties (Suc k)" and tb = "q_ties q" and o' = "q_order q"]
    by simp
  then have e: "map (\<lambda>k. page_items (getTasks rx p (q\<lparr>q_ties := ties k, q_page := int k\<rparr>) d)) [1..<Suc n] =
      map (\<lambda>k. map (view_task d) (take ?l (drop (k * ?l) ?xs))) [0..<n]"
    by (simp add: map_Suc_upt [symmetric] del: upt_Suc)
  have "concat (map (\<lambda>k. page_items (getTasks rx p (q\<lparr>q_ties := ties k, q_page := int k\<rparr>) d)) [1..<Suc n]) =
      concat (map (\<lambda>k. map (view_task d) (take ?l (drop (k * ?l) ?xs))) [0..<n])"
    by (simp only: e)
  also have "\<dots> = map (view_task d) (concat (map (\<lambda>k. take ?l (drop (k * ?l) ?xs)) [0..<n]))"
    by (simp add: map_concat comp_def)
  also have "\<dots> = map (view_task d) ?xs"
    by (simp only: c)
  finally show ?thesis .
qed

theorem getTasks_pages_cover_witness:
  "concat (map (\<lambda>k. page_items (getTasks (\<lambda>pat txt. False) (1, ex_user ''Alice'' ''a@x.com'' UserRole)
      (dashboard_query\<lparr>q_ties := (\<lambda>i. k + i), q_page := int k\<rparr>) ex_db)) [1..<Suc 1]) =
    map (view_task ex_db) (sort_tasks (\<lambda>i. i) None None
      (filter (\<lambda>(i, t). task_filter (\<lambda>pat txt. False) (1, ex_user ''Alice'' ''a@x.com'' UserRole) dashboard_query t)
        (tasks ex_db)))"
proof -
  have pg: "pagination (getTasks (\<lambda>pat txt. False) (1, ex_user ''Alice'' ''a@x.com'' UserRole) dashboard_query ex_db)
      = Some \<lparr>total = 1, page = 1, limit = 50, totalPages = Some 1\<rparr>"
    by (simp add: getTasks_def dashboard_query_def mongo_skip_limit_def sort_tasks_def paginationResponse_def
        countDocuments_def js_ceil_div_def task_filter_def ex_db_def ex_task_def ex_user_def sort_asc_def)
  have "totalPages \<lparr>total = 1, page = 1, limit = 50, totalPages = Some 1\<rparr> = Some (int 1)" by simp
  moreover have "0 < q_limit dashboard_query" by (simp add: dashboard_query_def)
  moreover have "inj_on (sort_field (sort_by_field (q_sortBy dashboard_query)))
      (set (filter (\<lambda>(i, t). task_filter (\<lambda>pat txt. False) (1, ex_user ''Alice'' ''a@x.com'' UserRole) dashboard_query t)
        (tasks ex_db)))"
    by (simp add: ex_db_def)
  ultimately show ?thesis using getTasks_pages_cover [OF pg, of 1 "\<lambda>k i. k + i"] by (simp add: dashboard_query_def)
qed

text \<open>C37: Degenerate paging parameters (finding). \<open>page\<close> is never checked: with a
  positive \<open>limit\<close>, \<open>page \<le> 0\<close> gives a negative \<open>skip\<close>, which MongoDB rejects, and
  the request fails with 500; \<open>limit=0\<close> is MongoDB's ``no limit'': every matching task
  is returned and \<open>totalPages\<close> is \<open>Math.ceil(total / 0)\<close>, serialised as
  \<open>null\<close>.\<close>

theorem getTasks_degenerate_paging:
  "(q_page q \<le> 0 \<and> 0 < q_limit q \<longrightarrow> statusCode (getTasks rx p q d) = 500) \<and>
   (q_limit q = 0 \<longrightarrow>
      page_items (getTasks rx p q d) =
        map (view_task d) (sort_tasks (q_ties q) (q_sortBy q) (q_order q) (filter (\<lambda>(i, t). task_filter rx p q t) (tasks d))) \<and>
      map_option totalPages (pagination (getTasks rx p q d)) = Some None)"
proof (intro conjI impI)
  assume "q_page q \<le> 0 \<and> 0 < q_limit q"
  then have "(q_page q - 1) * q_limit q < 0" by (simp add: mult_neg_pos)
  then show "statusCode (getTasks rx p q d) = 500" by (simp add: getTasks_def mongo_skip_limit_def)
next
  assume "q_limit q = 0"
  then show "page_items (getTasks rx p q d) =
      map (view_task d) (sort_tasks (q_ties q) (q_sortBy q) (q_order q) (filter (\<lambda>(i, t). task_filter rx p q t) (tasks d)))"
    by (simp add: getTasks_def mongo_skip_limit_def page_items_def)
next
  assume "q_limit q = 0"
  then show "map_option totalPages (pagination (getTasks rx p q d)) = Some None"
    by (simp add: getTasks_def mongo_skip_limit_def paginationResponse_def js_ceil_div_def)
qed

theorem getTasks_degenerate_paging_witness:
  "statusCode (getTasks (\<lambda>pat txt. False) (1, ex_user ''Alice'' ''a@x.com'' UserRole)
      (dashboard_query\<lparr>q_page := 0\<rparr>) ex_db) = 500 \<and>
   map_option totalPages (pagination (getTasks (\<lambda>pat txt. False) (1, ex_user ''Alice'' ''a@x.com'' UserRole)
      (dashboard_query\<lparr>q_limit := 0\<rparr>) ex_db)) = Some None"
  using getTasks_degenerate_paging [of "dashboard_query\<lparr>q_page := 0\<rparr>" "\<lambda>pat txt. False"
      "(1, ex_user ''Alice'' ''a@x.com'' UserRole)" ex_db]
    getTasks_degenerate_paging [of "dashboard_query\<lparr>q_limit := 0\<rparr>" "\<lambda>pat txt. False"
      "(1, ex_user ''Alice'' ''a@x.com'' UserRole)" ex_db]
  by (simp add: dashboard_query_def)

text \<open>C3: paging is unstable on equal sort keys (finding). The default sort is on
  \<open>createdAt\<close> alone, with no unique tie-breaker such as \<open>_id\<close>; MongoDB's order of
  documents with equal keys may differ from one query to the next, so two tasks created
  at the same instant can be listed on page 1 and again on page 2 (\<open>limit=1\<close>) while
  the other is on no page, with \<open>total = 2\<close>.\<close>

theorem getTasks_paging_unstable:
  "map_option total (pagination (getTasks (\<lambda>pat txt. False) (1, ex_user ''Alice'' ''a@x.com'' UserRole)
      (dashboard_query\<lparr>q_limit := 1, q_ties := (\<lambda>i. i)\<rparr>) ex_tie_db)) = Some 2 \<and>
   page_items (getTasks (\<lambda>pat txt. False) (1, ex_user ''Alice'' ''a@x.com'' UserRole)
      (dashboard_query\<lparr>q_limit := 1, q_ties := (\<lambda>i. i)\<rparr>) ex_tie_db) =
     [view_task ex_tie_db (5, ex_task)] \<and>
   page_items (getTasks (\<lambda>pat txt. False) (1, ex_user ''Alice'' ''a@x.com'' UserRole)
      (dashboard_query\<lparr>q_limit := 1, q_ties := (\<lambda>i. 10 - i), q_page := 2\<rparr>) ex_tie_db) =
     [view_task ex_tie_db (5, ex_task)]"
  by (simp add: getTasks_def dashboard_query_def mongo_skip_limit_def sort_tasks_def sort_asc_def
      sort_by_field_def sort_field_def page_items_def paginationResponse_def countDocuments_def
      task_filter_def ex_tie_db_def ex_db_def ex_task_def ex_user_def)

subsection \<open>Writing tasks\<close>

text \<open>C12: ownership of tasks. In a store satisfying the invariant, a user who is
  neither an admin nor the task's owner is refused with 403 by \<open>getTask\<close>,
  \<open>updateTask\<close> and \<open>deleteTask\<close>, and the refused writes change neither the store
  nor the cache.\<close>

theorem task_write_forbidden:
  assumes "db_inv d" "map_of (tasks d) tid = Some t" "role (snd p) \<noteq> AdminRole" "user t \<noteq> fst p"
  shows "updateTask now p tid b d r = (errorResponse 403 ''Not authorized to update this task'' None, d, r) \<and>
    deleteTask now p tid d r = (errorResponse 403 ''Not authorized to delete this task'' None, d, r) \<and>
    getTask p tid d = errorResponse 403 ''Not authorized to access this task'' None"
proof -
  obtain u where "map_of (users d) (user t) = Some u" using owner_stored [OF assms(1,2)] by blast
  then show ?thesis
    using assms(2-4)
    by (simp add: updateTask_def deleteTask_def getTask_def populate_user_def oid_str_inj Let_def)
qed

theorem task_write_forbidden_witness:
  "updateTask 1000 (2, ex_user ''Bob'' ''b@x.com'' UserRole) 4 ex_body ex_db None =
     (errorResponse 403 ''Not authorized to update this task'' None, ex_db, None) \<and>
   deleteTask 1000 (2, ex_user ''Bob'' ''b@x.com'' UserRole) 4 ex_db None =
     (errorResponse 403 ''Not authorized to delete this task'' None, ex_db, None) \<and>
   getTask (2, ex_user ''Bob'' ''b@x.com'' UserRole) 4 ex_db =
     errorResponse 403 ''Not authorized to access this task'' None"
proof (rule task_write_forbidden [OF ex_db_inv])
  show "map_of (tasks ex_db) 4 = Some ex_task" by (simp add: ex_db_def)
qed (simp_all add: ex_user_def ex_task_def)

text \<open>C36: overdue tasks are frozen (finding). Mongoose validates every path of the
  document on \<open>save\<close>, the stored \<open>dueDate\<close> included: once a task's due date has
  passed, every update that does not move the due date (marking it completed
  included) is refused with 400 and changes nothing.\<close>

theorem updateTask_overdue:
  assumes "map_of (tasks d) tid = Some t" "dueDate t = Some due" "due < now" "b_dueDate b = None"
    and "role (snd p) = AdminRole \<or> user t = fst p"
  shows "statusCode (fst (updateTask now p tid b d r)) = 400 \<and> snd (updateTask now p tid b d r) = (d, r)"
proof -
  have "validateTask now (apply_task_update b t) \<noteq> []"
    using assms(2-4) by (simp add: validateTask_def)
  then have "save_task now tid (apply_task_update b t) d = Inl (ValidationError (validateTask now (apply_task_update b t)))"
    by (simp add: save_task_def)
  then show ?thesis using assms(1,5) by (auto simp: updateTask_def)
qed

theorem updateTask_overdue_witness:
  "statusCode (fst (updateTask 1000 (1, ex_user ''Alice'' ''a@x.com'' UserRole) 4
      (ex_body\<lparr>b_status := Some Completed\<rparr>) ex_overdue_db None)) = 400 \<and>
   snd (updateTask 1000 (1, ex_user ''Alice'' ''a@x.com'' UserRole) 4
      (ex_body\<lparr>b_status := Some Completed\<rparr>) ex_overdue_db None) = (ex_overdue_db, None)"
proof (rule updateTask_overdue)
  show "map_of (tasks ex_overdue_db) 4 = Some (ex_task\<lparr>dueDate := Some 500\<rparr>)"
    by (simp add: ex_overdue_db_def)
  show "dueDate (ex_task\<lparr>dueDate := Some 500\<rparr>) = Some 500" by simp
  show "(500::nat) < 1000" by simp
qed (simp_all add: ex_body_def ex_task_def)

text \<open>Deleting a task removes exactly that task: after a successful
  \<open>deleteTask\<close> every other task is as it was and the deleted one is not found (404)
  by anyone.\<close>

theorem deleteTask_gone:
  assumes "deleteTask now p tid d r = (resp, d', r')" "statusCode resp = 200"
  shows "map_of (tasks d') = (map_of (tasks d))(tid := None) \<and>
    getTask p' tid d' = errorResponse 404 ''Task not found'' None"
proof -
  have "d' = delete_task tid d"
    using assms by (auto simp: deleteTask_def split: option.splits if_splits)
  then have "map_of (tasks d') = (map_of (tasks d))(tid := None)"
    by (simp add: delete_task_def delete_conv')
  then show ?thesis by (simp add: getTask_def)
qed

theorem deleteTask_gone_witness:
  "map_of (tasks (fst (snd (deleteTask 1000 (1, ex_user ''Alice'' ''a@x.com'' UserRole) 4 ex_db None)))) =
     (map_of (tasks ex_db))(4 := None) \<and>
   getTask (3, ex_user ''Root'' ''root@x.com'' AdminRole) 4
     (fst (snd (deleteTask 1000 (1, ex_user ''Alice'' ''a@x.com'' UserRole) 4 ex_db None))) =
   errorResponse 404 ''Task not found'' None"
proof -
  obtain resp d' r' where eq: "deleteTask 1000 (1, ex_user ''Alice'' ''a@x.com'' UserRole) 4 ex_db None = (resp, d', r')"
    by (metis prod_cases3)
  have "statusCode resp = 200"
    using eq by (auto simp: deleteTask_def ex_db_def ex_task_def)
  from deleteTask_gone [OF eq this, of "(3, ex_user ''Root'' ''root@x.com'' AdminRole)"]
  show ?thesis by (simp only: eq fst_conv snd_conv)
qed

text \<open>A created task can be read back: after a successful \<open>createTask\<close> by a
  stored user, \<open>getTask\<close> by the same user returns exactly the task the creation
  returned.\<close>

theorem createTask_then_getTask:
  assumes "createTask now p b d r = (resp, d', r')" "data resp = Some (TaskItem v)"
    and "map_of (users d) (fst p) \<noteq> None"
  shows "getTask p (fst v) d' = successResponse 200 ''Task retrieved successfully'' (Some (TaskItem v))"
proof -
  obtain tid where c: "create_task now (new_task (fst p) b) d = Inr (tid, d')"
    and v: "v = view_task d' (tid, task_pre_save now ((new_task (fst p) b)\<lparr>taskCreatedAt := now\<rparr>))"
    using assms(1,2) by (auto simp: createTask_def split: sum.splits)
  have d': "d' = (d\<lparr>next_oid := Suc (next_oid d)\<rparr>)\<lparr>tasks := AList.update tid
      (task_pre_save now ((new_task (fst p) b)\<lparr>taskCreatedAt := now\<rparr>)) (tasks d)\<rparr>"
    using c [unfolded create_task_Inr] by (auto dest!: save_task_Inr)
  have "map_of (tasks d') tid = Some (task_pre_save now ((new_task (fst p) b)\<lparr>taskCreatedAt := now\<rparr>))"
    using d' by (simp add: update_conv')
  moreover have "populate_user d' (fst p) \<noteq> None" using assms(3) d' by (simp add: populate_user_def)
  ultimately show ?thesis
    using v by (auto simp: getTask_def view_task_def new_task_def populate_user_def Let_def
        split: option.splits)
qed

theorem createTask_then_getTask_witness:
  "getTask (1, ex_user ''Alice'' ''a@x.com'' UserRole) 5
      (fst (snd (createTask 1000 (1, ex_user ''Alice'' ''a@x.com'' UserRole) ex_body ex_db None))) =
   successResponse 200 ''Task retrieved successfully''
      (data (fst (createTask 1000 (1, ex_user ''Alice'' ''a@x.com'' UserRole) ex_body ex_db None)))"
proof -
  obtain resp d' r' where eq: "createTask 1000 (1, ex_user ''Alice'' ''a@x.com'' UserRole) ex_body ex_db None
      = (resp, d', r')" by (metis prod_cases3)
  obtain v where dv: "data resp = Some (TaskItem v)" and fv: "fst v = 5"
    using eq by (auto simp: createTask_def create_task_def fresh_oid_def save_task_def validateTask_def
        new_task_def ex_body_def ex_db_def js_trim_def js_space_def view_task_def)
  have "map_of (users ex_db) (fst (1::nat, ex_user ''Alice'' ''a@x.com'' UserRole)) \<noteq> None"
    by (simp add: ex_db_def)
  from createTask_then_getTask [OF eq dv this] show ?thesis by (simp only: eq fst_conv snd_conv dv fv)
qed

lemma comprehension_filter:
  "[t. (i, t) \<leftarrow> xs, P t] = map snd (filter (\<lambda>(i, t). P t) xs)"
  by (induction xs) auto

lemma dashboard_query_fields [simp]:
  "q_page dashboard_query = 1" "q_limit dashboard_query = 50"
  "q_sortBy dashboard_query = None" "q_order dashboard_query = None"
  by (simp_all add: dashboard_query_def)

lemma stored_task_facts:
  assumes "db_inv d" "map_of (tasks d) tid = Some t"
  shows "user t \<in> fst ` set (users d) \<and> task_completion_ok t \<and> tid \<in> fst ` set (tasks d)"
proof -
  have "(tid, t) \<in> set (tasks d)" using assms(2) by (rule map_of_SomeD)
  with assms(1) show ?thesis by (force simp: db_inv_def tasks_sound_def)
qed

lemma createTask_inv:
  assumes "db_inv d" "fst p \<in> fst ` set (users d)"
  shows "db_inv (fst (snd (createTask now p b d r)))"
proof (cases "create_task now (new_task (fst p) b) d")
  case (Inl e)
  then show ?thesis using assms by (simp add: createTask_def)
next
  case (Inr x)
  then obtain tid d' where c: "create_task now (new_task (fst p) b) d = Inr (tid, d')" by (cases x) auto
  have "db_inv d'"
    by (rule create_task_inv [OF assms(1) c]) (use assms(2) in \<open>simp_all add: new_task_def\<close>)
  then show ?thesis using c by (simp add: createTask_def)
qed

lemma updateTask_inv:
  assumes "db_inv d"
  shows "db_inv (fst (snd (updateTask now p tid b d r)))"
proof (cases "map_of (tasks d) tid")
  case None
  then show ?thesis using assms by (simp add: updateTask_def)
next
  case (Some t)
  note f = stored_task_facts [OF assms Some]
  have "status (apply_task_update b t) = Completed \<and> completedAt (apply_task_update b t) \<noteq> None \<longrightarrow>
      isCompleted (apply_task_update b t)"
    using f by (simp add: task_completion_ok_def)
  then have "\<forall>d'. save_task now tid (apply_task_update b t) d = Inr d' \<longrightarrow> db_inv d'"
    using save_task_inv [OF assms] f by simp
  then show ?thesis
    using assms Some by (auto simp: updateTask_def split: sum.splits option.splits)
qed

lemma deleteTask_inv: "db_inv d \<Longrightarrow> db_inv (fst (snd (deleteTask now p tid d r)))"
  by (simp add: deleteTask_def delete_task_inv split: option.split)

subsection \<open>Statistics\<close>

lemma getTaskStats_calc:
  "statusCode (getTaskStats p d) = 200 \<and> success (getTaskStats p d) \<and>
   data (getTaskStats p d) = Some (TaskStats (if role (snd p) = AdminRole
      then calculateStatsFromTasks (map (view_task d) (visible_tasks p d)) else zero_stats))"
proof (cases "role (snd p) = AdminRole")
  case True
  have m: "map (\<lambda>v. fst (snd v)) (map (view_task d) (visible_tasks p d)) = map snd (visible_tasks p d)"
    by (simp add: view_task_def comp_def)
  have v: "visible_tasks p d = filter (\<lambda>(i, t). match_doc (stats_match p) t) (tasks d)"
    using True by (simp add: visible_tasks_def stats_match_def match_doc_def)
  show ?thesis using True m
    by (simp add: getTaskStats_def comprehension_filter v [symmetric] aggregate_stats_def
        calculateStatsFromTasks_def zero_stats_def sum_list_indicator sum_list_one sum_list_Suc0 Let_def
        comp_def filter_map view_task_def successResponse_def)
next
  case False
  then show ?thesis
    by (simp add: getTaskStats_def comprehension_filter stats_match_def match_doc_def Let_def
        successResponse_def)
qed

text \<open>C25: the statistics endpoint ignores a regular user's tasks (finding). For an
  admin the \<open>$group\<close> aggregate of \<open>GET /api/tasks/stats\<close> equals the frontend's
  \<open>calculateStatsFromTasks\<close> over all tasks; for any other user the uncast string in
  \<open>$match\<close> matches no task, so the answer is all zeros whatever the user owns.\<close>

theorem getTaskStats_uncast:
  "getTaskStats p d = successResponse 200 ''Task statistics retrieved''
     (Some (TaskStats (if role (snd p) = AdminRole
        then calculateStatsFromTasks (map (view_task d) (tasks d)) else zero_stats)))"
  using getTaskStats_calc [of p d]
  by (simp add: getTaskStats_def successResponse_def Let_def visible_tasks_def split: if_splits)

subsection \<open>The write routes and the cache\<close>

text \<open>The task write routes keep the store invariant: from a store satisfying
  it, creating (by a stored user), updating and deleting a task, successful or not,
  lead to a store satisfying it.\<close>

theorem task_route_inv:
  assumes "db_inv d" "fst p \<in> fst ` set (users d)"
  shows "db_inv (fst (snd (task_route now p op d r)))"
  by (cases op) (simp_all add: task_route_def createTask_inv [OF assms] updateTask_inv [OF assms(1)]
      deleteTask_inv [OF assms(1)])

theorem task_route_inv_witness:
  "db_inv (fst (snd (task_route 1000 (1, ex_user ''Alice'' ''a@x.com'' UserRole) (OpCreate ex_body) ex_db None)))"
  by (rule task_route_inv [OF ex_db_inv]) (simp add: ex_db_def)

text \<open>What a task write does to the cache: after a successful create, update or
  delete, every cached view of the task's owner (the creator, for a create) misses,
  and every other entry, of any other principal or of a guest, is as it was; a failed
  write leaves the cache as it was.\<close>

theorem task_write_invalidation:
  assumes "now \<le> t'" "task_route now p op d (Some kv) = (resp, d', r')"
  shows "\<exists>kv'. r' = Some kv' \<and>
    redis_get t' (cache_key url q) kv' =
      (if success resp \<and> map_option fst q = write_owner d p op then None else redis_get t' (cache_key url q) kv)"
proof (cases "success resp")
  case True
  with task_route_cache [OF assms(2)] obtain o' where o': "write_owner d p op = Some o'"
    and r': "r' = clearUserCache now o' (Some kv)" by auto
  show ?thesis using clearUserCache_entry [OF assms(1), of o' kv url q] True o' r' by auto
next
  case False
  then show ?thesis using task_route_cache [OF assms(2)] by simp
qed

theorem task_write_invalidation_witness:
  "\<exists>kv'. snd (snd (task_route 1000 (1, ex_user ''Alice'' ''a@x.com'' UserRole) (OpDelete 4) ex_db
      (Some [(cache_key ''/api/tasks'' (Some (1, ex_user ''Alice'' ''a@x.com'' UserRole)),
              (successResponse 200 ''Tasks retrieved successfully'' (Some (TaskPage [])), 9000))]))) = Some kv' \<and>
    redis_get 2000 (cache_key ''/api/tasks'' (Some (1, ex_user ''Alice'' ''a@x.com'' UserRole))) kv' = None"
proof -
  obtain resp d' r' where eq: "task_route 1000 (1, ex_user ''Alice'' ''a@x.com'' UserRole) (OpDelete 4) ex_db
      (Some [(cache_key ''/api/tasks'' (Some (1, ex_user ''Alice'' ''a@x.com'' UserRole)),
              (successResponse 200 ''Tasks retrieved successfully'' (Some (TaskPage [])), 9000))]) = (resp, d', r')"
    by (metis prod_cases3)
  have s: "success resp" using eq by (auto simp: task_route_def deleteTask_def ex_db_def ex_task_def)
  have w: "write_owner ex_db (1, ex_user ''Alice'' ''a@x.com'' UserRole) (OpDelete 4) = Some 1"
    by (simp add: write_owner_def ex_db_def ex_task_def)
  have "\<exists>kv'. r' = Some kv' \<and>
      redis_get 2000 (cache_key ''/api/tasks'' (Some (1, ex_user ''Alice'' ''a@x.com'' UserRole))) kv' = None"
    using task_write_invalidation [OF _ eq, of 2000 "''/api/tasks''" "Some (1, ex_user ''Alice'' ''a@x.com'' UserRole)"]
      s w by simp
  then show ?thesis by (simp only: eq snd_conv)
qed

text \<open>C33: An administrator's own views go stale (finding). A write is followed by the
  invalidation of the task owner's entries only: when an admin updates or deletes a
  task of another user, the admin's next \<open>GET\<close> of a cached URL is answered exactly as
  before the write, from the pre-write entry, although the write was the admin's own.\<close>

theorem admin_view_stale:
  assumes "now \<le> t'" "task_route now p op d (Some kv) = (resp, d', r')" "write_owner d p op \<noteq> Some (fst p)"
  shows "cache_lookup ''GET'' url (Some p) t' r' = cache_lookup ''GET'' url (Some p) t' (Some kv)"
proof (cases "success resp")
  case True
  with task_route_cache [OF assms(2)] obtain o' where o': "write_owner d p op = Some o'"
    and r': "r' = clearUserCache now o' (Some kv)" by auto
  obtain kv' where "clearUserCache now o' (Some kv) = Some kv'"
    and "redis_get t' (cache_key url (Some p)) kv' = redis_get t' (cache_key url (Some p)) kv"
    using clearUserCache_entry [OF assms(1), of o' kv url "Some p"] assms(3) o' by auto
  then show ?thesis using r' by (simp add: cache_lookup_def)
next
  case False
  then show ?thesis using task_route_cache [OF assms(2)] by simp
qed

theorem admin_view_stale_witness:
  "cache_lookup ''GET'' ''/api/tasks'' (Some (3, ex_user ''Root'' ''root@x.com'' AdminRole)) 2000
     (snd (snd (task_route 1000 (3, ex_user ''Root'' ''root@x.com'' AdminRole)
        (OpUpdate 4 (ex_body\<lparr>b_status := Some Completed\<rparr>)) ex_db
        (Some [(cache_key ''/api/tasks'' (Some (3, ex_user ''Root'' ''root@x.com'' AdminRole)),
                (successResponse 200 ''Tasks retrieved successfully'' (Some (TaskPage [])), 9000))])))) =
   Hit (successResponse 200 ''Tasks retrieved successfully'' (Some (TaskPage [])))"
proof -
  obtain resp d' r' where eq: "task_route 1000 (3, ex_user ''Root'' ''root@x.com'' AdminRole)
      (OpUpdate 4 (ex_body\<lparr>b_status := Some Completed\<rparr>)) ex_db
      (Some [(cache_key ''/api/tasks'' (Some (3, ex_user ''Root'' ''root@x.com'' AdminRole)),
              (successResponse 200 ''Tasks retrieved successfully'' (Some (TaskPage [])), 9000))]) = (resp, d', r')"
    by (metis prod_cases3)
  have w: "write_owner ex_db (3, ex_user ''Root'' ''root@x.com'' AdminRole)
      (OpUpdate 4 (ex_body\<lparr>b_status := Some Completed\<rparr>)) \<noteq> Some (fst (3::nat, ex_user ''Root'' ''root@x.com'' AdminRole))"
    by (simp add: write_owner_def ex_db_def ex_task_def)
  from admin_view_stale [OF _ eq w, of 2000 "''/api/tasks''"]
  have "cache_lookup ''GET'' ''/api/tasks'' (Some (3, ex_user ''Root'' ''root@x.com'' AdminRole)) 2000 r' =
      Hit (successResponse 200 ''Tasks retrieved successfully'' (Some (TaskPage [])))"
    by (simp add: cache_lookup_def redis_get_def successResponse_def)
  then show ?thesis by (simp only: eq snd_conv)
qed

end
