(* ===== verification/AdminController.thy ===== *)
theory AdminController
  imports TaskController
begin

text \<open>
  \<open>src/backend/src/controllers/adminController.js\<close>: user management and system
  statistics for administrators, and the admin routes, which put \<open>protect\<close> and
  \<open>authorize("admin")\<close> in front of every handler (\<open>routes/adminRoutes.js\<close> is not
  part of the sources; its pipeline is modelled from the interface table of the
  specification). Queries reuse the MongoDB model of theory \<open>TaskController\<close>
  (regex matcher, BSON sort, skip/limit); users are returned through
  \<open>toJSON\<close>, without password and refresh token.
\<close>

record user_query =
  uq_search :: "string option"
  uq_role :: "string option"
  uq_isActive :: "string option"
  uq_page :: int
  uq_limit :: int

record user_stats =
  us_total :: nat
  us_active :: nat
  us_inactive :: nat
  us_admins :: nat
  us_regular :: nat
  us_recentlyJoined :: nat

record task_totals =
  tt_total :: nat
  tt_pending :: nat
  tt_inProgress :: nat
  tt_completed :: nat

record system_stats =
  sys_users :: user_stats
  sys_tasks :: task_totals

datatype admin_payload =
    UserPage "user_json list"
  | UserDetail user_json nat
  | UserUpdated user_json
  | SystemStats system_stats

subsection \<open>Handlers\<close>

text \<open>The query object of \<open>getAllUsers\<close>: truthy \<open>role\<close>, a present \<open>isActive\<close>
  (compared with the string \<open>"true"\<close>), truthy \<open>search\<close>.\<close>

definition user_filter :: "(string \<Rightarrow> string \<Rightarrow> bool) \<Rightarrow> user_query \<Rightarrow> user \<Rightarrow> bool" where
  "user_filter rx q u \<longleftrightarrow>
     (case uq_role q of None \<Rightarrow> True | Some r \<Rightarrow> r = [] \<or> role_str (role u) = r) \<and>
     (case uq_isActive q of None \<Rightarrow> True | Some a \<Rightarrow> isActive u = (a = ''true'')) \<and>
     (case uq_search q of None \<Rightarrow> True | Some s \<Rightarrow> s = [] \<or> rx s (name u) \<or> rx s (email u))"

definition getAllUsers ::
  "(string \<Rightarrow> string \<Rightarrow> bool) \<Rightarrow> user_query \<Rightarrow> db \<Rightarrow> admin_payload response" where
  "getAllUsers rx q d =
     (let matching = filter (\<lambda>(i, u). user_filter rx q u) (users d);
          pageNum = uq_page q; limitNum = uq_limit q;
          skip = (pageNum - 1) * limitNum
      in case mongo_skip_limit skip limitNum (rev (sort_key (\<lambda>p. SDate (createdAt (snd p))) matching)) of
           Inl e \<Rightarrow> errorHandler e
         | Inr found \<Rightarrow>
             paginationResponse 200 ''Users retrieved successfully''
               (UserPage (map (\<lambda>(i, u). toJSON_user i u) found))
               (countDocuments (user_filter rx q) (users d)) pageNum limitNum)"

definition getUserById :: "oid \<Rightarrow> db \<Rightarrow> admin_payload response" where
  "getUserById uid d =
     (case map_of (users d) uid of
        None \<Rightarrow> errorResponse 404 ''User not found'' None
      | Some u \<Rightarrow>
          successResponse 200 ''User retrieved successfully''
            (Some (UserDetail (toJSON_user uid u) (countDocuments (\<lambda>t. user t = uid) (tasks d)))))"

text \<open>\<open>if (name) ...; if (email && email !== user.email) ...; if (role) ...;
  if (isActive !== undefined) ...\<close>.\<close>

definition updateUser ::
  "oid \<Rightarrow> string option \<Rightarrow> string option \<Rightarrow> role option \<Rightarrow> bool option \<Rightarrow> db \<Rightarrow>
     admin_payload response \<times> db" where
  "updateUser uid nm em r act d =
     (case map_of (users d) uid of
        None \<Rightarrow> (errorResponse 404 ''User not found'' None, d)
      | Some u \<Rightarrow>
          (let u1 = (case nm of Some n \<Rightarrow> if n \<noteq> [] then u\<lparr>name := js_trim n\<rparr> else u | None \<Rightarrow> u)
           in case (case em of
                      Some e \<Rightarrow>
                        if e \<noteq> [] \<and> e \<noteq> email u1
                        then (case findOne_email d e of
                                Some _ \<Rightarrow> Inl (errorResponse 400 ''Email already in use'' None)
                              | None \<Rightarrow> Inr (u1\<lparr>email := email_setter e\<rparr>))
                        else Inr u1
                    | None \<Rightarrow> Inr u1) of
                Inl resp \<Rightarrow> (resp, d)
              | Inr u2 \<Rightarrow>
                  (let u3 = (case r of Some x \<Rightarrow> u2\<lparr>role := x\<rparr> | None \<Rightarrow> u2);
                       u4 = (case act of Some b \<Rightarrow> u3\<lparr>isActive := b\<rparr> | None \<Rightarrow> u3)
                   in case save_user 0 False uid u4 d of
                        Inl e \<Rightarrow> (errorHandler e, d)
                      | Inr d' \<Rightarrow>
                          (successResponse 200 ''User updated successfully''
                             (Some (UserUpdated (toJSON_user uid u4))), d'))))"

definition deleteUser :: "principal \<Rightarrow> oid \<Rightarrow> db \<Rightarrow> admin_payload response \<times> db" where
  "deleteUser p uid d =
     (case map_of (users d) uid of
        None \<Rightarrow> (errorResponse 404 ''User not found'' None, d)
      | Some u \<Rightarrow>
          if oid_str uid = oid_str (fst p)
          then (errorResponse 400 ''Cannot delete your own account'' None, d)
          else (successResponse 200 ''User and associated tasks deleted successfully'' None,
                delete_user uid (deleteMany_tasks_of uid d)))"

text \<open>\<open>sevenDaysAgo.setDate(sevenDaysAgo.getDate() - 7)\<close>: seven days of
  milliseconds before \<open>now\<close> (daylight-saving shifts of the local calendar ignored).\<close>

definition getSystemStats :: "millis \<Rightarrow> db \<Rightarrow> admin_payload response" where
  "getSystemStats now d =
     (let totalUsers = countDocuments (\<lambda>u. True) (users d);
          activeUsers = countDocuments (\<lambda>u. isActive u) (users d);
          adminUsers = countDocuments (\<lambda>u. role_str (role u) = ''admin'') (users d);
          regularUsers = countDocuments (\<lambda>u. role_str (role u) = ''user'') (users d);
          totalTasks = countDocuments (\<lambda>t. True) (tasks d);
          pendingTasks = countDocuments (\<lambda>t. status_str (status t) = ''pending'') (tasks d);
          inProgressTasks = countDocuments (\<lambda>t. status_str (status t) = ''in-progress'') (tasks d);
          completedTasks = countDocuments (\<lambda>t. status_str (status t) = ''completed'') (tasks d);
          sevenDaysAgo = now - 7 * 86400000;
          recentUsers = countDocuments (\<lambda>u. sevenDaysAgo \<le> createdAt u) (users d)
      in successResponse 200 ''System statistics retrieved''
           (Some (SystemStats
              \<lparr>sys_users = \<lparr>us_total = totalUsers, us_active = activeUsers,
                             us_inactive = totalUsers - activeUsers, us_admins = adminUsers,
                             us_regular = regularUsers, us_recentlyJoined = recentUsers\<rparr>,
               sys_tasks = \<lparr>tt_total = totalTasks, tt_pending = pendingTasks,
                             tt_inProgress = inProgressTasks, tt_completed = completedTasks\<rparr>\<rparr>)))"

subsection \<open>The admin routes\<close>

datatype admin_op =
    ListUsers user_query
  | GetUser oid
  | UpdateUser oid "string option" "string option" "role option" "bool option"
  | DeleteUser oid
  | GetStats

text \<open>\<open>router.use(protect, authorize("admin"))\<close> in front of the five handlers.\<close>

definition admin_route ::
  "config \<Rightarrow> millis \<Rightarrow> (string \<Rightarrow> string \<Rightarrow> bool) \<Rightarrow> string option \<Rightarrow> admin_op \<Rightarrow> db \<Rightarrow>
     admin_payload response \<times> db" where
  "admin_route cfg now rx authorization op d =
     (case protect cfg now d authorization of
        Inl resp \<Rightarrow> (resp, d)
      | Inr pr \<Rightarrow>
          (case authorize [AdminRole] (Some pr) of
             Inl resp \<Rightarrow> (resp, d)
           | Inr p \<Rightarrow>
               (case op of
                  ListUsers q \<Rightarrow> (getAllUsers rx q d, d)
                | GetUser uid \<Rightarrow> (getUserById uid d, d)
                | UpdateUser uid nm em r act \<Rightarrow> updateUser uid nm em r act d
                | DeleteUser uid \<Rightarrow> deleteUser p uid d
                | GetStats \<Rightarrow> (getSystemStats now d, d))))"

subsection \<open>Lemmas\<close>

lemma deleteMany_no_tasks: "\<forall>(j, t) \<in> set (tasks (deleteMany_tasks_of i d)). user t \<noteq> i"
  by (auto simp: deleteMany_tasks_of_def)

lemma deleteUser_ok:
  "deleteUser p uid d = (resp, d') \<Longrightarrow> statusCode resp = 200 \<Longrightarrow>
     map_of (users d) uid \<noteq> None \<and> uid \<noteq> fst p \<and> d' = delete_user uid (deleteMany_tasks_of uid d)"
  by (auto simp: deleteUser_def oid_str_inj split: option.splits if_splits)

lemma updateUser_store:
  "updateUser uid nm em r act d = (resp, d') \<Longrightarrow> d' = d \<or>
     (\<exists>u u'. map_of (users d) uid = Some u \<and> password u' = password u \<and> save_user 0 False uid u' d = Inr d')"
  by (auto simp: updateUser_def Let_def split: option.split_asm if_split_asm sum.split_asm)

lemma updateUser_inv:
  assumes "db_inv d"
  shows "db_inv (snd (updateUser uid nm em r act d))"
proof -
  have "snd (updateUser uid nm em r act d) = d \<or>
      (\<exists>u u'. map_of (users d) uid = Some u \<and> password u' = password u \<and>
         save_user 0 False uid u' d = Inr (snd (updateUser uid nm em r act d)))"
    by (rule updateUser_store) (rule surjective_pairing)
  then show ?thesis using assms by (auto intro: resave_inv)
qed

lemma deleteUser_inv: "db_inv d \<Longrightarrow> db_inv (snd (deleteUser p uid d))"
  by (auto simp: deleteUser_def delete_user_inv deleteMany_inv deleteMany_no_tasks
      split: option.splits if_splits)

lemma count_partition:
  "countDocuments P xs + countDocuments (\<lambda>x. \<not> P x) xs = countDocuments (\<lambda>x. True) xs"
  by (induction xs) (auto simp: countDocuments_def)

lemma role_str_user: "(role_str r = ''user'') = (\<not> role_str r = ''admin'')"
  by (cases r) (simp_all add: role_str_def)

lemma count_roles:
  "countDocuments (\<lambda>u. role_str (role u) = ''admin'') us + countDocuments (\<lambda>u. role_str (role u) = ''user'') us =
   countDocuments (\<lambda>u. True) us"
  unfolding role_str_user by (rule count_partition)

lemma count_statuses:
  "countDocuments (\<lambda>t. status_str (status t) = ''pending'') ts +
   countDocuments (\<lambda>t. status_str (status t) = ''in-progress'') ts +
   countDocuments (\<lambda>t. status_str (status t) = ''completed'') ts = countDocuments (\<lambda>t. True) ts"
proof (induction ts)
  case Nil
  then show ?case by (simp add: countDocuments_def)
next
  case (Cons a ts)
  obtain i t where a: "a = (i, t)" by (cases a)
  show ?case using Cons a by (cases "status t") (simp_all add: countDocuments_def status_str_def)
qed

subsection \<open>Properties of the admin routes\<close>

text \<open>C14: the admin routes are guarded: a request whose bearer token does not
  authenticate an administrator (no token, a bad or expired one, an unknown,
  deactivated or non-admin user) is refused with 401 or 403, whatever the operation,
  and leaves the store as it was.\<close>

theorem admin_routes_guarded:
  assumes "\<forall>pr. (protect cfg now d h :: admin_payload response + principal) = Inr pr \<longrightarrow> role (snd pr) \<noteq> AdminRole"
  shows "statusCode (fst (admin_route cfg now rx h op d)) \<in> {401, 403} \<and> snd (admin_route cfg now rx h op d) = d"
proof (cases "protect cfg now d h :: admin_payload response + principal")
  case (Inl resp)
  then show ?thesis by (simp add: admin_route_def protect_Inl_401)
next
  case (Inr pr)
  moreover have "role (snd pr) \<noteq> AdminRole" using assms Inr by blast
  ultimately show ?thesis by (simp add: admin_route_def authorize_Some)
qed

theorem admin_routes_guarded_witness:
  "statusCode (fst (admin_route ex_cfg 2000 (\<lambda>pat txt. False)
      (Some (bearer_header (pairAccess (generateTokens ex_cfg 1000 2)))) (DeleteUser 1) ex_db)) \<in> {401, 403} \<and>
   snd (admin_route ex_cfg 2000 (\<lambda>pat txt. False)
      (Some (bearer_header (pairAccess (generateTokens ex_cfg 1000 2)))) (DeleteUser 1) ex_db) = ex_db"
proof (rule admin_routes_guarded)
  have "(protect ex_cfg 2000 ex_db (Some (bearer_header (pairAccess (generateTokens ex_cfg 1000 2))))
      :: admin_payload response + principal) = Inr (2, ex_user ''Bob'' ''b@x.com'' UserRole)"
    by (simp add: protect_bearer token_simps jwt_sign_verify access_life_def ex_db_def ex_user_def ex_cfg_def)
  then show "\<forall>pr. (protect ex_cfg 2000 ex_db (Some (bearer_header (pairAccess (generateTokens ex_cfg 1000 2))))
      :: admin_payload response + principal) = Inr pr \<longrightarrow> role (snd pr) \<noteq> AdminRole"
    by (simp add: ex_user_def)
qed

text \<open>Deleting a user cascades: after a successful \<open>deleteUser\<close>, the deleted
  user was not the acting admin, is gone, exactly the tasks owned by that user are gone,
  and the store still satisfies the invariant.\<close>

theorem deleteUser_cascade:
  assumes "db_inv d" "deleteUser p uid d = (resp, d')" "statusCode resp = 200"
  shows "uid \<noteq> fst p \<and> map_of (users d') = (map_of (users d))(uid := None) \<and>
    set (tasks d') = {x \<in> set (tasks d). user (snd x) \<noteq> uid} \<and> db_inv d'"
proof -
  from deleteUser_ok [OF assms(2,3)]
  have u: "uid \<noteq> fst p" and d': "d' = delete_user uid (deleteMany_tasks_of uid d)" by auto
  have "db_inv d'" using deleteUser_inv [OF assms(1), of p uid] assms(2) by simp
  then show ?thesis
    using u d' by (auto simp: delete_user_def deleteMany_tasks_of_def delete_conv')
qed

theorem deleteUser_cascade_witness:
  "1 \<noteq> fst (3::nat, ex_user ''Root'' ''root@x.com'' AdminRole) \<and>
   map_of (users (snd (deleteUser (3, ex_user ''Root'' ''root@x.com'' AdminRole) 1 ex_db))) =
     (map_of (users ex_db))(1 := None) \<and>
   set (tasks (snd (deleteUser (3, ex_user ''Root'' ''root@x.com'' AdminRole) 1 ex_db))) =
     {x \<in> set (tasks ex_db). user (snd x) \<noteq> 1} \<and>
   db_inv (snd (deleteUser (3, ex_user ''Root'' ''root@x.com'' AdminRole) 1 ex_db))"
proof -
  obtain resp d' where eq: "deleteUser (3, ex_user ''Root'' ''root@x.com'' AdminRole) 1 ex_db = (resp, d')"
    by fastforce
  have "statusCode resp = 200" using eq by (auto simp: deleteUser_def ex_db_def oid_str_inj)
  from deleteUser_cascade [OF ex_db_inv eq this] show ?thesis by (simp only: eq snd_conv) auto
qed

text \<open>The admin routes keep the store invariant, for every operation and every
  caller.\<close>

theorem admin_route_inv:
  assumes "db_inv d"
  shows "db_inv (snd (admin_route cfg now rx h op d))"
  using assms updateUser_inv [OF assms] deleteUser_inv [OF assms]
  by (simp add: admin_route_def split: sum.split admin_op.split)

theorem admin_route_inv_witness:
  "db_inv (snd (admin_route ex_cfg 2000 (\<lambda>pat txt. False)
      (Some (bearer_header (pairAccess (generateTokens ex_cfg 1000 3)))) (DeleteUser 1) ex_db))"
  by (rule admin_route_inv [OF ex_db_inv])

text \<open>THe system statistics are consistent: active and inactive users add up to
  all users (the subtraction never truncates), admins and regular users too, and the
  three statuses add up to all tasks.\<close>

theorem getSystemStats_consistent:
  "\<exists>s. data (getSystemStats now d) = Some (SystemStats s) \<and>
     us_active (sys_users s) + us_inactive (sys_users s) = us_total (sys_users s) \<and>
     us_admins (sys_users s) + us_regular (sys_users s) = us_total (sys_users s) \<and>
     tt_pending (sys_tasks s) + tt_inProgress (sys_tasks s) + tt_completed (sys_tasks s) = tt_total (sys_tasks s)"
  using count_partition [of "\<lambda>u. isActive u" "users d"] count_roles [of "users d"]
    count_statuses [of "tasks d"]
  by (simp add: getSystemStats_def Let_def)

text \<open>Re-casing one's own e-mail address is refused (finding). The handlers
  \<open>updateUser\<close> and \<open>updateProfile\<close> compare the raw address with the stored,
  normalised one, then look the raw address up through the schema's setters: an
  address that differs from the stored one only in case or surrounding blanks finds the
  user's own document and is refused with 400 ``Email already in use''. On the profile
  route \<open>updateProfileValidation\<close> trims and normalises the address first; the admin
  route has no validation array in the sources, so there an administrator re-casing a
  user's address meets the refusal.\<close>

theorem email_recase_refused:
  assumes "db_inv d" "map_of (users d) uid = Some u" "email_setter e = email u" "e \<noteq> email u"
  shows "updateUser uid None (Some e) None None d = (errorResponse 400 ''Email already in use'' None, d) \<and>
    updateProfile uid None (Some e) d = (errorResponse 400 ''Email already in use'' None, d)"
proof -
  from assms(1) have "distinct (map fst (users d))" "emails_unique (users d)"
    by (simp_all add: db_inv_def)
  then have "findOne_email d e = Some (uid, u)"
    using find_email_unique [of "users d" uid u] map_of_SomeD [OF assms(2)] assms(3)
    by (simp add: findOne_email_def)
  moreover have "e \<noteq> []" using assms(3,4) by (auto simp: email_setter_def js_trim_def js_lower_def)
  ultimately show ?thesis using assms(2,4) by (simp add: updateUser_def updateProfile_def Let_def)
qed

theorem email_recase_refused_witness:
  "updateUser 1 None (Some '' a@x.com'') None None ex_db = (errorResponse 400 ''Email already in use'' None, ex_db) \<and>
   updateProfile 1 None (Some '' a@x.com'') ex_db = (errorResponse 400 ''Email already in use'' None, ex_db)"
proof (rule email_recase_refused [OF ex_db_inv])
  show "map_of (users ex_db) 1 = Some (ex_user ''Alice'' ''a@x.com'' UserRole)" by (simp add: ex_db_def)
qed (simp_all add: ex_user_def email_setter_def js_trim_def js_lower_def js_space_def code_between_def)

end
