(* ===== verification/Routes.thy ===== *)
theory Routes
  imports Validators AdminController
begin

text \<open>
  The routers: \<open>src/backend/src/routes/taskRoutes.js\<close> and the authentication routes
  (\<open>routes/authRoutes.js\<close> is not among the sources; modelled from the interface table
  of the specification, with each route running the validation array of
  \<open>authValidator.js\<close> named after it and, on the protected routes, after \<open>protect\<close>, in
  the order \<open>taskRoutes.js\<close> uses). A route is the composition of its middleware
  stages: \<open>protect\<close>, the validation chains with \<open>validate\<close>, the handler. The
  handler reads the sanitized body; the string fields it destructures are decoded
  into the handler's typed inputs by the Mongoose casts of the enum and date paths.
\<close>

subsection \<open>Decoding the sanitized body\<close>

definition field :: "req_body \<Rightarrow> string \<Rightarrow> string" where
  "field b f = js_str (map_of b f)"

definition status_of :: "string \<Rightarrow> status option" where
  "status_of s = find (\<lambda>x. status_str x = s) [Pending, InProgress, Completed]"

definition priority_of :: "string \<Rightarrow> priority option" where
  "priority_of s = find (\<lambda>x. priority_str x = s) [Low, Medium, High]"

definition role_of :: "string \<Rightarrow> role option" where
  "role_of s = (if s = ''admin'' then Some AdminRole else if s = ''user'' then Some UserRole else None)"

text \<open>\<open>const { title, description, status, priority, dueDate } = req.body\<close>, with the
  Mongoose casts of \<open>status\<close>, \<open>priority\<close> and \<open>dueDate\<close>. Instants are kept as
  milliseconds since 1970 (\<open>nat\<close>): a date before 1970, which \<open>date_value\<close> reads as a
  negative number, becomes the instant 0. This changes no outcome once \<open>now > 0\<close>: both
  are in the past, and the schema's \<open>value >= new Date()\<close> refuses either.\<close>

definition task_body_of :: "vlib \<Rightarrow> req_body \<Rightarrow> task_body" where
  "task_body_of lib b =
     \<lparr>b_title = map_of b ''title'', b_description = map_of b ''description'',
      b_status = Option.bind (map_of b ''status'') status_of,
      b_priority = Option.bind (map_of b ''priority'') priority_of,
      b_dueDate = Option.bind (map_of b ''dueDate'') (\<lambda>s. map_option nat (date_value lib s))\<rparr>"

subsection \<open>Middleware composition\<close>

text \<open>\<open>rules, validate, handler\<close>: the handler runs on the sanitized body only when
  no rule failed.\<close>

definition validated ::
  "vlib \<Rightarrow> millis \<Rightarrow> chain list \<Rightarrow> req_body \<Rightarrow> (req_body \<Rightarrow> 'd response \<times> 's) \<Rightarrow> 's \<Rightarrow> 'd response \<times> 's" where
  "validated lib now chs b k s =
     (case run_chains lib now chs b of
        (b', errs) \<Rightarrow> (case validate errs of Some resp \<Rightarrow> (resp, s) | None \<Rightarrow> k b'))"

text \<open>\<open>protect, handler\<close>.\<close>

definition protected ::
  "config \<Rightarrow> millis \<Rightarrow> db \<Rightarrow> string option \<Rightarrow> (principal \<Rightarrow> 'd response \<times> 's) \<Rightarrow> 's \<Rightarrow> 'd response \<times> 's" where
  "protected cfg now d h k s = (case protect cfg now d h of Inl resp \<Rightarrow> (resp, s) | Inr p \<Rightarrow> k p)"

subsection \<open>Authentication routes\<close>

datatype auth_req =
    RegisterReq req_body
  | LoginReq req_body
  | RefreshReq req_body
  | LogoutReq
  | MeReq
  | ProfileReq req_body
  | PasswordReq req_body

definition auth_route ::
  "vlib \<Rightarrow> config \<Rightarrow> millis \<Rightarrow> nat \<Rightarrow> string option \<Rightarrow> auth_req \<Rightarrow> db \<Rightarrow> auth_payload response \<times> db" where
  "auth_route lib cfg now salt h rq d =
     (case rq of
        RegisterReq b \<Rightarrow> validated lib now registerValidation b
          (\<lambda>b'. register cfg now salt (field b' ''name'') (field b' ''email'') (field b' ''password'')
                  (Option.bind (map_of b' ''role'') role_of) d) d
      | LoginReq b \<Rightarrow> validated lib now loginValidation b
          (\<lambda>b'. login cfg now (field b' ''email'') (field b' ''password'') d) d
      | RefreshReq b \<Rightarrow> validated lib now refreshTokenValidation b
          (\<lambda>b'. refreshTokenCtrl cfg now (map_of b' ''refreshToken'') d) d
      | LogoutReq \<Rightarrow> protected cfg now d h (\<lambda>p. logout (fst p) d) d
      | MeReq \<Rightarrow> protected cfg now d h (\<lambda>p. (getMe (fst p) d, d)) d
      | ProfileReq b \<Rightarrow> protected cfg now d h (\<lambda>p. validated lib now updateProfileValidation b
          (\<lambda>b'. updateProfile (fst p) (map_of b' ''name'') (map_of b' ''email'') d) d) d
      | PasswordReq b \<Rightarrow> protected cfg now d h (\<lambda>p. validated lib now changePasswordValidation b
          (\<lambda>b'. changePassword salt (fst p) (field b' ''currentPassword'') (field b' ''newPassword'') d) d) d)"

subsection \<open>Task routes\<close>

text \<open>The write routes after \<open>protect\<close>: \<open>POST /\<close> and \<open>PUT /:id\<close> run their
  validation arrays and \<open>validate\<close>; \<open>DELETE /:id\<close> goes straight to the handler.\<close>

datatype task_write = PostTask req_body | PutTask oid req_body | DeleteReq oid

definition task_write_route ::
  "vlib \<Rightarrow> millis \<Rightarrow> principal \<Rightarrow> task_write \<Rightarrow> db \<Rightarrow> task_cache \<Rightarrow>
     task_payload response \<times> db \<times> task_cache" where
  "task_write_route lib now p w d r =
     (case w of
        PostTask b \<Rightarrow> validated lib now createTaskValidation b
          (\<lambda>b'. task_route now p (OpCreate (task_body_of lib b')) d r) (d, r)
      | PutTask tid b \<Rightarrow> validated lib now updateTaskValidation b
          (\<lambda>b'. task_route now p (OpUpdate tid (task_body_of lib b')) d r) (d, r)
      | DeleteReq tid \<Rightarrow> task_route now p (OpDelete tid) d r)"

text \<open>The cached read routes and their expiries (\<open>cache(300)\<close> for the statistics,
  \<open>cache(60)\<close> otherwise).\<close>

datatype task_read = ReadList task_query | ReadOne oid | ReadStats

definition read_handler ::
  "(string \<Rightarrow> string \<Rightarrow> bool) \<Rightarrow> principal \<Rightarrow> task_read \<Rightarrow> db \<Rightarrow> task_payload response" where
  "read_handler rx p op d =
     (case op of ReadList q \<Rightarrow> getTasks rx p q d | ReadOne tid \<Rightarrow> getTask p tid d | ReadStats \<Rightarrow> getTaskStats p d)"

definition read_expiry :: "task_read \<Rightarrow> nat" where
  "read_expiry op = (case op of ReadStats \<Rightarrow> 300 | _ \<Rightarrow> 60)"

text \<open>A choice of the library functions for the concrete runs of the development:
  \<open>isEmail\<close> accepts what contains an \<open>@\<close>, \<open>normalizeEmail\<close> lower-cases, and
  one ISO date string is known to the date parser.\<close>

definition ex_lib :: vlib where
  "ex_lib = \<lparr>isEmail = (\<lambda>s. CHR ''@'' \<in> set s), isISO8601 = (\<lambda>s. s = ''1970-01-02T00:00:00Z''),
             normalizeEmail = js_lower,
             date_value = (\<lambda>s. if s = ''1970-01-02T00:00:00Z'' then Some 86400000 else None)\<rparr>"

text \<open>Two request bodies: a task due at the first midnight of the clock (created
  five seconds after it), and the body that marks a task completed.\<close>

definition ex_post :: req_body where
  "ex_post = [(''title'', ''Pay rent''), (''description'', ''Before noon''), (''dueDate'', ''1970-01-02T00:00:00Z'')]"

definition ex_register :: req_body where
  "ex_register = [(''name'', ''Ann''), (''email'', ''ann@mail.info''), (''password'', ''secret1'')]"

definition ex_put :: req_body where
  "ex_put = [(''status'', ''completed'')]"

subsection \<open>Lemmas on the routes\<close>

lemma validated_cases:
  "validated lib now chs b k s = (resp, s') \<Longrightarrow>
     (s' = s \<and> statusCode resp = 400 \<and> \<not> success resp) \<or> (\<exists>b'. k b' = (resp, s'))"
  by (auto simp: validated_def validate_def split: prod.splits if_splits)

lemma protected_cases:
  fixes k :: "principal \<Rightarrow> 'd response \<times> 's"
  assumes "protected cfg now d h k s = (resp, s')"
  shows "(s' = s \<and> \<not> success resp) \<or>
    (\<exists>p. (protect cfg now d h :: 'd response + principal) = Inr p \<and> k p = (resp, s'))"
proof (cases "protect cfg now d h :: 'd response + principal")
  case (Inl r)
  with assms protect_refusal [OF Inl] show ?thesis by (simp add: protected_def)
next
  case (Inr p)
  with assms show ?thesis by (simp add: protected_def)
qed

lemma auth_route_inv:
  assumes "db_inv d" "auth_route lib cfg now salt h rq d = (resp, d')"
  shows "db_inv d'"
  using assms
  by (cases rq)
    (auto simp: auth_route_def dest!: validated_cases protected_cases
      dest: register_inv login_inv refresh_inv logout_inv updateProfile_inv changePassword_inv)

lemma task_write_route_cases:
  "task_write_route lib now p w d r = (resp, d', r') \<Longrightarrow>
     (d' = d \<and> r' = r \<and> \<not> success resp) \<or> (\<exists>op. task_route now p op d r = (resp, d', r'))"
  by (cases w) (auto simp: task_write_route_def dest!: validated_cases)

lemma create_chain_fields:
  assumes "run_chains lib now createTaskValidation b = (b', errs)" "ch \<in> set createTaskValidation"
  shows "map_of b' (ch_field ch) = fst (chain_out lib now ch (map_of b (ch_field ch))) \<and>
         set (snd (chain_out lib now ch (map_of b (ch_field ch)))) \<subseteq> set errs"
  using run_chains_field [OF _ assms(2,1)] by (simp add: createTaskValidation_def)

lemma create_valid_title:
  assumes "run_chains lib now createTaskValidation b = (b', [])"
  shows "\<exists>t. map_of b' ''title'' = Some t \<and> js_trim t = t \<and> 3 \<le> length t \<and> length t \<le> 100"
  using create_chain_fields [OF assms, of "createTaskValidation ! 0"]
  by (auto simp: createTaskValidation_def chain_out_def js_str_def split: option.splits if_splits)

lemma create_valid_description:
  assumes "run_chains lib now createTaskValidation b = (b', [])"
  shows "\<exists>t. map_of b' ''description'' = Some t \<and> js_trim t = t \<and> t \<noteq> [] \<and> length t \<le> 500"
  using create_chain_fields [OF assms, of "createTaskValidation ! 1"]
  by (auto simp: createTaskValidation_def chain_out_def js_str_def split: option.splits if_splits)

lemma create_valid_status:
  assumes "run_chains lib now createTaskValidation b = (b', [])" "map_of b' ''status'' = Some s"
  shows "map_option status_str (status_of s) = Some s"
  using create_chain_fields [OF assms(1), of "createTaskValidation ! 2"] assms(2)
  by (auto simp: createTaskValidation_def chain_out_def js_str_def status_of_def status_str_def split: if_splits)

lemma create_valid_dueDate:
  assumes "run_chains lib now createTaskValidation b = (b', [])" "map_of b' ''dueDate'' = Some s"
  shows "isISO8601 lib s \<and> (s \<noteq> [] \<longrightarrow> (\<forall>t. date_value lib s = Some t \<longrightarrow> int (start_of_day now) \<le> t))"
  using create_chain_fields [OF assms(1), of "createTaskValidation ! 4"] assms(2)
  by (auto simp: createTaskValidation_def chain_out_def js_str_def split: if_splits)

lemma validateTask_created [simp]: "validateTask now (t\<lparr>taskCreatedAt := x\<rparr>) = validateTask now t"
  by (simp add: validateTask_def)

lemma createTask_status:
  "statusCode (fst (createTask now p bd d r)) = (if validateTask now (new_task (fst p) bd) = [] then 201 else 400)"
  by (auto simp: createTask_def create_task_def fresh_oid_def save_task_def Let_def split: sum.split)

lemma create_validated_schema:
  assumes "run_chains lib now createTaskValidation b = (b', [])" "\<not> isISO8601 lib []"
  shows "validateTask now (new_task uid (task_body_of lib b')) =
           (case b_dueDate (task_body_of lib b') of
              None \<Rightarrow> [] | Some x \<Rightarrow> if now \<le> x then [] else [(''dueDate'', ''Due date must be in the future'')])"
    and "b_dueDate (task_body_of lib b') = Some x \<Longrightarrow> start_of_day now \<le> x"
proof -
  obtain t where t: "map_of b' ''title'' = Some t" "js_trim t = t" "3 \<le> length t" "length t \<le> 100"
    using create_valid_title [OF assms(1)] by blast
  obtain ds where ds: "map_of b' ''description'' = Some ds" "js_trim ds = ds" "ds \<noteq> []" "length ds \<le> 500"
    using create_valid_description [OF assms(1)] by blast
  from t ds show "validateTask now (new_task uid (task_body_of lib b')) =
           (case b_dueDate (task_body_of lib b') of
              None \<Rightarrow> [] | Some x \<Rightarrow> if now \<le> x then [] else [(''dueDate'', ''Due date must be in the future'')])"
    by (auto simp: validateTask_def new_task_def task_body_of_def split: option.split)
  assume "b_dueDate (task_body_of lib b') = Some x"
  then obtain s t where "map_of b' ''dueDate'' = Some s" "date_value lib s = Some t" "x = nat t"
    by (auto simp: task_body_of_def bind_eq_Some_conv)
  with create_valid_dueDate [OF assms(1)] assms(2) show "start_of_day now \<le> x" by fastforce
qed

lemma task_chain_field:
  assumes "chs = createTaskValidation \<or> chs = updateTaskValidation" "run_chains lib now chs b = (b', [])"
    and "i < 5"
  shows "map_of b' (ch_field (chs ! i)) = fst (chain_out lib now (chs ! i) (map_of b (ch_field (chs ! i)))) \<and>
         snd (chain_out lib now (chs ! i) (map_of b (ch_field (chs ! i)))) = []"
proof -
  have "distinct (map ch_field chs)" "length chs = 5"
    using assms(1) by (auto simp: createTaskValidation_def updateTaskValidation_def)
  moreover from this(2) have "chs ! i \<in> set chs" using assms(3) by simp
  ultimately show ?thesis using run_chains_field [OF _ _ assms(2)] by simp
qed

subsection \<open>Properties of the validated routes\<close>

text \<open>C21: the type of what the task handlers receive. Every body that passes
  \<open>createTaskValidation\<close> or \<open>updateTaskValidation\<close> reaches the handler with the
  schema's types: the status and priority it carries are decoded by the Mongoose casts
  to exactly the enum values the client named, title and description are trimmed and
  within the schema's bounds, and a due date is an ISO 8601 string.\<close>

theorem task_body_typed:
  assumes "chs = createTaskValidation \<or> chs = updateTaskValidation" "run_chains lib now chs b = (b', [])"
  shows "(\<forall>s. map_of b' ''status'' = Some s \<longrightarrow> map_option status_str (b_status (task_body_of lib b')) = Some s) \<and>
         (\<forall>s. map_of b' ''priority'' = Some s \<longrightarrow> map_option priority_str (b_priority (task_body_of lib b')) = Some s) \<and>
         (\<forall>t. map_of b' ''title'' = Some t \<longrightarrow> js_trim t = t \<and> 3 \<le> length t \<and> length t \<le> 100) \<and>
         (\<forall>t. map_of b' ''description'' = Some t \<longrightarrow> js_trim t = t \<and> length t \<le> 500) \<and>
         (\<forall>s. map_of b' ''dueDate'' = Some s \<longrightarrow> isISO8601 lib s)"
proof -
  note f = task_chain_field [OF assms]
  note defs = createTaskValidation_def updateTaskValidation_def chain_out_def js_str_def
  have "map_option status_str (status_of s) = Some s" if "map_of b' ''status'' = Some s" for s
    using f [of 2] assms(1) that by (auto simp: defs status_of_def status_str_def split: if_splits)
  moreover have "map_option priority_str (priority_of s) = Some s" if "map_of b' ''priority'' = Some s" for s
    using f [of 3] assms(1) that by (auto simp: defs priority_of_def priority_str_def split: if_splits)
  moreover have "js_trim t = t \<and> 3 \<le> length t \<and> length t \<le> 100" if "map_of b' ''title'' = Some t" for t
    using f [of 0] assms(1) that by (auto simp: defs split: if_splits option.splits)
  moreover have "js_trim t = t \<and> length t \<le> 500" if "map_of b' ''description'' = Some t" for t
    using f [of 1] assms(1) that by (auto simp: defs split: if_splits option.splits)
  moreover have "isISO8601 lib s" if "map_of b' ''dueDate'' = Some s" for s
    using f [of 4] assms(1) that by (auto simp: defs split: if_splits option.splits)
  ultimately show ?thesis by (simp add: task_body_of_def)
qed
theorem task_body_typed_witness:
  "run_chains ex_lib 2000 updateTaskValidation ex_put = (ex_put, []) \<and>
   map_option status_str (b_status (task_body_of ex_lib ex_put)) = Some ''completed''"
proof -
  have v: "run_chains ex_lib 2000 updateTaskValidation ex_put = (ex_put, [])"
    by (simp add: updateTaskValidation_def run_chain_def ex_put_def js_str_def)
  from task_body_typed [OF disjI2 [OF refl] v] v show ?thesis by (simp add: ex_put_def)
qed

text \<open>The route validator and the schema disagree on due dates (finding). A
  create request that passes \<open>createTaskValidation\<close> is created (201) unless its due
  date is earlier than the present instant, and the validator lets through exactly the
  due dates from midnight on: a due date earlier today passes the route's check
  (\<open>Due date cannot be in the past\<close>) and is then refused by the schema's
  \<open>Due date must be in the future\<close> with a 400 of a different shape.\<close>

theorem create_route_due_today:
  assumes "run_chains lib now createTaskValidation b = (b', [])" "\<not> isISO8601 lib []"
  shows "statusCode (fst (task_write_route lib now p (PostTask b) d r)) =
           (if \<exists>x. b_dueDate (task_body_of lib b') = Some x \<and> x < now then 400 else 201) \<and>
         (\<forall>x. b_dueDate (task_body_of lib b') = Some x \<longrightarrow> start_of_day now \<le> x)"
  using create_validated_schema [OF assms]
  by (auto simp: task_write_route_def validated_def validate_def assms(1) task_route_def createTask_status
      split: option.split)

theorem create_route_due_today_witness:
  "run_chains ex_lib 86405000 createTaskValidation ex_post = (ex_post, []) \<and>
   statusCode (fst (task_write_route ex_lib 86405000 (1, ex_user ''Alice'' ''a@x.com'' UserRole) (PostTask ex_post) ex_db (Some []))) = 400"
proof -
  have v: "run_chains ex_lib 86405000 createTaskValidation ex_post = (ex_post, [])"
    by (simp add: createTaskValidation_def run_chain_def ex_post_def ex_lib_def js_str_def js_trim_def js_space_def
        start_of_day_def)
  have i: "\<not> isISO8601 ex_lib []" by (simp add: ex_lib_def)
  have "b_dueDate (task_body_of ex_lib ex_post) = Some 86400000"
    by (simp add: task_body_of_def ex_post_def ex_lib_def)
  with create_route_due_today [OF v i, of "(1, ex_user ''Alice'' ''a@x.com'' UserRole)" ex_db "Some []"] v
  show ?thesis by simp
qed

text \<open>C35: Addresses with a long top-level domain cannot register (finding). The
  route validates the address with \<open>isEmail\<close> from validator.js, which accepts any
  top-level domain (\<open>ann@mail.info\<close>), but the schema's regular expression ends in
  \<open>(\.\w{2,3})+\<close>: a registration that passes the route's validation with such an
  address is refused by the schema with 400 \<open>Validation Error\<close>.\<close>

theorem register_schema_email:
  assumes "run_chains lib now registerValidation b = (b', [])"
    and "findOne_email d (field b' ''email'') = None" "\<not> email_matches (email_setter (field b' ''email''))"
  shows "statusCode (fst (auth_route lib cfg now salt h (RegisterReq b) d)) = 400 \<and>
         message (fst (auth_route lib cfg now salt h (RegisterReq b) d)) = ''Validation Error''"
proof -
  have "validateUser (new_user nm (field b' ''email'') pw r\<lparr>createdAt := now\<rparr>) \<noteq> []" for nm pw r
    using assms(3) by (simp add: validateUser_def new_user_def)
  then show ?thesis
    using assms(1,2)
    by (simp add: auth_route_def validated_def validate_def register_def create_user_def save_user_def
        fresh_oid_def Let_def)
qed

theorem register_schema_email_witness:
  "run_chains ex_lib 0 registerValidation ex_register = (ex_register, []) \<and>
   statusCode (fst (auth_route ex_lib ex_cfg 0 0 None (RegisterReq ex_register) ex_db)) = 400"
proof -
  have v: "run_chains ex_lib 0 registerValidation ex_register = (ex_register, [])"
    by (simp add: registerValidation_def run_chain_def ex_register_def ex_lib_def js_str_def js_trim_def
        js_space_def js_lower_def code_between_def)
  have f: "findOne_email ex_db (field ex_register ''email'') = None"
    by (simp add: field_def js_str_def ex_register_def findOne_email_def ex_db_def ex_user_def email_setter_def
        js_lower_def js_trim_def js_space_def code_between_def)
  have m: "\<not> email_matches (email_setter (field ex_register ''email''))"
    by (simp add: field_def js_str_def ex_register_def email_setter_def js_lower_def js_trim_def js_space_def
        code_between_def email_matches_def word_runs_def word_char_def sep_char_def)
  from register_schema_email [OF v f m] v show ?thesis by simp
qed

end
