(* ===== verification/Client.thy ===== *)
theory Client
  imports Routes
begin

text \<open>
  The frontend's API client, \<open>src/frontend/src/lib/api.ts\<close>: an axios instance
  whose request interceptor attaches the stored access token, and whose response
  interceptor answers a 401 by refreshing the token pair once (\<open>_retry\<close>) with the
  stored refresh token and retrying the request, or, when the refresh fails, clears the
  stored session and sends the browser to \<open>/login\<close>. The browser's \<open>localStorage\<close> and
  location are the record \<open>browser\<close>; the server is a parameter: \<open>srv\<close> answers the
  original request given its \<open>Authorization\<close> header, \<open>rf\<close> answers
  \<open>POST /api/auth/refresh\<close>, both on a server state \<open>'s\<close>. \<open>api_call\<close> returns how the
  call settles, the browser, the server state and the number of HTTP exchanges.
  \<open>backend_read\<close> and \<open>backend_refresh\<close> instantiate the server with the backend's
  task read routes (cache disabled) and refresh route.
\<close>

text \<open>The stored \<open>user\<close> is the object \<open>{id, name, email, role}\<close> of the login and
  registration responses.\<close>

record browser =
  accessToken :: "string option"
  refreshToken_ls :: "string option"
  user_ls :: "(oid \<times> string \<times> string \<times> role) option"
  location :: string

datatype 'd settled =
    Resolved "'d response"
  | Rejected "'d response"
  | RefreshRejected "auth_payload response option"

subsection \<open>The interceptors\<close>

text \<open>The request interceptor: \<open>if (token) config.headers.Authorization = ...\<close>;
  otherwise the request keeps the header its config already carries (\<open>h0\<close>).\<close>

definition req_header :: "browser \<Rightarrow> string option \<Rightarrow> string option" where
  "req_header b h0 =
     (case accessToken b of Some t \<Rightarrow> if t \<noteq> [] then Some (bearer_header t) else h0 | None \<Rightarrow> h0)"

definition setTokens :: "string \<Rightarrow> string \<Rightarrow> browser \<Rightarrow> browser" where
  "setTokens a r b = b\<lparr>accessToken := Some a, refreshToken_ls := Some r\<rparr>"

definition clearTokens :: "browser \<Rightarrow> browser" where
  "clearTokens b = b\<lparr>accessToken := None, refreshToken_ls := None, user_ls := None\<rparr>"

text \<open>axios resolves a response with a 2xx status and rejects every other one.\<close>

definition is_2xx :: "'d response \<Rightarrow> bool" where
  "is_2xx r \<longleftrightarrow> 200 \<le> statusCode r \<and> statusCode r < 300"

definition settle :: "'d response \<Rightarrow> 'd settled" where
  "settle r = (if is_2xx r then Resolved r else Rejected r)"

text \<open>\<open>const { accessToken, refreshToken } = response.data.data\<close>: \<open>None\<close> where the
  destructuring throws (no \<open>data\<close>); a payload without the fields gives
  \<open>undefined\<close>, stored by \<open>localStorage.setItem\<close> as the string \<open>undefined\<close>.\<close>

definition refresh_tokens :: "auth_payload response \<Rightarrow> (string \<times> string) option" where
  "refresh_tokens rr =
     (case data rr of
        None \<Rightarrow> None
      | Some (TokenData a r) \<Rightarrow> Some (a, r)
      | Some (AuthData i n e ro a r) \<Rightarrow> Some (a, r)
      | Some (ProfileData j) \<Rightarrow> Some (''undefined'', ''undefined''))"

text \<open>The outcome of the refresh request, applied to the browser as it is when the
  response arrives: a new pair is stored and the new access token returned; a refused
  refresh or a thrown \<open>TypeError\<close> clears the session and navigates to \<open>/login\<close>,
  rejecting with the refresh response's body (or none).\<close>

definition on_refresh ::
  "auth_payload response \<Rightarrow> browser \<Rightarrow> browser \<times> (auth_payload response option + string)" where
  "on_refresh rr b =
     (case (if is_2xx rr then refresh_tokens rr else None) of
        Some (a, r) \<Rightarrow> (setTokens a r b, Inr a)
      | None \<Rightarrow> ((clearTokens b)\<lparr>location := ''/login''\<rparr>, Inl (if is_2xx rr then None else Some rr)))"

text \<open>One call through the instance, with the configuration's header \<open>h0\<close> and its
  \<open>_retry\<close> flag. The retry goes through the interceptors again with the flag set and
  the new token in its configuration.\<close>

function api_call ::
  "('s \<Rightarrow> string option \<Rightarrow> 'd response \<times> 's) \<Rightarrow> ('s \<Rightarrow> string \<Rightarrow> auth_payload response \<times> 's) \<Rightarrow>
     string option \<Rightarrow> bool \<Rightarrow> browser \<Rightarrow> 's \<Rightarrow> 'd settled \<times> browser \<times> 's \<times> nat" where
  "api_call srv rf h0 retry b st =
     (case srv st (req_header b h0) of
        (resp, st1) \<Rightarrow>
          if statusCode resp = 401 \<and> \<not> retry then
            (case refreshToken_ls b of
               Some rt \<Rightarrow>
                 if rt = [] then (Rejected resp, b, st1, 1)
                 else (case rf st1 rt of
                         (rr, st2) \<Rightarrow>
                           (case on_refresh rr b of
                              (b2, Inr a) \<Rightarrow>
                                (case api_call srv rf (Some (bearer_header a)) True b2 st2 of
                                   (out, b3, st3, n) \<Rightarrow> (out, b3, st3, n + 2))
                            | (b2, Inl e) \<Rightarrow> (RefreshRejected e, b2, st2, 2)))
             | None \<Rightarrow> (Rejected resp, b, st1, 1))
          else (settle resp, b, st1, 1))"
  by pat_completeness auto
termination
  by (relation "measure (\<lambda>(srv, rf, h0, retry, b, st). if retry then 0 else 1)") auto

subsection \<open>The backend as the server\<close>

text \<open>A task read (\<open>GET /api/tasks\<close>, \<open>/api/tasks/:id\<close>, \<open>/api/tasks/stats\<close>) with
  the cache disabled, and \<open>axios.post(.../api/auth/refresh, { refreshToken })\<close>.\<close>

definition backend_read ::
  "config \<Rightarrow> millis \<Rightarrow> (string \<Rightarrow> string \<Rightarrow> bool) \<Rightarrow> task_read \<Rightarrow> db \<Rightarrow> string option \<Rightarrow>
     task_payload response \<times> db" where
  "backend_read cfg now rx op d h = protected cfg now d h (\<lambda>p. (read_handler rx p op d, d)) d"

definition backend_refresh ::
  "vlib \<Rightarrow> config \<Rightarrow> millis \<Rightarrow> db \<Rightarrow> string \<Rightarrow> auth_payload response \<times> db" where
  "backend_refresh lib cfg now d rt = auth_route lib cfg now 0 None (RefreshReq [(''refreshToken'', rt)]) d"

text \<open>Alice's browser holding the pair issued to her at time 1000, on the dashboard.\<close>

definition ex_browser :: browser where
  "ex_browser = \<lparr>accessToken = Some (pairAccess (generateTokens ex_cfg 1000 1)),
     refreshToken_ls = Some (pairRefresh (generateTokens ex_cfg 1000 1)), user_ls = Some (1, ''Alice'', ''a@x.com'', UserRole),
     location = ''/dashboard''\<rparr>"

subsection \<open>Lemmas on the client\<close>

lemma backend_refresh_token:
  "js_trim rt = rt \<Longrightarrow> rt \<noteq> [] \<Longrightarrow> backend_refresh lib cfg now d rt = refreshTokenCtrl cfg now (Some rt) d"
  by (simp add: backend_refresh_def auth_route_def validated_def refreshTokenValidation_def run_chain_def
      validate_def js_str_def)


lemma verifyToken_trim: "verifyToken cfg now tok r = Inr uid \<Longrightarrow> js_trim tok = tok"
  by (auto dest!: verifyToken_Inr)

lemma backend_read_refused:
  "(protect cfg now d h :: task_payload response + principal) = Inl r \<Longrightarrow> backend_read cfg now rx op d h = (r, d)"
  by (simp add: backend_read_def protected_def)

lemma verifyToken_same_id:
  "verifyToken cfg t rt r = Inr uid \<Longrightarrow> verifyToken cfg t' rt r' = Inr x \<Longrightarrow> x = uid"
  by (auto dest!: verifyToken_Inr simp: jwt_encode_inj)

lemma refresh_unchanged:
  "statusCode (fst (refreshTokenCtrl cfg now rt d)) \<noteq> 200 \<Longrightarrow> snd (refreshTokenCtrl cfg now rt d) = d"
  by (auto simp: refreshTokenCtrl_def Let_def split: option.split if_split sum.split)

lemma ex_session_alice:
  "map_of (users ex_session_db) 1 =
     Some ((ex_user ''Alice'' ''a@x.com'' UserRole)\<lparr>refreshToken := Some (pairRefresh (generateTokens ex_cfg 1000 1))\<rparr>)"
  by (simp add: ex_session_db_def ex_db_def)

lemma ex_refresh_verifies:
  "verifyToken ex_cfg 604802000 (pairRefresh (generateTokens ex_cfg 1000 1)) True = Inr 1"
  by (simp add: token_simps jwt_sign_verify ex_cfg_def refresh_life_def)

subsection \<open>Properties of the client\<close>

text \<open>The interceptor's recursion ends. Every call through the instance settles
  (resolves or rejects) after at least one and at most three HTTP exchanges: the request,
  one refresh and one retry; a retried call (\<open>_retry\<close> set) makes exactly one.\<close>

theorem api_call_exchanges:
  "api_call srv rf h0 retry b st = (out, b', st', n) \<Longrightarrow> 1 \<le> n \<and> n \<le> (if retry then 1 else 3)"
proof (induction srv rf h0 retry b st arbitrary: out b' st' n rule: api_call.induct)
  case (1 srv rf h0 retry b st)
  show ?case
    using "1.prems" "1.IH"
    by (subst (asm) api_call.simps) (fastforce split: prod.splits if_splits option.splits sum.splits)
qed

theorem api_call_exchanges_witness:
  "api_call (\<lambda>(st::nat) h. (errorResponse 401 ''Token expired'' None :: unit response, st))
     (\<lambda>st rt. (successResponse 200 ''ok'' (Some (TokenData ''a'' ''r'')), st)) None False ex_browser 0 =
     (Rejected (errorResponse 401 ''Token expired'' None), setTokens ''a'' ''r'' ex_browser, 0, 3) \<and>
   1 \<le> (3::nat) \<and> (3::nat) \<le> 3"
proof -
  have eq: "api_call (\<lambda>(st::nat) h. (errorResponse 401 ''Token expired'' None :: unit response, st))
     (\<lambda>st rt. (successResponse 200 ''ok'' (Some (TokenData ''a'' ''r'')), st)) None False ex_browser 0 =
     (Rejected (errorResponse 401 ''Token expired'' None), setTokens ''a'' ''r'' ex_browser, 0, 3)"
    by (simp add: ex_browser_def on_refresh_def is_2xx_def refresh_tokens_def settle_def token_simps)
  from api_call_exchanges [OF eq] eq show ?thesis by simp
qed

text \<open>C22: an expired access token does not end a session. When the backend refuses
  the stored access token (for instance because it expired) while the browser holds the
  user's current refresh token, the call refreshes once, stores the new pair, retries
  with the new access token and settles with the handler's answer on the store after
  the rotation: the user sees the data, after three exchanges.\<close>

theorem refresh_transparent:
  assumes "db_inv d" "map_of (users d) uid = Some u" "isActive u" "refreshToken u = Some rt"
    and "refreshToken_ls b = Some rt" "verifyToken cfg now rt True = Inr uid" "0 < access_life cfg"
    and "(protect cfg now d (req_header b None) :: task_payload response + principal) = Inl r"
  shows "api_call (backend_read cfg now rx op) (backend_refresh lib cfg now) None False b d =
     (let tp = generateTokens cfg now uid; u' = u\<lparr>refreshToken := Some (pairRefresh tp)\<rparr>;
          d' = d\<lparr>users := AList.update uid u' (users d)\<rparr>
      in (settle (read_handler rx (uid, u') op d'), setTokens (pairAccess tp) (pairRefresh tp) b, d', 3))"
proof -
  define tp where "tp = generateTokens cfg now uid"
  define u' where "u' = u\<lparr>refreshToken := Some (pairRefresh tp)\<rparr>"
  define d' where "d' = d\<lparr>users := AList.update uid u' (users d)\<rparr>"
  have r401: "statusCode r = 401" using protect_refusal [OF assms(8)] by simp
  have rt: "rt \<noteq> []" "js_trim rt = rt"
    using verifyToken_nonempty [OF assms(6)] verifyToken_trim [OF assms(6)] by simp_all
  have rf: "backend_refresh lib cfg now d rt =
      (successResponse 200 ''Token refreshed successfully'' (Some (TokenData (pairAccess tp) (pairRefresh tp))), d')"
    using backend_refresh_token [OF rt(2,1)] refresh_stored [OF assms(1,2,4,6)]
    by (simp add: tp_def u'_def d'_def)
  have ref: "on_refresh (successResponse 200 ''Token refreshed successfully''
      (Some (TokenData (pairAccess tp) (pairRefresh tp)))) b = (setTokens (pairAccess tp) (pairRefresh tp) b, Inr (pairAccess tp))"
    by (simp add: on_refresh_def is_2xx_def refresh_tokens_def)
  have hdr: "req_header (setTokens (pairAccess tp) (pairRefresh tp) b) (Some (bearer_header (pairAccess tp))) =
      Some (bearer_header (pairAccess tp))"
    by (simp add: req_header_def setTokens_def)
  have u': "map_of (users d') uid = Some u'" "isActive u'" using assms(3) by (simp_all add: d'_def u'_def update_conv')
  have "(protect cfg now d' (Some (bearer_header (pairAccess tp))) :: task_payload response + principal) = Inr (uid, u')"
    using protect_generated [of cfg now d' now uid] assms(7) u' by (simp add: tp_def)
  then have retry: "backend_read cfg now rx op d' (Some (bearer_header (pairAccess tp))) = (read_handler rx (uid, u') op d', d')"
    by (simp add: backend_read_def protected_def)
  have "api_call (backend_read cfg now rx op) (backend_refresh lib cfg now) (Some (bearer_header (pairAccess tp))) True
      (setTokens (pairAccess tp) (pairRefresh tp) b) d' =
      (settle (read_handler rx (uid, u') op d'), setTokens (pairAccess tp) (pairRefresh tp) b, d', 1)"
    by (subst api_call.simps) (simp add: hdr retry del: api_call.simps)
  then show ?thesis
    unfolding Let_def tp_def [symmetric] u'_def [symmetric] d'_def [symmetric]
    by (subst api_call.simps) (simp add: backend_read_refused [OF assms(8)] r401 assms(5) rt(1) rf ref del: api_call.simps)
qed


theorem refresh_transparent_witness:
  "api_call (backend_read ex_cfg 604802000 (\<lambda>p t. False) ReadStats) (backend_refresh ex_lib ex_cfg 604802000)
     None False ex_browser ex_session_db =
   (let tp = generateTokens ex_cfg 604802000 1;
        u' = (ex_user ''Alice'' ''a@x.com'' UserRole)\<lparr>refreshToken := Some (pairRefresh (generateTokens ex_cfg 1000 1)),
               refreshToken := Some (pairRefresh tp)\<rparr>;
        d' = ex_session_db\<lparr>users := AList.update 1 u' (users ex_session_db)\<rparr>
    in (settle (read_handler (\<lambda>p t. False) (1, u') ReadStats d'), setTokens (pairAccess tp) (pairRefresh tp) ex_browser,
        d', 3))"
proof (rule refresh_transparent [OF ex_session_db_inv ex_session_alice _ _ _ ex_refresh_verifies])
  show "(protect ex_cfg 604802000 ex_session_db (req_header ex_browser None) :: task_payload response + principal) =
      Inl (errorResponse 401 ''Invalid or expired token'' None)"
    using protect_generated [of ex_cfg 604802000 ex_session_db 1000 1]
    by (simp add: req_header_def ex_browser_def ex_cfg_def access_life_def)
qed (simp_all add: ex_user_def ex_browser_def ex_cfg_def access_life_def)

text \<open>C27: concurrent requests log the user out (finding). The dashboard issues
  \<open>GET /tasks\<close> and \<open>GET /tasks/stats\<close> together; once the access token has
  expired both get 401 and both interceptors read the same stored refresh token. The
  first refresh rotates it; the second presents the superseded token, is refused with
  401, and its interceptor clears the tokens the first one just stored and navigates to
  \<open>/login\<close>, although the backend holds a valid new session.\<close>

theorem concurrent_refresh_logout:
  assumes "db_inv d" "map_of (users d) uid = Some u" "refreshToken u = Some rt"
    and "verifyToken cfg t1 rt True = Inr uid" "pairRefresh (generateTokens cfg t1 uid) \<noteq> rt"
    and "refreshToken_ls b = Some rt"
    and "backend_refresh lib cfg t1 d rt = (rrA, d1)" "on_refresh rrA b = (bA, oA)"
    and "backend_refresh lib cfg t2 d1 rt = (rrB, d2)" "on_refresh rrB bA = (bB, oB)"
  shows "oA = Inr (pairAccess (generateTokens cfg t1 uid)) \<and>
         map_of (users d1) uid = Some (u\<lparr>refreshToken := Some (pairRefresh (generateTokens cfg t1 uid))\<rparr>) \<and>
         statusCode rrB = 401 \<and> d2 = d1 \<and> oB = Inl (Some rrB) \<and>
         accessToken bB = None \<and> refreshToken_ls bB = None \<and> location bB = ''/login''"
proof -
  define u1 where "u1 = u\<lparr>refreshToken := Some (pairRefresh (generateTokens cfg t1 uid))\<rparr>"
  have rt: "rt \<noteq> []" "js_trim rt = rt"
    using verifyToken_nonempty [OF assms(4)] verifyToken_trim [OF assms(4)] by simp_all
  have A: "rrA = successResponse 200 ''Token refreshed successfully''
             (Some (TokenData (pairAccess (generateTokens cfg t1 uid)) (pairRefresh (generateTokens cfg t1 uid))))"
      "d1 = d\<lparr>users := AList.update uid u1 (users d)\<rparr>"
    using assms(7) backend_refresh_token [OF rt(2,1)] refresh_stored [OF assms(1-4)] by (simp_all add: u1_def)
  then have oA: "oA = Inr (pairAccess (generateTokens cfg t1 uid))"
    using assms(8) by (simp add: on_refresh_def is_2xx_def refresh_tokens_def)
  have u1: "map_of (users d1) uid = Some u1" "refreshToken u1 \<noteq> Some rt"
    using A(2) assms(5) by (simp_all add: u1_def update_conv')
  have B: "rrB = fst (refreshTokenCtrl cfg t2 (Some rt) d1)" "d2 = snd (refreshTokenCtrl cfg t2 (Some rt) d1)"
    using assms(9) backend_refresh_token [OF rt(2,1)] by (metis fst_conv snd_conv)+
  have "statusCode rrB = 401"
    using refresh_stale_401 [OF u1 rt(1)] verifyToken_same_id [OF assms(4)] B(1) by blast
  moreover from this have "d2 = d1" using B refresh_unchanged by simp
  moreover from calculation have "bB = (clearTokens bA)\<lparr>location := ''/login''\<rparr>" "oB = Inl (Some rrB)"
    using assms(10) by (auto simp: on_refresh_def is_2xx_def)
  ultimately show ?thesis using oA u1(1) by (simp add: clearTokens_def u1_def)
qed


theorem concurrent_refresh_logout_witness:
  "\<exists>rrA d1 bA oA rrB d2 bB oB.
     backend_refresh ex_lib ex_cfg 604802000 ex_session_db (pairRefresh (generateTokens ex_cfg 1000 1)) = (rrA, d1) \<and>
     on_refresh rrA ex_browser = (bA, oA) \<and>
     backend_refresh ex_lib ex_cfg 604802000 d1 (pairRefresh (generateTokens ex_cfg 1000 1)) = (rrB, d2) \<and>
     on_refresh rrB bA = (bB, oB) \<and>
     statusCode rrB = 401 \<and> location bB = ''/login'' \<and> refreshToken_ls bB = None"
proof -
  obtain rrA d1 where a: "backend_refresh ex_lib ex_cfg 604802000 ex_session_db (pairRefresh (generateTokens ex_cfg 1000 1)) = (rrA, d1)"
    by fastforce
  obtain bA oA where b: "on_refresh rrA ex_browser = (bA, oA)" by fastforce
  obtain rrB d2 where c: "backend_refresh ex_lib ex_cfg 604802000 d1 (pairRefresh (generateTokens ex_cfg 1000 1)) = (rrB, d2)"
    by fastforce
  obtain bB oB where d: "on_refresh rrB bA = (bB, oB)" by fastforce
  have n: "pairRefresh (generateTokens ex_cfg 604802000 1) \<noteq> pairRefresh (generateTokens ex_cfg 1000 1)"
    by (simp add: token_simps jwt_sign_def jwt_encode_inj)
  have "statusCode rrB = 401 \<and> location bB = ''/login'' \<and> refreshToken_ls bB = None"
    using concurrent_refresh_logout [OF ex_session_db_inv ex_session_alice _ ex_refresh_verifies n _ a b c d]
    by (simp add: ex_browser_def)
  with a b c d show ?thesis by blast
qed

end
