(* ===== verification/Session.thy ===== *)
theory Session
  imports Client
begin

text \<open>
  The frontend's session logic, \<open>src/frontend/src/contexts/AuthContext.tsx\<close>:
  \<open>checkAuth\<close>, \<open>login\<close>, \<open>register\<close> and \<open>logout\<close> of the \<open>AuthProvider\<close>, over the
  API client of theory \<open>Client\<close> with the backend's authentication routes as the
  server. The React state \<open>user\<close> and the browser (\<open>localStorage\<close>, location) form the
  record \<open>session\<close>. \<open>logout\<close> starts \<open>POST /auth/logout\<close> without awaiting it and
  then clears the storage synchronously; axios runs request interceptors
  asynchronously, so the interceptor reads the storage after it was cleared: the model
  applies the synchronous part first and then the call.
\<close>

type_synonym user_obj = "oid \<times> string \<times> string \<times> role"

record session =
  sbrowser :: browser
  ctx_user :: "user_obj option"
  ctx_loading :: bool

text \<open>The backend's authentication routes as the client's server.\<close>

definition auth_server ::
  "vlib \<Rightarrow> config \<Rightarrow> millis \<Rightarrow> nat \<Rightarrow> auth_req \<Rightarrow> db \<Rightarrow> string option \<Rightarrow> auth_payload response \<times> db" where
  "auth_server lib cfg now salt rq d h = auth_route lib cfg now salt h rq d"

text \<open>\<open>const { user, accessToken, refreshToken } = response.data\<close> (an absent field is
  \<open>undefined\<close>; \<open>localStorage.setItem\<close> stores it as the string \<open>undefined\<close>).\<close>

definition auth_fields :: "auth_payload \<Rightarrow> user_obj option \<times> string \<times> string" where
  "auth_fields p =
     (case p of
        AuthData uid nm em ro a r \<Rightarrow> (Some (uid, nm, em, ro), a, r)
      | TokenData a r \<Rightarrow> (None, a, r)
      | ProfileData j \<Rightarrow> (None, ''undefined'', ''undefined''))"

text \<open>The success branch of \<open>login\<close> and \<open>register\<close>: store the pair and the user,
  set the React state, navigate to \<open>/dashboard\<close>.\<close>

definition store_auth :: "auth_payload response \<Rightarrow> session \<Rightarrow> session" where
  "store_auth r s =
     (case data r of
        Some p \<Rightarrow>
          if success r then
            (case auth_fields p of
               (usr, a, rt) \<Rightarrow>
                 s\<lparr>sbrowser := (sbrowser s)\<lparr>accessToken := Some a, refreshToken_ls := Some rt,
                                              user_ls := usr, location := ''/dashboard''\<rparr>,
                   ctx_user := usr\<rparr>)
          else s
      | None \<Rightarrow> s)"

text \<open>\<open>login\<close> and \<open>register\<close>: the call through the client; a rejection is
  rethrown to the page and changes nothing more.\<close>

definition ctx_auth_call ::
  "vlib \<Rightarrow> config \<Rightarrow> millis \<Rightarrow> nat \<Rightarrow> auth_req \<Rightarrow> session \<Rightarrow> db \<Rightarrow> session \<times> db" where
  "ctx_auth_call lib cfg now salt rq s d =
     (case api_call (auth_server lib cfg now salt rq) (backend_refresh lib cfg now) None False (sbrowser s) d of
        (Resolved r, b', d', n) \<Rightarrow> (store_auth r (s\<lparr>sbrowser := b'\<rparr>), d')
      | (out, b', d', n) \<Rightarrow> (s\<lparr>sbrowser := b'\<rparr>, d'))"

definition ctx_login :: "vlib \<Rightarrow> config \<Rightarrow> millis \<Rightarrow> nat \<Rightarrow> req_body \<Rightarrow> session \<Rightarrow> db \<Rightarrow> session \<times> db" where
  "ctx_login lib cfg now salt credentials s d = ctx_auth_call lib cfg now salt (LoginReq credentials) s d"

definition ctx_register :: "vlib \<Rightarrow> config \<Rightarrow> millis \<Rightarrow> nat \<Rightarrow> req_body \<Rightarrow> session \<Rightarrow> db \<Rightarrow> session \<times> db" where
  "ctx_register lib cfg now salt body s d = ctx_auth_call lib cfg now salt (RegisterReq body) s d"

text \<open>\<open>logout\<close>: the storage is cleared, the state reset and the router sent to
  \<open>/login\<close> before the interceptor of the unawaited \<open>POST /auth/logout\<close> runs; its
  rejection is swallowed by \<open>.catch(() => {})\<close>.\<close>

definition ctx_logout :: "vlib \<Rightarrow> config \<Rightarrow> millis \<Rightarrow> session \<Rightarrow> db \<Rightarrow> session \<times> db" where
  "ctx_logout lib cfg now s d =
     (let b1 = (sbrowser s)\<lparr>accessToken := None, refreshToken_ls := None, user_ls := None,
                             location := ''/login''\<rparr>
      in case api_call (auth_server lib cfg now 0 LogoutReq) (backend_refresh lib cfg now) None False b1 d of
           (out, b2, d2, n) \<Rightarrow> (s\<lparr>sbrowser := b2, ctx_user := None\<rparr>, d2))"

text \<open>\<open>response.data.user\<close> of a payload (\<open>null\<close> or \<open>undefined\<close> as \<open>None\<close>).\<close>

definition payload_user :: "auth_payload \<Rightarrow> user_obj option" where
  "payload_user p =
     (case p of
        ProfileData (Some j) \<Rightarrow> Some (j_id j, j_name j, j_email j, j_role j)
      | ProfileData None \<Rightarrow> None
      | AuthData uid nm em ro a r \<Rightarrow> Some (uid, nm, em, ro)
      | TokenData a r \<Rightarrow> None)"

text \<open>\<open>checkAuth\<close> on mount: without a stored access token nothing happens but the end
  of \<open>loading\<close>; otherwise
  \<open>GET /auth/me\<close>, whose user becomes the state when \<open>response.success\<close> holds and the
  user is present. On a rejection, and on the \<open>TypeError\<close> of reading \<open>user\<close> of an
  absent \<open>data\<close>, the \<open>catch\<close> removes the two tokens (not the stored user); \<open>finally\<close> ends
  \<open>loading\<close>.\<close>

definition ctx_checkAuth :: "vlib \<Rightarrow> config \<Rightarrow> millis \<Rightarrow> session \<Rightarrow> db \<Rightarrow> session \<times> db" where
  "ctx_checkAuth lib cfg now s d =
     (case (case accessToken (sbrowser s) of
        None \<Rightarrow> (s, d)
      | Some t \<Rightarrow>
          if t = [] then (s, d)
          else (case api_call (auth_server lib cfg now 0 MeReq) (backend_refresh lib cfg now) None False (sbrowser s) d of
                  (Resolved r, b', d', n) \<Rightarrow>
                    if \<not> success r then (s\<lparr>sbrowser := b'\<rparr>, d')
                    else (case data r of
                            None \<Rightarrow> (s\<lparr>sbrowser := b'\<lparr>accessToken := None, refreshToken_ls := None\<rparr>\<rparr>, d')
                          | Some p \<Rightarrow>
                              (case payload_user p of
                                 Some usr \<Rightarrow> (s\<lparr>sbrowser := b', ctx_user := Some usr\<rparr>, d')
                               | None \<Rightarrow> (s\<lparr>sbrowser := b'\<rparr>, d')))
                | (out, b', d', n) \<Rightarrow> (s\<lparr>sbrowser := b'\<lparr>accessToken := None, refreshToken_ls := None\<rparr>\<rparr>, d')))
      of (s', d') \<Rightarrow> (s'\<lparr>ctx_loading := False\<rparr>, d'))"

text \<open>\<open>updateUser\<close>: the React state and the stored user.\<close>

definition ctx_updateUser :: "user_obj \<Rightarrow> session \<Rightarrow> session" where
  "ctx_updateUser usr s = s\<lparr>ctx_user := Some usr, sbrowser := (sbrowser s)\<lparr>user_ls := Some usr\<rparr>\<rparr>"

text \<open>\<open>isAuthenticated: !!user\<close> and \<open>isAdmin: user?.role === 'admin'\<close>.\<close>

definition ctx_isAuthenticated :: "session \<Rightarrow> bool" where
  "ctx_isAuthenticated s = (ctx_user s \<noteq> None)"

definition ctx_isAdmin :: "session \<Rightarrow> bool" where
  "ctx_isAdmin s = (case ctx_user s of Some (uid, nm, em, ro) \<Rightarrow> ro = AdminRole | None \<Rightarrow> False)"

subsection \<open>Examples\<close>

text \<open>The login form of Alice of \<open>ex_db\<close>, a fresh browser, and the browser holding
  the access token issued to her at time 0.\<close>

definition ex_login :: req_body where
  "ex_login = [(''email'', ''a@x.com''), (''password'', ''secret1'')]"

definition ex_session0 :: session where
  "ex_session0 = \<lparr>sbrowser = \<lparr>accessToken = None, refreshToken_ls = None, user_ls = None, location = ''/login''\<rparr>,
                  ctx_user = None, ctx_loading = True\<rparr>"

definition ex_session1 :: session where
  "ex_session1 = ex_session0\<lparr>sbrowser := (sbrowser ex_session0)\<lparr>accessToken := Some (pairAccess (generateTokens ex_cfg 0 1))\<rparr>\<rparr>"

subsection \<open>Lemmas\<close>

lemma protect_no_header: "protect cfg now d None = Inl (errorResponse 401 ''Not authorized to access this route. Please login.'' None)"
  by (simp add: protect_def bearer_token_def)

lemma validated_ok: "run_chains lib now chs b = (b', []) \<Longrightarrow> validated lib now chs b k s = k b'"
  by (simp add: validated_def validate_def)

lemma api_call_no_refresh:
  "refreshToken_ls b = None \<Longrightarrow> srv st (req_header b hh) = (resp, st1) \<Longrightarrow>
     api_call srv rf hh False b st = (if statusCode resp = 401 then Rejected resp else settle resp, b, st1, 1)"
  by (subst api_call.simps) simp

lemma api_call_not_401:
  "srv st (req_header b hh) = (resp, st1) \<Longrightarrow> statusCode resp \<noteq> 401 \<Longrightarrow>
     api_call srv rf hh retry b st = (settle resp, b, st1, 1)"
  by (subst api_call.simps) simp

subsection \<open>Properties\<close>

text \<open>C23: the frontend \<open>logout\<close> never changes the server: the unawaited
  \<open>POST /auth/logout\<close> is sent after the storage was cleared, so it carries no
  \<open>Authorization\<close> header, \<open>protect\<close> answers 401, there is no refresh token left to
  retry with, and the stored refresh token of the user is not revoked.\<close>

theorem ctx_logout_server_unchanged: "snd (ctx_logout lib cfg now s d) = d"
proof -
  define b1 where "b1 = (sbrowser s)\<lparr>accessToken := None, refreshToken_ls := None, user_ls := None,
                             location := ''/login''\<rparr>"
  have "auth_server lib cfg now 0 LogoutReq d (req_header b1 None) =
      (errorResponse 401 ''Not authorized to access this route. Please login.'' None, d)"
    by (simp add: auth_server_def auth_route_def protected_def protect_no_header req_header_def b1_def)
  from api_call_no_refresh [where srv = "auth_server lib cfg now 0 LogoutReq" and st = d and b = b1 and hh = None,
      OF _ this] show ?thesis
    by (simp add: ctx_logout_def Let_def b1_def [symmetric] del: api_call.simps) (simp add: b1_def)
qed

text \<open>A login through the client with credentials that pass validation and
  match an active user stores the issued access and refresh tokens and the user in the
  browser, sets the React state and navigates to \<open>/dashboard\<close>; while the access
  token lives, the header the client then builds is accepted by \<open>protect\<close> for the
  updated user.\<close>

theorem ctx_login_session:
  assumes "run_chains lib now loginValidation cr = (cr', [])" "db_inv d" "map_of (users d) uid = Some u"
    and "email u = email_setter (field cr' ''email'')" "isActive u" "matchPassword u (field cr' ''password'')"
    and "ctx_login lib cfg now salt cr s d = (s', d')"
  shows "accessToken (sbrowser s') = Some (pairAccess (generateTokens cfg now uid)) \<and>
         refreshToken_ls (sbrowser s') = Some (pairRefresh (generateTokens cfg now uid)) \<and>
         ctx_user s' = Some (uid, name u, email u, role u) \<and> location (sbrowser s') = ''/dashboard'' \<and>
         (now' div 1000 < now div 1000 + access_life cfg \<longrightarrow>
            (protect cfg now' d' (req_header (sbrowser s') None) :: task_payload response + principal) =
              Inr (uid, u\<lparr>lastLogin := Some now, refreshToken := Some (pairRefresh (generateTokens cfg now uid))\<rparr>))"
proof -
  define tp where "tp = generateTokens cfg now uid"
  define u' where "u' = u\<lparr>lastLogin := Some now, refreshToken := Some (pairRefresh tp)\<rparr>"
  define d1 where "d1 = d\<lparr>users := AList.update uid u' (users d)\<rparr>"
  define r where "r = (successResponse 200 ''Login successful''
      (Some (AuthData uid (name u) (email u) (role u) (pairAccess tp) (pairRefresh tp))) :: auth_payload response)"
  have srv: "auth_server lib cfg now salt (LoginReq cr) d (req_header (sbrowser s) None) = (r, d1)"
    using login_stored [OF assms(2-6)]
    by (simp add: auth_server_def auth_route_def validated_ok [OF assms(1)] r_def d1_def u'_def tp_def)
  have n401: "statusCode r \<noteq> 401" by (simp add: r_def)
  have call: "api_call (auth_server lib cfg now salt (LoginReq cr)) (backend_refresh lib cfg now) None False (sbrowser s) d =
      (Resolved r, sbrowser s, d1, 1)"
    using api_call_not_401 [where srv = "auth_server lib cfg now salt (LoginReq cr)" and st = d and b = "sbrowser s"
        and hh = None, OF srv n401] by (simp add: r_def settle_def is_2xx_def del: api_call.simps)
  have s': "s' = store_auth r s" "d' = d1"
    using assms(7) call by (simp_all add: ctx_login_def ctx_auth_call_def del: api_call.simps)
  have st: "accessToken (sbrowser s') = Some (pairAccess tp) \<and> refreshToken_ls (sbrowser s') = Some (pairRefresh tp) \<and>
      ctx_user s' = Some (uid, name u, email u, role u) \<and> location (sbrowser s') = ''/dashboard''"
    by (simp add: s' store_auth_def r_def auth_fields_def)
  moreover have "(protect cfg now' d' (req_header (sbrowser s') None) :: task_payload response + principal) = Inr (uid, u')"
    if "now' div 1000 < now div 1000 + access_life cfg"
  proof -
    have "map_of (users d') uid = Some u'" "isActive u'"
      using assms(5) by (simp_all add: s'(2) d1_def u'_def update_conv')
    then show ?thesis
      using st that protect_generated [of cfg now' d' now uid] by (simp add: req_header_def tp_def)
  qed
  ultimately show ?thesis by (simp add: tp_def u'_def)
qed

theorem ctx_login_session_witness:
  "accessToken (sbrowser (fst (ctx_login ex_lib ex_cfg 0 0 ex_login ex_session0 ex_db))) =
     Some (pairAccess (generateTokens ex_cfg 0 1)) \<and>
   refreshToken_ls (sbrowser (fst (ctx_login ex_lib ex_cfg 0 0 ex_login ex_session0 ex_db))) =
     Some (pairRefresh (generateTokens ex_cfg 0 1)) \<and>
   ctx_user (fst (ctx_login ex_lib ex_cfg 0 0 ex_login ex_session0 ex_db)) = Some (1, ''Alice'', ''a@x.com'', UserRole) \<and>
   location (sbrowser (fst (ctx_login ex_lib ex_cfg 0 0 ex_login ex_session0 ex_db))) = ''/dashboard'' \<and>
   ((protect ex_cfg 1000 (snd (ctx_login ex_lib ex_cfg 0 0 ex_login ex_session0 ex_db))
        (req_header (sbrowser (fst (ctx_login ex_lib ex_cfg 0 0 ex_login ex_session0 ex_db))) None)
        :: task_payload response + principal) =
     Inr (1, (ex_user ''Alice'' ''a@x.com'' UserRole)\<lparr>lastLogin := Some 0,
               refreshToken := Some (pairRefresh (generateTokens ex_cfg 0 1))\<rparr>))"
proof -
  have v: "run_chains ex_lib 0 loginValidation ex_login = (ex_login, [])"
    by (simp add: loginValidation_def run_chain_def ex_login_def ex_lib_def js_str_def js_trim_def js_space_def
        js_lower_def code_between_def)
  have u: "map_of (users ex_db) 1 = Some (ex_user ''Alice'' ''a@x.com'' UserRole)"
    by (simp add: ex_db_def)
  have e: "email (ex_user ''Alice'' ''a@x.com'' UserRole) = email_setter (field ex_login ''email'')"
    by (simp add: ex_user_def field_def js_str_def ex_login_def email_setter_def js_lower_def js_trim_def js_space_def
        code_between_def)
  have a: "isActive (ex_user ''Alice'' ''a@x.com'' UserRole)" by (simp add: ex_user_def)
  have m: "matchPassword (ex_user ''Alice'' ''a@x.com'' UserRole) (field ex_login ''password'')"
    by (simp add: ex_user_def field_def js_str_def ex_login_def matchPassword_def)
  have l: "1000 div 1000 < 0 div 1000 + access_life ex_cfg" by (simp add: access_life_def ex_cfg_def)
  from ctx_login_session [OF v ex_db_inv u e a m surjective_pairing] l show ?thesis
    by (simp add: ex_user_def)
qed

text \<open>\<open>checkAuth\<close> with a stored, nonempty access token that \<open>protect\<close> accepts
  sets the React state to the user's id, name, email and role and changes neither the
  browser nor the server.\<close>

theorem ctx_checkAuth_valid:
  assumes "accessToken (sbrowser s) = Some t" "t \<noteq> []"
    and "(protect cfg now d (Some (bearer_header t)) :: auth_payload response + principal) = Inr (uid, u)"
  shows "ctx_checkAuth lib cfg now s d = (s\<lparr>ctx_user := Some (uid, name u, email u, role u), ctx_loading := False\<rparr>, d)"
proof -
  have u: "map_of (users d) uid = Some u" using protect_Inr [OF assms(3)] by auto
  have srv: "auth_server lib cfg now 0 MeReq d (req_header (sbrowser s) None) = (getMe uid d, d)"
    using assms by (simp add: auth_server_def auth_route_def protected_def req_header_def)
  have "statusCode (getMe uid d) \<noteq> 401" by (simp add: getMe_def successResponse_def)
  from api_call_not_401 [where srv = "auth_server lib cfg now 0 MeReq" and st = d and b = "sbrowser s"
      and hh = None and rf = "backend_refresh lib cfg now" and retry = False, OF srv this]
  show ?thesis using assms(1,2) u
    by (simp add: ctx_checkAuth_def settle_def is_2xx_def getMe_def successResponse_def toJSON_user_def payload_user_def
        del: api_call.simps)
qed

theorem ctx_checkAuth_valid_witness:
  "ctx_checkAuth ex_lib ex_cfg 1000 ex_session1 ex_db =
     (ex_session1\<lparr>ctx_user := Some (1, ''Alice'', ''a@x.com'', UserRole), ctx_loading := False\<rparr>, ex_db)"
proof -
  have p: "(protect ex_cfg 1000 ex_db (Some (bearer_header (pairAccess (generateTokens ex_cfg 0 1))))
      :: auth_payload response + principal) = Inr (1, ex_user ''Alice'' ''a@x.com'' UserRole)"
    by (simp add: protect_generated access_life_def ex_cfg_def ex_db_def ex_user_def)
  from ctx_checkAuth_valid [OF _ generated_nonempty(1) p, of ex_session1 ex_lib]
  show ?thesis by (simp add: ex_session1_def ex_user_def)
qed

end
