(* ===== verification/Dashboard.thy ===== *)
theory Dashboard
  imports Session
begin

text \<open>
  The task dashboard, \<open>src/frontend/src/app/dashboard/page.tsx\<close>: its React state
  (tasks, statistics, filters, the modal and the task being edited, the form values)
  as the record \<open>dash\<close>, and its handlers \<open>fetchTasks\<close>, \<open>fetchStats\<close>,
  \<open>openCreateModal\<close>, \<open>openEditModal\<close>, \<open>closeModal\<close>, \<open>onSubmit\<close> and \<open>deleteTask\<close>
  as functions of that state, the browser of the API client and the server store.
  Every request goes through \<open>api_call\<close> of theory \<open>Client\<close> to the backend's task
  routes, with the response cache disabled (theory \<open>Spec2Isabelle\<close> shows that caching
  never changes what is written). Tasks arrive as JSON, so a due date reaches the form
  as the string of \<open>Date.prototype.toISOString\<close>, modelled here for the years 0 to
  9999. \<open>fetchTasks\<close> and \<open>fetchStats\<close> are started together and not awaited: each is
  one \<open>api_call\<close>, and the flag \<open>tasks_first\<close> says whose completion is applied first.
\<close>

subsection \<open>\<open>Date.prototype.toISOString\<close>\<close>

definition ms_per_day :: nat where
  "ms_per_day = 86400000"

fun dec_str :: "nat \<Rightarrow> string" where
  "dec_str n = (if n < 10 then [hex_digit n] else dec_str (n div 10) @ [hex_digit (n mod 10)])"

declare dec_str.simps [simp del]

definition pad :: "nat \<Rightarrow> nat \<Rightarrow> string" where
  "pad w n = replicate (w - length (dec_str n)) (CHR ''0'') @ dec_str n"

text \<open>The proleptic Gregorian date of day \<open>k\<close> after 1970-01-01 (the civil-from-days
  computation on 400-year eras that JavaScript engines use).\<close>

definition civil_from_days :: "nat \<Rightarrow> nat \<times> nat \<times> nat" where
  "civil_from_days k =
     (let z = k + 719468; era = z div 146097; doe = z mod 146097;
          yoe = (doe - doe div 1460 + doe div 36524 - doe div 146096) div 365;
          doy = doe - (365 * yoe + yoe div 4 - yoe div 100);
          mp = (5 * doy + 2) div 153;
          dd = doy - (153 * mp + 2) div 5 + 1;
          mm = (if mp < 10 then mp + 3 else mp - 9)
      in (yoe + era * 400 + (if mm \<le> 2 then 1 else 0), mm, dd))"

definition iso_day :: "nat \<Rightarrow> string" where
  "iso_day k = (case civil_from_days k of (y, m, dd) \<Rightarrow> pad 4 y @ ''-'' @ pad 2 m @ ''-'' @ pad 2 dd)"

definition toISOString :: "millis \<Rightarrow> string" where
  "toISOString t =
     (let ms = t mod ms_per_day in
      iso_day (t div ms_per_day) @ ''T'' @ pad 2 (ms div 3600000) @ '':'' @ pad 2 (ms div 60000 mod 60) @ '':'' @
      pad 2 (ms div 1000 mod 60) @ ''.'' @ pad 3 (ms mod 1000) @ ''Z'')"

subsection \<open>State\<close>

text \<open>\<open>TaskFormData\<close> of \<open>useForm\<close>: the five inputs of the modal.\<close>

record task_form =
  f_title :: string
  f_description :: string
  f_status :: string
  f_priority :: string
  f_dueDate :: string

record dash =
  d_tasks :: "task_view list"
  d_stats :: "stats option"
  filterStatus :: string
  filterPriority :: string
  isModalOpen :: bool
  editingTask :: "task_view option"
  form :: task_form
  formErrors :: "(string \<times> string) list"

definition empty_form :: task_form where
  "empty_form = \<lparr>f_title = [], f_description = [], f_status = [], f_priority = [], f_dueDate = []\<rparr>"

definition dash_init :: dash where
  "dash_init = \<lparr>d_tasks = [], d_stats = None, filterStatus = ''all'', filterPriority = ''all'',
                isModalOpen = False, editingTask = None, form = empty_form, formErrors = []\<rparr>"

subsection \<open>Server\<close>

text \<open>The task routes as the client's server: \<open>protect\<close>, then the route, with the
  cache disabled.\<close>

definition backend_write ::
  "vlib \<Rightarrow> config \<Rightarrow> millis \<Rightarrow> task_write \<Rightarrow> db \<Rightarrow> string option \<Rightarrow> task_payload response \<times> db" where
  "backend_write lib cfg now w d h =
     protected cfg now d h (\<lambda>p. case task_write_route lib now p w d None of (resp, d', r') \<Rightarrow> (resp, d')) d"

subsection \<open>Handlers\<close>

text \<open>\<open>fetchTasks\<close>: \<open>/tasks?limit=50\<close> with \<open>&status=\<close> and \<open>&priority=\<close> unless the
  filter is \<open>all\<close>.\<close>

definition dash_query :: "dash \<Rightarrow> task_query" where
  "dash_query s =
     dashboard_query\<lparr>q_status := (if filterStatus s = ''all'' then None else Some (filterStatus s)),
                     q_priority := (if filterPriority s = ''all'' then None else Some (filterPriority s))\<rparr>"

definition fetchTasks ::
  "vlib \<Rightarrow> config \<Rightarrow> millis \<Rightarrow> (string \<Rightarrow> string \<Rightarrow> bool) \<Rightarrow> dash \<Rightarrow> browser \<Rightarrow> db \<Rightarrow> dash \<times> browser \<times> db" where
  "fetchTasks lib cfg now rx s b d =
     (case api_call (backend_read cfg now rx (ReadList (dash_query s))) (backend_refresh lib cfg now) None False b d of
        (Resolved r, b', d', n) \<Rightarrow>
          (let ts = (case data r of Some (TaskPage ts) \<Rightarrow> ts | _ \<Rightarrow> [])
           in (s\<lparr>d_tasks := ts,
                 d_stats := (if filterStatus s = ''all'' \<and> filterPriority s = ''all''
                             then Some (calculateStatsFromTasks ts) else d_stats s)\<rparr>, b', d'))
      | (out, b', d', n) \<Rightarrow> (s, b', d'))"

text \<open>\<open>fetchStats\<close>: \<open>GET /tasks/stats\<close>; on failure the statistics become zeros.\<close>

definition fetchStats ::
  "vlib \<Rightarrow> config \<Rightarrow> millis \<Rightarrow> (string \<Rightarrow> string \<Rightarrow> bool) \<Rightarrow> dash \<Rightarrow> browser \<Rightarrow> db \<Rightarrow> dash \<times> browser \<times> db" where
  "fetchStats lib cfg now rx s b d =
     (case api_call (backend_read cfg now rx ReadStats) (backend_refresh lib cfg now) None False b d of
        (Resolved r, b', d', n) \<Rightarrow>
          (case data r of
             Some (TaskStats st) \<Rightarrow> (s\<lparr>d_stats := Some st\<rparr>, b', d')
           | Some p \<Rightarrow> (s, b', d')
           | None \<Rightarrow> (s, b', d'))
      | (out, b', d', n) \<Rightarrow> (s\<lparr>d_stats := Some zero_stats\<rparr>, b', d'))"

text \<open>\<open>fetchTasks(); fetchStats();\<close> unawaited, completions in either order.\<close>

definition dash_refresh ::
  "vlib \<Rightarrow> config \<Rightarrow> millis \<Rightarrow> (string \<Rightarrow> string \<Rightarrow> bool) \<Rightarrow> bool \<Rightarrow> dash \<Rightarrow> browser \<Rightarrow> db \<Rightarrow> dash \<times> browser \<times> db" where
  "dash_refresh lib cfg now rx tasks_first s b d =
     (if tasks_first
      then (case fetchTasks lib cfg now rx s b d of (s1, b1, d1) \<Rightarrow> fetchStats lib cfg now rx s1 b1 d1)
      else (case fetchStats lib cfg now rx s b d of (s1, b1, d1) \<Rightarrow> fetchTasks lib cfg now rx s1 b1 d1))"

text \<open>The \<open>useEffect\<close> on \<open>[filterStatus, filterPriority]\<close>: a filter change refetches.\<close>

definition dash_setFilters ::
  "vlib \<Rightarrow> config \<Rightarrow> millis \<Rightarrow> (string \<Rightarrow> string \<Rightarrow> bool) \<Rightarrow> bool \<Rightarrow> string \<Rightarrow> string \<Rightarrow> dash \<Rightarrow> browser \<Rightarrow> db \<Rightarrow>
     dash \<times> browser \<times> db" where
  "dash_setFilters lib cfg now rx tasks_first fs fp s b d =
     dash_refresh lib cfg now rx tasks_first (s\<lparr>filterStatus := fs, filterPriority := fp\<rparr>) b d"

definition openCreateModal :: "dash \<Rightarrow> dash" where
  "openCreateModal s =
     s\<lparr>editingTask := None,
       form := \<lparr>f_title = [], f_description = [], f_status = ''pending'', f_priority = ''medium'', f_dueDate = []\<rparr>,
       formErrors := [], isModalOpen := True\<rparr>"

text \<open>\<open>openEditModal(task)\<close>: the form gets the task's fields, the due date as
  \<open>task.dueDate.split('T')[0]\<close> of its JSON string.\<close>

definition form_dueDate :: "millis option \<Rightarrow> string" where
  "form_dueDate due = (case due of None \<Rightarrow> [] | Some t \<Rightarrow> hd (split_on (CHR ''T'') (toISOString t)))"

definition openEditModal :: "task_view \<Rightarrow> dash \<Rightarrow> dash" where
  "openEditModal tv s =
     (let t = fst (snd tv) in
      s\<lparr>editingTask := Some tv,
        form := \<lparr>f_title = title t, f_description = description t, f_status = status_str (status t),
                 f_priority = priority_str (priority t), f_dueDate = form_dueDate (dueDate t)\<rparr>,
        isModalOpen := True\<rparr>)"

text \<open>\<open>closeModal\<close>; \<open>reset()\<close> empties the form, which is rewritten before it is read
  again, and clears the validation errors.\<close>

definition closeModal :: "dash \<Rightarrow> dash" where
  "closeModal s = s\<lparr>isModalOpen := False, editingTask := None, form := empty_form, formErrors := []\<rparr>"

text \<open>\<open>const taskData = { ...data }\<close> without an empty \<open>dueDate\<close>.\<close>

definition form_body :: "task_form \<Rightarrow> req_body" where
  "form_body f =
     [(''title'', f_title f), (''description'', f_description f), (''status'', f_status f),
      (''priority'', f_priority f)] @ (if f_dueDate f = [] then [] else [(''dueDate'', f_dueDate f)])"

text \<open>\<open>onSubmit\<close>: \<open>PUT /tasks/:id\<close> when editing, \<open>POST /tasks\<close> otherwise; on success
  close the modal and refetch; a rejection only shows a toast.\<close>

definition dash_onSubmit ::
  "vlib \<Rightarrow> config \<Rightarrow> millis \<Rightarrow> (string \<Rightarrow> string \<Rightarrow> bool) \<Rightarrow> bool \<Rightarrow> dash \<Rightarrow> browser \<Rightarrow> db \<Rightarrow> dash \<times> browser \<times> db" where
  "dash_onSubmit lib cfg now rx tasks_first s b d =
     (let w = (case editingTask s of Some tv \<Rightarrow> PutTask (fst tv) (form_body (form s)) | None \<Rightarrow> PostTask (form_body (form s)))
      in case api_call (backend_write lib cfg now w) (backend_refresh lib cfg now) None False b d of
           (Resolved r, b', d', n) \<Rightarrow> dash_refresh lib cfg now rx tasks_first (closeModal s) b' d'
         | (out, b', d', n) \<Rightarrow> (s, b', d'))"

text \<open>\<open>deleteTask(id)\<close>: nothing unless the user confirms; then \<open>DELETE /tasks/:id\<close>
  and, on success, a refetch.\<close>

definition dash_deleteTask ::
  "vlib \<Rightarrow> config \<Rightarrow> millis \<Rightarrow> (string \<Rightarrow> string \<Rightarrow> bool) \<Rightarrow> bool \<Rightarrow> bool \<Rightarrow> oid \<Rightarrow> dash \<Rightarrow> browser \<Rightarrow> db \<Rightarrow>
     dash \<times> browser \<times> db" where
  "dash_deleteTask lib cfg now rx tasks_first confirmed tid s b d =
     (if \<not> confirmed then (s, b, d)
      else case api_call (backend_write lib cfg now (DeleteReq tid)) (backend_refresh lib cfg now) None False b d of
             (Resolved r, b', d', n) \<Rightarrow> dash_refresh lib cfg now rx tasks_first s b' d'
           | (out, b', d', n) \<Rightarrow> (s, b', d'))"

subsection \<open>Examples\<close>

text \<open>Alice's task due at noon of 1970-01-02, her browser with a pair issued at
  01:00 that day, and a date parser that knows that day.\<close>

definition ex_due_task :: task where
  "ex_due_task = ex_task\<lparr>dueDate := Some 129600000\<rparr>"

definition ex_due_db :: db where
  "ex_due_db = ex_db\<lparr>tasks := [(4, ex_due_task)]\<rparr>"

definition ex_date_lib :: vlib where
  "ex_date_lib = ex_lib\<lparr>isISO8601 := (\<lambda>s. s = ''1970-01-02''),
                        date_value := (\<lambda>s. if s = ''1970-01-02'' then Some 86400000 else None)\<rparr>"

definition ex_dash_browser :: browser where
  "ex_dash_browser = \<lparr>accessToken = Some (pairAccess (generateTokens ex_cfg 90000000 1)),
                      refreshToken_ls = Some (pairRefresh (generateTokens ex_cfg 90000000 1)),
                      user_ls = None, location = ''/dashboard''\<rparr>"

subsection \<open>Lemmas\<close>

lemma replicate_numeral_Cons: "replicate (numeral k) x = x # replicate (pred_numeral k) x"
  by (simp add: numeral_eq_Suc)

lemma split_on_append:
  "c \<notin> set xs \<Longrightarrow> split_on c (xs @ c # ys) = xs # split_on c ys"
  by (induction xs) auto

lemma dec_str_digits: "set (dec_str n) \<subseteq> set hex_chars"
proof (induction n rule: dec_str.induct)
  case (1 n)
  have "hex_digit m \<in> set hex_chars" if "m < 10" for m
  proof -
    have "length hex_chars = 16" by (simp add: hex_chars_def)
    then show ?thesis unfolding hex_digit_def using that by (intro nth_mem) simp
  qed
  with 1 show ?case by (subst dec_str.simps) auto
qed

lemma pad_no_T: "CHR ''T'' \<notin> set (pad w n)"
  using dec_str_digits [of n] by (auto simp: pad_def hex_chars_def)

lemma iso_day_no_T: "CHR ''T'' \<notin> set (iso_day k)"
  using pad_no_T by (auto simp: iso_day_def split: prod.split)

lemma form_dueDate_day: "form_dueDate (Some t) = iso_day (t div ms_per_day)"
  by (simp add: form_dueDate_def toISOString_def Let_def split_on_append [OF iso_day_no_T])

lemma toISOString_example: "toISOString 90000000 = ''1970-01-02T01:00:00.000Z''"
  by (simp add: toISOString_def iso_day_def civil_from_days_def pad_def dec_str.simps hex_digit_def hex_chars_def ms_per_day_def Let_def replicate_numeral_Cons)

lemma iso_day_nonempty: "iso_day k \<noteq> []"
  by (simp add: iso_day_def split: prod.split)

lemma form_body_dueDate:
  "f_dueDate f \<noteq> [] \<Longrightarrow> map_of (form_body f) ''dueDate'' = Some (f_dueDate f)"
  by (simp add: form_body_def)

lemma put_past_due_refused:
  assumes p: "(protect cfg now d h :: task_payload response + principal) = Inr p"
    and t: "map_of (tasks d) tid = Some t" and own: "role (snd p) = AdminRole \<or> user t = fst p"
    and v: "map_of body ''dueDate'' = Some v" "date_value lib v = Some (int x)" "x < now"
  shows "statusCode (fst (backend_write lib cfg now (PutTask tid body) d h)) = 400 \<and>
         snd (backend_write lib cfg now (PutTask tid body) d h) = d"
proof -
  obtain b' errs where rc: "run_chains lib now updateTaskValidation body = (b', errs)" by fastforce
  show ?thesis
  proof (cases "errs = []")
    case False
    then show ?thesis
      by (simp add: backend_write_def protected_def p task_write_route_def validated_def rc validate_def
          errorResponse_def)
  next
    case True
    have ch: "\<lparr>ch_field = ''dueDate'', ch_optional = True,
               ch_steps = [Check IsISO8601 ''Due date must be a valid date'']\<rparr> \<in> set updateTaskValidation"
      by (simp add: updateTaskValidation_def)
    have "distinct (map ch_field updateTaskValidation)" by (simp add: updateTaskValidation_def)
    from run_chains_field [OF this ch rc] v(1)
    have "map_of b' ''dueDate'' = Some v" by (simp add: chain_out_def)
    then have bd: "b_dueDate (task_body_of lib b') = Some x" using v(2) by (simp add: task_body_of_def)
    have "validateTask now (apply_task_update (task_body_of lib b') t) \<noteq> []"
      using bd v(3) by (simp add: validateTask_def apply_task_update_def Let_def split: option.split)
    then have "save_task now tid (apply_task_update (task_body_of lib b') t) d =
        Inl (ValidationError (validateTask now (apply_task_update (task_body_of lib b') t)))"
      by (simp add: save_task_def)
    then show ?thesis using True own
      by (auto simp: backend_write_def protected_def p task_write_route_def validated_def rc validate_def
          task_route_def updateTask_def t errorResponse_def)
  qed
qed

lemma getTasks_dashboard:
  "statusCode (getTasks rx p dashboard_query d) = 200 \<and> success (getTasks rx p dashboard_query d) \<and>
   data (getTasks rx p dashboard_query d) = Some (TaskPage (page_items (getTasks rx p dashboard_query d)))"
  by (simp add: getTasks_def Let_def mongo_skip_limit_def paginationResponse_def page_items_def)

lemma dash_query_all:
  "filterStatus s = ''all'' \<Longrightarrow> filterPriority s = ''all'' \<Longrightarrow> dash_query s = dashboard_query"
  by (simp add: dash_query_def dashboard_query_def)

lemma api_read_ok:
  assumes "req_header b None = h" "(protect cfg now d h :: task_payload response + principal) = Inr p"
    and "statusCode (read_handler rx p op d) = 200"
  shows "api_call (backend_read cfg now rx op) rf None False b d = (Resolved (read_handler rx p op d), b, d, 1)"
proof -
  have "backend_read cfg now rx op d (req_header b None) = (read_handler rx p op d, d)"
    using assms(1,2) by (simp add: backend_read_def protected_def)
  from api_call_not_401 [where srv = "backend_read cfg now rx op" and st = d and b = b and hh = None
      and rf = rf and retry = False, OF this] assms(3) show ?thesis by (simp add: settle_def is_2xx_def)
qed

subsection \<open>Properties\<close>

text \<open>C38: editing a task on its due day is refused (finding). \<open>openEditModal\<close> puts
  \<open>dueDate.split('T')[0]\<close>, the UTC day of the due date, into the form, and \<open>onSubmit\<close>
  sends it back: the backend reads it as midnight of that day, and once that midnight
  has passed, \<open>save\<close> refuses the update with 400 (or validation refuses it). Any edit
  that leaves the date input as the modal filled it, for a task due later today
  included, fails: the store, the browser and the page stay as they were.\<close>

theorem dash_edit_keeps_day_refused:
  assumes tok: "accessToken b = Some tok" "tok \<noteq> []"
    and p: "(protect cfg now d (Some (bearer_header tok)) :: task_payload response + principal) = Inr p"
    and e: "editingTask s = Some tv" "map_of (tasks d) (fst tv) = Some t" "role (snd p) = AdminRole \<or> user t = fst p"
    and f: "f_dueDate (form s) = form_dueDate (Some due)"
    and day: "due div ms_per_day * ms_per_day < now"
    and lib: "date_value lib (iso_day (due div ms_per_day)) = Some (int (due div ms_per_day * ms_per_day))"
  shows "dash_onSubmit lib cfg now rx tasks_first s b d = (s, b, d)"
proof -
  have h: "req_header b None = Some (bearer_header tok)" using tok by (simp add: req_header_def)
  have "map_of (form_body (form s)) ''dueDate'' = Some (iso_day (due div ms_per_day))"
    using f by (simp add: form_body_dueDate form_dueDate_day iso_day_nonempty)
  from put_past_due_refused [OF p [folded h] e(2,3) this lib day]
  obtain resp where srv: "backend_write lib cfg now (PutTask (fst tv) (form_body (form s))) d (req_header b None) = (resp, d)"
    and st: "statusCode resp = 400"
    by (metis prod.collapse)
  have "statusCode resp \<noteq> 401" using st by simp
  from api_call_not_401 [where srv = "backend_write lib cfg now (PutTask (fst tv) (form_body (form s)))"
      and st = d and b = b and hh = None and rf = "backend_refresh lib cfg now" and retry = False, OF srv this]
  show ?thesis using e(1) st
    by (simp add: dash_onSubmit_def settle_def is_2xx_def del: api_call.simps)
qed

theorem dash_edit_keeps_day_refused_witness:
  "dash_onSubmit ex_date_lib ex_cfg 90000000 (\<lambda>pat txt. False) True
     (openEditModal (4, ex_due_task, None) dash_init) ex_dash_browser ex_due_db =
   (openEditModal (4, ex_due_task, None) dash_init, ex_dash_browser, ex_due_db)"
proof (rule dash_edit_keeps_day_refused [where t = ex_due_task and tv = "(4, ex_due_task, None)"])
  show "accessToken ex_dash_browser = Some (pairAccess (generateTokens ex_cfg 90000000 1))"
    by (simp add: ex_dash_browser_def)
  show "(protect ex_cfg 90000000 ex_due_db (Some (bearer_header (pairAccess (generateTokens ex_cfg 90000000 1))))
      :: task_payload response + principal) = Inr (1, ex_user ''Alice'' ''a@x.com'' UserRole)"
    by (simp add: protect_generated access_life_def ex_cfg_def ex_due_db_def ex_db_def ex_user_def)
  show "f_dueDate (form (openEditModal (4, ex_due_task, None) dash_init)) = form_dueDate (Some 129600000)"
    by (simp add: openEditModal_def ex_due_task_def)
  show "date_value ex_date_lib (iso_day (129600000 div ms_per_day)) = Some (int (129600000 div ms_per_day * ms_per_day))"
    by (simp add: ex_date_lib_def iso_day_def civil_from_days_def pad_def dec_str.simps hex_digit_def
        hex_chars_def ms_per_day_def Let_def replicate_numeral_Cons)
qed (simp_all add: openEditModal_def ex_due_db_def ex_due_task_def ex_task_def ms_per_day_def)

text \<open>C40: the dashboard's refresh races (finding). Without filters, \<open>fetchTasks\<close>
  and \<open>fetchStats\<close> both set the statistics. When the task list completes last, the
  page shows \<open>calculateStatsFromTasks\<close> of the first page of at most 50 tasks; when the
  statistics complete last, it shows the server's answer, which for a regular user is
  all zeros (the uncast \<open>$match\<close> of \<open>getTaskStats\<close>) and for an admin the counts over
  all tasks. The list is the first page either way, and neither request changes the
  store or the browser.\<close>

theorem dash_refresh_order:
  assumes h: "accessToken b = Some tok" "tok \<noteq> []"
    and p: "(protect cfg now d (Some (bearer_header tok)) :: task_payload response + principal) = Inr p"
    and f: "filterStatus s = ''all''" "filterPriority s = ''all''"
  shows "dash_refresh lib cfg now rx tasks_first s b d =
     (s\<lparr>d_tasks := page_items (getTasks rx p dashboard_query d),
        d_stats := Some (if tasks_first
                         then (if role (snd p) = AdminRole then calculateStatsFromTasks (map (view_task d) (tasks d))
                               else zero_stats)
                         else calculateStatsFromTasks (page_items (getTasks rx p dashboard_query d)))\<rparr>, b, d)"
proof -
  have hb: "req_header b None = Some (bearer_header tok)" using h by (simp add: req_header_def)
  have "filterStatus (s\<lparr>d_stats := x\<rparr>) = ''all'' \<and> filterPriority (s\<lparr>d_stats := x\<rparr>) = ''all''" for x
    using f by simp
  then have q: "dash_query s = dashboard_query" "dash_query (s\<lparr>d_stats := x\<rparr>) = dashboard_query" for x
    using f by (simp_all add: dash_query_all)
  note tasks = api_read_ok [OF hb p, of rx "ReadList dashboard_query"]
  note stats = api_read_ok [OF hb p, of rx ReadStats]
  have v: "role (snd p) = AdminRole \<Longrightarrow> visible_tasks p d = tasks d" by (simp add: visible_tasks_def)
  show ?thesis
    using getTasks_dashboard [of rx p d] getTaskStats_calc [of p d] f v
    by (simp add: dash_refresh_def fetchTasks_def fetchStats_def q tasks stats read_handler_def Let_def
        del: api_call.simps split: if_splits)
qed

theorem dash_refresh_order_witness:
  "dash_refresh ex_date_lib ex_cfg 90000000 (\<lambda>pat txt. False) True dash_init ex_dash_browser ex_db =
     (dash_init\<lparr>d_tasks := page_items (getTasks (\<lambda>pat txt. False) (1, ex_user ''Alice'' ''a@x.com'' UserRole) dashboard_query ex_db),
        d_stats := Some zero_stats\<rparr>, ex_dash_browser, ex_db)"
proof -
  have "(protect ex_cfg 90000000 ex_db (Some (bearer_header (pairAccess (generateTokens ex_cfg 90000000 1))))
      :: task_payload response + principal) = Inr (1, ex_user ''Alice'' ''a@x.com'' UserRole)"
    by (simp add: protect_generated access_life_def ex_cfg_def ex_db_def ex_user_def)
  from dash_refresh_order [OF _ generated_nonempty(1) this, of ex_dash_browser dash_init ex_date_lib
      "\<lambda>pat txt. False" True]
  show ?thesis by (simp add: ex_dash_browser_def dash_init_def ex_user_def)
qed

end
