(* ===== verification/DashboardForm.thy ===== *)
theory DashboardForm
  imports Dashboard
begin

text \<open>
  The task modal's form of \<open>src/frontend/src/app/dashboard/page.tsx\<close>: the
  \<open>react-hook-form\<close> rules registered on its inputs (title required and at least
  three characters, description required), the date input's \<open>min\<close> of today's UTC
  date (\<open>new Date().toISOString().split('T')[0]\<close>), which the browser enforces
  before the form's submit event, and \<open>handleSubmit(onSubmit)\<close>, which runs
  \<open>onSubmit\<close> only when the rules hold and otherwise shows the errors.
\<close>

text \<open>The browser's order on the values of a date input, \<open>YYYY-MM-DD\<close> strings whose
  lexicographic order is the order of the dates.\<close>

fun lex_le :: "string \<Rightarrow> string \<Rightarrow> bool" where
  "lex_le [] ys = True"
| "lex_le (x # xs) [] = False"
| "lex_le (x # xs) (y # ys) = (of_char x < (of_char y :: nat) \<or> (x = y \<and> lex_le xs ys))"

text \<open>\<open>register('title', {required, minLength: 3})\<close> and
  \<open>register('description', {required})\<close>: the first error of each field.\<close>

definition form_errors :: "task_form \<Rightarrow> (string \<times> string) list" where
  "form_errors f =
     (if f_title f = [] then [(''title'', ''Title is required'')]
      else if length (f_title f) < 3 then [(''title'', ''Title must be at least 3 characters'')] else []) @
     (if f_description f = [] then [(''description'', ''Description is required'')] else [])"

text \<open>\<open>min={new Date().toISOString().split('T')[0]}\<close>: an empty date or one from today
  (UTC) on.\<close>

definition date_input_ok :: "millis \<Rightarrow> task_form \<Rightarrow> bool" where
  "date_input_ok now f = (f_dueDate f = [] \<or> lex_le (iso_day (now div ms_per_day)) (f_dueDate f))"

text \<open>Submitting the modal: the browser's constraint validation first, then
  \<open>handleSubmit\<close>'s rules, then \<open>onSubmit\<close>.\<close>

definition dash_handleSubmit ::
  "vlib \<Rightarrow> config \<Rightarrow> millis \<Rightarrow> (string \<Rightarrow> string \<Rightarrow> bool) \<Rightarrow> bool \<Rightarrow> dash \<Rightarrow> browser \<Rightarrow> db \<Rightarrow>
     dash \<times> browser \<times> db" where
  "dash_handleSubmit lib cfg now rx tasks_first s b d =
     (if \<not> date_input_ok now (form s) then (s, b, d)
      else (let errs = form_errors (form s) in
            if errs \<noteq> [] then (s\<lparr>formErrors := errs\<rparr>, b, d)
            else dash_onSubmit lib cfg now rx tasks_first (s\<lparr>formErrors := []\<rparr>) b d))"

subsection \<open>Examples\<close>

text \<open>Alice's create form at 01:00 on 1970-01-02, due that day.\<close>

definition ex_create_form :: task_form where
  "ex_create_form = \<lparr>f_title = ''Pay rent'', f_description = ''Before noon'', f_status = ''pending'',
                     f_priority = ''high'', f_dueDate = ''1970-01-02''\<rparr>"

subsection \<open>Lemmas\<close>

lemma lex_le_refl [simp]: "lex_le xs xs"
  by (induction xs) auto

lemma post_past_due_refused:
  assumes p: "(protect cfg now d h :: task_payload response + principal) = Inr p"
    and v: "map_of body ''dueDate'' = Some v" "date_value lib v = Some (int x)" "x < now"
  shows "statusCode (fst (backend_write lib cfg now (PostTask body) d h)) = 400 \<and>
         snd (backend_write lib cfg now (PostTask body) d h) = d"
proof -
  obtain b' errs where rc: "run_chains lib now createTaskValidation body = (b', errs)" by fastforce
  show ?thesis
  proof (cases "errs = []")
    case False
    then show ?thesis
      by (simp add: backend_write_def protected_def p task_write_route_def validated_def rc validate_def)
  next
    case True
    have ch: "\<lparr>ch_field = ''dueDate'', ch_optional = True,
               ch_steps = [Check IsISO8601 ''Due date must be a valid date'',
                           Check DueNotPast ''Due date cannot be in the past'']\<rparr> \<in> set createTaskValidation"
      by (simp add: createTaskValidation_def)
    have "distinct (map ch_field createTaskValidation)" by (simp add: createTaskValidation_def)
    from run_chains_field [OF this ch rc] v(1)
    have "map_of b' ''dueDate'' = Some v" by (simp add: chain_out_def)
    then have bd: "b_dueDate (task_body_of lib b') = Some x" using v(2) by (simp add: task_body_of_def)
    have "validateTask now ((new_task (fst p) (task_body_of lib b'))\<lparr>taskCreatedAt := now\<rparr>) \<noteq> []"
      using bd v(3) by (simp add: validateTask_def new_task_def)
    then have "create_task now (new_task (fst p) (task_body_of lib b')) d =
        Inl (ValidationError (validateTask now ((new_task (fst p) (task_body_of lib b'))\<lparr>taskCreatedAt := now\<rparr>)))"
      by (simp add: create_task_def save_task_def fresh_oid_def)
    then show ?thesis using True
      by (simp add: backend_write_def protected_def p task_write_route_def validated_def rc validate_def
          task_route_def createTask_def)
  qed
qed

subsection \<open>Properties\<close>

text \<open>C34: a task due today cannot be created from the dashboard (finding). The date
  input admits today as its earliest value; the browser sends it as \<open>YYYY-MM-DD\<close>,
  which the backend reads as midnight UTC. The route's validator admits due dates from
  midnight on, but \<open>save\<close> refuses any due date before the present instant, so once
  the day has begun every such create fails with 400: the store, the browser and the
  page stay as they were, and the modal shows only the form's own errors.\<close>

theorem dash_create_today_refused:
  assumes tok: "accessToken b = Some tok" "tok \<noteq> []"
    and p: "(protect cfg now d (Some (bearer_header tok)) :: task_payload response + principal) = Inr p"
    and e: "editingTask s = None"
    and f: "f_dueDate (form s) = iso_day (now div ms_per_day)"
    and day: "now mod ms_per_day \<noteq> 0"
    and lib: "date_value lib (iso_day (now div ms_per_day)) = Some (int (now div ms_per_day * ms_per_day))"
  shows "dash_handleSubmit lib cfg now rx tasks_first s b d = (s\<lparr>formErrors := form_errors (form s)\<rparr>, b, d)"
proof -
  have ok: "date_input_ok now (form s)" using f by (simp add: date_input_ok_def)
  show ?thesis
  proof (cases "form_errors (form s) = []")
    case False
    then show ?thesis using ok by (simp add: dash_handleSubmit_def)
  next
    case True
    define s' where "s' = s\<lparr>formErrors := []\<rparr>"
    have h: "req_header b None = Some (bearer_header tok)" using tok by (simp add: req_header_def)
    have mid: "now div ms_per_day * ms_per_day < now"
      using day div_mult_mod_eq [of now ms_per_day] by linarith
    have "map_of (form_body (form s')) ''dueDate'' = Some (iso_day (now div ms_per_day))"
      using f by (simp add: s'_def form_body_dueDate iso_day_nonempty)
    from post_past_due_refused [OF p [folded h] this lib mid]
    obtain resp where srv: "backend_write lib cfg now (PostTask (form_body (form s'))) d (req_header b None) = (resp, d)"
      and st: "statusCode resp = 400"
      by (metis prod.collapse)
    have "statusCode resp \<noteq> 401" using st by simp
    from api_call_not_401 [where srv = "backend_write lib cfg now (PostTask (form_body (form s')))"
        and st = d and b = b and hh = None and rf = "backend_refresh lib cfg now" and retry = False, OF srv this]
    have "dash_onSubmit lib cfg now rx tasks_first s' b d = (s', b, d)"
      using e st by (simp add: dash_onSubmit_def settle_def is_2xx_def s'_def del: api_call.simps)
    then show ?thesis using ok True by (simp add: dash_handleSubmit_def s'_def Let_def)
  qed
qed

theorem dash_create_today_refused_witness:
  "dash_handleSubmit ex_date_lib ex_cfg 90000000 (\<lambda>pat txt. False) True
     ((openCreateModal dash_init)\<lparr>form := ex_create_form\<rparr>) ex_dash_browser ex_db =
   ((openCreateModal dash_init)\<lparr>form := ex_create_form, formErrors := []\<rparr>, ex_dash_browser, ex_db)"
proof -
  have p: "(protect ex_cfg 90000000 ex_db (Some (bearer_header (pairAccess (generateTokens ex_cfg 90000000 1))))
      :: task_payload response + principal) = Inr (1, ex_user ''Alice'' ''a@x.com'' UserRole)"
    by (simp add: protect_generated access_life_def ex_cfg_def ex_db_def ex_user_def)
  have day: "iso_day (90000000 div ms_per_day) = ''1970-01-02''"
    by (simp add: iso_day_def civil_from_days_def pad_def dec_str.simps hex_digit_def hex_chars_def
        ms_per_day_def Let_def replicate_numeral_Cons)
  have a: "accessToken ex_dash_browser = Some (pairAccess (generateTokens ex_cfg 90000000 1))"
    by (simp add: ex_dash_browser_def)
  have f: "f_dueDate (form ((openCreateModal dash_init)\<lparr>form := ex_create_form\<rparr>)) = iso_day (90000000 div ms_per_day)"
    by (simp add: day ex_create_form_def)
  have m: "(90000000::nat) mod ms_per_day \<noteq> 0" by (simp add: ms_per_day_def)
  have l: "date_value ex_date_lib (iso_day (90000000 div ms_per_day)) = Some (int (90000000 div ms_per_day * ms_per_day))"
    unfolding day by (simp add: ex_date_lib_def ms_per_day_def)
  from dash_create_today_refused [OF a generated_nonempty(1) p _ f m l, of "\<lambda>pat txt. False" True]
  show ?thesis by (simp add: openCreateModal_def form_errors_def ex_create_form_def)
qed

end
