(* ===== verification/DashboardView.thy ===== *)
theory DashboardView
  imports DashboardForm
begin

text \<open>
  What \<open>src/frontend/src/app/dashboard/page.tsx\<close> renders from its state: the admin
  badge and greeting of the header, the four statistics cards, the task list (the empty
  state or one card per task, with the colour helpers \<open>getStatusColor\<close> and
  \<open>getPriorityColor\<close> and the dates of \<open>toLocaleDateString\<close>), the footer's figures
  and the modal's title. \<open>toLocaleDateString\<close> shows the calendar date of the instant
  in the browser's time zone, modelled by a fixed offset from UTC in milliseconds
  (daylight saving is not modelled) for instants from 1970 on; the text it writes for
  that date depends on the locale and is not modelled. The page's \<open>loading\<close> flag,
  which shows a spinner in place of everything, is not part of the state model.
\<close>

subsection \<open>Helpers\<close>

definition getStatusColor :: "string \<Rightarrow> string" where
  "getStatusColor st =
     (if st = ''completed'' then ''bg-emerald-100 text-emerald-700 border border-emerald-200''
      else if st = ''in-progress'' then ''bg-blue-100 text-blue-700 border border-blue-200''
      else ''bg-amber-100 text-amber-700 border border-amber-200'')"

definition getPriorityColor :: "string \<Rightarrow> string" where
  "getPriorityColor pr =
     (if pr = ''high'' then ''bg-red-100 text-red-700 border border-red-200''
      else if pr = ''medium'' then ''bg-orange-100 text-orange-700 border border-orange-200''
      else ''bg-slate-100 text-slate-700 border border-slate-200'')"

text \<open>The local calendar date of instant \<open>t\<close> at offset \<open>off\<close>.\<close>

definition local_day :: "int \<Rightarrow> millis \<Rightarrow> nat \<times> nat \<times> nat" where
  "local_day off t = civil_from_days (nat ((int t + off) div int ms_per_day))"

subsection \<open>The rendered page\<close>

text \<open>One card of the task list.\<close>

record card =
  c_title :: string
  c_status :: string
  c_statusColor :: string
  c_priority :: string
  c_priorityColor :: string
  c_description :: string
  c_due :: "(nat \<times> nat \<times> nat) option"
  c_created :: "nat \<times> nat \<times> nat"

definition task_card :: "int \<Rightarrow> task_view \<Rightarrow> card" where
  "task_card off tv = (case tv of (i, t, ov) \<Rightarrow>
     \<lparr>c_title = title t, c_status = status_str (status t), c_statusColor = getStatusColor (status_str (status t)),
      c_priority = priority_str (priority t), c_priorityColor = getPriorityColor (priority_str (priority t)),
      c_description = description t, c_due = map_option (local_day off) (dueDate t),
      c_created = local_day off (taskCreatedAt t)\<rparr>)"

datatype task_list = NoTasks | Cards "card list"

record dash_view =
  v_adminBadge :: bool
  v_welcome :: "string option"
  v_statCards :: "(nat \<times> nat \<times> nat \<times> nat) option"
  v_tasks :: task_list
  v_footer :: "nat \<times> nat \<times> nat"
  v_modalTitle :: "string option"

text \<open>The page for the provider's session \<open>ss\<close> and the page state \<open>s\<close>: the cards
  show \<open>stats.total || 0\<close> and so on (a number or its \<open>0\<close>), hidden while \<open>stats\<close> is
  \<open>null\<close>; the footer shows \<open>stats?.total || 0\<close>, \<open>completed\<close> and \<open>inProgress\<close>.\<close>

definition dash_render :: "int \<Rightarrow> session \<Rightarrow> dash \<Rightarrow> dash_view" where
  "dash_render off ss s =
     \<lparr>v_adminBadge = ctx_isAdmin ss,
      v_welcome = map_option (\<lambda>(uid, nm, em, ro). nm) (ctx_user ss),
      v_statCards = map_option (\<lambda>st. (st_total st, st_pending st, st_inProgress st, st_completed st)) (d_stats s),
      v_tasks = (if d_tasks s = [] then NoTasks else Cards (map (task_card off) (d_tasks s))),
      v_footer = (case d_stats s of None \<Rightarrow> (0, 0, 0)
                  | Some st \<Rightarrow> (st_total st, st_completed st, st_inProgress st)),
      v_modalTitle = (if isModalOpen s then Some (if editingTask s = None then ''Create New Task'' else ''Edit Task'')
                      else None)\<rparr>"

subsection \<open>Examples\<close>

text \<open>A task due at midnight UTC of 1970-01-03, as the dashboard creates it from the
  date input's \<open>1970-01-03\<close>.\<close>

definition ex_due_midnight :: task where
  "ex_due_midnight = ex_task\<lparr>dueDate := Some 172800000\<rparr>"

subsection \<open>Lemmas\<close>

lemma local_day_west:
  assumes "- int ms_per_day < off" "off < 0" "0 < k"
  shows "local_day off (k * ms_per_day) = civil_from_days (k - 1)"
proof -
  have "(int (k * ms_per_day) + off) div int ms_per_day = int (k - 1)"
    by (rule int_div_pos_eq [where r = "int ms_per_day + off"]) (use assms in \<open>simp_all add: algebra_simps of_nat_diff\<close>)
  then show ?thesis by (simp add: local_day_def)
qed

subsection \<open>Properties\<close>

text \<open>C39: the card and the edit form disagree on the due day (finding). West of UTC
  (a negative offset of less than a day), a task due at midnight UTC of day \<open>k\<close> (every
  due date the dashboard creates is such a midnight) is shown on its card with the
  local date of day \<open>k - 1\<close>, while \<open>openEditModal\<close> fills the date input with day
  \<open>k\<close>.\<close>

theorem dash_due_day_mismatch:
  assumes "- int ms_per_day < off" "off < 0" "0 < k" "dueDate t = Some (k * ms_per_day)"
  shows "c_due (task_card off (i, t, ov)) = Some (civil_from_days (k - 1)) \<and>
         f_dueDate (form (openEditModal (i, t, ov) s)) = iso_day k"
  using local_day_west [OF assms(1-3)] assms(4)
  by (simp add: task_card_def openEditModal_def form_dueDate_day ms_per_day_def)

theorem dash_due_day_mismatch_witness:
  "c_due (task_card (-18000000) (4, ex_due_midnight, None)) = Some (civil_from_days 1) \<and>
   f_dueDate (form (openEditModal (4, ex_due_midnight, None) dash_init)) = iso_day 2"
proof -
  have d: "dueDate ex_due_midnight = Some (2 * ms_per_day)" by (simp add: ex_due_midnight_def ms_per_day_def)
  have "- int ms_per_day < -18000000" by (simp add: ms_per_day_def)
  from dash_due_day_mismatch [OF this _ _ d, of 4 None dash_init] show ?thesis by simp
qed

end
