(* ===== verification/Landing.thy ===== *)
theory Landing
  imports Session
begin

text \<open>
  The landing page \<open>src/frontend/src/app/page.tsx\<close> inside the \<open>AuthProvider\<close>: on
  mount the provider runs \<open>checkAuth\<close>; the page's effect on \<open>[isAuthenticated,
  loading]\<close> sends an authenticated visitor to \<open>/dashboard\<close> once loading has ended.
  The rest of the page is markup and buttons that navigate to \<open>/login\<close> and
  \<open>/register\<close>.
\<close>

definition landing_effect :: "session \<Rightarrow> session" where
  "landing_effect s =
     (if \<not> ctx_loading s \<and> ctx_isAuthenticated s
      then s\<lparr>sbrowser := (sbrowser s)\<lparr>location := ''/dashboard''\<rparr>\<rparr> else s)"

text \<open>A visit: the provider's \<open>checkAuth\<close>, then the page's effect on the new state
  (on the first render \<open>loading\<close> is still true and the effect does nothing).\<close>

definition landing_visit :: "vlib \<Rightarrow> config \<Rightarrow> millis \<Rightarrow> session \<Rightarrow> db \<Rightarrow> session \<times> db" where
  "landing_visit lib cfg now s d = (case ctx_checkAuth lib cfg now s d of (s', d') \<Rightarrow> (landing_effect s', d'))"

definition landing_button :: "string \<Rightarrow> session \<Rightarrow> session" where
  "landing_button target s = s\<lparr>sbrowser := (sbrowser s)\<lparr>location := target\<rparr>\<rparr>"

subsection \<open>Lemmas\<close>

lemma landing_visit_no_token:
  "accessToken (sbrowser s) = None \<Longrightarrow> ctx_user s = None \<Longrightarrow> landing_visit lib cfg now s d = (s\<lparr>ctx_loading := False\<rparr>, d)"
  by (simp add: landing_visit_def ctx_checkAuth_def landing_effect_def ctx_isAuthenticated_def)

subsection \<open>Properties\<close>

text \<open>A returning user is sent to the dashboard: when the stored access token is
  accepted by \<open>protect\<close>, a visit of the landing page restores the user from
  \<open>GET /auth/me\<close>, ends loading and navigates to \<open>/dashboard\<close>, changing nothing on
  the server.\<close>

theorem landing_returning_user:
  assumes "accessToken (sbrowser s) = Some t" "t \<noteq> []"
    and "(protect cfg now d (Some (bearer_header t)) :: auth_payload response + principal) = Inr (uid, u)"
  shows "landing_visit lib cfg now s d =
     (s\<lparr>ctx_user := Some (uid, name u, email u, role u), ctx_loading := False,
        sbrowser := (sbrowser s)\<lparr>location := ''/dashboard''\<rparr>\<rparr>, d)"
  using ctx_checkAuth_valid [OF assms, of lib]
  by (simp add: landing_visit_def landing_effect_def ctx_isAuthenticated_def)

theorem landing_returning_user_witness:
  "landing_visit ex_lib ex_cfg 1000 ex_session1 ex_db =
     (ex_session1\<lparr>ctx_user := Some (1, ''Alice'', ''a@x.com'', UserRole), ctx_loading := False,
        sbrowser := (sbrowser ex_session1)\<lparr>location := ''/dashboard''\<rparr>\<rparr>, ex_db)"
proof -
  have p: "(protect ex_cfg 1000 ex_db (Some (bearer_header (pairAccess (generateTokens ex_cfg 0 1))))
      :: auth_payload response + principal) = Inr (1, ex_user ''Alice'' ''a@x.com'' UserRole)"
    by (simp add: protect_generated access_life_def ex_cfg_def ex_db_def ex_user_def)
  from landing_returning_user [OF _ generated_nonempty(1) p, of ex_session1 ex_lib]
  show ?thesis by (simp add: ex_session1_def ex_user_def)
qed

end
