(* ===== verification/Server.thy ===== *)
theory Server
  imports Routes
begin

text \<open>
  The application set-up of \<open>src/backend/src/server.js\<close> that decides whether a
  request reaches a router: the two \<open>express-rate-limit\<close> limiters (\<open>limiter\<close> on
  \<open>/api/\<close>, \<open>authLimiter\<close> on \<open>/api/auth/login\<close> and \<open>/api/auth/register\<close>),
  Express's mount-path matching, and the authentication routes behind them. The
  limiters use the library's default \<open>MemoryStore\<close>, a fixed window per client key
  (the IP address): \<open>increment\<close> starts a new window of \<open>windowMs\<close> when the client's
  \<open>resetTime\<close> has passed, a request whose count exceeds \<open>max\<close> is answered by the
  library's handler (status 429 with the plain-text \<open>message\<close>, not the JSON envelope),
  and with \<open>skipSuccessfulRequests\<close> a response below 400 gives its hit back. The
  store's periodic clean-up only forgets clients whose window has passed, which
  \<open>increment\<close> treats as absent, so it is not modelled. Each request runs to its
  response before the next one is counted; the library gives a successful hit back
  only at the response's \<open>finish\<close>, so concurrent successful requests still count
  against each other, which this sequential model does not show.
\<close>

subsection \<open>express-rate-limit\<close>

record limiter_cfg =
  windowMs :: millis
  max_hits :: nat
  limit_message :: string
  skipSuccessfulRequests :: bool

record client_hits =
  totalHits :: nat
  resetTime :: millis

type_synonym limiter_store = "(string \<times> client_hits) list"

text \<open>A reply of the Express application: a JSON envelope of the response
  formatter, or a status with a plain-text body (\<open>res.status(429).send(message)\<close>).\<close>

datatype 'd reply = Json "'d response" | Text nat string

fun reply_status :: "'d reply \<Rightarrow> nat" where
  "reply_status (Json r) = statusCode r"
| "reply_status (Text c m) = c"

definition limiter :: limiter_cfg where
  "limiter = \<lparr>windowMs = 15 * 60 * 1000, max_hits = 100,
              limit_message = ''Too many requests from this IP, please try again later.'',
              skipSuccessfulRequests = False\<rparr>"

definition authLimiter :: limiter_cfg where
  "authLimiter = \<lparr>windowMs = 15 * 60 * 1000, max_hits = 5,
                  limit_message = ''Too many login attempts, please try again later.'',
                  skipSuccessfulRequests = True\<rparr>"

text \<open>\<open>MemoryStore.increment\<close>: the client's record, reset when its window has passed
  (or created), with one more hit.\<close>

definition store_increment :: "limiter_cfg \<Rightarrow> millis \<Rightarrow> string \<Rightarrow> limiter_store \<Rightarrow> client_hits \<times> limiter_store" where
  "store_increment c now key st =
     (let h = (case map_of st key of
                 Some h \<Rightarrow> if resetTime h \<le> now then \<lparr>totalHits = 1, resetTime = now + windowMs c\<rparr>
                           else h\<lparr>totalHits := totalHits h + 1\<rparr>
               | None \<Rightarrow> \<lparr>totalHits = 1, resetTime = now + windowMs c\<rparr>)
      in (h, AList.update key h st))"

text \<open>\<open>MemoryStore.decrement\<close>.\<close>

definition store_decrement :: "string \<Rightarrow> limiter_store \<Rightarrow> limiter_store" where
  "store_decrement key st =
     (case map_of st key of
        Some h \<Rightarrow> AList.update key (h\<lparr>totalHits := totalHits h - 1\<rparr>) st
      | None \<Rightarrow> st)"

text \<open>The middleware \<open>rateLimit(options)\<close>: count the hit; over the limit, answer 429;
  otherwise run the rest of the chain, and on its \<open>finish\<close> give a successful
  request's hit back when \<open>skipSuccessfulRequests\<close> is set.\<close>

definition rate_limit ::
  "limiter_cfg \<Rightarrow> millis \<Rightarrow> string \<Rightarrow> limiter_store \<Rightarrow> ('s \<Rightarrow> 'd reply \<times> 's) \<Rightarrow> 's \<Rightarrow>
     'd reply \<times> limiter_store \<times> 's" where
  "rate_limit c now ip st k s =
     (case store_increment c now ip st of
        (h, st1) \<Rightarrow>
          if max_hits c < totalHits h then (Text 429 (limit_message c), st1, s)
          else (case k s of
                  (r, s') \<Rightarrow>
                    (r, if skipSuccessfulRequests c \<and> reply_status r < 400 then store_decrement ip st1 else st1, s')))"

subsection \<open>Mounting and the application\<close>

text \<open>\<open>app.use(path, ...)\<close>: the mount path without its trailing slash matches the
  request path itself or as a prefix followed by \<open>/\<close>, case-insensitively.\<close>

definition mounted :: "string \<Rightarrow> string \<Rightarrow> bool" where
  "mounted mp p =
     (let m = js_lower (if mp \<noteq> [] \<and> last mp = CHR ''/'' then butlast mp else mp); q = js_lower p
      in q = m \<or> starts_with (m @ ''/'') q)"

record limiters =
  api_hits :: limiter_store
  auth_hits :: limiter_store

text \<open>\<open>app.use("/api/", limiter)\<close>, then \<open>app.use("/api/auth/login", authLimiter)\<close> and
  \<open>app.use("/api/auth/register", authLimiter)\<close>: one limiter instance, so one store,
  behind both paths; then the router, whose handler answers with a JSON envelope.\<close>

definition api_gate ::
  "millis \<Rightarrow> string \<Rightarrow> string \<Rightarrow> limiters \<Rightarrow> ('s \<Rightarrow> 'd response \<times> 's) \<Rightarrow> 's \<Rightarrow> 'd reply \<times> limiters \<times> 's" where
  "api_gate now ip path ls k s =
     (let route = (\<lambda>s. case k s of (r, s') \<Rightarrow> (Json r, s'));
          inner = (\<lambda>(a, s). if mounted ''/api/auth/login'' path \<or> mounted ''/api/auth/register'' path
                            then (case rate_limit authLimiter now ip a route s of (r, a', s') \<Rightarrow> (r, (a', s')))
                            else (case route s of (r, s') \<Rightarrow> (r, (a, s'))))
      in if mounted ''/api/'' path
         then (case rate_limit limiter now ip (api_hits ls) inner (auth_hits ls, s) of
                 (r, g', (a', s')) \<Rightarrow> (r, \<lparr>api_hits = g', auth_hits = a'\<rparr>, s'))
         else (case route s of (r, s') \<Rightarrow> (r, ls, s')))"

text \<open>The paths of the authentication routes (\<open>@route\<close> of each handler of
  \<open>controllers/authController.js\<close>; \<open>routes/authRoutes.js\<close> is not among the sources).\<close>

fun auth_path :: "auth_req \<Rightarrow> string" where
  "auth_path (RegisterReq b) = ''/api/auth/register''"
| "auth_path (LoginReq b) = ''/api/auth/login''"
| "auth_path (RefreshReq b) = ''/api/auth/refresh''"
| "auth_path LogoutReq = ''/api/auth/logout''"
| "auth_path MeReq = ''/api/auth/me''"
| "auth_path (ProfileReq b) = ''/api/auth/profile''"
| "auth_path (PasswordReq b) = ''/api/auth/change-password''"

text \<open>An authentication request from address \<open>ip\<close> through the whole application.\<close>

definition serve_auth ::
  "vlib \<Rightarrow> config \<Rightarrow> millis \<Rightarrow> nat \<Rightarrow> string \<Rightarrow> string option \<Rightarrow> auth_req \<Rightarrow> limiters \<Rightarrow> db \<Rightarrow>
     auth_payload reply \<times> limiters \<times> db" where
  "serve_auth lib cfg now salt ip h rq ls d =
     api_gate now ip (auth_path rq) ls (auth_route lib cfg now salt h rq) d"

text \<open>A client's requests to one limiter, each answered by the handler with the
  given status when it gets through: the replies and the final store.\<close>

definition status_resp :: "nat \<Rightarrow> unit response" where
  "status_resp code = \<lparr>statusCode = code, success = (code < 400), message = [], data = None,
                        errors = None, pagination = None\<rparr>"

fun rl_trace :: "limiter_cfg \<Rightarrow> string \<Rightarrow> limiter_store \<Rightarrow> (millis \<times> nat) list \<Rightarrow> unit reply list \<times> limiter_store" where
  "rl_trace c ip st [] = ([], st)"
| "rl_trace c ip st ((t, code) # rs) =
     (case rate_limit c t ip st (\<lambda>u. (Json (status_resp code), u)) () of
        (r, st', u) \<Rightarrow> (case rl_trace c ip st' rs of (out, st'') \<Rightarrow> (r # out, st'')))"

text \<open>A request that got through and kept its hit.\<close>

fun counted :: "limiter_cfg \<Rightarrow> 'd reply \<Rightarrow> bool" where
  "counted c (Json r) = (\<not> (skipSuccessfulRequests c \<and> statusCode r < 400))"
| "counted c (Text n m) = False"

text \<open>The limiter store's invariant at time \<open>t\<close>: no window ends after \<open>t + windowMs\<close>.\<close>

definition rl_fresh :: "limiter_cfg \<Rightarrow> millis \<Rightarrow> limiter_store \<Rightarrow> bool" where
  "rl_fresh c t st \<longleftrightarrow> (\<forall>(key, h) \<in> set st. resetTime h \<le> t + windowMs c)"

subsection \<open>Examples\<close>

text \<open>A client that logged in successfully at time 1 (its window ends at 900001)
  and then fails ten logins, five at 900000 and five at 900001.\<close>

definition ex_ip :: string where "ex_ip = ''203.0.113.7''"

definition ex_warm :: limiter_store where "ex_warm = snd (rl_trace authLimiter ex_ip [] [(1, 200)])"

definition ex_burst :: "(millis \<times> nat) list" where
  "ex_burst = [(900000, 401), (900000, 401), (900000, 401), (900000, 401), (900000, 401),
               (900001, 401), (900001, 401), (900001, 401), (900001, 401), (900001, 401)]"

text \<open>A client whose five counted failures fill \<open>authLimiter\<close>'s window.\<close>

definition ex_locked :: limiters where
  "ex_locked = \<lparr>api_hits = [], auth_hits = [(ex_ip, \<lparr>totalHits = 5, resetTime = 900000\<rparr>)]\<rparr>"

subsection \<open>Lemmas\<close>

lemma store_increment_hit:
  "fst (store_increment c t ip st) =
     (case map_of st ip of
        Some h \<Rightarrow> if resetTime h \<le> t then \<lparr>totalHits = 1, resetTime = t + windowMs c\<rparr> else h\<lparr>totalHits := totalHits h + 1\<rparr>
      | None \<Rightarrow> \<lparr>totalHits = 1, resetTime = t + windowMs c\<rparr>)"
  by (simp add: store_increment_def Let_def)

lemma rate_limit_trace_step:
  assumes "rate_limit c t ip st (\<lambda>u. (Json (status_resp code), u)) () = (r, st', u)"
    and "h1 = fst (store_increment c t ip st)"
  shows "r = (if max_hits c < totalHits h1 then Text 429 (limit_message c) else Json (status_resp code)) \<and>
         map_of st' ip = Some (if max_hits c \<ge> totalHits h1 \<and> \<not> counted c (Json (status_resp code))
                               then h1\<lparr>totalHits := totalHits h1 - 1\<rparr> else h1)"
  using assms
  by (auto simp: rate_limit_def store_increment_def store_decrement_def Let_def update_conv' status_resp_def
      split: prod.splits if_splits)

lemma rl_trace_append:
  "rl_trace c ip st (xs @ ys) =
     (fst (rl_trace c ip st xs) @ fst (rl_trace c ip (snd (rl_trace c ip st xs)) ys),
      snd (rl_trace c ip (snd (rl_trace c ip st xs)) ys))"
  by (induction c ip st xs rule: rl_trace.induct) (auto split: prod.splits)

lemma rl_trace_Cons:
  "rate_limit c t ip st (\<lambda>u. (Json (status_resp code), u)) () = (r, st', u) \<Longrightarrow>
     rl_trace c ip st ((t, code) # rs) = (r # fst (rl_trace c ip st' rs), snd (rl_trace c ip st' rs))"
  by (simp split: prod.split)

lemma rl_window_count:
  assumes "map_of st ip = Some h" "\<forall>(t, code) \<in> set rs. t < resetTime h"
  shows "length (filter (counted c) (fst (rl_trace c ip st rs))) \<le> max_hits c - totalHits h \<and>
         (\<exists>h'. map_of (snd (rl_trace c ip st rs)) ip = Some h' \<and> resetTime h' = resetTime h)"
  using assms
proof (induction rs arbitrary: st h)
  case Nil
  then show ?case by simp
next
  case (Cons x rs)
  obtain t code where x: "x = (t, code)" by (cases x)
  obtain r st' u where rl: "rate_limit c t ip st (\<lambda>u. (Json (status_resp code), u)) () = (r, st', u)"
    by (metis prod_cases3)
  have lt: "t < resetTime h" using Cons.prems x by auto
  define h1 where "h1 = h\<lparr>totalHits := totalHits h + 1\<rparr>"
  have "fst (store_increment c t ip st) = h1"
    using Cons.prems(1) lt by (simp add: store_increment_hit h1_def)
  from rate_limit_trace_step [OF rl this [symmetric]]
  have r: "r = (if max_hits c < totalHits h1 then Text 429 (limit_message c) else Json (status_resp code))"
    and m: "map_of st' ip = Some (if max_hits c \<ge> totalHits h1 \<and> \<not> counted c (Json (status_resp code))
                                  then h else h1)"
    by (simp_all add: h1_def)
  define h' where "h' = (if max_hits c \<ge> totalHits h1 \<and> \<not> counted c (Json (status_resp code)) then h else h1)"
  have "resetTime h' = resetTime h" by (simp add: h'_def h1_def)
  with Cons.IH [of st' h'] Cons.prems(2) m
  have ih: "length (filter (counted c) (fst (rl_trace c ip st' rs))) \<le> max_hits c - totalHits h' \<and>
      (\<exists>h''. map_of (snd (rl_trace c ip st' rs)) ip = Some h'' \<and> resetTime h'' = resetTime h)"
    by (auto simp: h'_def)
  show ?case
    unfolding x rl_trace_Cons [OF rl] using ih by (auto simp: r h'_def h1_def status_resp_def)
qed

lemma rl_fresh_count:
  assumes "case map_of st ip of None \<Rightarrow> True | Some h \<Rightarrow> resetTime h \<le> t"
    and "\<forall>(t', code') \<in> set rs. t' < t + windowMs c"
  shows "length (filter (counted c) (fst (rl_trace c ip st ((t, code) # rs)))) \<le> max_hits c"
proof -
  obtain r st' u where rl: "rate_limit c t ip st (\<lambda>u. (Json (status_resp code), u)) () = (r, st', u)"
    by (metis prod_cases3)
  define h1 where "h1 = \<lparr>totalHits = 1, resetTime = t + windowMs c\<rparr>"
  have "fst (store_increment c t ip st) = h1"
    using assms(1) by (simp add: store_increment_hit h1_def split: option.splits)
  from rate_limit_trace_step [OF rl this [symmetric]]
  have r: "r = (if max_hits c < 1 then Text 429 (limit_message c) else Json (status_resp code))"
    and m: "map_of st' ip = Some (if max_hits c \<ge> 1 \<and> \<not> counted c (Json (status_resp code))
                                  then h1\<lparr>totalHits := 0\<rparr> else h1)"
    by (simp_all add: h1_def)
  define h' where "h' = (if max_hits c \<ge> 1 \<and> \<not> counted c (Json (status_resp code)) then h1\<lparr>totalHits := 0\<rparr> else h1)"
  have "resetTime h' = t + windowMs c" by (simp add: h'_def h1_def)
  with rl_window_count [of st' ip h' rs c] assms(2) m
  have "length (filter (counted c) (fst (rl_trace c ip st' rs))) \<le> max_hits c - totalHits h'"
    by (auto simp: h'_def)
  then show ?thesis
    unfolding rl_trace_Cons [OF rl] by (auto simp: r h'_def h1_def status_resp_def)
qed

lemma rl_fresh_mono: "rl_fresh c t st \<Longrightarrow> t \<le> t' \<Longrightarrow> rl_fresh c t' st"
  by (fastforce simp: rl_fresh_def)

lemma rl_fresh_update: "rl_fresh c t st \<Longrightarrow> resetTime h \<le> t + windowMs c \<Longrightarrow> rl_fresh c t (AList.update k h st)"
  by (induction st) (auto simp: rl_fresh_def)

lemma rl_fresh_lookup: "rl_fresh c t st \<Longrightarrow> map_of st k = Some h \<Longrightarrow> resetTime h \<le> t + windowMs c"
  by (auto simp: rl_fresh_def dest: map_of_SomeD)

lemma ex_warm_val: "ex_warm = [(ex_ip, \<lparr>totalHits = 0, resetTime = 900001\<rparr>)]"
  by (simp add: ex_warm_def authLimiter_def rate_limit_def store_increment_def store_decrement_def
      status_resp_def Let_def)

lemma ex_burst_trace:
  "length (filter (counted authLimiter) (fst (rl_trace authLimiter ex_ip ex_warm ex_burst))) = 10"
  by (simp add: ex_warm_val ex_burst_def authLimiter_def rate_limit_def store_increment_def
      store_decrement_def status_resp_def Let_def)

lemma ex_burst_store:
  "snd (rl_trace authLimiter ex_ip ex_warm ex_burst) = [(ex_ip, \<lparr>totalHits = 5, resetTime = 1800001\<rparr>)]"
  by (simp add: ex_warm_val ex_burst_def authLimiter_def rate_limit_def store_increment_def
      store_decrement_def status_resp_def Let_def)

subsection \<open>Properties\<close>

text \<open>C15: the rate limiter's bound. For any limiter configuration, any prior store and any handler answers, the requests of one client whose times lie in one interval shorter than \<open>windowMs\<close> get through and keep their hit at most \<open>2 * max\<close> times: each fixed window lets \<open>max\<close> through and the interval meets at most two windows. The witness shows the bound is reached: ten failed logins pass \<open>authLimiter\<close> (\<open>max\<close> 5 per 15 minutes) within two milliseconds.\<close>

theorem limiter_span_bound:
  assumes "\<forall>(t, code) \<in> set rs. t0 \<le> t \<and> t < t0 + windowMs c"
  shows "length (filter (counted c) (fst (rl_trace c ip st rs))) \<le> 2 * max_hits c"
proof (cases rs)
  case Nil
  then show ?thesis by simp
next
  case (Cons x rest)
  obtain t1 code1 where x: "x = (t1, code1)" by (cases x)
  have t01: "t0 \<le> t1" using assms Cons x by auto
  have rest: "\<forall>(t', code') \<in> set rest. t' < t1 + windowMs c" using assms Cons t01 by fastforce
  show ?thesis
  proof (cases "map_of st ip")
    case None
    then have "length (filter (counted c) (fst (rl_trace c ip st rs))) \<le> max_hits c"
      using rl_fresh_count [where st = st and ip = ip and t = t1 and rs = rest and c = c and code = code1] rest by (simp add: Cons x)
    then show ?thesis by simp
  next
    case (Some h)
    show ?thesis
    proof (cases "resetTime h \<le> t1")
      case True
      then have "length (filter (counted c) (fst (rl_trace c ip st rs))) \<le> max_hits c"
        using rl_fresh_count [where st = st and ip = ip and t = t1 and rs = rest and c = c and code = code1] rest Some by (simp add: Cons x)
      then show ?thesis by simp
    next
      case False
      define P where "P = (\<lambda>(t::millis, code::nat). t < resetTime h)"
      define xs where "xs = takeWhile P rs"
      define ys where "ys = dropWhile P rs"
      have split: "rs = xs @ ys" by (simp add: xs_def ys_def)
      have "\<forall>(t, code) \<in> set xs. t < resetTime h"
        by (auto simp: xs_def P_def dest: set_takeWhileD)
      from rl_window_count [OF Some this, of c]
      obtain h' where c1: "length (filter (counted c) (fst (rl_trace c ip st xs))) \<le> max_hits c"
        and h': "map_of (snd (rl_trace c ip st xs)) ip = Some h'" "resetTime h' = resetTime h"
        by auto
      have "length (filter (counted c) (fst (rl_trace c ip (snd (rl_trace c ip st xs)) ys))) \<le> max_hits c"
      proof (cases ys)
        case Nil
        then show ?thesis by simp
      next
        case (Cons y zs)
        obtain t2 code2 where y: "y = (t2, code2)" by (cases y)
        have "\<not> P y" using Cons by (metis ys_def hd_dropWhile list.distinct(1) list.sel(1))
        then have le: "resetTime h' \<le> t2" using h'(2) by (simp add: P_def y)
        have "set ys \<subseteq> set rs" by (simp add: ys_def set_dropWhileD subsetI)
        then have "t0 \<le> t2" and zs: "\<forall>(t', code') \<in> set zs. t' < t0 + windowMs c"
          using assms Cons y by fastforce+
        then have "\<forall>(t', code') \<in> set zs. t' < t2 + windowMs c" by fastforce
        with rl_fresh_count [where st = "snd (rl_trace c ip st xs)" and ip = ip and t = t2 and rs = zs and c = c and code = code2] h'(1) le
        show ?thesis by (simp add: Cons y)
      qed
      with c1 show ?thesis by (simp add: split rl_trace_append)
    qed
  qed
qed

theorem limiter_span_bound_witness:
  "length (filter (counted authLimiter) (fst (rl_trace authLimiter ex_ip ex_warm ex_burst))) \<le> 2 * max_hits authLimiter \<and>
   length (filter (counted authLimiter) (fst (rl_trace authLimiter ex_ip ex_warm ex_burst))) = 10"
proof -
  have h: "\<forall>(t, code) \<in> set ex_burst. 900000 \<le> t \<and> t < 900000 + windowMs authLimiter"
    by (simp add: ex_burst_def authLimiter_def)
  from limiter_span_bound [OF h, of ex_ip ex_warm] ex_burst_trace show ?thesis by simp
qed

text \<open>The store invariant of the limiter: after requests up to time \<open>t\<close>, no client's window ends later than \<open>t + windowMs\<close>; every request at a later time keeps it.\<close>

theorem rate_limit_fresh:
  assumes "rl_fresh c t st" "t \<le> t'"
  shows "rl_fresh c t' (fst (snd (rate_limit c t' ip st k s)))"
proof -
  have f: "rl_fresh c t' st" using assms by (rule rl_fresh_mono)
  have "resetTime (fst (store_increment c t' ip st)) \<le> t' + windowMs c"
    using rl_fresh_lookup [OF f] by (auto simp: store_increment_hit split: option.split)
  then have "rl_fresh c t' (snd (store_increment c t' ip st))"
    using f by (simp add: store_increment_def Let_def rl_fresh_update)
  then show ?thesis
    using rl_fresh_lookup [of c t' "snd (store_increment c t' ip st)" ip]
    by (auto simp: rate_limit_def store_decrement_def rl_fresh_update split: prod.split option.split)
qed

theorem rate_limit_fresh_witness:
  "rl_fresh authLimiter 0 [] \<and> (0::nat) \<le> 1 \<and>
   rl_fresh authLimiter 1 (fst (snd (rate_limit authLimiter 1 ex_ip [] (\<lambda>u. (Json (status_resp 200), u)) ())))"
  using rate_limit_fresh [of authLimiter 0 "[]" 1 ex_ip "\<lambda>u. (Json (status_resp 200), u)" "()"]
  by (simp add: rl_fresh_def)

text \<open>A refused client is served again: from a store satisfying the invariant at \<open>t\<close>, every request at \<open>t + windowMs\<close> or later gets through the limiter to the handler (when \<open>max\<close> is positive).\<close>

theorem rate_limit_reopens:
  assumes "rl_fresh c t st" "t + windowMs c \<le> t2" "0 < max_hits c"
  shows "fst (rate_limit c t2 ip st k s) = fst (k s)"
proof -
  have "resetTime h \<le> t2" if "map_of st ip = Some h" for h
    using rl_fresh_lookup [OF assms(1) that] assms(2) by simp
  then have "totalHits (fst (store_increment c t2 ip st)) = 1"
    by (auto simp: store_increment_hit split: option.split)
  then show ?thesis using assms(3)
    by (auto simp: rate_limit_def split: prod.split)
qed

theorem rate_limit_reopens_witness:
  "fst (rate_limit authLimiter 900001 ex_ip (snd (rl_trace authLimiter ex_ip ex_warm ex_burst))
          (\<lambda>u. (Json (status_resp 200), u)) ()) = Text 429 (limit_message authLimiter) \<and>
   fst (rate_limit authLimiter 1800001 ex_ip (snd (rl_trace authLimiter ex_ip ex_warm ex_burst))
          (\<lambda>u. (Json (status_resp 200), u)) ()) = Json (status_resp 200)"
proof -
  have f: "rl_fresh authLimiter 900001 (snd (rl_trace authLimiter ex_ip ex_warm ex_burst))"
    unfolding ex_burst_store by (simp add: rl_fresh_def authLimiter_def)
  have "900001 + windowMs authLimiter \<le> 1800001" "0 < max_hits authLimiter" by (simp_all add: authLimiter_def)
  from rate_limit_reopens [OF f this, of ex_ip "\<lambda>u. (Json (status_resp 200), u)" "()"]
  show ?thesis
    unfolding ex_burst_store by (simp add: rate_limit_def store_increment_def authLimiter_def Let_def)
qed

text \<open>Login and registration share one budget: \<open>server.js\<close> mounts the same \<open>authLimiter\<close> instance on both paths, so from any state a login request is refused with 429 exactly when a registration request would be.\<close>

theorem auth_limiter_shared:
  "(\<exists>m. fst (api_gate now ip ''/api/auth/login'' ls k s) = Text 429 m) \<longleftrightarrow>
   (\<exists>m. fst (api_gate now ip ''/api/auth/register'' ls k' s') = Text 429 m)"
  by (auto simp: api_gate_def rate_limit_def mounted_def starts_with_def js_lower_def Let_def
      split: prod.splits if_splits)

text \<open>The limiters stand before the routers: a request of the authentication routes
  that the application answers with a plain-text reply was refused by a limiter with
  429, and the store is unchanged (the handler did not run). The witness is a correct
  login refused after five counted failures.\<close>

theorem serve_auth_refused:
  assumes "serve_auth lib cfg now salt ip h rq ls d = (Text c m, ls', d')"
  shows "c = 429 \<and> d' = d"
  using assms
  by (auto simp: serve_auth_def api_gate_def rate_limit_def Let_def split: prod.splits if_splits)

theorem serve_auth_refused_witness:
  "serve_auth ex_lib ex_cfg 1 0 ex_ip None (LoginReq [(''email'', ''a@x.com''), (''password'', ''secret1'')]) ex_locked ex_db =
     (Text 429 (limit_message authLimiter),
      \<lparr>api_hits = [(ex_ip, \<lparr>totalHits = 1, resetTime = 900001\<rparr>)],
       auth_hits = [(ex_ip, \<lparr>totalHits = 6, resetTime = 900000\<rparr>)]\<rparr>, ex_db) \<and>
   429 = (429::nat) \<and> ex_db = ex_db"
proof -
  have e: "serve_auth ex_lib ex_cfg 1 0 ex_ip None (LoginReq [(''email'', ''a@x.com''), (''password'', ''secret1'')]) ex_locked ex_db =
     (Text 429 (limit_message authLimiter),
      \<lparr>api_hits = [(ex_ip, \<lparr>totalHits = 1, resetTime = 900001\<rparr>)],
       auth_hits = [(ex_ip, \<lparr>totalHits = 6, resetTime = 900000\<rparr>)]\<rparr>, ex_db)"
    by (simp add: serve_auth_def api_gate_def rate_limit_def store_increment_def Let_def ex_locked_def
        mounted_def starts_with_def js_lower_def code_between_def limiter_def authLimiter_def)
  from serve_auth_refused [OF e] e show ?thesis by simp
qed

end
