(* ===== verification/App.thy ===== *)
theory App
  imports Server Dashboard
begin

text \<open>
  The Express application of \<open>src/backend/src/server.js\<close> as one request handler: the
  middleware stack in the order of its \<open>app.use\<close> and \<open>app.get\<close> calls. \<open>helmet()\<close>
  and \<open>cors\<close> add their headers to every reply, and \<open>cors\<close> ends every \<open>OPTIONS\<close>
  request as a preflight; under \<open>/api/\<close> the two limiters of theory \<open>Server\<close> (through
  \<open>api_gate\<close>) come next; then \<open>mongoSanitize()\<close>, \<open>express.json\<close> and
  \<open>express.urlencoded\<close> (both with a limit of 10mb), the documentation under
  \<open>/api-docs\<close>, \<open>GET /health\<close>, the three routers, \<open>GET /\<close>, and finally
  \<open>notFound\<close>, with \<open>errorHandler\<close> receiving the parsers' errors. The routers are a
  parameter: they receive the request as the parsers and the sanitizer left it and
  answer \<open>None\<close> when no route of theirs matches. The JSON and \<open>qs\<close> parsers are
  parameters too (record \<open>body_lib\<close>); body-parser's own decisions around them (the
  empty body, the strict first character, the size limits and the parameter limit)
  are written out. Morgan's logging has no effect on a reply and is omitted.
\<close>

subsection \<open>Requests and replies\<close>

text \<open>A JSON value (also the result of \<open>qs.parse\<close>); numbers are not computed with,
  so integers stand for them.\<close>

datatype jval = JNull | JBool bool | JNum int | JStr string | JArr "jval list" | JObj "(string \<times> jval) list"

datatype ctype = CtJson | CtForm | CtOther string

type_synonym header = "string \<times> string"

text \<open>The parts of an incoming request the stack reads: method, \<open>req.path\<close>,
  \<open>req.originalUrl\<close>, the client address, \<open>req.query\<close> as Express's query parser
  produced it, the \<open>Content-Type\<close> and \<open>Content-Length\<close> headers, the body bytes
  (\<open>None\<close> when the request has no body) and the \<open>Access-Control-Request-Headers\<close>
  header of a preflight.\<close>

record app_req =
  rq_method :: string
  rq_path :: string
  rq_url :: string
  rq_ip :: string
  rq_query :: jval
  rq_type :: "ctype option"
  rq_length :: "nat option"
  rq_body :: "string option"
  rq_acrh :: "string option"

text \<open>What the routers see: \<open>req.method\<close>, \<open>req.path\<close>, \<open>req.originalUrl\<close>,
  \<open>req.query\<close> and \<open>req.body\<close> after the middleware before them.\<close>

record app_in =
  in_method :: string
  in_path :: string
  in_url :: string
  in_query :: jval
  in_body :: jval

type_synonym ('s, 'd) routers = "app_in \<Rightarrow> 's \<Rightarrow> ('d response \<times> 's) option"

text \<open>A reply of the application: one of the JSON envelope or the limiter's text
  (theory \<open>Server\<close>), a JSON object written by \<open>res.json\<close> directly, the empty 204
  of a preflight, or a page or asset of swagger-ui.\<close>

datatype 'd app_reply = Sent "'d reply" | Raw nat jval | NoContent | SwaggerUi

fun app_status :: "'d app_reply \<Rightarrow> nat" where
  "app_status (Sent r) = reply_status r"
| "app_status (Raw c v) = c"
| "app_status NoContent = 204"
| "app_status SwaggerUi = 200"

text \<open>The parsers the body middleware calls: \<open>JSON.parse\<close> (its \<open>SyntaxError\<close>
  message or the value), the message of body-parser's \<open>createStrictSyntaxError\<close> for a
  body and its first character, and \<open>qs.parse\<close> with body-parser's options.\<close>

record body_lib =
  json_parse :: "string \<Rightarrow> string + jval"
  strict_error :: "string \<Rightarrow> char option \<Rightarrow> string"
  qs_parse :: "string \<Rightarrow> jval"

subsection \<open>Headers: \<open>helmet()\<close> and \<open>cors\<close>\<close>

text \<open>The headers of \<open>helmet()\<close> with its defaults (it also removes Express's
  \<open>X-Powered-By\<close>).\<close>

definition helmet_headers :: "header list" where
  "helmet_headers =
     [(''Content-Security-Policy'',
       ''default-src 'self';base-uri 'self';font-src 'self' https: data:;form-action 'self';'' @
       ''frame-ancestors 'self';img-src 'self' data:;object-src 'none';script-src 'self';'' @
       ''script-src-attr 'none';style-src 'self' https: 'unsafe-inline';upgrade-insecure-requests''),
      (''Cross-Origin-Opener-Policy'', ''same-origin''),
      (''Cross-Origin-Resource-Policy'', ''same-origin''),
      (''Origin-Agent-Cluster'', ''?1''),
      (''Referrer-Policy'', ''no-referrer''),
      (''Strict-Transport-Security'', ''max-age=15552000; includeSubDomains''),
      (''X-Content-Type-Options'', ''nosniff''),
      (''X-DNS-Prefetch-Control'', ''off''),
      (''X-Download-Options'', ''noopen''),
      (''X-Frame-Options'', ''SAMEORIGIN''),
      (''X-Permitted-Cross-Domain-Policies'', ''none''),
      (''X-XSS-Protection'', ''0'')]"

text \<open>\<open>origin: process.env.FRONTEND_URL || "http://localhost:3000"\<close>: an unset or
  empty variable gives the default.\<close>

definition cors_origin :: "string option \<Rightarrow> string" where
  "cors_origin u = (case u of Some url \<Rightarrow> if url = [] then ''http://localhost:3000'' else url
                            | None \<Rightarrow> ''http://localhost:3000'')"

text \<open>\<open>cors({origin, credentials: true})\<close> on every request: the fixed origin
  (whatever the request's \<open>Origin\<close>), \<open>Vary: Origin\<close> and the credentials flag.\<close>

definition cors_headers :: "string \<Rightarrow> header list" where
  "cors_headers org = [(''Access-Control-Allow-Origin'', org), (''Vary'', ''Origin''),
                     (''Access-Control-Allow-Credentials'', ''true'')]"

text \<open>The preflight's further headers: the default methods, the reflected request
  headers, and the empty body of the 204.\<close>

definition preflight_headers :: "app_req \<Rightarrow> header list" where
  "preflight_headers rq =
     [(''Access-Control-Allow-Methods'', ''GET,HEAD,PUT,PATCH,POST,DELETE''),
      (''Vary'', ''Access-Control-Request-Headers'')] @
     (case rq_acrh rq of Some h \<Rightarrow> if h = [] then [] else [(''Access-Control-Allow-Headers'', h)] | None \<Rightarrow> []) @
     [(''Content-Length'', ''0'')]"

subsection \<open>\<open>express-mongo-sanitize\<close>\<close>

text \<open>A key the sanitizer removes: one that begins with \<open>$\<close> or contains a dot
  (\<open>/^\$|\./\<close>).\<close>

definition op_key :: "string \<Rightarrow> bool" where
  "op_key k = (take 1 k = ''$'' \<or> CHR ''.'' \<in> set k)"

text \<open>\<open>sanitize\<close> without \<open>replaceWith\<close>: every offending key of an object is deleted,
  the values of the others and the elements of arrays are sanitized in turn.\<close>

fun mongo_sanitize :: "jval \<Rightarrow> jval" where
  "mongo_sanitize (JArr vs) = JArr (map mongo_sanitize vs)"
| "mongo_sanitize (JObj kvs) = JObj (map (\<lambda>(k, v). (k, mongo_sanitize v)) (filter (\<lambda>(k, v). \<not> op_key k) kvs))"
| "mongo_sanitize v = v"

text \<open>A value without any key the sanitizer removes, at any depth.\<close>

fun clean :: "jval \<Rightarrow> bool" where
  "clean (JArr vs) = list_all clean vs"
| "clean (JObj kvs) = list_all (\<lambda>(k, v). \<not> op_key k \<and> clean v) kvs"
| "clean v = True"

text \<open>\<open>app.use(mongoSanitize())\<close> runs before the body parsers: of the request
  properties it sanitizes, \<open>req.body\<close> is still undefined, so only the query changes
  (\<open>req.params\<close> is empty at the application level; the request headers are not
  modelled).\<close>

definition app_sanitize :: "app_req \<Rightarrow> app_req" where
  "app_sanitize rq = rq\<lparr>rq_query := mongo_sanitize (rq_query rq)\<rparr>"

subsection \<open>Body parsers\<close>

text \<open>\<open>limit: "10mb"\<close>, in the 1024-based units of the \<open>bytes\<close> package.\<close>

definition body_limit :: nat where
  "body_limit = 10 * 1024 * 1024"

text \<open>raw-body's reading of the body: a declared length above the limit is refused
  before reading, a body that grows past it while streaming too, and a body whose
  size differs from its \<open>Content-Length\<close> at the end (bodies are ASCII, so a
  character is a byte).\<close>

definition read_body :: "app_req \<Rightarrow> string \<Rightarrow> app_error + string" where
  "read_body rq raw =
     (case rq_length rq of
        Some n \<Rightarrow>
          if body_limit < n then Inl (ServerError (Some 413) ''request entity too large'')
          else if body_limit < length raw then Inl (ServerError (Some 413) ''request entity too large'')
          else if length raw \<noteq> n then Inl (ServerError (Some 400) ''request size did not match content length'')
          else Inr raw
      | None \<Rightarrow>
          if body_limit < length raw then Inl (ServerError (Some 413) ''request entity too large'')
          else Inr raw)"

text \<open>The first character after JSON white space (body-parser's \<open>firstchar\<close>).\<close>

definition first_char :: "string \<Rightarrow> char option" where
  "first_char s =
     (case dropWhile (\<lambda>c. c \<in> set [CHR '' '', CHR 0x09, CHR 0x0A, CHR 0x0D]) s of
        [] \<Rightarrow> None
      | c # cs \<Rightarrow> Some c)"

text \<open>\<open>express.json\<close>'s \<open>parse\<close>: the empty body is \<open>{}\<close>; in strict mode a body
  that does not open with \<open>{\<close> or \<open>[\<close> is a syntax error; otherwise \<open>JSON.parse\<close>.
  Syntax errors carry status 400 and reach \<open>errorHandler\<close> under their own name.\<close>

definition json_body :: "body_lib \<Rightarrow> string \<Rightarrow> app_error + jval" where
  "json_body lib raw =
     (if raw = [] then Inr (JObj [])
      else if first_char raw \<noteq> Some CHR ''{'' \<and> first_char raw \<noteq> Some CHR ''[''
      then Inl (ServerError (Some 400) (strict_error lib raw (first_char raw)))
      else (case json_parse lib raw of
              Inl m \<Rightarrow> Inl (ServerError (Some 400) m)
            | Inr v \<Rightarrow> Inr v))"

text \<open>\<open>express.urlencoded({extended: true})\<close>'s \<open>parse\<close>: the empty body is \<open>{}\<close>;
  a body with 1000 or more \<open>&\<close> exceeds \<open>parameterLimit\<close> (413); otherwise
  \<open>qs.parse\<close>.\<close>

definition urlencoded_body :: "body_lib \<Rightarrow> string \<Rightarrow> app_error + jval" where
  "urlencoded_body lib raw =
     (if raw = [] then Inr (JObj [])
      else if 1000 \<le> count_list raw CHR ''&'' then Inl (ServerError (Some 413) ''too many parameters'')
      else Inr (qs_parse lib raw))"

text \<open>\<open>express.json\<close> then \<open>express.urlencoded\<close>: \<open>req.body\<close> starts as \<open>{}\<close>; a
  request without a body, or of another content type, keeps it; the parser for the
  content type reads and parses the body (the other one then skips the request).\<close>

definition parse_body :: "body_lib \<Rightarrow> app_req \<Rightarrow> app_error + jval" where
  "parse_body lib rq =
     (case rq_body rq of
        None \<Rightarrow> Inr (JObj [])
      | Some raw \<Rightarrow>
          (case rq_type rq of
             Some CtJson \<Rightarrow> (case read_body rq raw of Inl e \<Rightarrow> Inl e | Inr r \<Rightarrow> json_body lib r)
           | Some CtForm \<Rightarrow> (case read_body rq raw of Inl e \<Rightarrow> Inl e | Inr r \<Rightarrow> urlencoded_body lib r)
           | _ \<Rightarrow> Inr (JObj [])))"

definition app_input :: "app_req \<Rightarrow> jval \<Rightarrow> app_in" where
  "app_input rq v = \<lparr>in_method = rq_method rq, in_path = rq_path rq, in_url = rq_url rq,
                     in_query = rq_query rq, in_body = v\<rparr>"

subsection \<open>Routes\<close>

text \<open>\<open>app.get(path, ...)\<close>: the method is \<open>GET\<close> (or \<open>HEAD\<close>, which Express routes
  to it) and the path matches case-insensitively, with an optional trailing slash.\<close>

definition route_path :: "string \<Rightarrow> string \<Rightarrow> bool" where
  "route_path p q =
     (let m = js_lower p; q' = js_lower q
      in if m \<noteq> [] \<and> last m = CHR ''/'' then q' = m \<or> q' = butlast m else q' = m \<or> q' = m @ ''/'')"

definition is_get :: "app_req \<Rightarrow> bool" where
  "is_get rq = (rq_method rq = ''GET'' \<or> rq_method rq = ''HEAD'')"

definition health_json :: "millis \<Rightarrow> jval" where
  "health_json now = JObj [(''success'', JBool True), (''message'', JStr ''Server is running''),
                           (''timestamp'', JStr (toISOString now))]"

definition welcome_json :: jval where
  "welcome_json = JObj [(''success'', JBool True), (''message'', JStr ''Welcome to Backend API''),
                        (''documentation'', JStr ''/api-docs''), (''health'', JStr ''/health'')]"

text \<open>The stack after the limiters, from \<open>mongoSanitize()\<close> to \<open>notFound\<close>.\<close>

definition serve_site ::
  "body_lib \<Rightarrow> millis \<Rightarrow> app_req \<Rightarrow> ('s, 'd) routers \<Rightarrow> 's \<Rightarrow> 'd app_reply \<times> 's" where
  "serve_site lib now rq rt s =
     (let rq' = app_sanitize rq in
      case parse_body lib rq' of
        Inl e \<Rightarrow> (Sent (Json (errorHandler e)), s)
      | Inr v \<Rightarrow>
          if mounted ''/api-docs'' (rq_path rq') then (SwaggerUi, s)
          else if is_get rq' \<and> route_path ''/health'' (rq_path rq') then (Raw 200 (health_json now), s)
          else (case rt (app_input rq' v) s of
                  Some (r, s') \<Rightarrow> (Sent (Json r), s')
                | None \<Rightarrow>
                    if is_get rq' \<and> route_path ''/'' (rq_path rq') then (Raw 200 welcome_json, s)
                    else (Sent (Json (notFound (rq_url rq'))), s)))"

text \<open>The same stack under \<open>/api/\<close>, where neither the documentation nor \<open>/health\<close>
  nor \<open>/\<close> matches (lemma \<open>serve_site_api\<close>): every reply is a JSON envelope.\<close>

definition serve_api :: "body_lib \<Rightarrow> app_req \<Rightarrow> ('s, 'd) routers \<Rightarrow> 's \<Rightarrow> 'd response \<times> 's" where
  "serve_api lib rq rt s =
     (let rq' = app_sanitize rq in
      case parse_body lib rq' of
        Inl e \<Rightarrow> (errorHandler e, s)
      | Inr v \<Rightarrow> (case rt (app_input rq' v) s of Some (r, s') \<Rightarrow> (r, s') | None \<Rightarrow> (notFound (rq_url rq'), s)))"

subsection \<open>The application\<close>

text \<open>One request through \<open>app\<close>: the headers of \<open>helmet()\<close> and \<open>cors\<close>, the reply,
  the limiters' stores and the routers' state.\<close>

definition app_handle ::
  "body_lib \<Rightarrow> string option \<Rightarrow> millis \<Rightarrow> app_req \<Rightarrow> limiters \<Rightarrow> ('s, 'd) routers \<Rightarrow> 's \<Rightarrow>
     (header list \<times> 'd app_reply) \<times> limiters \<times> 's" where
  "app_handle lib furl now rq ls rt s =
     (let hs = helmet_headers @ cors_headers (cors_origin furl) in
      if rq_method rq = ''OPTIONS'' then ((hs @ preflight_headers rq, NoContent), ls, s)
      else if mounted ''/api/'' (rq_path rq)
      then (case api_gate now (rq_ip rq) (rq_path rq) ls (serve_api lib rq rt) s of
              (r, ls', s') \<Rightarrow> ((hs, Sent r), ls', s'))
      else (case serve_site lib now rq rt s of (r, s') \<Rightarrow> ((hs, r), ls, s')))"

subsection \<open>Examples\<close>

text \<open>A JSON body with a query operator in place of an address, as an attacker
  would send to \<open>PUT /api/admin/users/:id\<close> or \<open>PUT /api/auth/profile\<close>.\<close>

definition ex_raw :: string where
  \<open>ex_raw = ''{"email":{"$ne":null}}''\<close>

definition ex_op_body :: jval where
  "ex_op_body = JObj [(''email'', JObj [(''$ne'', JNull)])]"

definition ex_blib :: body_lib where
  "ex_blib = \<lparr>json_parse = (\<lambda>t. if t = ex_raw then Inr ex_op_body else Inl ''Unexpected token in JSON''),
              strict_error = (\<lambda>t c. ''Unexpected token in JSON''), qs_parse = (\<lambda>t. JObj [])\<rparr>"

definition ex_admin_put :: app_req where
  "ex_admin_put = \<lparr>rq_method = ''PUT'', rq_path = ''/api/admin/users/1'', rq_url = ''/api/admin/users/1'',
                   rq_ip = ex_ip, rq_query = JObj [], rq_type = Some CtJson, rq_length = Some (length ex_raw),
                   rq_body = Some ex_raw, rq_acrh = None\<rparr>"

definition ex_preflight :: app_req where
  "ex_preflight = \<lparr>rq_method = ''OPTIONS'', rq_path = ''/api/auth/login'', rq_url = ''/api/auth/login'',
                   rq_ip = ex_ip, rq_query = JObj [], rq_type = None, rq_length = None, rq_body = None,
                   rq_acrh = Some ''content-type,authorization''\<rparr>"

text \<open>A login whose declared body is 20 MB.\<close>

definition ex_big :: app_req where
  "ex_big = \<lparr>rq_method = ''POST'', rq_path = ''/api/auth/login'', rq_url = ''/api/auth/login'',
             rq_ip = ex_ip, rq_query = JObj [], rq_type = Some CtJson, rq_length = Some 20000000,
             rq_body = Some ''{}'', rq_acrh = None\<rparr>"

definition ex_ls0 :: limiters where
  "ex_ls0 = \<lparr>api_hits = [], auth_hits = []\<rparr>"

text \<open>Routers that answer every request and count the requests they handled.\<close>

definition ex_rt :: "(nat, unit) routers" where
  "ex_rt i n = Some (successResponse 200 ''OK'' None, Suc n)"

subsection \<open>Lemmas\<close>

lemma mongo_sanitize_clean: "clean (mongo_sanitize v)"
  by (induction v rule: mongo_sanitize.induct) (auto simp: list_all_iff)

lemma parse_body_sanitize [simp]: "parse_body lib (app_sanitize rq) = parse_body lib rq"
  by (simp add: parse_body_def app_sanitize_def read_body_def split: option.split ctype.split)

lemma app_sanitize_sel [simp]:
  "rq_method (app_sanitize rq) = rq_method rq" "rq_path (app_sanitize rq) = rq_path rq"
  "rq_url (app_sanitize rq) = rq_url rq" "rq_ip (app_sanitize rq) = rq_ip rq"
  "rq_query (app_sanitize rq) = mongo_sanitize (rq_query rq)"
  by (simp_all add: app_sanitize_def)

lemma js_lower_paths:
  "js_lower ''/api'' = ''/api''" "js_lower ''/api/'' = ''/api/''" "js_lower ''/api-docs'' = ''/api-docs''"
  "js_lower ''/health'' = ''/health''" "js_lower ''/'' = ''/''"
  by (simp_all add: js_lower_def code_between_def)

lemma mounted_api_lower:
  assumes "mounted ''/api/'' p"
  shows "js_lower p = ''/api'' \<or> (\<exists>r. js_lower p = ''/api/'' @ r)"
proof -
  have "js_lower p = ''/api'' \<or> starts_with ''/api/'' (js_lower p)"
    using assms by (simp add: mounted_def js_lower_paths Let_def)
  then show ?thesis unfolding starts_with_def by (metis append_take_drop_id)
qed

text \<open>Under \<open>/api/\<close> the stack after the limiters is \<open>serve_api\<close>.\<close>

lemma serve_site_api:
  assumes "mounted ''/api/'' (rq_path rq)"
  shows "serve_site lib now rq rt s = (case serve_api lib rq rt s of (r, s') \<Rightarrow> (Sent (Json r), s'))"
proof -
  from mounted_api_lower [OF assms]
  have "\<not> mounted ''/api-docs'' (rq_path rq) \<and> \<not> route_path ''/health'' (rq_path rq) \<and> \<not> route_path ''/'' (rq_path rq)"
    by (auto simp: mounted_def route_path_def js_lower_paths starts_with_def Let_def)
  then show ?thesis
    by (simp add: serve_site_def serve_api_def Let_def split: sum.split option.split)
qed

text \<open>The application consults its routers only on the sanitized query and the
  parsed body.\<close>

lemma app_handle_cong:
  assumes "\<And>v. parse_body lib rq = Inr v \<Longrightarrow> rt (app_input (app_sanitize rq) v) = rt' (app_input (app_sanitize rq) v)"
  shows "app_handle lib furl now rq ls rt s = app_handle lib furl now rq ls rt' s"
proof -
  have a: "serve_api lib rq rt = serve_api lib rq rt'"
    using assms by (auto simp: serve_api_def Let_def split: sum.split)
  have b: "serve_site lib now rq rt s = serve_site lib now rq rt' s"
    using assms by (auto simp: serve_site_def Let_def split: sum.split)
  show ?thesis unfolding app_handle_def a b ..
qed

text \<open>\<open>GET /health\<close> without a body is answered whatever the limiters' state,
  which it leaves alone.\<close>

lemma app_health:
  "app_handle lib furl now \<lparr>rq_method = ''GET'', rq_path = ''/health'', rq_url = u, rq_ip = ip, rq_query = q,
      rq_type = ty, rq_length = n, rq_body = None, rq_acrh = a\<rparr> ls rt s =
   ((helmet_headers @ cors_headers (cors_origin furl), Raw 200 (health_json now)), ls, s)"
  by (simp add: app_handle_def serve_site_def parse_body_def app_sanitize_def is_get_def route_path_def
      mounted_def js_lower_paths starts_with_def Let_def)

lemma ex_admin_put_body: "parse_body ex_blib ex_admin_put = Inr ex_op_body"
  by (simp add: parse_body_def ex_admin_put_def read_body_def body_limit_def json_body_def first_char_def
      ex_raw_def ex_blib_def)

subsection \<open>Properties\<close>

text \<open>C16: the query the routers see is sanitized. Whatever the routers, the
  application answers as it would if they refused every query still holding a key
  that begins with \<open>$\<close> or contains a dot, at any depth: \<open>mongoSanitize()\<close> removes
  them all from \<open>req.query\<close> before any router runs.\<close>

theorem app_query_sanitized:
  "app_handle lib furl now rq ls rt s =
   app_handle lib furl now rq ls (\<lambda>i st. if clean (in_query i) then rt i st else None) s"
  by (rule app_handle_cong) (simp add: app_input_def mongo_sanitize_clean)

text \<open>C17: the body the routers see is not sanitized (finding). \<open>mongoSanitize()\<close> is
  registered before \<open>express.json()\<close>, when \<open>req.body\<close> is still undefined, so the
  routers receive exactly the value the body parser produced: the application answers
  as it would if they refused every other body, operator keys such as \<open>$ne\<close>
  included.\<close>

theorem app_body_unsanitized:
  assumes "parse_body lib rq = Inr v"
  shows "app_handle lib furl now rq ls rt s =
         app_handle lib furl now rq ls (\<lambda>i st. if in_body i = v then rt i st else None) s"
  by (rule app_handle_cong) (simp add: app_input_def assms)

theorem app_body_unsanitized_witness:
  "\<not> clean ex_op_body \<and>
   app_handle ex_blib None 0 ex_admin_put ex_ls0 ex_rt 0 =
   app_handle ex_blib None 0 ex_admin_put ex_ls0 (\<lambda>i st. if in_body i = ex_op_body then ex_rt i st else None) 0"
  using app_body_unsanitized [OF ex_admin_put_body] by (simp add: ex_op_body_def op_key_def)

text \<open>C18: \<open>cors\<close> comes before the limiters and the limiters before everything
  else. A preflight (\<open>OPTIONS\<close>) changes neither the limiters nor the routers' state;
  every other request under \<open>/api/\<close> is counted by \<open>limiter\<close>, whatever becomes of it
  afterwards (a malformed or oversized body, no matching route, a refusal).\<close>

theorem app_api_counted:
  "(rq_method rq = ''OPTIONS'' \<longrightarrow> snd (app_handle lib furl now rq ls rt s) = (ls, s)) \<and>
   (rq_method rq \<noteq> ''OPTIONS'' \<and> mounted ''/api/'' (rq_path rq) \<longrightarrow>
      api_hits (fst (snd (app_handle lib furl now rq ls rt s))) = snd (store_increment limiter now (rq_ip rq) (api_hits ls)))"
  by (auto simp: app_handle_def api_gate_def rate_limit_def limiter_def Let_def split: prod.split)

theorem app_api_counted_witness:
  "snd (app_handle ex_blib None 0 ex_preflight ex_ls0 ex_rt 0) = (ex_ls0, 0) \<and>
   api_hits (fst (snd (app_handle ex_blib None 0 ex_big ex_ls0 ex_rt 0))) = [(ex_ip, \<lparr>totalHits = 1, resetTime = 900000\<rparr>)]"
proof -
  have m: "rq_method ex_preflight = ''OPTIONS''" "rq_method ex_big \<noteq> ''OPTIONS''" "mounted ''/api/'' (rq_path ex_big)"
    by (simp_all add: ex_preflight_def ex_big_def mounted_def js_lower_def code_between_def starts_with_def)
  have "snd (store_increment limiter 0 (rq_ip ex_big) (api_hits ex_ls0)) = [(ex_ip, \<lparr>totalHits = 1, resetTime = 900000\<rparr>)]"
    by (simp add: store_increment_def limiter_def ex_big_def ex_ls0_def Let_def)
  then show ?thesis
    using app_api_counted [of ex_preflight ex_blib None 0 ex_ls0 ex_rt 0] app_api_counted [of ex_big ex_blib None 0 ex_ls0 ex_rt 0] m
    by simp
qed

text \<open>An oversized body never reaches a router. A JSON or form request whose
  \<open>Content-Length\<close> exceeds the 10mb limit is answered 413 (or 429 when a limiter
  refuses it first) and leaves the routers' state unchanged.\<close>

theorem app_body_too_large:
  assumes "rq_method rq \<noteq> ''OPTIONS''" "rq_body rq = Some raw" "rq_type rq \<in> {Some CtJson, Some CtForm}"
    "rq_length rq = Some n" "body_limit < n"
  shows "snd (snd (app_handle lib furl now rq ls rt s)) = s \<and>
         app_status (snd (fst (app_handle lib furl now rq ls rt s))) \<in> {413, 429}"
proof -
  have p: "parse_body lib rq = Inl (ServerError (Some 413) ''request entity too large'')"
    using assms(2-5) by (auto simp: parse_body_def read_body_def)
  show ?thesis
  proof (cases "mounted ''/api/'' (rq_path rq)")
    case True
    then show ?thesis using assms(1) p
      by (auto simp: app_handle_def api_gate_def rate_limit_def serve_api_def Let_def split: prod.split)
  next
    case False
    then show ?thesis using assms(1) p
      by (simp add: app_handle_def serve_site_def Let_def split: prod.split)
  qed
qed

theorem app_body_too_large_witness:
  "snd (snd (app_handle ex_blib None 0 ex_big ex_ls0 ex_rt 0)) = 0 \<and>
   app_status (snd (fst (app_handle ex_blib None 0 ex_big ex_ls0 ex_rt 0))) \<in> {413, 429}"
  by (rule app_body_too_large [where rq = ex_big and raw = "''{}''" and n = 20000000]) (simp_all add: ex_big_def body_limit_def)

end
