(* ===== verification/Payloads.thy ===== *)
theory Payloads
  imports App
begin

text \<open>
  The JSON the backend sends and the types the frontend declares for it. The
  serialisers write out what \<open>res.json\<close> produces from the controllers' payloads:
  the envelope of \<open>utils/responseFormatter.js\<close>, documents through the models'
  \<open>toJSON\<close> methods with virtuals (\<open>id\<close>, \<open>isOverdue\<close>; \<open>__v\<close>, \<open>password\<close> and
  \<open>refreshToken\<close> removed), dates as \<open>Date.prototype.toISOString\<close>, object ids as
  their hexadecimal strings. The interfaces of \<open>src/frontend/src/types/index.ts\<close> are
  terms of a small language of TypeScript types, read structurally (extra fields
  allowed) and with strict null checks, and \<open>ts_ok\<close> decides whether a JSON value
  has a type. The store keeps no \<open>updatedAt\<close>, so the serialisers take each
  document's last save time as a parameter.
\<close>

subsection \<open>TypeScript types\<close>

text \<open>\<open>string\<close>, \<open>number\<close>, \<open>boolean\<close>, a union of string literals, \<open>T[]\<close>, an object
  type (each field with its optionality), \<open>A | B\<close> and \<open>any\<close>.\<close>

datatype ts_type =
    TString | TNumber | TBoolean | TLit "string list" | TArray ts_type
  | TObject "(string \<times> bool \<times> ts_type) list" | TOr ts_type ts_type | TAny

fun ts_ok :: "ts_type \<Rightarrow> jval \<Rightarrow> bool" where
  "ts_ok TAny v = True"
| "ts_ok TString v = (case v of JStr s \<Rightarrow> True | _ \<Rightarrow> False)"
| "ts_ok TNumber v = (case v of JNum n \<Rightarrow> True | _ \<Rightarrow> False)"
| "ts_ok TBoolean v = (case v of JBool b \<Rightarrow> True | _ \<Rightarrow> False)"
| "ts_ok (TLit ls) v = (case v of JStr s \<Rightarrow> s \<in> set ls | _ \<Rightarrow> False)"
| "ts_ok (TArray t) v = (case v of JArr vs \<Rightarrow> list_all (ts_ok t) vs | _ \<Rightarrow> False)"
| "ts_ok (TObject fs) v =
     (case v of
        JObj kvs \<Rightarrow> list_all (\<lambda>(f, opt, t). case map_of kvs f of None \<Rightarrow> opt | Some x \<Rightarrow> ts_ok t x) fs
      | _ \<Rightarrow> False)"
| "ts_ok (TOr a b) v = (ts_ok a v \<or> ts_ok b v)"

subsection \<open>\<open>types/index.ts\<close>\<close>

definition ts_User :: ts_type where
  "ts_User = TObject
     [(''_id'', False, TString), (''id'', False, TString), (''name'', False, TString),
      (''email'', False, TString), (''role'', False, TLit [''user'', ''admin'']),
      (''isActive'', False, TBoolean), (''createdAt'', False, TString), (''updatedAt'', False, TString),
      (''lastLogin'', True, TString)]"

definition ts_Task :: ts_type where
  "ts_Task = TObject
     [(''_id'', False, TString), (''id'', False, TString), (''title'', False, TString),
      (''description'', False, TString), (''status'', False, TLit [''pending'', ''in-progress'', ''completed'']),
      (''priority'', False, TLit [''low'', ''medium'', ''high'']), (''dueDate'', True, TString),
      (''user'', False, TOr ts_User TString), (''isCompleted'', False, TBoolean),
      (''completedAt'', True, TString), (''isOverdue'', True, TBoolean),
      (''createdAt'', False, TString), (''updatedAt'', False, TString)]"

definition ts_AuthResponse :: ts_type where
  "ts_AuthResponse = TObject
     [(''success'', False, TBoolean), (''message'', False, TString),
      (''data'', False, TObject [(''user'', False, ts_User), (''accessToken'', False, TString),
                                (''refreshToken'', False, TString)])]"

definition ts_ApiResponse :: "ts_type \<Rightarrow> ts_type" where
  "ts_ApiResponse t = TObject
     [(''success'', False, TBoolean), (''message'', False, TString), (''data'', True, t),
      (''errors'', True, TArray TAny)]"

definition ts_PaginatedResponse :: "ts_type \<Rightarrow> ts_type" where
  "ts_PaginatedResponse t = TObject
     [(''success'', False, TBoolean), (''message'', False, TString), (''data'', False, TArray t),
      (''pagination'', False, TObject [(''total'', False, TNumber), (''page'', False, TNumber),
                                      (''limit'', False, TNumber), (''totalPages'', False, TNumber)])]"

definition ts_TaskStats :: ts_type where
  "ts_TaskStats = TObject
     [(''total'', False, TNumber), (''pending'', False, TNumber), (''inProgress'', False, TNumber),
      (''completed'', False, TNumber), (''high'', False, TNumber), (''medium'', False, TNumber),
      (''low'', False, TNumber)]"

definition ts_SystemStats :: ts_type where
  "ts_SystemStats = TObject
     [(''users'', False, TObject [(''total'', False, TNumber), (''active'', False, TNumber),
                                 (''inactive'', False, TNumber), (''admins'', False, TNumber),
                                 (''regular'', False, TNumber), (''recentlyJoined'', False, TNumber)]),
      (''tasks'', False, TObject [(''total'', False, TNumber), (''pending'', False, TNumber),
                                 (''inProgress'', False, TNumber), (''completed'', False, TNumber)])]"

definition ts_LoginCredentials :: ts_type where
  "ts_LoginCredentials = TObject [(''email'', False, TString), (''password'', False, TString)]"

definition ts_RegisterData :: ts_type where
  "ts_RegisterData = TObject
     [(''name'', False, TString), (''email'', False, TString), (''password'', False, TString),
      (''role'', True, TLit [''user'', ''admin''])]"

definition ts_TaskFormData :: ts_type where
  "ts_TaskFormData = TObject
     [(''title'', False, TString), (''description'', False, TString),
      (''status'', True, TLit [''pending'', ''in-progress'', ''completed'']),
      (''priority'', True, TLit [''low'', ''medium'', ''high'']), (''dueDate'', True, TString)]"

definition ts_UpdateProfileData :: ts_type where
  "ts_UpdateProfileData = TObject [(''name'', True, TString), (''email'', True, TString)]"

definition ts_ChangePasswordData :: ts_type where
  "ts_ChangePasswordData = TObject [(''currentPassword'', False, TString), (''newPassword'', False, TString)]"

subsection \<open>Serialisation\<close>

definition date_json :: "millis \<Rightarrow> jval" where
  "date_json t = JStr (toISOString t)"

definition oid_json :: "oid \<Rightarrow> jval" where
  "oid_json i = JStr (oid_str i)"

definition num_json :: "nat \<Rightarrow> jval" where
  "num_json n = JNum (int n)"

text \<open>A user document through \<open>userSchema.methods.toJSON\<close>: the selected paths, the
  timestamps and the virtual \<open>id\<close>.\<close>

definition user_doc_json :: "millis \<Rightarrow> user_json \<Rightarrow> jval" where
  "user_doc_json upd u =
     JObj ([(''_id'', oid_json (j_id u)), (''name'', JStr (j_name u)), (''email'', JStr (j_email u)),
            (''role'', JStr (role_str (j_role u))), (''isActive'', JBool (j_isActive u))] @
           (case j_lastLogin u of None \<Rightarrow> [] | Some t \<Rightarrow> [(''lastLogin'', date_json t)]) @
           [(''createdAt'', date_json (j_createdAt u)), (''updatedAt'', date_json upd), (''id'', oid_json (j_id u))])"

text \<open>\<open>populate('user', 'name email')\<close>: the populated owner keeps \<open>_id\<close>, the selected
  paths and the virtual \<open>id\<close>.\<close>

definition owner_json :: "owner_view \<Rightarrow> jval" where
  "owner_json ov = (case ov of (i, n, e) \<Rightarrow>
     JObj [(''_id'', oid_json i), (''name'', JStr n), (''email'', JStr e), (''id'', oid_json i)])"

text \<open>The virtual \<open>isOverdue\<close>, evaluated when the response is written.\<close>

definition isOverdue :: "millis \<Rightarrow> task \<Rightarrow> bool" where
  "isOverdue now t = (case dueDate t of None \<Rightarrow> False | Some x \<Rightarrow> status t \<noteq> Completed \<and> x < now)"

text \<open>A task through \<open>taskSchema.methods.toJSON\<close>. The pre-save hook stores \<open>null\<close>
  in \<open>completedAt\<close> for every task that is not completed, and a populated owner that
  no longer exists is \<open>null\<close>.\<close>

definition task_json :: "millis \<Rightarrow> (oid \<Rightarrow> millis) \<Rightarrow> task_view \<Rightarrow> jval" where
  "task_json now upd tv = (case tv of (i, t, ov) \<Rightarrow>
     JObj ([(''_id'', oid_json i), (''title'', JStr (title t)), (''description'', JStr (description t)),
            (''status'', JStr (status_str (status t))), (''priority'', JStr (priority_str (priority t)))] @
           (case dueDate t of None \<Rightarrow> [] | Some x \<Rightarrow> [(''dueDate'', date_json x)]) @
           [(''user'', case ov of None \<Rightarrow> JNull | Some w \<Rightarrow> owner_json w),
            (''isCompleted'', JBool (isCompleted t)),
            (''completedAt'', case completedAt t of None \<Rightarrow> JNull | Some x \<Rightarrow> date_json x),
            (''createdAt'', date_json (taskCreatedAt t)), (''updatedAt'', date_json (upd i)),
            (''isOverdue'', JBool (isOverdue now t)), (''id'', oid_json i)]))"

definition stats_json :: "stats \<Rightarrow> jval" where
  "stats_json s =
     JObj [(''total'', num_json (st_total s)), (''pending'', num_json (st_pending s)),
           (''inProgress'', num_json (st_inProgress s)), (''completed'', num_json (st_completed s)),
           (''high'', num_json (st_high s)), (''medium'', num_json (st_medium s)), (''low'', num_json (st_low s))]"

text \<open>The \<open>data\<close> of the task routes: the page array, \<open>{task}\<close>, or the statistics
  object itself.\<close>

fun task_payload_json :: "millis \<Rightarrow> (oid \<Rightarrow> millis) \<Rightarrow> task_payload \<Rightarrow> jval" where
  "task_payload_json now upd (TaskPage ts) = JArr (map (task_json now upd) ts)"
| "task_payload_json now upd (TaskItem tv) = JObj [(''task'', task_json now upd tv)]"
| "task_payload_json now upd (TaskStats s) = stats_json s"

text \<open>The \<open>data\<close> of the authentication routes: \<open>{user: {id, name, email, role},
  accessToken, refreshToken}\<close> after register and login, the token pair after a
  refresh, and \<open>{user}\<close> (a whole document) from \<open>getMe\<close> and \<open>updateProfile\<close>.\<close>

fun auth_json :: "(oid \<Rightarrow> millis) \<Rightarrow> auth_payload \<Rightarrow> jval" where
  "auth_json upd (AuthData i n e r a f) =
     JObj [(''user'', JObj [(''id'', oid_json i), (''name'', JStr n), (''email'', JStr e), (''role'', JStr (role_str r))]),
           (''accessToken'', JStr a), (''refreshToken'', JStr f)]"
| "auth_json upd (TokenData a f) = JObj [(''accessToken'', JStr a), (''refreshToken'', JStr f)]"
| "auth_json upd (ProfileData None) = JObj [(''user'', JNull)]"
| "auth_json upd (ProfileData (Some u)) = JObj [(''user'', user_doc_json (upd (j_id u)) u)]"

definition error_item_json :: "error_item \<Rightarrow> jval" where
  "error_item_json e = (case e of (f, m, v) \<Rightarrow>
     JObj ([(''field'', JStr f), (''message'', JStr m)] @ (case v of None \<Rightarrow> [] | Some x \<Rightarrow> [(''value'', JStr x)])))"

text \<open>\<open>Math.ceil(total / limit)\<close>: \<open>Infinity\<close> and \<open>NaN\<close> are written as \<open>null\<close>.\<close>

definition pagination_json :: "pagination \<Rightarrow> jval" where
  "pagination_json p =
     JObj [(''total'', num_json (total p)), (''page'', JNum (page p)), (''limit'', JNum (limit p)),
           (''totalPages'', case totalPages p of None \<Rightarrow> JNull | Some n \<Rightarrow> JNum n)]"

text \<open>The envelope: \<open>success\<close> and \<open>message\<close>, then \<open>data\<close>, \<open>errors\<close> and
  \<open>pagination\<close> where present.\<close>

definition response_json :: "('d \<Rightarrow> jval) \<Rightarrow> 'd response \<Rightarrow> jval" where
  "response_json enc r =
     JObj ([(''success'', JBool (success r)), (''message'', JStr (message r))] @
           (case data r of None \<Rightarrow> [] | Some d \<Rightarrow> [(''data'', enc d)]) @
           (case errors r of None \<Rightarrow> [] | Some es \<Rightarrow> [(''errors'', JArr (map error_item_json es))]) @
           (case pagination r of None \<Rightarrow> [] | Some p \<Rightarrow> [(''pagination'', pagination_json p)]))"

subsection \<open>Properties\<close>

lemma owner_json_not_user: "\<not> ts_ok ts_User (owner_json ov) \<and> \<not> ts_ok TString (owner_json ov)"
  by (cases ov) (simp add: owner_json_def ts_User_def)

text \<open>The statistics the dashboard reads do have the declared type:
  \<open>GET /api/tasks/stats\<close> answers an \<open>ApiResponse<TaskStats>\<close>.\<close>

lemma stats_response_ok:
  "ts_ok (ts_ApiResponse ts_TaskStats) (response_json (task_payload_json now upd) (getTaskStats p d))"
  by (simp add: getTaskStats_def Let_def successResponse_def response_json_def ts_ApiResponse_def zero_stats_def
      ts_TaskStats_def stats_json_def num_json_def)

text \<open>C19: the declared types do not describe the payloads (finding). A successful
  registration (and, the same way, a login) answers with \<open>data.user\<close> holding only
  \<open>id\<close>, \<open>name\<close>, \<open>email\<close> and \<open>role\<close>, which is not the \<open>User\<close> that
  \<open>AuthResponse\<close> declares (no \<open>_id\<close>, \<open>isActive\<close> or timestamps); and a task whose
  owner is stored is sent with the owner populated to \<open>{_id, name, email, id}\<close>,
  which is neither the \<open>User\<close> nor the \<open>string\<close> of \<open>Task.user\<close>.\<close>

theorem payload_types_diverge:
  assumes "register cfg now salt nm em pw r d = (res, d')" "statusCode res = 201"
    and "map_of (users d2) (user t) = Some u"
  shows "\<not> ts_ok ts_AuthResponse (response_json (auth_json upd) res) \<and>
         \<not> ts_ok ts_Task (task_json now2 upd (view_task d2 (k, t)))"
proof
  show "\<not> ts_ok ts_AuthResponse (response_json (auth_json upd) res)"
    using register_ok [OF assms(1,2)]
    by (auto simp: response_json_def successResponse_def ts_AuthResponse_def ts_User_def)
next
  show "\<not> ts_ok ts_Task (task_json now2 upd (view_task d2 (k, t)))"
    using assms(3) owner_json_not_user
    by (simp add: task_json_def view_task_def populate_user_def ts_Task_def split: option.split)
qed

theorem payload_types_diverge_witness:
  "\<not> ts_ok ts_AuthResponse
      (response_json (auth_json (\<lambda>i. 0)) (fst (register ex_cfg 1000 7 ''Mallory'' ''m@x.com'' ''secret9'' None ex_db))) \<and>
   \<not> ts_ok ts_Task (task_json 0 (\<lambda>i. 0) (view_task ex_db (4, ex_task)))"
proof -
  obtain res d' where eq: "register ex_cfg 1000 7 ''Mallory'' ''m@x.com'' ''secret9'' None ex_db = (res, d')"
    by fastforce
  have s: "statusCode res = 201"
    using eq by (auto simp: register_def ex_store_simps ex_eval_simps)
  have u: "map_of (users ex_db) (user ex_task) = Some (ex_user ''Alice'' ''a@x.com'' UserRole)"
    by (simp add: ex_db_def ex_task_def)
  show ?thesis using payload_types_diverge [OF eq s u, of "\<lambda>i. 0" 0 4] unfolding eq fst_conv .
qed

end
