(* ===== verification/ApiDocs.thy ===== *)
theory ApiDocs
  imports Payloads
begin

text \<open>
  The OpenAPI document that \<open>swagger-jsdoc\<close> assembles (\<open>src/backend/src/config/swagger.js\<close>,
  served by swagger-ui under \<open>/api-docs\<close>, theory \<open>App\<close>): the component schemas
  \<open>User\<close>, \<open>Task\<close>, \<open>Error\<close> and \<open>Success\<close> of \<open>swagger.js\<close> as terms of the
  fragment of OpenAPI 3.0 schemas they use, with \<open>oas_ok\<close> the schema validation of a
  JSON value (required properties, property schemas, \<open>enum\<close>, arrays; a schema's
  \<open>format\<close> is checked by a parameter, since OpenAPI leaves formats to the validator),
  and the path documentation of the \<open>@swagger\<close> blocks of
  \<open>src/backend/src/routes/taskRoutes.js\<close> (\<open>apis: ["./src/routes/*.js", ...]\<close>):
  for each operation its request body schema and its documented response codes. The
  query parameters they document are not modelled.
\<close>

text \<open>A string schema with its \<open>enum\<close> (empty when there is none) and \<open>format\<close>;
  \<open>boolean\<close>; an object schema with its \<open>required\<close> list and \<open>properties\<close>; an array
  schema with its \<open>items\<close>; a schema without constraints.\<close>

datatype oas = OString "string list" "string option" | OBoolean | OObject "string list" "(string \<times> oas) list"
  | OArray oas | OAny


definition swagger_User :: oas where
  "swagger_User = OObject [''name'', ''email'', ''password'']
     [(''name'', OString [] None), (''email'', OString [] (Some ''email'')),
      (''password'', OString [] (Some ''password'')), (''role'', OString [''user'', ''admin''] None)]"


definition swagger_Error :: oas where
  "swagger_Error = OObject []
     [(''success'', OBoolean), (''message'', OString [] None), (''errors'', OArray (OObject [] []))]"

definition swagger_Success :: oas where
  "swagger_Success = OObject []
     [(''success'', OBoolean), (''message'', OString [] None), (''data'', OObject [] [])]"

subsection \<open>The path documentation of \<open>taskRoutes.js\<close>\<close>







text \<open>A request body of string fields as the JSON object \<open>express.json()\<close> parsed.\<close>

definition body_json :: "req_body \<Rightarrow> jval" where
  "body_json b = JObj (map (\<lambda>(k, v). (k, JStr v)) b)"

subsection \<open>Lemmas\<close>





lemma body_json_field [simp]:
  "(case body_json b of JObj kvs \<Rightarrow> P kvs | _ \<Rightarrow> Q) = P (map (\<lambda>(k, v). (k, JStr v)) b)"
  by (simp add: body_json_def)



subsection \<open>Properties\<close>



end
