(* ===== verification/RedisConfig.thy ===== *)
theory RedisConfig
  imports Cache
begin

text \<open>
  \<open>src/backend/src/config/redis.js\<close>: the module variable \<open>redisClient\<close>, \<open>connectRedis\<close>,
  \<open>getRedisClient\<close> and \<open>closeRedis\<close>, and the test \<open>!redisClient || !redisClient.isOpen\<close>
  with which \<open>cacheMiddleware.js\<close> decides whether there is a cache: the view of the
  client as the \<open>'v kv option\<close> of theory \<open>Cache\<close>. Whether \<open>client.connect()\<close>
  succeeds is an input (the network); the client's \<open>error\<close> and \<open>connect\<close> listeners
  only log.
\<close>

record 'v redis_client =
  isOpen :: bool
  rstore :: "'v kv"

text \<open>\<open>connectRedis\<close>: the module variable after the call and the returned client.
  \<open>createClient\<close> assigns the module variable before \<open>connect()\<close>, so after a failed
  connection it holds a client that is not open while \<open>null\<close> is returned.\<close>

definition connectRedis ::
  "string option \<Rightarrow> bool \<Rightarrow> 'v kv \<Rightarrow> 'v redis_client option \<Rightarrow> 'v redis_client option \<times> 'v redis_client option" where
  "connectRedis redis_enabled connects kv m =
     (if redis_enabled \<noteq> Some ''true'' then (m, None)
      else (let c = \<lparr>isOpen = False, rstore = kv\<rparr> in
            if connects then (Some (c\<lparr>isOpen := True\<rparr>), Some (c\<lparr>isOpen := True\<rparr>)) else (Some c, None)))"

definition getRedisClient :: "'v redis_client option \<Rightarrow> 'v redis_client option" where
  "getRedisClient m = m"

definition closeRedis :: "'v redis_client option \<Rightarrow> 'v redis_client option" where
  "closeRedis m = (case m of Some c \<Rightarrow> Some (c\<lparr>isOpen := False\<rparr>) | None \<Rightarrow> None)"

text \<open>What the cache middleware sees: no cache unless the client is open.\<close>

definition cache_view :: "'v redis_client option \<Rightarrow> 'v kv option" where
  "cache_view m = (case getRedisClient m of Some c \<Rightarrow> if isOpen c then Some (rstore c) else None | None \<Rightarrow> None)"

subsection \<open>Properties\<close>

text \<open>The cache degrades to none: at start-up (\<open>redisClient\<close> is \<open>null\<close>) the
  middleware sees the Redis store only when \<open>REDIS_ENABLED\<close> is the string \<open>true\<close> and
  the connection succeeds; when it fails, the module keeps the unopened client and the
  \<open>isOpen\<close> test alone keeps the middleware from using it. After \<open>closeRedis\<close> there is no
  cache.\<close>

theorem connectRedis_cache_view:
  "cache_view (fst (connectRedis redis_enabled connects kv None)) =
     (if redis_enabled = Some ''true'' \<and> connects then Some kv else None) \<and>
   getRedisClient (fst (connectRedis redis_enabled connects kv None)) =
     (if redis_enabled = Some ''true'' then Some \<lparr>isOpen = connects, rstore = kv\<rparr> else None) \<and>
   cache_view (closeRedis m) = None"
  by (cases m) (auto simp: connectRedis_def cache_view_def getRedisClient_def closeRedis_def Let_def)

end
