(* ===== verification/Spec2Isabelle.thy ===== *)
theory Spec2Isabelle
  imports DashboardView Landing ApiDocs RedisConfig
begin

text \<open>
  \<^bold>\<open>A verification model of the AssignTask application.\<close>

  The repository is a task-management web application: an Express REST API
  (\<open>src/backend/src\<close>) over a MongoDB document store with an optional Redis response
  cache, and a Next.js frontend (\<open>src/frontend/src\<close>) that talks to it through an axios
  client. A request passes \<open>protect\<close> (bearer-token authentication), on some routes
  \<open>authorize\<close>, a validation array and \<open>validate\<close>, on reads the cache lookup, then the
  handler, which reads and writes the store and, on task writes, invalidates the
  writer's cache entries. This development models that pipeline as HOL functions on
  explicit state, composes it into a transition system, and proves what it guarantees.

  \<^bold>\<open>Theories\<close> (in import order).
  \<^item> \<open>Prelude\<close>: the model's primitive types (ObjectIds and times as \<open>nat\<close>), the
    JavaScript string builtins the code calls (\<open>startsWith\<close>, \<open>split\<close>, indexing,
    \<open>trim\<close>, with \<open>trim\<close> idempotent), hexadecimal ObjectId strings with their parse
    round trip, and the association-list lemmas of the document store.
  \<^item> \<open>Jwt\<close>: \<open>utils/jwtUtils.js\<close> over a symbolic \<open>jsonwebtoken\<close> (a token is the
    canonical string of \<open>{id, iat, exp}\<close> and a signature only its secret produces).
    Lemmas: the issue/verify round trip with the exact expiry second, separation of the
    two token kinds, unforgeability.
  \<^item> \<open>Http\<close>: \<open>utils/responseFormatter.js\<close> and \<open>middlewares/errorMiddleware.js\<close>:
    the response envelope (polymorphic in its payload) and the error translator.
  \<^item> \<open>Validators\<close>: \<open>validators/*.js\<close> and \<open>middlewares/validationMiddleware.js\<close>: the
    express-validator chains (sanitizers rewrite the body, every failing validator
    adds an error) and \<open>validate\<close>; the validator.js predicates are parameters
    (\<open>vlib\<close>). Lemmas: chains over distinct fields do not interfere.
  \<^item> \<open>Models\<close>: \<open>models/User.js\<close>, \<open>models/Task.js\<close>: documents, schema validators
    (the e-mail regular expression as an executable recogniser), \<open>pre("save")\<close>
    hooks, Mongoose \<open>save\<close> with the unique e-mail index, and the store invariant
    \<open>db_inv\<close> (distinct ids, unique e-mails, hashed and valid users, tasks owned by
    stored users, completion consistent), which every write keeps.
  \<^item> \<open>AuthMiddleware\<close>: \<open>protect\<close>, \<open>authorize\<close>, \<open>checkOwnership\<close> as stages that
    refuse with a response or pass a principal. Claims: soundness of \<open>protect\<close> and
    exactly which issued tokens it accepts.
  \<^item> \<open>Cache\<close>: \<open>middlewares/cacheMiddleware.js\<close> over a Redis model (values with
    expiry instants, \<open>KEYS\<close> glob matching), the middleware split into lookup and
    fire-and-forget fill. Claim: cache keys never cross principals.
  \<^item> \<open>RedisConfig\<close>: \<open>config/redis.js\<close>: \<open>connectRedis\<close>, \<open>getRedisClient\<close>,
    \<open>closeRedis\<close> and the \<open>isOpen\<close> test of the middleware, which give the cache model
    its \<open>None\<close> (no cache) or \<open>Some\<close> store. Lemma: only an enabled, connected client is
    used; a failed connection leaves an unopened client that the test skips.
  \<^item> \<open>AuthController\<close>: every handler of \<open>controllers/authController.js\<close>. Claims: the
    handlers keep \<open>db_inv\<close>, login authenticates, rotation and logout revoke
    refresh tokens, and the weaknesses listed below; lemma: registration then login
    works.
  \<^item> \<open>Bson\<close>: MongoDB's order on sort values, a \<open>linorder\<close> instance.
  \<^item> \<open>TaskController\<close>: \<open>controllers/taskController.js\<close> with MongoDB filter, sort,
    skip/limit and populate semantics, and the dashboard's client-side statistics.
    MongoDB leaves the order of equal sort keys unspecified, so a query carries it as
    an input (\<open>q_ties\<close>); the \<open>$match\<close> of the statistics compares BSON values
    without the cast \<open>find\<close> would apply (\<open>stats_match\<close>, \<open>match_doc\<close>).
    Claims: listing is scoped to the owner, pages cover the result exactly once when
    the sort keys are distinct (whatever the order of ties in each page's query),
    other users' tasks are forbidden; findings: paging is unstable on equal keys and
    the statistics are zero for every non-admin; lemmas: create/get round trip,
    writes invalidate exactly the owner's entries.
  \<^item> \<open>AdminController\<close>: \<open>controllers/adminController.js\<close> and the admin routes.
    Claim: non-admins are refused; lemmas: deleting a user cascades to exactly its
    tasks, the system statistics add up.
  \<^item> \<open>Routes\<close>: \<open>routes/taskRoutes.js\<close> and the authentication routes as compositions
    of \<open>protect\<close>, validation, \<open>validate\<close> and the handler, with the Mongoose casts of
    the sanitized body. Claims: handlers receive schema-typed bodies, and the
    registration e-mail finding below; lemma: the outcome of a validated create.
  \<^item> \<open>Client\<close>: \<open>src/frontend/src/lib/api.ts\<close>: the interceptors, the single
    refresh-and-retry (\<open>api_call\<close>, a \<open>function\<close> whose termination measure is the
    \<open>_retry\<close> flag), \<open>localStorage\<close> and location, with the backend as the server.
    Claims: a session survives access-token expiry, and the concurrent-refresh logout
    below; lemma: at most three exchanges per call.
  \<^item> \<open>Session\<close>: \<open>src/frontend/src/contexts/AuthContext.tsx\<close>: \<open>login\<close>,
    \<open>register\<close>, \<open>checkAuth\<close> and \<open>logout\<close> of the \<open>AuthProvider\<close> as functions on the
    browser and the React \<open>user\<close> state (record \<open>session\<close>) and the server store,
    calling the backend through \<open>api_call\<close>. Claim: the frontend logout never
    revokes anything on the server; lemmas: a login stores a session that
    \<open>protect\<close> accepts, \<open>checkAuth\<close> restores the user from a valid token.
  \<^item> \<open>Landing\<close>: \<open>src/frontend/src/app/page.tsx\<close>: the redirect of an
    authenticated visitor to \<open>/dashboard\<close> after the provider's \<open>checkAuth\<close>; a
    returning user with an accepted token lands on the dashboard.
  \<^item> \<open>Dashboard\<close>: \<open>src/frontend/src/app/dashboard/page.tsx\<close>: the page's state
    (record \<open>dash\<close>) and its handlers \<open>fetchTasks\<close>, \<open>fetchStats\<close>, the filter effect,
    the modal handlers, \<open>onSubmit\<close> and \<open>deleteTask\<close>, over \<open>api_call\<close> with the task
    routes as the server; \<open>Date.prototype.toISOString\<close> for the due dates the page
    receives. Claims: the two unawaited fetches race on the statistics, and an edit
    that keeps the due-date input as the modal filled it is refused on the due day.
  \<^item> \<open>DashboardForm\<close>: the same page's task form: the \<open>react-hook-form\<close> rules of
    the title and description inputs (\<open>form_errors\<close>), the date input's \<open>min\<close> of
    today's UTC date (\<open>date_input_ok\<close>) and \<open>handleSubmit(onSubmit)\<close>
    (\<open>dash_handleSubmit\<close>), which shows the errors or runs \<open>onSubmit\<close>. Claim: a
    task due today, the earliest day the date input offers, cannot be created once
    the day has begun.
  \<^item> \<open>DashboardView\<close>: what the same page renders (\<open>dash_render\<close>): the header's
    badge and greeting, the statistics cards and footer, the task cards with
    \<open>getStatusColor\<close>, \<open>getPriorityColor\<close> and \<open>toLocaleDateString\<close> at a fixed
    time-zone offset (\<open>local_day\<close>), the modal's title. Claim: west of UTC a card
    shows a due date one day earlier than the edit form.
  \<^item> \<open>Server\<close>: \<open>src/backend/src/server.js\<close>'s rate limiting: the two
    \<open>express-rate-limit\<close> instances (\<open>limiter\<close>, \<open>authLimiter\<close>) over the library's
    fixed-window \<open>MemoryStore\<close>, Express mount-path matching, and \<open>api_gate\<close>, the
    limiters in front of a router, with \<open>serve_auth\<close> the authentication routes behind
    them. Claims: at most \<open>2 * max\<close> counted requests of a client pass in any interval
    shorter than the window (and the witness reaches it); lemmas: login and
    registration share one budget, the store's window invariant, a refused client is
    served again after a window, and a refused request never reaches the handler.
  \<^item> \<open>App\<close>: the whole middleware stack of \<open>server.js\<close> as \<open>app_handle\<close>:
    \<open>helmet()\<close> and \<open>cors\<close> headers and the preflight, the limiters through
    \<open>api_gate\<close>, \<open>mongoSanitize()\<close> (\<open>app_sanitize\<close>, \<open>mongo_sanitize\<close>),
    \<open>express.json\<close> and \<open>express.urlencoded\<close> (\<open>parse_body\<close>: the 10mb limit,
    the strict first character, the parameter limit), swagger-ui, \<open>/health\<close>, the
    routers (a parameter), \<open>/\<close> and \<open>notFound\<close> (\<open>serve_site\<close>, and
    \<open>serve_api\<close> under \<open>/api/\<close>). Claims: the routers see only sanitized queries
    but the parsed body unsanitized; preflights are never counted and every other
    request under \<open>/api/\<close> is; lemma: an oversized body never reaches a router.
  \<^item> \<open>Payloads\<close>: the JSON of the responses (\<open>response_json\<close>, \<open>task_json\<close>,
    \<open>user_doc_json\<close>, \<open>auth_json\<close>: the models' \<open>toJSON\<close> with virtuals, the
    envelope of \<open>responseFormatter.js\<close>) and the interfaces of
    \<open>src/frontend/src/types/index.ts\<close> as TypeScript types (\<open>ts_type\<close>,
    \<open>ts_ok\<close>). Claim: the registration payload is not the declared
    \<open>AuthResponse\<close> and a populated task is not the declared \<open>Task\<close>; lemma: the
    statistics response is the declared \<open>ApiResponse<TaskStats>\<close>.
  \<^item> \<open>ApiDocs\<close>: the component schemas of \<open>src/backend/src/config/swagger.js\<close> as
    OpenAPI schemas (\<open>oas\<close>, \<open>oas_ok\<close>) and the path documentation of the
    \<open>@swagger\<close> blocks of \<open>routes/taskRoutes.js\<close> (\<open>taskRoutes_docs\<close>: request body
    schema and response codes per operation, \<open>write_doc\<close> and \<open>read_doc\<close> by route).
    Claim: every successful task response has a documented code, and every body
    \<open>POST\<close> accepts fits the documented \<open>Task\<close> schema, while \<open>PUT\<close> accepts bodies
    that schema rejects.
  \<^item> This theory: the deployed backend as the inductive transition system
    \<open>sys_step\<close> over the store, the cache, the pending cache writes and the task
    writes that \<open>protect\<close> let through but whose handler has not yet run (a task
    write either runs at once, or is accepted and committed later with other steps in
    between), with \<open>sys_reach\<close> its reachable states. Claims: by rule induction the
    cache holds only successful responses in every reachable state; the fill race
    below; and an interleaving in which a user is deleted between \<open>protect\<close> and her
    create request's handler reaches a store with an orphan task, so \<open>db_inv\<close>,
    which every single handler keeps, is not an invariant of the system.

  \<^bold>\<open>Findings proved as theorems.\<close> Refresh rotation fails within one second (tokens
  are deterministic per second); login reveals deactivated accounts; anyone can
  register as an administrator; a password change keeps old sessions; refresh ignores
  deactivation; \<open>page <= 0\<close> gives a 500 and \<open>limit=0\<close> no limit; paging repeats and
  skips tasks with equal sort keys; the statistics endpoint answers zeros to every
  non-admin (its \<open>$match\<close> compares an ObjectId with a string); a task can be created
  for a user deleted while the request was in flight; overdue tasks cannot
  be updated, not even completed; the dashboard shows either the statistics endpoint's
  zeros or the counts of its first 50 tasks, depending on which of its two unawaited
  requests completes last; an
  administrator's own cached views go stale after editing another user's task; the
  admin route refuses re-casing an address; the fire-and-forget cache fill can cache a
  response older than the user's own later write; a due date earlier today passes
  the route validator and fails the schema; addresses with a top-level domain longer
  than three letters pass \<open>isEmail\<close> and fail the schema; two concurrent requests
  after access-token expiry log the user out; the frontend logout sends its request
  after clearing the tokens, so the server never revokes the refresh token; the
  dashboard's edit form truncates a due date to its day, so a task due today cannot be
  edited, and one due today cannot be created either; west of UTC a task's card shows
  the day before its due day; the fixed windows of \<open>authLimiter\<close> let twice the
  limit through within one window's length (and, as a lemma, one budget serves login
  and registration); \<open>mongoSanitize()\<close>
  runs before the body parsers, so request bodies are never sanitized; the declared
  TypeScript types do not describe the registration and task payloads; the
  documented \<open>PUT\<close> body requires fields the route does not.

  \<^bold>\<open>Modelling conventions.\<close> Thrown errors are values of \<open>app_error\<close> and every early
  return is a branch. Time (\<open>Date.now()\<close>, milliseconds) and bcrypt salts are inputs;
  JWT times are whole seconds. Cryptography is symbolic (injective signatures and
  hashes). Regular-expression search and the validator.js predicates are parameters,
  so every lemma holds for each choice. No loop of the sources is unbounded: the only
  recursion beyond structural list recursion is the interceptor's retry, bounded by
  its flag, so no fuel is needed. In the transition system the URL of a read is not
  parsed: any URL may accompany any read, which only adds behaviours, so the safety
  properties hold a fortiori. Authentication and admin requests, and the \<open>await\<close>s
  within one handler (such as \<open>findById\<close> then \<open>save\<close>), are single steps; only
  the await between \<open>protect\<close> and a task write's handler is split. \<open>page\<close> and
  \<open>limit\<close> are the integers \<open>parseInt\<close> returns; a non-numeric value (\<open>NaN\<close>) is
  not modelled. Local midnight (\<open>setHours(0, 0, 0, 0)\<close> of the route validator) is
  taken in UTC.

  \<^bold>\<open>Not modelled.\<close> Of \<open>server.js\<close>: morgan's logging (no effect on a reply),
  the start-up connections, \<open>app.listen\<close> and the process handlers (run-time I/O);
  the transition system of this theory leaves the middleware of theory \<open>App\<close> out,
  which only adds behaviours. The JSON and \<open>qs\<close> parsers and the content of the
  swagger-ui pages are parameters or constants. Of \<open>config/swagger.js\<close>: the
  \<open>info\<close>, \<open>servers\<close> and security declarations and the documented query
  parameters (no behaviour); the path documentation of the route files that are not
  among the sources (\<open>authRoutes.js\<close>, \<open>adminRoutes.js\<close>). The
  logging calls (\<open>config/logger.js\<close> and \<open>config/database.js\<close> are not among the
  sources), the markup of \<open>app/page.tsx\<close>, the
  toasts, the loading spinner and the styling of \<open>app/dashboard/page.tsx\<close>, the rendering and the
  \<open>useEffect\<close> scheduling of \<open>contexts/AuthContext.tsx\<close> (its four operations are
  modelled); the TypeScript interfaces are erased at run time, so theory
  \<open>Payloads\<close> reads them as predicates on JSON.
  Unicode case mapping and trimming are restricted to ASCII; \<open>routes/authRoutes.js\<close>
  and \<open>routes/adminRoutes.js\<close> are not among the sources and follow the
  specification's interface table.
\<close>

section \<open>The system\<close>

subsection \<open>The system as a transition system\<close>

text \<open>The state of the deployed backend: the MongoDB store, the Redis store (or
  \<open>None\<close> when caching is off), the cache writes that responses have initiated but
  Redis has not yet performed (the fire-and-forget \<open>setEx\<close> of the cache middleware),
  and the task writes that \<open>protect\<close> has let through but whose handler has not yet
  run: \<open>protect\<close>'s \<open>User.findById\<close> and the handler's queries are separate
  \<open>await\<close>s, and Node serves other requests between them.\<close>

record sys =
  sdb :: db
  scache :: task_cache
  inflight :: "(nat \<times> task_payload cache_probe \<times> task_payload response) list"
  accepted :: "(principal \<times> task_write) list"

datatype event =
    AuthEv auth_req
  | WriteEv principal task_write
  | AcceptEv principal task_write
  | CommitEv principal task_write
  | ReadEv principal task_read
  | FillEv
  | AdminEv admin_op

text \<open>One step handles one request, at any time \<open>now\<close>, with any header, body and salt,
  or performs one pending cache write. A read first looks the cache up; on a miss the
  handler's response is sent and its cache write becomes pending. A task write either
  runs its handler on the store \<open>protect\<close> checked (\<open>write_req\<close>), or is accepted by
  \<open>protect\<close> (\<open>write_accept\<close>) and runs its validation and handler later, on the
  store as other requests have left it (\<open>write_commit\<close>). Authentication and admin
  requests, and the queries within one handler, are taken as single steps. Refused
  requests (\<open>protect\<close> failing on a task route) change nothing and are not steps.\<close>

inductive sys_step ::
  "vlib \<Rightarrow> config \<Rightarrow> (string \<Rightarrow> string \<Rightarrow> bool) \<Rightarrow> sys \<Rightarrow> event \<Rightarrow> sys \<Rightarrow> bool" for lib cfg rx where
  auth_req: "auth_route lib cfg now salt h op (sdb s) = (resp, d') \<Longrightarrow> sys_step lib cfg rx s (AuthEv op) (s\<lparr>sdb := d'\<rparr>)"
| write_req: "(protect cfg now (sdb s) h :: task_payload response + principal) = Inr p \<Longrightarrow> task_write_route lib now p op (sdb s) (scache s) = (resp, d', r') \<Longrightarrow>
    sys_step lib cfg rx s (WriteEv p op) (s\<lparr>sdb := d', scache := r'\<rparr>)"
| write_accept: "(protect cfg now (sdb s) h :: task_payload response + principal) = Inr p \<Longrightarrow>
    sys_step lib cfg rx s (AcceptEv p op) (s\<lparr>accepted := (p, op) # accepted s\<rparr>)"
| write_commit: "(p, op) \<in> set (accepted s) \<Longrightarrow> task_write_route lib now p op (sdb s) (scache s) = (resp, d', r') \<Longrightarrow>
    sys_step lib cfg rx s (CommitEv p op) (s\<lparr>sdb := d', scache := r', accepted := remove1 (p, op) (accepted s)\<rparr>)"
| read_hit: "(protect cfg now (sdb s) h :: task_payload response + principal) = Inr p \<Longrightarrow> cache_lookup ''GET'' url (Some p) now (scache s) = Hit v \<Longrightarrow>
    sys_step lib cfg rx s (ReadEv p op) s"
| read_miss: "(protect cfg now (sdb s) h :: task_payload response + principal) = Inr p \<Longrightarrow> cache_lookup ''GET'' url (Some p) now (scache s) = pr \<Longrightarrow>
    pr \<notin> range Hit \<Longrightarrow>
    sys_step lib cfg rx s (ReadEv p op)
      (s\<lparr>inflight := (read_expiry op, pr, read_handler rx p op (sdb s)) # inflight s\<rparr>)"
| fill_req: "(e, pr, body) \<in> set (inflight s) \<Longrightarrow>
    sys_step lib cfg rx s FillEv
      (s\<lparr>scache := cache_fill e now pr body (scache s), inflight := remove1 (e, pr, body) (inflight s)\<rparr>)"
| admin_req: "admin_route cfg now rx h op (sdb s) = (resp, d') \<Longrightarrow> sys_step lib cfg rx s (AdminEv op) (s\<lparr>sdb := d'\<rparr>)"

text \<open>The system starts from a consistent store and an empty (or disabled) cache.\<close>

inductive sys_reach :: "vlib \<Rightarrow> config \<Rightarrow> (string \<Rightarrow> string \<Rightarrow> bool) \<Rightarrow> sys \<Rightarrow> bool" for lib cfg rx where
  init: "db_inv d \<Longrightarrow> r = None \<or> r = Some [] \<Longrightarrow> sys_reach lib cfg rx \<lparr>sdb = d, scache = r, inflight = [], accepted = []\<rparr>"
| step: "sys_reach lib cfg rx s \<Longrightarrow> sys_step lib cfg rx s ev s' \<Longrightarrow> sys_reach lib cfg rx s'"

text \<open>A cache holds only successful 200 responses.\<close>

definition cache_ok :: "task_cache \<Rightarrow> bool" where
  "cache_ok r \<longleftrightarrow> (case r of None \<Rightarrow> True | Some kv \<Rightarrow> (\<forall>(k, v, e) \<in> set kv. statusCode v = 200 \<and> success v))"

definition ex_sys :: sys where
  "ex_sys = \<lparr>sdb = ex_db, scache = Some [], inflight = [], accepted = []\<rparr>"

text \<open>A concrete interleaving from \<open>ex_sys\<close>: Alice's dashboard list request misses
  the cache and its response is sent (its cache write pending); Alice then marks her
  task completed; then the pending cache write lands.\<close>

definition ex_alice :: principal where
  "ex_alice = (1, ex_user ''Alice'' ''a@x.com'' UserRole)"

definition ex_url :: string where
  "ex_url = ''/api/tasks?limit=50''"

definition ex_rx :: "string \<Rightarrow> string \<Rightarrow> bool" where
  "ex_rx pat txt = False"

definition ex_done :: task_body where
  "ex_done = \<lparr>b_title = None, b_description = None, b_status = Some Completed, b_priority = None,
              b_dueDate = None\<rparr>"

definition ex_s1 :: sys where
  "ex_s1 = ex_sys\<lparr>inflight := [(60, Miss (cache_key ex_url (Some ex_alice)),
                                 getTasks ex_rx ex_alice dashboard_query ex_db)]\<rparr>"

definition ex_s2 :: sys where
  "ex_s2 = ex_s1\<lparr>sdb := fst (snd (task_route 2000 ex_alice (OpUpdate 4 ex_done) ex_db (Some []))),
                 scache := snd (snd (task_route 2000 ex_alice (OpUpdate 4 ex_done) ex_db (Some [])))\<rparr>"

definition ex_s3 :: sys where
  "ex_s3 = ex_s2\<lparr>scache := cache_fill 60 2000 (Miss (cache_key ex_url (Some ex_alice)))
                              (getTasks ex_rx ex_alice dashboard_query ex_db) (scache ex_s2),
                 inflight := []\<rparr>"

text \<open>A concrete interleaving from \<open>ex_sys\<close>: Alice's request creating a task
  passes \<open>protect\<close>; before its handler runs, the administrator deletes Alice (and her
  tasks); then Alice's handler creates the task.\<close>

definition ex_alice_h :: "string option" where
  "ex_alice_h = Some (bearer_header (pairAccess (generateTokens ex_cfg 1000 1)))"

definition ex_root_h :: "string option" where
  "ex_root_h = Some (bearer_header (pairAccess (generateTokens ex_cfg 1000 3)))"

definition ex_o1 :: sys where
  "ex_o1 = ex_sys\<lparr>accepted := [(ex_alice, PostTask ex_post)]\<rparr>"

definition ex_o2 :: sys where
  "ex_o2 = ex_o1\<lparr>sdb := snd (admin_route ex_cfg 2000 ex_rx ex_root_h (DeleteUser 1) ex_db)\<rparr>"

definition ex_o3 :: sys where
  "ex_o3 = ex_o2\<lparr>sdb := fst (snd (task_write_route ex_lib 2000 ex_alice (PostTask ex_post) (sdb ex_o2) (Some []))),
                 scache := snd (snd (task_write_route ex_lib 2000 ex_alice (PostTask ex_post) (sdb ex_o2) (Some []))),
                 accepted := []\<rparr>"

subsection \<open>Lemmas on the system\<close>

lemma protect_stored:
  "protect cfg now d h = Inr p \<Longrightarrow> fst p \<in> fst ` set (users d)"
  by (auto dest!: protect_Inr map_of_SomeD intro: rev_image_eqI)

lemma task_route_store:
  assumes "db_inv d" "fst p \<in> fst ` set (users d)" "task_route now p op d r = (resp, d', r')"
  shows "db_inv d'"
proof -
  have "db_inv (fst (snd (task_route now p op d r)))"
    by (cases op) (simp_all add: task_route_def createTask_inv [OF assms(1,2)] updateTask_inv [OF assms(1)]
        deleteTask_inv [OF assms(1)])
  then show ?thesis by (simp add: assms(3))
qed

lemma task_write_route_store:
  assumes "db_inv d" "fst p \<in> fst ` set (users d)" "task_write_route lib now p w d r = (resp, d', r')"
  shows "db_inv d'"
  using task_write_route_cases [OF assms(3)] task_route_store [OF assms(1,2)] assms(1) by auto

lemma admin_route_store:
  assumes "db_inv d" "admin_route cfg now rx h op d = (resp, d')"
  shows "db_inv d'"
proof -
  have "db_inv (snd (admin_route cfg now rx h op d))"
    by (simp add: admin_route_def updateUser_inv [OF assms(1)] deleteUser_inv [OF assms(1)] assms(1)
        split: sum.split admin_op.split)
  then show ?thesis by (simp add: assms(2))
qed

lemma cache_ok_clear: "cache_ok r \<Longrightarrow> cache_ok (clearUserCache now u r)"
  by (auto simp: cache_ok_def clearUserCache_def clearCache_def redis_del_def Let_def split: option.splits)

lemma cache_ok_fill: "cache_ok r \<Longrightarrow> cache_ok (cache_fill e now pr body r)"
  by (auto simp: cache_ok_def cache_fill_def redis_setEx_def split: option.splits cache_probe.splits
      dest!: set_update_subset [THEN subsetD])

lemma cache_ok_route: "cache_ok r \<Longrightarrow> task_route now p op d r = (resp, d', r') \<Longrightarrow> cache_ok r'"
  by (auto dest!: task_route_cache simp: cache_ok_clear)

lemma cache_ok_write_route:
  "cache_ok r \<Longrightarrow> task_write_route lib now p w d r = (resp, d', r') \<Longrightarrow> cache_ok r'"
  by (auto dest!: task_write_route_cases dest: cache_ok_route)

lemma ex_put_route: "task_write_route ex_lib now p (PutTask 4 ex_put) d r = task_route now p (OpUpdate 4 ex_done) d r"
  by (simp add: task_write_route_def validated_def updateTaskValidation_def run_chain_def validate_def
      js_str_def ex_put_def task_body_of_def status_of_def status_str_def ex_done_def)

lemma ex_protect: "protect ex_cfg 2000 ex_db (Some (bearer_header (pairAccess (generateTokens ex_cfg 1000 1)))) =
    Inr ex_alice"
  by (simp add: protect_bearer token_simps jwt_sign_verify access_life_def ex_db_def ex_alice_def ex_cfg_def
      ex_user_def)

lemma ex_step1: "sys_step ex_lib ex_cfg ex_rx ex_sys (ReadEv ex_alice (ReadList dashboard_query)) ex_s1"
proof -
  have "sys_step ex_lib ex_cfg ex_rx ex_sys (ReadEv ex_alice (ReadList dashboard_query))
      (ex_sys\<lparr>inflight := (read_expiry (ReadList dashboard_query), Miss (cache_key ex_url (Some ex_alice)),
         read_handler ex_rx ex_alice (ReadList dashboard_query) (sdb ex_sys)) # inflight ex_sys\<rparr>)"
  proof (rule sys_step.read_miss)
    show "(protect ex_cfg 2000 (sdb ex_sys) (Some (bearer_header (pairAccess (generateTokens ex_cfg 1000 1))))
        :: task_payload response + principal) = Inr ex_alice"
      unfolding ex_sys_def sys.select_convs by (rule ex_protect)
    show "cache_lookup ''GET'' ex_url (Some ex_alice) 2000 (scache ex_sys) = Miss (cache_key ex_url (Some ex_alice))"
      by (simp add: ex_sys_def cache_lookup_def redis_get_def)
  qed auto
  then show ?thesis by (simp add: ex_s1_def ex_sys_def read_expiry_def read_handler_def)
qed

lemma ex_step2: "sys_step ex_lib ex_cfg ex_rx ex_s1 (WriteEv ex_alice (PutTask 4 ex_put)) ex_s2"
proof -
  have "(protect ex_cfg 2000 (sdb ex_s1) (Some (bearer_header (pairAccess (generateTokens ex_cfg 1000 1))))
      :: task_payload response + principal) = Inr ex_alice"
    unfolding ex_s1_def ex_sys_def sys.select_convs sys.update_convs by (rule ex_protect)
  moreover have "task_write_route ex_lib 2000 ex_alice (PutTask 4 ex_put) (sdb ex_s1) (scache ex_s1) =
      (fst (task_route 2000 ex_alice (OpUpdate 4 ex_done) ex_db (Some [])),
       fst (snd (task_route 2000 ex_alice (OpUpdate 4 ex_done) ex_db (Some []))),
       snd (snd (task_route 2000 ex_alice (OpUpdate 4 ex_done) ex_db (Some []))))"
    by (simp add: ex_s1_def ex_sys_def ex_put_route)
  ultimately have "sys_step ex_lib ex_cfg ex_rx ex_s1 (WriteEv ex_alice (PutTask 4 ex_put))
      (ex_s1\<lparr>sdb := fst (snd (task_route 2000 ex_alice (OpUpdate 4 ex_done) ex_db (Some []))),
             scache := snd (snd (task_route 2000 ex_alice (OpUpdate 4 ex_done) ex_db (Some [])))\<rparr>)"
    by (rule sys_step.write_req)
  then show ?thesis by (simp only: ex_s2_def)
qed

lemma ex_step3: "sys_step ex_lib ex_cfg ex_rx ex_s2 FillEv ex_s3"
proof -
  have "(60, Miss (cache_key ex_url (Some ex_alice)), getTasks ex_rx ex_alice dashboard_query ex_db)
      \<in> set (inflight ex_s2)" by (simp add: ex_s2_def ex_s1_def)
  from sys_step.fill_req [OF this, where now = 2000] show ?thesis
    by (simp add: ex_s3_def ex_s2_def ex_s1_def)
qed

lemma ex_reach3: "sys_reach ex_lib ex_cfg ex_rx ex_s3"
proof -
  have "sys_reach ex_lib ex_cfg ex_rx ex_sys"
    unfolding ex_sys_def by (rule sys_reach.init [OF ex_db_inv]) simp
  then show ?thesis by (meson sys_reach.step ex_step1 ex_step2 ex_step3)
qed

lemma ex_protect_root:
  "protect ex_cfg 2000 ex_db ex_root_h = Inr (3, ex_user ''Root'' ''root@x.com'' AdminRole)"
  by (simp add: ex_root_h_def protect_bearer token_simps jwt_sign_verify access_life_def ex_db_def ex_cfg_def
      ex_user_def)

lemma ex_o2_db: "sdb ex_o2 = ex_db\<lparr>users := [(2, ex_user ''Bob'' ''b@x.com'' UserRole),
    (3, ex_user ''Root'' ''root@x.com'' AdminRole)], tasks := []\<rparr>"
  by (simp add: ex_o2_def admin_route_def ex_protect_root authorize_Some)
    (simp add: deleteUser_def oid_str_inj delete_user_def deleteMany_tasks_of_def ex_db_def ex_task_def ex_user_def)

lemmas ex_commit_defs = ex_o3_def ex_o2_db task_write_route_def validated_def createTaskValidation_def run_chain_def
      validate_def js_str_def js_trim_def js_space_def ex_post_def ex_lib_def start_of_day_def task_route_def
      createTask_def create_task_def fresh_oid_def save_task_def validateTask_def new_task_def
      task_body_of_def ex_alice_def ex_db_def Let_def

lemma ex_o3_tasks: "map_option user (map_of (tasks (sdb ex_o3)) 5) = Some 1"
  and ex_o3_users: "map_of (users (sdb ex_o3)) 1 = None"
  by (simp_all add: ex_commit_defs)

lemma ex_o_steps:
  "sys_step ex_lib ex_cfg ex_rx ex_sys (AcceptEv ex_alice (PostTask ex_post)) ex_o1"
  "sys_step ex_lib ex_cfg ex_rx ex_o1 (AdminEv (DeleteUser 1)) ex_o2"
  "sys_step ex_lib ex_cfg ex_rx ex_o2 (CommitEv ex_alice (PostTask ex_post)) ex_o3"
proof -
  have "(protect ex_cfg 2000 (sdb ex_sys) ex_alice_h :: task_payload response + principal) = Inr ex_alice"
    unfolding ex_sys_def sys.select_convs ex_alice_h_def by (rule ex_protect)
  from sys_step.write_accept [OF this, of ex_lib ex_rx "PostTask ex_post"]
  show "sys_step ex_lib ex_cfg ex_rx ex_sys (AcceptEv ex_alice (PostTask ex_post)) ex_o1"
    by (simp add: ex_o1_def ex_sys_def)
  have "admin_route ex_cfg 2000 ex_rx ex_root_h (DeleteUser 1) (sdb ex_o1) =
      (fst (admin_route ex_cfg 2000 ex_rx ex_root_h (DeleteUser 1) ex_db),
       snd (admin_route ex_cfg 2000 ex_rx ex_root_h (DeleteUser 1) ex_db))"
    by (simp add: ex_o1_def ex_sys_def)
  from sys_step.admin_req [OF this, of ex_lib]
  show "sys_step ex_lib ex_cfg ex_rx ex_o1 (AdminEv (DeleteUser 1)) ex_o2"
    by (simp add: ex_o2_def)
  have "(ex_alice, PostTask ex_post) \<in> set (accepted ex_o2)" by (simp add: ex_o2_def ex_o1_def)
  moreover have "task_write_route ex_lib 2000 ex_alice (PostTask ex_post) (sdb ex_o2) (scache ex_o2) =
      (fst (task_write_route ex_lib 2000 ex_alice (PostTask ex_post) (sdb ex_o2) (Some [])),
       fst (snd (task_write_route ex_lib 2000 ex_alice (PostTask ex_post) (sdb ex_o2) (Some []))),
       snd (snd (task_write_route ex_lib 2000 ex_alice (PostTask ex_post) (sdb ex_o2) (Some []))))"
    by (simp add: ex_o2_def ex_o1_def ex_sys_def)
  ultimately have "sys_step ex_lib ex_cfg ex_rx ex_o2 (CommitEv ex_alice (PostTask ex_post))
      (ex_o2\<lparr>sdb := fst (snd (task_write_route ex_lib 2000 ex_alice (PostTask ex_post) (sdb ex_o2) (Some []))),
             scache := snd (snd (task_write_route ex_lib 2000 ex_alice (PostTask ex_post) (sdb ex_o2) (Some []))),
             accepted := remove1 (ex_alice, PostTask ex_post) (accepted ex_o2)\<rparr>)"
    by (rule sys_step.write_commit)
  then show "sys_step ex_lib ex_cfg ex_rx ex_o2 (CommitEv ex_alice (PostTask ex_post)) ex_o3"
    by (simp add: ex_o3_def ex_o2_def ex_o1_def)
qed

lemma sys_step_cache_ok: "sys_step lib cfg rx s ev s' \<Longrightarrow> cache_ok (scache s) \<Longrightarrow> cache_ok (scache s')"
  by (induction rule: sys_step.induct) (auto dest: cache_ok_write_route intro: cache_ok_fill)

lemma sys_reach_cache_inv: "sys_reach lib cfg rx s \<Longrightarrow> cache_ok (scache s)"
  by (induction rule: sys_reach.induct) (auto simp: cache_ok_def dest: sys_step_cache_ok)

lemma getTasks_200:
  "0 \<le> (q_page q - 1) * q_limit q \<Longrightarrow> statusCode (getTasks rx p q d) = 200 \<and> success (getTasks rx p q d)"
  by (simp add: getTasks_def Let_def mongo_skip_limit_def paginationResponse_def)

lemma ex_s2_cache: "scache ex_s2 = Some []"
proof -
  obtain resp d' r' where e: "task_route 2000 ex_alice (OpUpdate 4 ex_done) ex_db (Some []) = (resp, d', r')"
    by (metis prod_cases3)
  from task_route_cache [OF e] have "r' = Some []"
    by (simp add: clearUserCache_def clearCache_def redis_keys_def)
  with e show ?thesis by (simp add: ex_s2_def)
qed

lemma ex_s3_cache: "scache ex_s3 = Some [(cache_key ex_url (Some ex_alice),
    getTasks ex_rx ex_alice dashboard_query ex_db, 62000)]"
  by (simp add: ex_s3_def ex_s2_cache cache_fill_def redis_setEx_def getTasks_200 dashboard_query_def)

lemma ex_s3_stale:
  "data (getTasks ex_rx ex_alice dashboard_query ex_db) \<noteq>
   data (read_handler ex_rx ex_alice (ReadList dashboard_query) (sdb ex_s3))"
  by (simp add: read_handler_def getTasks_def Let_def dashboard_query_def mongo_skip_limit_def paginationResponse_def
      ex_s3_def ex_s2_def ex_s1_def ex_sys_def task_route_def updateTask_def ex_db_def ex_task_def
      save_task_def validateTask_def apply_task_update_def ex_done_def ex_alice_def populate_user_def
      task_filter_def sort_tasks_def view_task_def task_pre_save_def)

text \<open>C1: orphan tasks are reachable (finding). \<open>createTask\<close> stores the task with
  \<open>user: req.user.id\<close> without checking that the user still exists, and
  \<open>protect\<close>'s check may be outdated by then: when an administrator deletes a user
  (with her tasks) between \<open>protect\<close> and the handler of her create request, the task
  is stored with an owner that no longer exists, and the store invariant (every task's
  owner is a stored user) is broken in a reachable state.\<close>

theorem orphan_task_reachable:
  "sys_reach ex_lib ex_cfg ex_rx ex_o3 \<and> \<not> db_inv (sdb ex_o3) \<and>
   map_of (users (sdb ex_o3)) 1 = None \<and> map_option user (map_of (tasks (sdb ex_o3)) 5) = Some 1"
proof -
  have "sys_reach ex_lib ex_cfg ex_rx ex_sys"
    unfolding ex_sys_def by (rule sys_reach.init [OF ex_db_inv]) simp
  then have r: "sys_reach ex_lib ex_cfg ex_rx ex_o3" by (meson sys_reach.step ex_o_steps)
  obtain t where t: "map_of (tasks (sdb ex_o3)) 5 = Some t" "user t = 1"
    using ex_o3_tasks by auto
  have "user t \<in> fst ` set (users (sdb ex_o3))" if "db_inv (sdb ex_o3)"
    using that map_of_SomeD [OF t(1)] unfolding db_inv_def tasks_sound_def by fastforce
  then have "\<not> db_inv (sdb ex_o3)"
    using t(2) ex_o3_users by (auto simp: map_of_eq_None_iff)
  with r ex_o3_users ex_o3_tasks show ?thesis by simp
qed

text \<open>C2: In every reachable state, every response held by the Redis cache is a
  successful 200 response: failures are never cached, by any interleaving.\<close>

theorem sys_reach_cache_ok:
  "sys_reach lib cfg rx s \<Longrightarrow> scache s = Some kv \<Longrightarrow> (k, v, e) \<in> set kv \<Longrightarrow> statusCode v = 200 \<and> success v"
  using sys_reach_cache_inv by (fastforce simp: cache_ok_def)

theorem sys_reach_cache_ok_witness:
  "statusCode (getTasks ex_rx ex_alice dashboard_query ex_db) = 200 \<and>
   success (getTasks ex_rx ex_alice dashboard_query ex_db)"
  by (rule sys_reach_cache_ok [OF ex_reach3 ex_s3_cache]) simp

text \<open>C26: the cache fill races with writes (finding). The cache write of
  \<open>cacheMiddleware.js\<close> (\<open>redisClient.setEx\<close>, not awaited) is not ordered with the
  invalidation of a write that overlaps it: Alice's dashboard read misses and is
  answered while its cache write is still in flight; a request of hers completing her
  task is handled before that cache write reaches Redis, and clears her (still empty)
  cache entries; the cache write then lands. For the next 60 seconds her dashboard read
  is a cache hit answering the task list from before her own update. The two requests
  must overlap (the write is handled within the read's round trip to Redis).\<close>

theorem cache_fill_race:
  "sys_step ex_lib ex_cfg ex_rx ex_sys (ReadEv ex_alice (ReadList dashboard_query)) ex_s1 \<and>
   sys_step ex_lib ex_cfg ex_rx ex_s1 (WriteEv ex_alice (PutTask 4 ex_put)) ex_s2 \<and>
   sys_step ex_lib ex_cfg ex_rx ex_s2 FillEv ex_s3 \<and>
   cache_lookup ''GET'' ex_url (Some ex_alice) 2500 (scache ex_s3) =
     Hit (getTasks ex_rx ex_alice dashboard_query ex_db) \<and>
   data (getTasks ex_rx ex_alice dashboard_query ex_db) \<noteq>
     data (read_handler ex_rx ex_alice (ReadList dashboard_query) (sdb ex_s3))"
proof (intro conjI ex_step1 ex_step2 ex_step3 ex_s3_stale)
  have "statusCode (getTasks ex_rx ex_alice dashboard_query ex_db) = 200"
    by (simp add: getTasks_200 dashboard_query_def)
  then show "cache_lookup ''GET'' ex_url (Some ex_alice) 2500 (scache ex_s3) =
      Hit (getTasks ex_rx ex_alice dashboard_query ex_db)"
    by (simp add: ex_s3_cache cache_lookup_def redis_get_def)
qed

end
